(* ===== verification/Prelude.thy ===== *)
theory Prelude
  imports Main "HOL-Library.Word" "HOL-Library.Monad_Syntax"
begin

text \<open>
  Shared vocabulary of the development: the machine integers and byte vectors of the Rust
  sources, slices and in-place slice writes (whose out-of-range panics are the value \<open>None\<close>),
  and the list lemmas that the component theories use.
\<close>

section \<open>Types\<close>

type_synonym u8 = "8 word"
type_synonym u16 = "16 word"
type_synonym u32 = "32 word"
type_synonym u64 = "64 word"
type_synonym bytes = "u8 list"

text \<open>
  A Rust \<open>Range<usize>\<close>: the start and the exclusive end. Lengths and indices of vectors
  (\<open>usize\<close>) are natural numbers.
\<close>

type_synonym range = "nat \<times> nat"

named_theorems slice_simps \<open>equations for slices and slice writes\<close>

section \<open>Results\<close>

text \<open>
  A Rust \<open>Result<T, E>\<close> is \<open>'e + 't\<close>, with \<open>Inl\<close> for \<open>Err\<close>. The operator \<open>?\<close> is
  \<open>res_bind\<close>.
\<close>

definition res_bind :: "'e + 'a \<Rightarrow> ('a \<Rightarrow> 'e + 'b) \<Rightarrow> 'e + 'b" where
  "res_bind m f = (case m of Inl e \<Rightarrow> Inl e | Inr x \<Rightarrow> f x)"

definition ok_or :: "'a option \<Rightarrow> 'e \<Rightarrow> 'e + 'a" where
  "ok_or m e = (case m of None \<Rightarrow> Inl e | Some x \<Rightarrow> Inr x)"

lemma res_bind_simps [simp]:
  "res_bind (Inl e) f = Inl e"
  "res_bind (Inr x) f = f x"
  by (simp_all add: res_bind_def)

lemma res_bind_Inr_iff: "res_bind m f = Inr y \<longleftrightarrow> (\<exists>x. m = Inr x \<and> f x = Inr y)"
  by (cases m) auto

lemma ok_or_simps [simp]:
  "ok_or None e = Inl e"
  "ok_or (Some x) e = Inr x"
  by (simp_all add: ok_or_def)

lemma ok_or_Inr_iff: "ok_or m e = Inr x \<longleftrightarrow> m = Some x"
  by (cases m) auto

section \<open>Slices\<close>

text \<open>
  \<open>&v[s..e]\<close> panics unless \<open>s \<le> e\<close> and \<open>e \<le> v.len()\<close>. A write through
  \<open>v[s..e].copy_from_slice(w)\<close> panics in addition when the lengths differ.
\<close>

definition slice :: "'a list \<Rightarrow> nat \<Rightarrow> nat \<Rightarrow> 'a list option" where
  "slice v s e = (if s \<le> e \<and> e \<le> length v then Some (take (e - s) (drop s v)) else None)"

definition copy_from_slice :: "'a list \<Rightarrow> nat \<Rightarrow> nat \<Rightarrow> 'a list \<Rightarrow> 'a list option" where
  "copy_from_slice v s e w =
     (if s \<le> e \<and> e \<le> length v \<and> length w = e - s then Some (take s v @ w @ drop e v) else None)"

definition fill_slice :: "'a list \<Rightarrow> nat \<Rightarrow> nat \<Rightarrow> 'a \<Rightarrow> 'a list option" where
  "fill_slice v s e x = copy_from_slice v s e (replicate (e - s) x)"

lemma slice_eq_Some_iff:
  "slice v s e = Some w \<longleftrightarrow> s \<le> e \<and> e \<le> length v \<and> w = take (e - s) (drop s v)"
  by (auto simp: slice_def)

lemma slice_eq_None_iff: "slice v s e = None \<longleftrightarrow> e < s \<or> length v < e"
  by (auto simp: slice_def)

lemma slice_length: "slice v s e = Some w \<Longrightarrow> length w = e - s"
  by (auto simp: slice_def split: if_splits)

lemma slice_eq_map_nth:
  "s \<le> e \<Longrightarrow> e \<le> length v \<Longrightarrow> slice v s e = Some (map ((!) v) [s..<e])"
  by (auto simp: slice_def intro!: nth_equalityI)

lemma copy_from_slice_length: "copy_from_slice v s e w = Some v' \<Longrightarrow> length v' = length v"
  by (auto simp: copy_from_slice_def split: if_splits)

lemma copy_from_slice_nth:
  assumes "copy_from_slice v s e w = Some v'" and "i < length v"
  shows "v' ! i = (if s \<le> i \<and> i < e then w ! (i - s) else v ! i)"
  using assms by (auto simp: copy_from_slice_def nth_append split: if_splits)

lemma copy_from_slice_some:
  "s \<le> e \<Longrightarrow> e \<le> length v \<Longrightarrow> length w = e - s \<Longrightarrow>
    copy_from_slice v s e w = Some (take s v @ w @ drop e v)"
  by (simp add: copy_from_slice_def)

lemma copy_from_slice_None_iff:
  "copy_from_slice v s e w = None \<longleftrightarrow> e < s \<or> length v < e \<or> length w \<noteq> e - s"
  by (auto simp: copy_from_slice_def)

section \<open>Big-endian integers\<close>

unbundle bit_operations_syntax

text \<open>\<open>uN::to_be_bytes\<close> and \<open>uN::from_be_bytes\<close>, most significant byte first.\<close>

fun be_bytes :: "nat \<Rightarrow> nat \<Rightarrow> bytes" where
  "be_bytes 0 v = []"
| "be_bytes (Suc n) v = of_nat (v div 256 ^ n) # be_bytes n v"

fun be_value :: "bytes \<Rightarrow> nat" where
  "be_value [] = 0"
| "be_value (b # bs) = unat b * 256 ^ length bs + be_value bs"

lemma length_be_bytes [simp]: "length (be_bytes n v) = n"
  by (induction n) simp_all

lemma unat_u8_less [simp]: "unat (b :: u8) < 256"
  by (rule order_less_le_trans [OF unsigned_less]) simp

lemma be_value_less: "be_value bs < 256 ^ length bs"
proof (induction bs)
  case Nil
  then show ?case by simp
next
  case (Cons b bs)
  have "Suc (unat b) * 256 ^ length bs \<le> 256 * 256 ^ length bs"
    by (rule mult_le_mono1) (simp add: Suc_le_eq)
  with Cons show ?case by (simp only: be_value.simps length_Cons power_Suc mult_Suc)
qed

lemma be_value_be_bytes: "be_value (be_bytes n v) = v mod 256 ^ n"
proof (induction n)
  case 0
  then show ?case by simp
next
  case (Suc n)
  have "v mod (256 ^ n * 256) = 256 ^ n * (v div 256 ^ n mod 256) + v mod 256 ^ n"
    by (rule mod_mult2_eq)
  with Suc show ?case by (simp add: unat_of_nat mult.commute)
qed

lemma be_value_inj:
  "length bs = length cs \<Longrightarrow> be_value bs = be_value cs \<Longrightarrow> bs = cs"
proof (induction bs cs rule: list_induct2)
  case Nil
  then show ?case by simp
next
  case (Cons b bs c cs)
  let ?M = "256 ^ length bs :: nat"
  have less: "be_value bs < ?M" "be_value cs < ?M"
    using be_value_less [of bs] be_value_less [of cs] Cons.hyps by simp_all
  have eq: "be_value bs + unat b * ?M = be_value cs + unat c * ?M"
    using Cons.prems Cons.hyps by (simp add: add.commute)
  have "unat b = (be_value bs + unat b * ?M) div ?M"
    using less(1) by (subst div_mult_self1) simp_all
  also have "\<dots> = unat c"
    unfolding eq using less(2) by (subst div_mult_self1) simp_all
  finally have "b = c" by (simp add: word_unat_eq_iff)
  with eq Cons.IH show ?case by simp
qed

lemma be_bytes_be_value: "be_bytes (length bs) (be_value bs) = bs"
  by (rule be_value_inj) (simp_all add: be_value_be_bytes be_value_less)

end
