(* ===== verification/Range_Set.thy ===== *)
theory Range_Set
  imports Prelude "HOL-Library.FSet"
begin

text \<open>
  The interface of the external crate \<open>rangeset\<close>, on which the transcript, commitment and proof
  code of \<open>crates/core\<close> is written. \<open>RangeSet<usize>\<close> is not part of the repository: its
  operations are the fields of a record \<open>'r rangeset_ops\<close> that the definitions of the other
  theories take as an argument, and what the repository relies on (sorted, disjoint,
  non-adjacent ranges; set semantics of union, difference and inclusion; equality of equal
  sets) are the assumptions of the locale \<open>rangeset\<close>. The last section gives an implementation
  of the interface by finite sets and discharges the laws for it.
\<close>

section \<open>Lists of ranges\<close>

text \<open>The invariant of a range set: non-empty ranges, in order, with a gap in between.\<close>

fun canonical :: "range list \<Rightarrow> bool" where
  "canonical [] = True"
| "canonical [(s, e)] = (s < e)"
| "canonical ((s, e) # (s', e') # rs) = (s < e \<and> e < s' \<and> canonical ((s', e') # rs))"

definition ranges_vals :: "range list \<Rightarrow> nat list" where
  "ranges_vals rs = concat (map (\<lambda>(s, e). [s..<e]) rs)"

definition ranges_end :: "range list \<Rightarrow> nat option" where
  "ranges_end rs = (if rs = [] then None else Some (snd (last rs)))"

lemma ranges_vals_simps [simp]:
  "ranges_vals [] = []"
  "ranges_vals ((s, e) # rs) = [s..<e] @ ranges_vals rs"
  by (simp_all add: ranges_vals_def)

lemma ranges_vals_append [simp]: "ranges_vals (rs @ rs') = ranges_vals rs @ ranges_vals rs'"
  by (simp add: ranges_vals_def)

lemma canonical_Cons:
  "canonical ((s, e) # rs) \<longleftrightarrow>
     s < e \<and> canonical rs \<and> (\<forall>s' e' rs'. rs = (s', e') # rs' \<longrightarrow> e < s')"
  by (cases rs) auto

lemma canonical_tail_greater:
  "canonical ((s, e) # rs) \<Longrightarrow> i \<in> set (ranges_vals rs) \<Longrightarrow> e < i"
proof (induction rs arbitrary: s e)
  case Nil
  then show ?case by simp
next
  case (Cons r rs)
  obtain s' e' where r: "r = (s', e')" by (cases r)
  from Cons.prems(1) have c: "canonical ((s', e') # rs)" and "e < s'" "s' < e'"
    by (auto simp: r canonical_Cons)
  with Cons.prems(2) Cons.IH [OF c] show ?case by (auto simp: r)
qed

lemma canonical_sorted_vals: "canonical rs \<Longrightarrow> sorted_wrt (<) (ranges_vals rs)"
proof (induction rs)
  case Nil
  then show ?case by simp
next
  case (Cons r rs)
  obtain s e where r: "r = (s, e)" by (cases r)
  have "i < j" if "i \<in> {s..<e}" "j \<in> set (ranges_vals rs)" for i j
    using canonical_tail_greater [of s e rs j] Cons.prems that by (simp add: r)
  with Cons show ?case by (simp add: r sorted_wrt_append canonical_Cons)
qed

lemma canonical_distinct_vals: "canonical rs \<Longrightarrow> distinct (ranges_vals rs)"
  using canonical_sorted_vals strict_sorted_iff by blast

lemma canonical_less_end:
  "canonical rs \<Longrightarrow> i \<in> set (ranges_vals rs) \<Longrightarrow> i < snd (last rs)"
proof (induction rs arbitrary: i)
  case Nil
  then show ?case by simp
next
  case (Cons r rs)
  obtain s e where r: "r = (s, e)" by (cases r)
  show ?case
  proof (cases rs)
    case Nil
    with Cons.prems show ?thesis by (simp add: r)
  next
    case (Cons r' rs')
    obtain s' e' where r': "r' = (s', e')" by (cases r')
    have c: "canonical rs" "s' \<in> set (ranges_vals rs)" "e < s'"
      using Cons.prems(1) Cons by (auto simp: r r' canonical_Cons)
    have "j < snd (last rs)" if "j \<in> set (ranges_vals rs)" for j
      using Cons.IH c(1) that by blast
    with c Cons.prems(2) have "i < snd (last rs)" by (fastforce simp: r)
    with Cons show ?thesis by simp
  qed
qed

lemma canonical_end_mem:
  "canonical rs \<Longrightarrow> rs \<noteq> [] \<Longrightarrow> \<exists>i \<in> set (ranges_vals rs). snd (last rs) = Suc i"
proof (induction rs)
  case Nil
  then show ?case by simp
next
  case (Cons r rs)
  obtain s e where r: "r = (s, e)" by (cases r)
  show ?case
  proof (cases "rs = []")
    case True
    with Cons.prems have "s < e" by (simp add: r)
    then have "e - 1 \<in> {s..<e}" "e = Suc (e - 1)" by auto
    with True show ?thesis by (auto simp: r intro!: bexI [of _ "e - 1"])
  next
    case False
    with Cons show ?thesis by (auto simp: r canonical_Cons)
  qed
qed

text \<open>The exclusive end of a canonical list is a bound exactly when all its values are below.\<close>

lemma canonical_end_le_iff:
  assumes "canonical rs"
  shows "(case ranges_end rs of None \<Rightarrow> 0 | Some e \<Rightarrow> e) \<le> n \<longleftrightarrow> (\<forall>i \<in> set (ranges_vals rs). i < n)"
proof (cases "rs = []")
  case True
  then show ?thesis by (simp add: ranges_end_def)
next
  case False
  with assms obtain i where "i \<in> set (ranges_vals rs)" "snd (last rs) = Suc i"
    using canonical_end_mem by blast
  with assms False canonical_less_end [OF assms] show ?thesis
    by (fastforce simp: ranges_end_def)
qed

lemma length_ranges_vals: "length (ranges_vals rs) = sum_list (map (\<lambda>(s, e). e - s) rs)"
  by (induction rs) auto

text \<open>A canonical list is determined by the set of its values.\<close>

lemma canonical_unique:
  "canonical rs \<Longrightarrow> canonical rs' \<Longrightarrow> set (ranges_vals rs) = set (ranges_vals rs') \<Longrightarrow> rs = rs'"
proof (induction rs arbitrary: rs')
  case Nil
  show ?case
  proof (cases rs')
    case (Cons r rs'')
    with Nil show ?thesis by (cases r) (auto simp: canonical_Cons)
  qed simp
next
  case (Cons r rs)
  obtain s e where r: "r = (s, e)" by (cases r)
  from Cons.prems(1) have se: "s < e" and c: "canonical rs" by (auto simp: r canonical_Cons)
  from Cons.prems(3) se have "set (ranges_vals rs') \<noteq> {}" by (auto simp: r)
  then obtain s' e' ts where rs': "rs' = (s', e') # ts" by (cases rs') auto
  from Cons.prems(2) have se': "s' < e'" and c': "canonical ts" by (auto simp: rs' canonical_Cons)
  have gt: "\<And>i. i \<in> set (ranges_vals rs) \<Longrightarrow> e < i" "\<And>i. i \<in> set (ranges_vals ts) \<Longrightarrow> e' < i"
    using canonical_tail_greater Cons.prems(1,2) by (auto simp: r rs')
  have eq: "i \<in> {s..<e} \<union> set (ranges_vals rs) \<longleftrightarrow> i \<in> {s'..<e'} \<union> set (ranges_vals ts)" for i
    using Cons.prems(3) by (auto simp: r rs')
  have "s = s'"
    using eq [of s] eq [of s'] se se' gt by fastforce
  moreover have "e = e'"
    using eq [of e] eq [of e'] \<open>s = s'\<close> se se' gt by fastforce
  moreover have "i \<in> set (ranges_vals rs) \<longleftrightarrow> i \<in> set (ranges_vals ts)" for i
    using eq [of i] gt(1) [of i] gt(2) [of i] \<open>s = s'\<close> \<open>e = e'\<close> by auto
  then have "set (ranges_vals rs) = set (ranges_vals ts)" by blast
  ultimately show ?case using Cons.IH [OF c c'] by (simp add: r rs')
qed

section \<open>The interface\<close>

text \<open>
  The operations of \<open>RangeSet<usize>\<close> that the repository calls: \<open>RangeSet::default()\<close>,
  \<open>iter()\<close>, \<open>iter_values()\<close>, \<open>end()\<close>, \<open>len()\<close>, \<open>is_empty()\<close>, \<open>union_mut\<close>, \<open>difference\<close> (on
  sets), \<open>is_subset\<close>, \<open>RangeSet::from(s..e)\<close>, \<open>RangeSet::from_range_iter\<close>, and \<open>index\<close>, which
  yields the subslices of a byte slice at the ranges of a set.
\<close>

record 'r rangeset_ops =
  rs_default :: 'r
  rs_iter :: "'r \<Rightarrow> range list"
  rs_iter_values :: "'r \<Rightarrow> nat list"
  rs_end :: "'r \<Rightarrow> nat option"
  rs_len :: "'r \<Rightarrow> nat"
  rs_is_empty :: "'r \<Rightarrow> bool"
  rs_union :: "'r \<Rightarrow> 'r \<Rightarrow> 'r"
  rs_difference :: "'r \<Rightarrow> 'r \<Rightarrow> 'r"
  rs_is_subset :: "'r \<Rightarrow> 'r \<Rightarrow> bool"
  rs_from_range :: "nat \<Rightarrow> nat \<Rightarrow> 'r"
  rs_from_range_iter :: "range list \<Rightarrow> 'r"
  rs_index :: "bytes \<Rightarrow> 'r \<Rightarrow> bytes list"

text \<open>The values of a range set in ascending order, and as a set.\<close>

definition rs_vals :: "'r rangeset_ops \<Rightarrow> 'r \<Rightarrow> nat list" where
  "rs_vals R a = ranges_vals (rs_iter R a)"

definition rs_set :: "'r rangeset_ops \<Rightarrow> 'r \<Rightarrow> nat set" where
  "rs_set R a = set (rs_vals R a)"

text \<open>\<open>idx.end().unwrap_or(0)\<close>\<close>

definition rs_end0 :: "'r rangeset_ops \<Rightarrow> 'r \<Rightarrow> nat" where
  "rs_end0 R a = (case rs_end R a of None \<Rightarrow> 0 | Some e \<Rightarrow> e)"

locale rangeset =
  fixes R :: "'r rangeset_ops"
  assumes iter_canonical: "canonical (rs_iter R a)"
    and iter_inj: "rs_iter R a = rs_iter R b \<Longrightarrow> a = b"
    and iter_default: "rs_iter R (rs_default R) = []"
    and iter_values_eq: "rs_iter_values R a = ranges_vals (rs_iter R a)"
    and end_eq: "rs_end R a = ranges_end (rs_iter R a)"
    and len_eq: "rs_len R a = length (ranges_vals (rs_iter R a))"
    and is_empty_eq: "rs_is_empty R a \<longleftrightarrow> rs_iter R a = []"
    and set_union: "rs_set R (rs_union R a b) = rs_set R a \<union> rs_set R b"
    and set_difference: "rs_set R (rs_difference R a b) = rs_set R a - rs_set R b"
    and is_subset_eq: "rs_is_subset R a b \<longleftrightarrow> rs_set R a \<subseteq> rs_set R b"
    and set_from_range: "rs_set R (rs_from_range R s e) = {s..<e}"
    and set_from_range_iter: "rs_set R (rs_from_range_iter R rs) = set (ranges_vals rs)"
    and index_eq: "rs_end0 R a \<le> length d \<Longrightarrow>
      rs_index R d a = map (\<lambda>(s, e). take (e - s) (drop s d)) (rs_iter R a)"
begin

lemma set_ext: "rs_set R a = rs_set R b \<Longrightarrow> a = b"
  by (rule iter_inj) (simp add: rs_set_def rs_vals_def canonical_unique iter_canonical)

lemma set_default [simp]: "rs_set R (rs_default R) = {}"
  by (simp add: rs_set_def rs_vals_def iter_default)

lemma set_empty_iff: "rs_set R a = {} \<longleftrightarrow> a = rs_default R"
  using set_ext set_default by metis

lemma is_empty_set: "rs_is_empty R a \<longleftrightarrow> rs_set R a = {}"
  using iter_inj iter_default by (auto simp: is_empty_eq set_empty_iff)

lemma finite_set [simp]: "finite (rs_set R a)"
  by (simp add: rs_set_def)

lemma sorted_vals: "sorted_wrt (<) (rs_vals R a)"
  by (simp add: rs_vals_def canonical_sorted_vals iter_canonical)

lemma distinct_vals: "distinct (rs_vals R a)"
  by (simp add: rs_vals_def canonical_distinct_vals iter_canonical)

lemma len_vals: "rs_len R a = length (rs_vals R a)"
  by (simp add: len_eq rs_vals_def)

lemma len_card: "rs_len R a = card (rs_set R a)"
  by (simp add: len_vals rs_set_def distinct_card distinct_vals)

lemma end0_le_iff: "rs_end0 R a \<le> n \<longleftrightarrow> (\<forall>i \<in> rs_set R a. i < n)"
  using canonical_end_le_iff [OF iter_canonical]
  by (simp add: rs_end0_def end_eq rs_set_def rs_vals_def)

lemma end0_mono: "rs_set R a \<subseteq> rs_set R b \<Longrightarrow> rs_end0 R b \<le> n \<Longrightarrow> rs_end0 R a \<le> n"
  by (auto simp: end0_le_iff)

lemma end0_union_le: "rs_end0 R (rs_union R a b) \<le> n \<longleftrightarrow> rs_end0 R a \<le> n \<and> rs_end0 R b \<le> n"
  by (auto simp: end0_le_iff set_union)

lemma vals_sorted_list: "rs_vals R a = sorted_list_of_set (rs_set R a)"
  using sorted_vals [of a]
  by (simp add: rs_set_def sorted_list_of_set.idem_if_sorted_distinct strict_sorted_iff)

lemma union_commute: "rs_union R a b = rs_union R b a"
  by (rule set_ext) (auto simp: set_union)

lemma union_assoc: "rs_union R (rs_union R a b) c = rs_union R a (rs_union R b c)"
  by (rule set_ext) (auto simp: set_union)

lemma union_idem: "rs_union R a a = a"
  by (rule set_ext) (auto simp: set_union)

lemma index_concat:
  assumes "rs_end0 R a \<le> length d"
  shows "concat (rs_index R d a) = map ((!) d) (rs_vals R a)"
proof -
  have "concat (map (\<lambda>(s, e). take (e - s) (drop s d)) rs) = map ((!) d) (ranges_vals rs)"
    if "\<forall>i \<in> set (ranges_vals rs). i < length d" for rs
    using that
  proof (induction rs)
    case Nil
    then show ?case by simp
  next
    case (Cons r rs)
    obtain s e where r: "r = (s, e)" by (cases r)
    have "take (e - s) (drop s d) = map ((!) d) [s..<e]"
    proof (cases "s < e")
      case True
      then have "e - 1 \<in> set (ranges_vals (r # rs))" by (auto simp: r)
      with Cons.prems have "e - 1 < length d" by blast
      with True show ?thesis by (intro nth_equalityI) auto
    qed simp
    with Cons show ?case by (simp add: r)
  qed
  with assms show ?thesis
    by (simp add: index_eq rs_vals_def end0_le_iff rs_set_def)
qed

end

section \<open>An implementation by finite sets\<close>

text \<open>
  A finite set of naturals, cut into maximal ranges, implements the interface; the laws of
  \<open>rangeset\<close> can therefore be met together.
\<close>

fun compress :: "nat list \<Rightarrow> range list" where
  "compress [] = []"
| "compress (x # xs) =
     (case compress xs of
        [] \<Rightarrow> [(x, Suc x)]
      | (s, e) # rs \<Rightarrow> if s = Suc x then (x, e) # rs else (x, Suc x) # (s, e) # rs)"

definition fset_ranges :: "nat fset \<Rightarrow> range list" where
  "fset_ranges a = compress (sorted_list_of_fset a)"

definition fset_ops :: "nat fset rangeset_ops" where
  "fset_ops = \<lparr>
     rs_default = {||},
     rs_iter = fset_ranges,
     rs_iter_values = (\<lambda>a. ranges_vals (fset_ranges a)),
     rs_end = (\<lambda>a. ranges_end (fset_ranges a)),
     rs_len = (\<lambda>a. length (ranges_vals (fset_ranges a))),
     rs_is_empty = (\<lambda>a. a = {||}),
     rs_union = (|\<union>|),
     rs_difference = (|-|),
     rs_is_subset = (|\<subseteq>|),
     rs_from_range = (\<lambda>s e. fset_of_list [s..<e]),
     rs_from_range_iter = (\<lambda>rs. fset_of_list (ranges_vals rs)),
     rs_index = (\<lambda>d a. map (\<lambda>(s, e). take (e - s) (drop s d)) (fset_ranges a))\<rparr>"

lemma compress_props:
  "sorted_wrt (<) xs \<Longrightarrow>
     canonical (compress xs) \<and> ranges_vals (compress xs) = xs \<and>
     (\<forall>s e rs. compress xs = (s, e) # rs \<longrightarrow> s \<in> set xs \<and> s < e)"
proof (induction xs)
  case Nil
  then show ?case by simp
next
  case (Cons x xs)
  then have IH: "canonical (compress xs)" "ranges_vals (compress xs) = xs"
    "\<And>s e rs. compress xs = (s, e) # rs \<Longrightarrow> s \<in> set xs \<and> s < e" by auto
  show ?case
  proof (cases "compress xs")
    case Nil
    with IH show ?thesis by auto
  next
    case (Cons r rs)
    obtain s e where r: "r = (s, e)" by (cases r)
    have "s < e" "x < s" using IH(3) Cons.prems Cons by (auto simp: r)
    moreover have "xs = [s..<e] @ ranges_vals rs" using IH(2) Cons by (simp add: r)
    moreover have "[x..<e] = x # [Suc x..<e]" if "x < e" using that by (rule upt_conv_Cons)
    ultimately show ?thesis using Cons IH(1) by (auto simp: r canonical_Cons)
  qed
qed

lemma set_fset_ranges [simp]: "set (ranges_vals (fset_ranges a)) = fset a"
proof -
  have "sorted_wrt (<) (sorted_list_of_fset a)"
    by (simp add: sorted_list_of_fset.rep_eq)
  then show ?thesis
    using compress_props by (simp add: fset_ranges_def sorted_list_of_fset.rep_eq)
qed

lemma canonical_fset_ranges [simp]: "canonical (fset_ranges a)"
proof -
  have "sorted_wrt (<) (sorted_list_of_fset a)"
    by (simp add: sorted_list_of_fset.rep_eq)
  then show ?thesis
    using compress_props by (simp add: fset_ranges_def)
qed

lemma fset_ranges_inj: "fset_ranges a = fset_ranges b \<Longrightarrow> a = b"
  by (rule fset_inject [THEN iffD1]) (metis set_fset_ranges)

lemma fset_ranges_bot [simp]: "fset_ranges {||} = []"
  by (simp add: fset_ranges_def sorted_list_of_fset.rep_eq)

lemma fset_ranges_empty_iff: "fset_ranges a = [] \<longleftrightarrow> a = {||}"
  using fset_ranges_inj [of a "{||}"] by auto

lemma fset_ops_simps [simp]:
  "rs_default fset_ops = {||}"
  "rs_iter fset_ops = fset_ranges"
  "rs_iter_values fset_ops a = ranges_vals (fset_ranges a)"
  "rs_end fset_ops a = ranges_end (fset_ranges a)"
  "rs_len fset_ops a = length (ranges_vals (fset_ranges a))"
  "rs_is_empty fset_ops a = (a = {||})"
  "rs_union fset_ops a b = a |\<union>| b"
  "rs_difference fset_ops a b = a |-| b"
  "rs_is_subset fset_ops a b = (a |\<subseteq>| b)"
  "rs_from_range fset_ops s e = fset_of_list [s..<e]"
  "rs_from_range_iter fset_ops rs = fset_of_list (ranges_vals rs)"
  "rs_index fset_ops d a = map (\<lambda>(s, e). take (e - s) (drop s d)) (fset_ranges a)"
  by (simp_all add: fset_ops_def)

lemma rs_set_fset_ops [simp]: "rs_set fset_ops a = fset a"
  by (simp add: rs_set_def rs_vals_def)

interpretation fs: rangeset fset_ops
proof
  fix a b :: "nat fset"
  show "rs_iter fset_ops a = rs_iter fset_ops b \<Longrightarrow> a = b"
    by (rule fset_ranges_inj) simp
  show "rs_is_empty fset_ops a \<longleftrightarrow> rs_iter fset_ops a = []"
    by (simp add: fset_ranges_empty_iff)
qed (auto simp: fset_of_list.rep_eq less_eq_fset.rep_eq)

section \<open>Set cover\<close>

text \<open>
  \<open>Cover::cover_by\<close> of the crate covers a query set by some of the given items, each with a set of
  its own: it returns the chosen items and what they leave uncovered.  Only items whose set lies
  inside the query are used, and nothing such an item could cover is left uncovered.
\<close>

locale rangeset_cover = rangeset R for R :: "'r rangeset_ops" +
  fixes cover_by :: "'r \<Rightarrow> 'i list \<Rightarrow> ('i \<Rightarrow> 'r) \<Rightarrow> 'i list \<times> 'r"
  assumes cover_items: "cover_by q xs f = (cs, u) \<Longrightarrow> c \<in> set cs \<Longrightarrow>
      c \<in> set xs \<and> rs_set R (f c) \<subseteq> rs_set R q"
    and cover_rest: "cover_by q xs f = (cs, u) \<Longrightarrow>
      rs_set R u = rs_set R q - (\<Union>c \<in> set cs. rs_set R (f c))"
    and cover_max: "cover_by q xs f = (cs, u) \<Longrightarrow> x \<in> set xs \<Longrightarrow>
      rs_set R (f x) \<subseteq> rs_set R q \<Longrightarrow> rs_set R (f x) \<inter> rs_set R u = {}"
begin

lemma cover_uncovered:
  assumes "cover_by q xs f = (cs, u)"
  shows "rs_set R u = rs_set R q - \<Union> (rs_set R ` f ` {x \<in> set xs. rs_set R (f x) \<subseteq> rs_set R q})"
proof
  show "rs_set R u \<subseteq> rs_set R q - \<Union> (rs_set R ` f ` {x \<in> set xs. rs_set R (f x) \<subseteq> rs_set R q})"
    using cover_rest [OF assms] cover_max [OF assms] by (auto simp: disjoint_iff)
  show "rs_set R q - \<Union> (rs_set R ` f ` {x \<in> set xs. rs_set R (f x) \<subseteq> rs_set R q}) \<subseteq> rs_set R u"
    unfolding cover_rest [OF assms] using cover_items [OF assms] by auto
qed

lemma cover_split:
  assumes "cover_by q xs f = (cs, u)"
  shows "rs_set R q = rs_set R u \<union> (\<Union>c \<in> set cs. rs_set R (f c))"
  unfolding cover_rest [OF assms] using cover_items [OF assms] by auto

end

text \<open>Taking every item that lies inside the query meets the laws.\<close>

definition fset_cover_by :: "nat fset \<Rightarrow> 'i list \<Rightarrow> ('i \<Rightarrow> nat fset) \<Rightarrow> 'i list \<times> nat fset" where
  "fset_cover_by q xs f =
     (let cs = filter (\<lambda>x. f x |\<subseteq>| q) xs in (cs, q |-| ffUnion (fset_of_list (map f cs))))"

interpretation fsc: rangeset_cover fset_ops fset_cover_by
  by unfold_locales
    (auto simp: fset_cover_by_def Let_def less_eq_fset.rep_eq ffUnion.rep_eq fset_of_list.rep_eq)

end
