(* ===== verification/Transcript.thy ===== *)
theory Transcript
  imports Range_Set
begin

text \<open>
  Transcripts, partial transcripts and subsequences of \<open>crates/core/src/transcript.rs\<close>. The
  operations on range sets come in through the argument \<open>R\<close>. A panic is the value \<open>None\<close> of an
  outer option; \<open>Option\<close> results of the code are an inner one.
\<close>

section \<open>Loops over ranges\<close>

text \<open>\<open>for range in idx.iter() { dst[range].copy_from_slice(&src[range]) }\<close>\<close>

fun copy_ranges :: "range list \<Rightarrow> bytes \<Rightarrow> bytes \<Rightarrow> bytes option" where
  "copy_ranges [] src dst = Some dst"
| "copy_ranges ((s, e) # rs) src dst =
     do {
       w \<leftarrow> slice src s e;
       dst \<leftarrow> copy_from_slice dst s e w;
       copy_ranges rs src dst
     }"

text \<open>The same with the source bytes packed one range after the other, read at an offset.\<close>

fun copy_packed :: "range list \<Rightarrow> bytes \<Rightarrow> nat \<Rightarrow> bytes \<Rightarrow> bytes option" where
  "copy_packed [] data offset dst = Some dst"
| "copy_packed ((s, e) # rs) data offset dst =
     do {
       w \<leftarrow> slice data offset (offset + (e - s));
       dst \<leftarrow> copy_from_slice dst s e w;
       copy_packed rs data (offset + (e - s)) dst
     }"

text \<open>\<open>for range in idx.iter() { dst[range].fill(value) }\<close>\<close>

fun fill_ranges :: "range list \<Rightarrow> u8 \<Rightarrow> bytes \<Rightarrow> bytes option" where
  "fill_ranges [] v dst = Some dst"
| "fill_ranges ((s, e) # rs) v dst = do { dst \<leftarrow> fill_slice dst s e v; fill_ranges rs v dst }"

section \<open>Data\<close>

datatype Direction = Sent | Received

record Transcript =
  t_sent :: bytes
  t_received :: bytes

record TranscriptLength =
  tl_sent :: u32
  tl_received :: u32

record 'r PartialTranscript =
  pt_sent :: bytes
  pt_received :: bytes
  pt_sent_authed_idx :: 'r
  pt_received_authed_idx :: 'r

record 'r CompressedPartialTranscript =
  c_sent_authed :: bytes
  c_received_authed :: bytes
  c_sent_idx :: 'r
  c_recv_idx :: 'r
  c_sent_total :: nat
  c_recv_total :: nat

record 'r Subsequence =
  sub_idx :: 'r
  sub_data :: bytes

datatype InvalidSubsequence = InvalidSubsequence string

datatype InvalidCompressedPartialTranscript = InvalidCompressedPartialTranscript string

section \<open>Subsequences\<close>

definition Subsequence_new ::
  "'r rangeset_ops \<Rightarrow> 'r \<Rightarrow> bytes \<Rightarrow> InvalidSubsequence + 'r Subsequence" where
  "Subsequence_new R idx data =
     (if rs_len R idx \<noteq> length data
      then Inl (InvalidSubsequence ''index length does not match data length'')
      else Inr \<lparr>sub_idx = idx, sub_data = data\<rparr>)"

definition Subsequence_copy_to ::
  "'r rangeset_ops \<Rightarrow> 'r Subsequence \<Rightarrow> bytes \<Rightarrow> bytes option" where
  "Subsequence_copy_to R seq dest = copy_packed (rs_iter R (sub_idx seq)) (sub_data seq) 0 dest"

section \<open>Transcripts\<close>

definition Transcript_new :: "bytes \<Rightarrow> bytes \<Rightarrow> Transcript" where
  "Transcript_new sent received = \<lparr>t_sent = sent, t_received = received\<rparr>"

fun direction_data :: "Transcript \<Rightarrow> Direction \<Rightarrow> bytes" where
  "direction_data t Sent = t_sent t"
| "direction_data t Received = t_received t"

definition len_of_direction :: "Transcript \<Rightarrow> Direction \<Rightarrow> nat" where
  "len_of_direction t d = length (direction_data t d)"

text \<open>\<open>Transcript::length\<close> casts with \<open>as u32\<close>, which truncates.\<close>

definition Transcript_length :: "Transcript \<Rightarrow> TranscriptLength" where
  "Transcript_length t =
     \<lparr>tl_sent = of_nat (length (t_sent t)), tl_received = of_nat (length (t_received t))\<rparr>"

text \<open>
  \<open>Transcript::get\<close>: the inner option is the code's result, the outer \<open>None\<close> the panic of its
  \<open>expect\<close>.
\<close>

definition Transcript_get ::
  "'r rangeset_ops \<Rightarrow> Transcript \<Rightarrow> Direction \<Rightarrow> 'r \<Rightarrow> 'r Subsequence option option" where
  "Transcript_get R t d idx =
     (let data = direction_data t d in
      if rs_end0 R idx > length data then Some None
      else case Subsequence_new R idx (concat (rs_index R data idx)) of
             Inl _ \<Rightarrow> None
           | Inr s \<Rightarrow> Some (Some s))"

definition to_partial ::
  "'r rangeset_ops \<Rightarrow> Transcript \<Rightarrow> 'r \<Rightarrow> 'r \<Rightarrow> 'r PartialTranscript option" where
  "to_partial R t sent_idx recv_idx =
     do {
       sent \<leftarrow> copy_ranges (rs_iter R sent_idx) (t_sent t) (replicate (length (t_sent t)) 0);
       received \<leftarrow> copy_ranges (rs_iter R recv_idx) (t_received t)
                     (replicate (length (t_received t)) 0);
       Some \<lparr>pt_sent = sent, pt_received = received,
             pt_sent_authed_idx = sent_idx, pt_received_authed_idx = recv_idx\<rparr>
     }"

section \<open>Partial transcripts\<close>

definition PartialTranscript_new :: "'r rangeset_ops \<Rightarrow> nat \<Rightarrow> nat \<Rightarrow> 'r PartialTranscript" where
  "PartialTranscript_new R sent_len received_len =
     \<lparr>pt_sent = replicate sent_len 0, pt_received = replicate received_len 0,
      pt_sent_authed_idx = rs_default R, pt_received_authed_idx = rs_default R\<rparr>"

definition is_complete :: "'r rangeset_ops \<Rightarrow> 'r PartialTranscript \<Rightarrow> bool" where
  "is_complete R p \<longleftrightarrow>
     rs_len R (pt_sent_authed_idx p) = length (pt_sent p) \<and>
     rs_len R (pt_received_authed_idx p) = length (pt_received p)"

fun pt_contains :: "'r rangeset_ops \<Rightarrow> 'r PartialTranscript \<Rightarrow> Direction \<Rightarrow> 'r \<Rightarrow> bool" where
  "pt_contains R p Sent idx \<longleftrightarrow> rs_end0 R idx \<le> length (pt_sent p)"
| "pt_contains R p Received idx \<longleftrightarrow> rs_end0 R idx \<le> length (pt_received p)"

definition sent_unauthed :: "'r rangeset_ops \<Rightarrow> 'r PartialTranscript \<Rightarrow> 'r" where
  "sent_unauthed R p =
     rs_difference R (rs_from_range R 0 (length (pt_sent p))) (pt_sent_authed_idx p)"

definition received_unauthed :: "'r rangeset_ops \<Rightarrow> 'r PartialTranscript \<Rightarrow> 'r" where
  "received_unauthed R p =
     rs_difference R (rs_from_range R 0 (length (pt_received p))) (pt_received_authed_idx p)"

text \<open>\<open>data[i]\<close> panics out of range.\<close>

fun nth_all :: "bytes \<Rightarrow> nat list \<Rightarrow> bytes option" where
  "nth_all data [] = Some []"
| "nth_all data (i # is) =
     (if i < length data then map_option ((#) (data ! i)) (nth_all data is) else None)"

definition pt_iter ::
  "'r rangeset_ops \<Rightarrow> 'r PartialTranscript \<Rightarrow> Direction \<Rightarrow> bytes option" where
  "pt_iter R p d =
     (case d of
        Sent \<Rightarrow> nth_all (pt_sent p) (rs_iter_values R (pt_sent_authed_idx p))
      | Received \<Rightarrow> nth_all (pt_received p) (rs_iter_values R (pt_received_authed_idx p)))"

definition union_transcript ::
  "'r rangeset_ops \<Rightarrow> 'r PartialTranscript \<Rightarrow> 'r PartialTranscript \<Rightarrow> 'r PartialTranscript option"
  where
  "union_transcript R self other =
     (if length (pt_sent self) \<noteq> length (pt_sent other) then None
      else if length (pt_received self) \<noteq> length (pt_received other) then None
      else do {
        sent \<leftarrow> copy_ranges
          (rs_iter R (rs_difference R (pt_sent_authed_idx other) (pt_sent_authed_idx self)))
          (pt_sent other) (pt_sent self);
        received \<leftarrow> copy_ranges
          (rs_iter R (rs_difference R (pt_received_authed_idx other) (pt_received_authed_idx self)))
          (pt_received other) (pt_received self);
        Some \<lparr>pt_sent = sent, pt_received = received,
          pt_sent_authed_idx = rs_union R (pt_sent_authed_idx self) (pt_sent_authed_idx other),
          pt_received_authed_idx =
            rs_union R (pt_received_authed_idx self) (pt_received_authed_idx other)\<rparr>
      })"

fun union_subsequence ::
  "'r rangeset_ops \<Rightarrow> 'r PartialTranscript \<Rightarrow> Direction \<Rightarrow> 'r Subsequence
    \<Rightarrow> 'r PartialTranscript option" where
  "union_subsequence R p Sent seq =
     do {
       sent \<leftarrow> Subsequence_copy_to R seq (pt_sent p);
       Some (p\<lparr>pt_sent := sent,
               pt_sent_authed_idx := rs_union R (pt_sent_authed_idx p) (sub_idx seq)\<rparr>)
     }"
| "union_subsequence R p Received seq =
     do {
       received \<leftarrow> Subsequence_copy_to R seq (pt_received p);
       Some (p\<lparr>pt_received := received,
               pt_received_authed_idx := rs_union R (pt_received_authed_idx p) (sub_idx seq)\<rparr>)
     }"

definition set_unauthed ::
  "'r rangeset_ops \<Rightarrow> 'r PartialTranscript \<Rightarrow> u8 \<Rightarrow> 'r PartialTranscript option" where
  "set_unauthed R p v =
     do {
       sent \<leftarrow> fill_ranges (rs_iter R (sent_unauthed R p)) v (pt_sent p);
       received \<leftarrow> fill_ranges (rs_iter R (received_unauthed R p)) v (pt_received p);
       Some (p\<lparr>pt_sent := sent, pt_received := received\<rparr>)
     }"

fun set_unauthed_range ::
  "'r rangeset_ops \<Rightarrow> 'r PartialTranscript \<Rightarrow> u8 \<Rightarrow> Direction \<Rightarrow> range
    \<Rightarrow> 'r PartialTranscript option" where
  "set_unauthed_range R p v Sent (s, e) =
     do {
       sent \<leftarrow> fill_ranges
         (rs_iter R (rs_difference R (rs_from_range R s e) (pt_sent_authed_idx p))) v (pt_sent p);
       Some (p\<lparr>pt_sent := sent\<rparr>)
     }"
| "set_unauthed_range R p v Received (s, e) =
     do {
       received \<leftarrow> fill_ranges
         (rs_iter R (rs_difference R (rs_from_range R s e) (pt_received_authed_idx p))) v
         (pt_received p);
       Some (p\<lparr>pt_received := received\<rparr>)
     }"

section \<open>Compressed form\<close>

definition compress_transcript ::
  "'r rangeset_ops \<Rightarrow> 'r PartialTranscript \<Rightarrow> 'r CompressedPartialTranscript" where
  "compress_transcript R p =
     \<lparr>c_sent_authed = concat (rs_index R (pt_sent p) (pt_sent_authed_idx p)),
      c_received_authed = concat (rs_index R (pt_received p) (pt_received_authed_idx p)),
      c_sent_idx = pt_sent_authed_idx p,
      c_recv_idx = pt_received_authed_idx p,
      c_sent_total = length (pt_sent p),
      c_recv_total = length (pt_received p)\<rparr>"

definition decompress_transcript ::
  "'r rangeset_ops \<Rightarrow> 'r CompressedPartialTranscript \<Rightarrow> 'r PartialTranscript option" where
  "decompress_transcript R c =
     do {
       sent \<leftarrow> copy_packed (rs_iter R (c_sent_idx c)) (c_sent_authed c) 0
                 (replicate (c_sent_total c) 0);
       received \<leftarrow> copy_packed (rs_iter R (c_recv_idx c)) (c_received_authed c) 0
                     (replicate (c_recv_total c) 0);
       Some \<lparr>pt_sent = sent, pt_received = received,
             pt_sent_authed_idx = c_sent_idx c, pt_received_authed_idx = c_recv_idx c\<rparr>
     }"

text \<open>
  \<open>TryFrom<CompressedPartialTranscriptUnchecked>\<close>, the check on deserialized data; the unchecked
  struct has the same fields.
\<close>

definition check_compressed ::
  "'r rangeset_ops \<Rightarrow> 'r CompressedPartialTranscript
    \<Rightarrow> InvalidCompressedPartialTranscript + 'r CompressedPartialTranscript" where
  "check_compressed R c =
     (if length (c_sent_authed c) \<noteq> rs_len R (c_sent_idx c) \<or>
         length (c_received_authed c) \<noteq> rs_len R (c_recv_idx c)
      then Inl (InvalidCompressedPartialTranscript ''lengths of index and data don't match'')
      else if rs_end0 R (c_sent_idx c) > c_sent_total c \<or>
              rs_end0 R (c_recv_idx c) > c_recv_total c
      then Inl (InvalidCompressedPartialTranscript ''ranges are not in bounds of the data'')
      else Inr c)"

section \<open>Invariants\<close>

text \<open>Authenticated indices stay in bounds.\<close>

definition pt_wf :: "'r rangeset_ops \<Rightarrow> 'r PartialTranscript \<Rightarrow> bool" where
  "pt_wf R p \<longleftrightarrow>
     rs_end0 R (pt_sent_authed_idx p) \<le> length (pt_sent p) \<and>
     rs_end0 R (pt_received_authed_idx p) \<le> length (pt_received p)"

text \<open>Bytes outside the authenticated indices are zero: the transcript reveals nothing else.\<close>

definition zero_outside :: "nat set \<Rightarrow> bytes \<Rightarrow> bool" where
  "zero_outside A xs \<longleftrightarrow> (\<forall>i < length xs. i \<notin> A \<longrightarrow> xs ! i = 0)"

definition pt_zeroed :: "'r rangeset_ops \<Rightarrow> 'r PartialTranscript \<Rightarrow> bool" where
  "pt_zeroed R p \<longleftrightarrow>
     zero_outside (rs_set R (pt_sent_authed_idx p)) (pt_sent p) \<and>
     zero_outside (rs_set R (pt_received_authed_idx p)) (pt_received p)"

text \<open>\<open>src\<close> laid over \<open>dst\<close> at the positions of \<open>A\<close>.\<close>

definition overlay :: "nat set \<Rightarrow> bytes \<Rightarrow> bytes \<Rightarrow> bytes" where
  "overlay A src dst = map (\<lambda>i. if i \<in> A then src ! i else dst ! i) [0..<length dst]"

text \<open>A partial transcript with every unauthenticated byte replaced by zero.\<close>

definition pt_erase :: "'r rangeset_ops \<Rightarrow> 'r PartialTranscript \<Rightarrow> 'r PartialTranscript" where
  "pt_erase R p = p\<lparr>
     pt_sent := overlay (rs_set R (pt_sent_authed_idx p)) (pt_sent p)
       (replicate (length (pt_sent p)) 0),
     pt_received := overlay (rs_set R (pt_received_authed_idx p)) (pt_received p)
       (replicate (length (pt_received p)) 0)\<rparr>"

section \<open>Lemmas on the loops\<close>

lemma length_overlay [simp]: "length (overlay A src dst) = length dst"
  by (simp add: overlay_def)

lemma nth_overlay: "i < length dst \<Longrightarrow> overlay A src dst ! i = (if i \<in> A then src ! i else dst ! i)"
  by (simp add: overlay_def)

lemma overlay_overlay: "overlay B src (overlay A src dst) = overlay (A \<union> B) src dst"
  by (rule nth_equalityI) (auto simp: nth_overlay)

lemma overlay_empty [simp]: "overlay {} src dst = dst"
  by (rule nth_equalityI) (auto simp: nth_overlay)

lemma copy_slice_overlay:
  assumes "s \<le> e" "e \<le> length src" "e \<le> length dst"
  shows "Option.bind (slice src s e) (copy_from_slice dst s e) = Some (overlay {s..<e} src dst)"
proof -
  obtain dst' where dst': "copy_from_slice dst s e (map ((!) src) [s..<e]) = Some dst'"
    using assms by (simp add: copy_from_slice_def)
  have "dst' = overlay {s..<e} src dst"
  proof (rule nth_equalityI)
    show "length dst' = length (overlay {s..<e} src dst)"
      using copy_from_slice_length [OF dst'] by simp
    fix i assume "i < length dst'"
    then have "i < length dst" using copy_from_slice_length [OF dst'] by simp
    then show "dst' ! i = overlay {s..<e} src dst ! i"
      using copy_from_slice_nth [OF dst'] by (auto simp: nth_overlay)
  qed
  with dst' show ?thesis using assms by (simp add: slice_eq_map_nth)
qed

lemma copy_ranges_overlay:
  "canonical rs \<Longrightarrow> \<forall>i \<in> set (ranges_vals rs). i < length src \<and> i < length dst \<Longrightarrow>
   copy_ranges rs src dst = Some (overlay (set (ranges_vals rs)) src dst)"
proof (induction rs arbitrary: dst)
  case Nil
  then show ?case by simp
next
  case (Cons r rs)
  obtain s e where r: "r = (s, e)" by (cases r)
  have se: "s < e" "canonical rs" using Cons.prems(1) by (auto simp: r canonical_Cons)
  then have "e - 1 \<in> set (ranges_vals (r # rs))" by (auto simp: r)
  with Cons.prems(2) have "e - 1 < length src \<and> e - 1 < length dst" by blast
  then have b: "e \<le> length src" "e \<le> length dst" by auto
  have "copy_ranges rs src (overlay {s..<e} src dst) =
      Some (overlay (set (ranges_vals rs)) src (overlay {s..<e} src dst))"
    using Cons.prems(2) by (intro Cons.IH se(2)) (auto simp: r)
  with copy_slice_overlay [of s e src dst] se b show ?case
    by (simp add: r overlay_overlay bind_assoc [symmetric])
qed

lemma copy_ranges_None:
  "canonical rs \<Longrightarrow> i \<in> set (ranges_vals rs) \<Longrightarrow> length dst \<le> i \<Longrightarrow> copy_ranges rs src dst = None"
proof (induction rs arbitrary: dst)
  case Nil
  then show ?case by simp
next
  case (Cons r rs)
  obtain s e where r: "r = (s, e)" by (cases r)
  have c: "s < e" "canonical rs" using Cons.prems(1) by (auto simp: r canonical_Cons)
  show ?case
  proof (cases "i \<in> set (ranges_vals rs)")
    case True
    have "copy_ranges rs src dst' = None" if "length dst' = length dst" for dst'
      using Cons.IH [OF c(2) True] Cons.prems(3) that by simp
    then show ?thesis
      by (auto simp: r split: Option.bind_splits dest: copy_from_slice_length)
  next
    case False
    with Cons.prems c have "length dst < e" by (auto simp: r)
    then show ?thesis by (auto simp: r Option.bind_eq_None_conv copy_from_slice_None_iff)
  qed
qed

lemma copy_packed_Some:
  "canonical rs \<Longrightarrow> \<forall>i \<in> set (ranges_vals rs). i < length dst \<Longrightarrow>
   offset + length (ranges_vals rs) \<le> length data \<Longrightarrow>
   \<exists>dst'. copy_packed rs data offset dst = Some dst' \<and> length dst' = length dst \<and>
     map ((!) dst') (ranges_vals rs) = take (length (ranges_vals rs)) (drop offset data) \<and>
     (\<forall>i < length dst. i \<notin> set (ranges_vals rs) \<longrightarrow> dst' ! i = dst ! i)"
proof (induction rs arbitrary: dst offset)
  case Nil
  then show ?case by simp
next
  case (Cons r rs)
  obtain s e where r: "r = (s, e)" by (cases r)
  have c: "s < e" "canonical rs" using Cons.prems(1) by (auto simp: r canonical_Cons)
  have gt: "\<And>i. i \<in> set (ranges_vals rs) \<Longrightarrow> e < i"
    using canonical_tail_greater Cons.prems(1) by (simp add: r)
  from c have "e - 1 \<in> set (ranges_vals (r # rs))" by (auto simp: r)
  with Cons.prems(2) have b: "e \<le> length dst" by fastforce
  let ?w = "take (e - s) (drop offset data)"
  have w: "slice data offset (offset + (e - s)) = Some ?w" "length ?w = e - s"
    using Cons.prems(3) by (auto simp: r slice_def)
  obtain d1 where d1: "copy_from_slice dst s e ?w = Some d1"
    using c b w by (simp add: copy_from_slice_def)
  note l1 = copy_from_slice_length [OF d1] and n1 = copy_from_slice_nth [OF d1]
  obtain d2 where d2: "copy_packed rs data (offset + (e - s)) d1 = Some d2" "length d2 = length d1"
    "map ((!) d2) (ranges_vals rs) =
       take (length (ranges_vals rs)) (drop (offset + (e - s)) data)"
    "\<And>i. i < length d1 \<Longrightarrow> i \<notin> set (ranges_vals rs) \<Longrightarrow> d2 ! i = d1 ! i"
    using Cons.IH [OF c(2), of d1 "offset + (e - s)"] Cons.prems(2,3) l1 by (auto simp: r)
  have "map ((!) d2) [s..<e] = ?w"
  proof (rule nth_equalityI)
    fix i assume "i < length (map ((!) d2) [s..<e])"
    then have i: "s + i < e" by simp
    with gt have "s + i \<notin> set (ranges_vals rs)" by fastforce
    with i b d2(4) l1 n1 show "map ((!) d2) [s..<e] ! i = ?w ! i" by simp
  qed (simp only: w(2), simp)
  with d2(3) have "map ((!) d2) (ranges_vals (r # rs)) =
      take (length (ranges_vals (r # rs))) (drop offset data)"
    by (simp add: r take_add add.commute)
  moreover have "d2 ! i = dst ! i" if "i < length dst" "i \<notin> set (ranges_vals (r # rs))" for i
    using that d2(4) l1 n1 by (auto simp: r)
  ultimately show ?case using w(1) d1 d2(1,2) l1 by (auto simp: r)
qed

lemma fill_ranges_overlay:
  "canonical rs \<Longrightarrow> \<forall>i \<in> set (ranges_vals rs). i < length dst \<Longrightarrow>
   fill_ranges rs v dst = Some (overlay (set (ranges_vals rs)) (replicate (length dst) v) dst)"
proof (induction rs arbitrary: dst)
  case Nil
  then show ?case by simp
next
  case (Cons r rs)
  obtain s e where r: "r = (s, e)" by (cases r)
  have se: "s < e" "canonical rs" using Cons.prems(1) by (auto simp: r canonical_Cons)
  then have "e - 1 \<in> set (ranges_vals (r # rs))" by (auto simp: r)
  with Cons.prems(2) have b: "e \<le> length dst" by fastforce
  let ?v = "replicate (length dst) v"
  have "slice ?v s e = Some (replicate (e - s) v)"
    using se b by (auto simp: slice_def min_def)
  with copy_slice_overlay [of s e ?v dst] se b
  have "fill_slice dst s e v = Some (overlay {s..<e} ?v dst)" by (simp add: fill_slice_def)
  moreover have "fill_ranges rs v (overlay {s..<e} ?v dst) =
      Some (overlay (set (ranges_vals rs)) ?v (overlay {s..<e} ?v dst))"
    using Cons.IH [OF se(2), of "overlay {s..<e} ?v dst"] Cons.prems(2) by (simp add: r)
  ultimately show ?case by (simp add: r overlay_overlay)
qed

lemma nth_all_eq: "nth_all data is =
    (if \<forall>i \<in> set is. i < length data then Some (map ((!) data) is) else None)"
  by (induction "is") auto

section \<open>Lemmas over the range-set laws\<close>

lemma zero_outside_overlay: "zero_outside A (overlay A xs (replicate n 0))"
  by (simp add: zero_outside_def nth_overlay)

lemma overlay_zero_outside: "zero_outside A xs \<Longrightarrow> overlay A xs (replicate (length xs) 0) = xs"
  by (rule nth_equalityI) (auto simp: zero_outside_def nth_overlay)

lemma pt_erase_zeroed: "pt_zeroed R (pt_erase R p)"
  by (simp add: pt_zeroed_def pt_erase_def zero_outside_overlay)

lemma pt_erase_idem: "pt_zeroed R p \<Longrightarrow> pt_erase R p = p"
  by (simp add: pt_zeroed_def pt_erase_def overlay_zero_outside)

context rangeset
begin

lemma iter_bounded: "rs_end0 R a \<le> n \<Longrightarrow> \<forall>i \<in> set (ranges_vals (rs_iter R a)). i < n"
  by (simp add: end0_le_iff rs_set_def rs_vals_def)

lemma copy_iter:
  "rs_end0 R a \<le> length src \<Longrightarrow> rs_end0 R a \<le> length dst \<Longrightarrow>
   copy_ranges (rs_iter R a) src dst = Some (overlay (rs_set R a) src dst)"
  using copy_ranges_overlay [OF iter_canonical, of a src dst] iter_bounded
  by (simp add: rs_set_def rs_vals_def)

lemma copy_iter_None:
  "length dst < rs_end0 R a \<Longrightarrow> copy_ranges (rs_iter R a) src dst = None"
  using copy_ranges_None [OF iter_canonical] end0_le_iff [of a "length dst"]
  by (auto simp: rs_set_def rs_vals_def not_less)

lemma fill_iter:
  "rs_end0 R a \<le> length dst \<Longrightarrow>
   fill_ranges (rs_iter R a) v dst =
     Some (overlay (rs_set R a) (replicate (length dst) v) dst)"
  using fill_ranges_overlay [OF iter_canonical] iter_bounded
  by (simp add: rs_set_def rs_vals_def)

lemma packed_iter:
  assumes "rs_end0 R a \<le> length dst" and "length data = rs_len R a"
  obtains dst' where "copy_packed (rs_iter R a) data 0 dst = Some dst'"
    and "length dst' = length dst"
    and "map ((!) dst') (rs_vals R a) = data"
    and "\<And>i. i < length dst \<Longrightarrow> i \<notin> rs_set R a \<Longrightarrow> dst' ! i = dst ! i"
  using copy_packed_Some [OF iter_canonical, of a dst 0 data] iter_bounded [of a] assms that
  by (auto simp: rs_set_def rs_vals_def len_eq)

lemma packed_iter_overlay:
  assumes "rs_end0 R a \<le> length dst" and "length src = length dst"
  shows "copy_packed (rs_iter R a) (map ((!) src) (rs_vals R a)) 0 dst =
    Some (overlay (rs_set R a) src dst)"
proof -
  obtain dst' where d: "copy_packed (rs_iter R a) (map ((!) src) (rs_vals R a)) 0 dst = Some dst'"
    "length dst' = length dst" "map ((!) dst') (rs_vals R a) = map ((!) src) (rs_vals R a)"
    "\<And>i. i < length dst \<Longrightarrow> i \<notin> rs_set R a \<Longrightarrow> dst' ! i = dst ! i"
    by (rule packed_iter [OF assms(1), of "map ((!) src) (rs_vals R a)"]) (auto simp: len_vals)
  have "dst' = overlay (rs_set R a) src dst"
    using d by (intro nth_equalityI) (auto simp: nth_overlay rs_set_def)
  with d(1) show ?thesis by simp
qed

lemma get_eq:
  "Transcript_get R t d idx =
     Some (if rs_end0 R idx \<le> len_of_direction t d
           then Some \<lparr>sub_idx = idx, sub_data = map ((!) (direction_data t d)) (rs_vals R idx)\<rparr>
           else None)"
  by (auto simp: Transcript_get_def Let_def Subsequence_new_def index_concat len_vals
      len_of_direction_def not_less)

lemma to_partial_eq:
  "to_partial R t sent_idx recv_idx =
     (if rs_end0 R sent_idx \<le> length (t_sent t) \<and> rs_end0 R recv_idx \<le> length (t_received t)
      then Some \<lparr>
        pt_sent = overlay (rs_set R sent_idx) (t_sent t) (replicate (length (t_sent t)) 0),
        pt_received =
          overlay (rs_set R recv_idx) (t_received t) (replicate (length (t_received t)) 0),
        pt_sent_authed_idx = sent_idx, pt_received_authed_idx = recv_idx\<rparr>
      else None)"
  by (auto simp: to_partial_def copy_iter copy_iter_None not_le Option.bind_eq_None_conv)

lemma compress_wf_eq:
  "pt_wf R p \<Longrightarrow> compress_transcript R p =
     \<lparr>c_sent_authed = map ((!) (pt_sent p)) (rs_vals R (pt_sent_authed_idx p)),
      c_received_authed = map ((!) (pt_received p)) (rs_vals R (pt_received_authed_idx p)),
      c_sent_idx = pt_sent_authed_idx p, c_recv_idx = pt_received_authed_idx p,
      c_sent_total = length (pt_sent p), c_recv_total = length (pt_received p)\<rparr>"
  by (simp add: compress_transcript_def pt_wf_def index_concat)

lemma check_compress: "pt_wf R p \<Longrightarrow> check_compressed R (compress_transcript R p) =
    Inr (compress_transcript R p)"
  by (simp add: compress_wf_eq) (simp add: check_compressed_def len_vals pt_wf_def)

lemma decompress_compress:
  "pt_wf R p \<Longrightarrow> decompress_transcript R (compress_transcript R p) = Some (pt_erase R p)"
  by (simp add: compress_wf_eq)
    (simp add: decompress_transcript_def packed_iter_overlay pt_wf_def pt_erase_def)

lemma checked_decompress:
  assumes "check_compressed R c = Inr c'"
  obtains p where "decompress_transcript R c' = Some p" and "pt_wf R p" and "pt_zeroed R p"
    and "compress_transcript R p = c'"
proof -
  from assms have c: "c' = c" "length (c_sent_authed c) = rs_len R (c_sent_idx c)"
    "length (c_received_authed c) = rs_len R (c_recv_idx c)"
    "rs_end0 R (c_sent_idx c) \<le> c_sent_total c" "rs_end0 R (c_recv_idx c) \<le> c_recv_total c"
    by (auto simp: check_compressed_def split: if_splits)
  obtain sent where s: "copy_packed (rs_iter R (c_sent_idx c)) (c_sent_authed c) 0
      (replicate (c_sent_total c) 0) = Some sent" "length sent = c_sent_total c"
    "map ((!) sent) (rs_vals R (c_sent_idx c)) = c_sent_authed c"
    "zero_outside (rs_set R (c_sent_idx c)) sent"
    using c by (auto intro: packed_iter [of "c_sent_idx c" "replicate (c_sent_total c) 0"]
        simp: zero_outside_def)
  obtain recv where r: "copy_packed (rs_iter R (c_recv_idx c)) (c_received_authed c) 0
      (replicate (c_recv_total c) 0) = Some recv" "length recv = c_recv_total c"
    "map ((!) recv) (rs_vals R (c_recv_idx c)) = c_received_authed c"
    "zero_outside (rs_set R (c_recv_idx c)) recv"
    using c by (auto intro: packed_iter [of "c_recv_idx c" "replicate (c_recv_total c) 0"]
        simp: zero_outside_def)
  let ?p = "\<lparr>pt_sent = sent, pt_received = recv, pt_sent_authed_idx = c_sent_idx c,
    pt_received_authed_idx = c_recv_idx c\<rparr>"
  have wf: "pt_wf R ?p" using s(2) r(2) c by (simp add: pt_wf_def)
  show ?thesis
  proof
    show "decompress_transcript R c' = Some ?p" using s(1) r(1) c by (simp add: decompress_transcript_def)
    show "pt_wf R ?p" by (rule wf)
    show "pt_zeroed R ?p" using s(4) r(4) by (simp add: pt_zeroed_def)
    show "compress_transcript R ?p = c'" using s(2,3) r(2,3) c(1) by (simp add: compress_wf_eq [OF wf])
  qed
qed

lemma union_transcript_eq:
  assumes "pt_wf R p" "pt_wf R q"
    and "length (pt_sent p) = length (pt_sent q)" "length (pt_received p) = length (pt_received q)"
  shows "union_transcript R p q = Some \<lparr>
      pt_sent = overlay (rs_set R (pt_sent_authed_idx q) - rs_set R (pt_sent_authed_idx p))
        (pt_sent q) (pt_sent p),
      pt_received =
        overlay (rs_set R (pt_received_authed_idx q) - rs_set R (pt_received_authed_idx p))
        (pt_received q) (pt_received p),
      pt_sent_authed_idx = rs_union R (pt_sent_authed_idx p) (pt_sent_authed_idx q),
      pt_received_authed_idx = rs_union R (pt_received_authed_idx p) (pt_received_authed_idx q)\<rparr>"
proof -
  have "rs_end0 R (rs_difference R a b) \<le> n" if "rs_end0 R a \<le> n" for a b n
    using that by (auto simp: end0_le_iff set_difference)
  with assms show ?thesis
    by (simp add: union_transcript_def copy_iter pt_wf_def set_difference)
qed

lemma union_subsequence_copy:
  assumes "rs_end0 R (sub_idx seq) \<le> length dst" and "length (sub_data seq) = rs_len R (sub_idx seq)"
  obtains dst' where "Subsequence_copy_to R seq dst = Some dst'" and "length dst' = length dst"
    and "map ((!) dst') (rs_vals R (sub_idx seq)) = sub_data seq"
    and "\<And>i. i < length dst \<Longrightarrow> i \<notin> rs_set R (sub_idx seq) \<Longrightarrow> dst' ! i = dst ! i"
  using packed_iter [OF assms] by (auto simp: Subsequence_copy_to_def)

lemma set_unauthed_eq:
  "set_unauthed R p v = Some (p\<lparr>
     pt_sent := overlay (- rs_set R (pt_sent_authed_idx p)) (replicate (length (pt_sent p)) v)
       (pt_sent p),
     pt_received := overlay (- rs_set R (pt_received_authed_idx p))
       (replicate (length (pt_received p)) v) (pt_received p)\<rparr>)"
proof -
  have *: "overlay ({0..<length d} - A) src d = overlay (- A) src d" for A src d
    by (rule nth_equalityI) (auto simp: nth_overlay)
  have "rs_end0 R (rs_difference R (rs_from_range R 0 n) b) \<le> n" for b n
    by (auto simp: end0_le_iff set_difference set_from_range)
  then show ?thesis
    by (simp add: set_unauthed_def sent_unauthed_def received_unauthed_def fill_iter
        set_difference set_from_range *)
qed

lemma is_complete_iff:
  assumes "pt_wf R p"
  shows "is_complete R p \<longleftrightarrow>
    rs_set R (pt_sent_authed_idx p) = {..<length (pt_sent p)} \<and>
    rs_set R (pt_received_authed_idx p) = {..<length (pt_received p)}"
proof -
  have "rs_len R a = n \<longleftrightarrow> rs_set R a = {..<n}" if "rs_end0 R a \<le> n" for a n
  proof -
    have sub: "rs_set R a \<subseteq> {..<n}" using that by (auto simp: end0_le_iff)
    from card_subset_eq [OF finite_lessThan sub] show ?thesis by (metis card_lessThan len_card)
  qed
  with assms show ?thesis by (simp add: is_complete_def pt_wf_def)
qed

lemma pt_iter_eq:
  "pt_wf R p \<Longrightarrow> pt_iter R p d =
     Some (case d of
        Sent \<Rightarrow> map ((!) (pt_sent p)) (rs_vals R (pt_sent_authed_idx p))
      | Received \<Rightarrow> map ((!) (pt_received p)) (rs_vals R (pt_received_authed_idx p)))"
  using iter_bounded
  by (auto simp: pt_iter_def nth_all_eq iter_values_eq rs_vals_def pt_wf_def split: Direction.split)

end

lemma fill_ranges_outside:
  "fill_ranges rs v dst = Some dst' \<Longrightarrow> length dst' = length dst \<and>
     (\<forall>i < length dst. i \<notin> set (ranges_vals rs) \<longrightarrow> dst' ! i = dst ! i)"
proof (induction rs v dst rule: fill_ranges.induct)
  case (2 s e rs v dst)
  then obtain d where d: "fill_slice dst s e v = Some d" "fill_ranges rs v d = Some dst'"
    by (auto split: Option.bind_splits)
  note c = d(1) [unfolded fill_slice_def]
  from 2(1) [OF d] copy_from_slice_length [OF c] copy_from_slice_nth [OF c] show ?case by simp
qed simp

context rangeset
begin

lemma vals_less: "rs_end0 R a \<le> n \<Longrightarrow> i \<in> set (rs_vals R a) \<Longrightarrow> i < n"
  by (simp add: end0_le_iff rs_set_def)

lemma fill_difference:
  "fill_ranges (rs_iter R (rs_difference R b a)) v dst = Some dst' \<Longrightarrow>
   length dst' = length dst \<and> (\<forall>i < length dst. i \<in> rs_set R a \<longrightarrow> dst' ! i = dst ! i)"
  using fill_ranges_outside [of "rs_iter R (rs_difference R b a)" v dst dst']
    set_difference [of b a]
  by (auto simp: rs_set_def rs_vals_def)

lemma pt_iter_cong:
  assumes "pt_wf R p"
    and "pt_sent_authed_idx q = pt_sent_authed_idx p"
    and "pt_received_authed_idx q = pt_received_authed_idx p"
    and "length (pt_sent q) = length (pt_sent p)" "length (pt_received q) = length (pt_received p)"
    and "\<forall>i < length (pt_sent p). i \<in> rs_set R (pt_sent_authed_idx p) \<longrightarrow> pt_sent q ! i = pt_sent p ! i"
    and "\<forall>i < length (pt_received p). i \<in> rs_set R (pt_received_authed_idx p) \<longrightarrow>
      pt_received q ! i = pt_received p ! i"
  shows "pt_iter R q d = pt_iter R p d"
proof -
  have "pt_wf R q" using assms by (simp add: pt_wf_def)
  then show ?thesis using assms
    by (auto simp: pt_iter_eq pt_wf_def rs_set_def split: Direction.split dest: vals_less)
qed

end

section \<open>Properties\<close>

lemmas fset_eval = rs_end0_def rs_vals_def ranges_end_def fset_ranges_def sorted_list_of_fset.rep_eq upt_conv_Cons

text \<open>C22: \<open>Transcript::get\<close> never panics; it returns \<open>None\<close> exactly when the index reaches past the
  data, and otherwise the bytes of the transcript at the indices, in ascending order.\<close>

theorem transcript_get_exact:
  assumes "rangeset R"
  shows "Transcript_get R t d idx =
     Some (if rs_end0 R idx \<le> len_of_direction t d
           then Some \<lparr>sub_idx = idx, sub_data = map ((!) (direction_data t d)) (rs_vals R idx)\<rparr>
           else None)"
  by (rule rangeset.get_eq [OF assms])

theorem transcript_get_exact_witness:
  "rangeset fset_ops \<and>
   Transcript_get fset_ops (Transcript_new [10, 20, 30, 40, 50] [9]) Sent {|1, 2, 4|} =
     Some (Some \<lparr>sub_idx = {|1, 2, 4|}, sub_data = [20, 30, 50]\<rparr>) \<and>
   Transcript_get fset_ops (Transcript_new [10, 20, 30, 40, 50] [9]) Received {|1, 2, 4|} =
     Some None"
  using fs.rangeset_axioms
  by (simp add: transcript_get_exact [OF fs.rangeset_axioms])
    (simp add: fset_eval len_of_direction_def Transcript_new_def)

text \<open>C16: \<open>Transcript::to_partial\<close> panics exactly when an index is out of bounds; otherwise the
  partial transcript has the length of the transcript, agrees with it on the given indices and
  holds zero everywhere else, so it discloses nothing but the chosen bytes and the length.\<close>

theorem to_partial_discloses_exactly:
  assumes "rangeset R"
  shows "case to_partial R t sent_idx recv_idx of
      None \<Rightarrow> length (t_sent t) < rs_end0 R sent_idx \<or> length (t_received t) < rs_end0 R recv_idx
    | Some p \<Rightarrow> pt_wf R p \<and>
        pt_sent_authed_idx p = sent_idx \<and> pt_received_authed_idx p = recv_idx \<and>
        pt_sent p = map (\<lambda>i. if i \<in> rs_set R sent_idx then t_sent t ! i else 0)
          [0..<length (t_sent t)] \<and>
        pt_received p = map (\<lambda>i. if i \<in> rs_set R recv_idx then t_received t ! i else 0)
          [0..<length (t_received t)]"
proof -
  have "overlay A xs (replicate n 0) = map (\<lambda>i. if i \<in> A then xs ! i else 0) [0..<n]" for A xs n
    by (rule nth_equalityI) (auto simp: nth_overlay)
  then show ?thesis
    by (auto simp: rangeset.to_partial_eq [OF assms] pt_wf_def)
qed

theorem to_partial_discloses_exactly_witness:
  "rangeset fset_ops \<and>
   (case to_partial fset_ops (Transcript_new [10, 20, 30] [7]) {|1|} {|0|} of
      None \<Rightarrow> False | Some p \<Rightarrow> pt_sent p = [0, 20, 0] \<and> pt_received p = [7])"
  using fs.rangeset_axioms
    to_partial_discloses_exactly [OF fs.rangeset_axioms,
      of "Transcript_new [10, 20, 30] [7]" "{|1|}" "{|0|}"]
  by (auto simp: Transcript_new_def fset_eval split: option.splits)

text \<open>C18: The compressed form of a partial transcript whose indices are in bounds passes the
  validation on deserialization, and decompressing it gives the transcript back with the
  unauthenticated bytes zeroed; for a transcript that is zero there, the round trip is the
  identity.\<close>

theorem compressed_roundtrip:
  assumes "rangeset R" and "pt_wf R p"
  shows "check_compressed R (compress_transcript R p) = Inr (compress_transcript R p) \<and>
    decompress_transcript R (compress_transcript R p) = Some (pt_erase R p) \<and>
    (pt_zeroed R p \<longrightarrow> decompress_transcript R (compress_transcript R p) = Some p)"
  using rangeset.check_compress [OF assms] rangeset.decompress_compress [OF assms]
  by (simp add: pt_erase_idem)

theorem compressed_roundtrip_witness:
  "rangeset fset_ops \<and>
   (let p = \<lparr>pt_sent = [0, 20, 0, 40], pt_received = [7],
             pt_sent_authed_idx = {|1, 3|}, pt_received_authed_idx = {|0|}\<rparr>
    in pt_wf fset_ops p \<and> pt_zeroed fset_ops p \<and>
       c_sent_authed (compress_transcript fset_ops p) = [20, 40] \<and>
       decompress_transcript fset_ops (compress_transcript fset_ops p) = Some p)"
proof -
  let ?p = "\<lparr>pt_sent = [0, 20, 0, 40], pt_received = [7],
    pt_sent_authed_idx = {|1, 3|}, pt_received_authed_idx = {|0|}\<rparr> :: nat fset PartialTranscript"
  have wf: "pt_wf fset_ops ?p" by (simp add: pt_wf_def fset_eval)
  have "c_sent_authed (compress_transcript fset_ops ?p) = [20, 40]"
    unfolding fs.compress_wf_eq [OF wf] by (simp add: fset_eval)
  moreover have "pt_zeroed fset_ops ?p"
    by (simp add: pt_zeroed_def zero_outside_def All_less_Suc numeral_eq_Suc rs_set_fset_ops)
  ultimately show ?thesis
    using wf compressed_roundtrip [OF fs.rangeset_axioms wf] fs.rangeset_axioms
    unfolding Let_def by blast
qed

text \<open>C17: Whatever untrusted compressed transcript passes the validation, decompressing it does not
  panic; the result has its indices in bounds, is zero outside them, and compresses back to
  exactly the validated value.  The two error branches are taken exactly when the lengths or the
  bounds are wrong.\<close>

theorem checked_decompress_sound:
  assumes "rangeset R"
  shows "case check_compressed R c of
      Inl e \<Rightarrow> length (c_sent_authed c) \<noteq> rs_len R (c_sent_idx c) \<or>
        length (c_received_authed c) \<noteq> rs_len R (c_recv_idx c) \<or>
        c_sent_total c < rs_end0 R (c_sent_idx c) \<or> c_recv_total c < rs_end0 R (c_recv_idx c)
    | Inr c' \<Rightarrow> c' = c \<and> (\<exists>p. decompress_transcript R c' = Some p \<and> pt_wf R p \<and> pt_zeroed R p \<and>
        compress_transcript R p = c)"
proof (cases "check_compressed R c")
  case (Inl e)
  then show ?thesis by (auto simp: check_compressed_def split: if_splits)
next
  case (Inr c')
  then have "c' = c" by (auto simp: check_compressed_def split: if_splits)
  with Inr rangeset.checked_decompress [OF assms Inr] show ?thesis by auto
qed

theorem checked_decompress_sound_witness:
  "rangeset fset_ops \<and>
   (\<exists>p. decompress_transcript fset_ops \<lparr>c_sent_authed = [20, 40], c_received_authed = [],
      c_sent_idx = {|1, 3|}, c_recv_idx = {||}, c_sent_total = 4, c_recv_total = 2\<rparr> = Some p \<and>
      pt_wf fset_ops p \<and> pt_zeroed fset_ops p)"
proof -
  let ?c = "\<lparr>c_sent_authed = [20, 40], c_received_authed = [], c_sent_idx = {|1, 3|},
    c_recv_idx = {||}, c_sent_total = 4, c_recv_total = 2\<rparr> :: nat fset CompressedPartialTranscript"
  have "check_compressed fset_ops ?c = Inr ?c"
    by (simp add: check_compressed_def fset_eval)
  then show ?thesis
    using checked_decompress_sound [OF fs.rangeset_axioms, of ?c] fs.rangeset_axioms by auto
qed

text \<open>C19: \<open>union_transcript\<close> implements union of disclosures: for two partial views of one
  transcript it is the partial view of the united indices.\<close>

theorem union_transcript_views:
  assumes "rangeset R" and "to_partial R t a b = Some p" and "to_partial R t c d = Some q"
  shows "union_transcript R p q = to_partial R t (rs_union R a c) (rs_union R b d) \<and>
    union_transcript R p q \<noteq> None"
proof -
  have "overlay (C - A) (overlay C xs zs) (overlay A xs zs) = overlay (A \<union> C) xs zs"
    for A C :: "nat set" and xs zs :: bytes
    by (rule nth_equalityI) (auto simp: nth_overlay)
  then show ?thesis
    using assms(2,3) rangeset.union_transcript_eq [OF assms(1), of p q]
    by (auto simp: rangeset.to_partial_eq [OF assms(1)] pt_wf_def rangeset.set_union [OF assms(1)]
        rangeset.end0_union_le [OF assms(1)] split: if_splits)
qed

theorem union_transcript_views_witness:
  "rangeset fset_ops \<and>
   (\<exists>p q. to_partial fset_ops (Transcript_new [10, 20, 30] [7]) {|0|} {||} = Some p \<and>
     to_partial fset_ops (Transcript_new [10, 20, 30] [7]) {|2|} {|0|} = Some q \<and>
     union_transcript fset_ops p q =
       to_partial fset_ops (Transcript_new [10, 20, 30] [7]) {|0, 2|} {|0|})"
proof -
  let ?t = "Transcript_new [10, 20, 30] [7]"
  obtain p q where "to_partial fset_ops ?t {|0|} {||} = Some p"
    and "to_partial fset_ops ?t {|2|} {|0|} = Some q"
    by (simp add: fs.to_partial_eq) (simp add: fset_eval Transcript_new_def)
  moreover from union_transcript_views [OF fs.rangeset_axioms this]
  have "union_transcript fset_ops p q = to_partial fset_ops ?t {|0, 2|} {|0|}"
    by (simp add: finsert_commute)
  ultimately show ?thesis using fs.rangeset_axioms by blast
qed

text \<open>\<open>union_transcript\<close> never overwrites an authenticated byte of the receiver, takes every
  other authenticated byte from the argument, leaves the rest alone, and keeps the indices in
  bounds; on transcripts of different lengths it panics.\<close>

lemma union_transcript_bytes:
  assumes "rangeset R" and "pt_wf R p" and "pt_wf R q"
  shows "case union_transcript R p q of
      None \<Rightarrow> length (pt_sent p) \<noteq> length (pt_sent q) \<or> length (pt_received p) \<noteq> length (pt_received q)
    | Some r \<Rightarrow> pt_wf R r \<and> length (pt_sent p) = length (pt_sent q) \<and>
        length (pt_received p) = length (pt_received q) \<and>
        length (pt_sent r) = length (pt_sent p) \<and> length (pt_received r) = length (pt_received p) \<and>
        rs_set R (pt_sent_authed_idx r) =
          rs_set R (pt_sent_authed_idx p) \<union> rs_set R (pt_sent_authed_idx q) \<and>
        rs_set R (pt_received_authed_idx r) =
          rs_set R (pt_received_authed_idx p) \<union> rs_set R (pt_received_authed_idx q) \<and>
        (\<forall>i < length (pt_sent p). pt_sent r ! i =
          (if i \<in> rs_set R (pt_sent_authed_idx q) \<and> i \<notin> rs_set R (pt_sent_authed_idx p)
           then pt_sent q ! i else pt_sent p ! i)) \<and>
        (\<forall>i < length (pt_received p). pt_received r ! i =
          (if i \<in> rs_set R (pt_received_authed_idx q) \<and> i \<notin> rs_set R (pt_received_authed_idx p)
           then pt_received q ! i else pt_received p ! i))"
proof (cases "length (pt_sent p) = length (pt_sent q) \<and>
    length (pt_received p) = length (pt_received q)")
  case True
  then show ?thesis
    using rangeset.union_transcript_eq [OF assms] assms(2,3)
    by (auto simp: pt_wf_def rangeset.set_union [OF assms(1)] nth_overlay
        rangeset.end0_union_le [OF assms(1)])
next
  case False
  then show ?thesis by (auto simp: union_transcript_def)
qed

lemma union_transcript_bytes_example:
  "rangeset fset_ops \<and>
   (let p = \<lparr>pt_sent = [1, 0], pt_received = [], pt_sent_authed_idx = {|0|},
              pt_received_authed_idx = {||}\<rparr>;
        q = \<lparr>pt_sent = [9, 2], pt_received = [], pt_sent_authed_idx = {|0, 1|},
              pt_received_authed_idx = {||}\<rparr>
    in pt_wf fset_ops p \<and> pt_wf fset_ops q \<and>
       map_option pt_sent (union_transcript fset_ops p q) = Some [1, 2])"
proof -
  let ?p = "\<lparr>pt_sent = [1, 0], pt_received = [], pt_sent_authed_idx = {|0|},
    pt_received_authed_idx = {||}\<rparr> :: nat fset PartialTranscript"
  let ?q = "\<lparr>pt_sent = [9, 2], pt_received = [], pt_sent_authed_idx = {|0, 1|},
    pt_received_authed_idx = {||}\<rparr> :: nat fset PartialTranscript"
  have wf: "pt_wf fset_ops ?p" "pt_wf fset_ops ?q" by (simp_all add: pt_wf_def fset_eval)
  obtain r where r: "union_transcript fset_ops ?p ?q = Some r" "length (pt_sent r) = 2"
    "pt_sent r ! 0 = 1" "pt_sent r ! 1 = 2"
    using union_transcript_bytes [OF fs.rangeset_axioms wf]
    by (auto simp: rs_set_fset_ops less_Suc_eq split: option.splits)
  then have "pt_sent r = [1, 2]" by (auto simp: list_eq_iff_nth_eq less_Suc_eq numeral_2_eq_2)
  with r wf fs.rangeset_axioms show ?thesis by (simp add: Let_def)
qed

text \<open>C20: Adding the subsequence a transcript yields for an index to a partial view of the same
  transcript never panics and gives the view of the index united with the old one; the other
  direction is untouched.\<close>

theorem union_subsequence_view:
  assumes "rangeset R" and "to_partial R t a b = Some p" and "Transcript_get R t d idx = Some (Some s)"
  shows "union_subsequence R p d s = (case d of
      Sent \<Rightarrow> to_partial R t (rs_union R a idx) b
    | Received \<Rightarrow> to_partial R t a (rs_union R b idx)) \<and> union_subsequence R p d s \<noteq> None"
proof -
  have ov: "overlay B xs (overlay A xs zs) = overlay (A \<union> B) xs zs"
    for A B :: "nat set" and xs zs :: bytes
    by (rule nth_equalityI) (auto simp: nth_overlay)
  show ?thesis
    using assms(2,3)
    by (cases d) (auto simp: rangeset.to_partial_eq [OF assms(1)] rangeset.get_eq [OF assms(1)]
        rangeset.set_union [OF assms(1)] rangeset.end0_union_le [OF assms(1)] Subsequence_copy_to_def
        rangeset.packed_iter_overlay [OF assms(1)] len_of_direction_def ov split: if_splits)
qed

theorem union_subsequence_view_witness:
  "rangeset fset_ops \<and>
   (\<exists>p s. to_partial fset_ops (Transcript_new [10, 20, 30] [7]) {|0|} {||} = Some p \<and>
     Transcript_get fset_ops (Transcript_new [10, 20, 30] [7]) Sent {|2|} = Some (Some s) \<and>
     union_subsequence fset_ops p Sent s =
       to_partial fset_ops (Transcript_new [10, 20, 30] [7]) {|0, 2|} {||})"
proof -
  let ?t = "Transcript_new [10, 20, 30] [7]"
  have "\<exists>p. to_partial fset_ops ?t {|0|} {||} = Some p"
    "\<exists>s. Transcript_get fset_ops ?t Sent {|2|} = Some (Some s)"
    by (simp_all add: fs.to_partial_eq fs.get_eq)
      (simp_all add: fset_eval Transcript_new_def len_of_direction_def)
  then obtain p s where ps: "to_partial fset_ops ?t {|0|} {||} = Some p"
    "Transcript_get fset_ops ?t Sent {|2|} = Some (Some s)" by blast
  from union_subsequence_view [OF fs.rangeset_axioms ps]
  have "union_subsequence fset_ops p Sent s = to_partial fset_ops ?t {|0, 2|} {||}"
    by (simp add: finsert_commute)
  with ps fs.rangeset_axioms show ?thesis by blast
qed

text \<open>C21: \<open>set_unauthed\<close> and \<open>set_unauthed_range\<close> leave every authenticated byte as it is: the
  authenticated data a verifier iterates over is the same before and after, and
  \<open>set_unauthed\<close> writes the value at every other position.\<close>

theorem set_unauthed_keeps_authed:
  assumes "rangeset R" and "pt_wf R p"
  shows "\<exists>q. set_unauthed R p v = Some q \<and> pt_iter R q d = pt_iter R p d \<and>
    pt_iter R p d \<noteq> None \<and>
    (\<forall>i < length (pt_sent p). i \<notin> rs_set R (pt_sent_authed_idx p) \<longrightarrow> pt_sent q ! i = v) \<and>
    (\<forall>i < length (pt_received p). i \<notin> rs_set R (pt_received_authed_idx p) \<longrightarrow>
      pt_received q ! i = v) \<and>
    (\<forall>d' s e q'. set_unauthed_range R p v d' (s, e) = Some q' \<longrightarrow> pt_iter R q' d = pt_iter R p d)"
proof -
  obtain q where q: "set_unauthed R p v = Some q" using rangeset.set_unauthed_eq [OF assms(1)] by blast
  note eq = q [unfolded rangeset.set_unauthed_eq [OF assms(1)], simplified, symmetric]
  have "pt_wf R q" using assms(2) by (simp add: eq pt_wf_def)
  then have "pt_iter R q d = pt_iter R p d"
    using rangeset.vals_less [OF assms(1)] assms(2)
    by (auto simp: rangeset.pt_iter_eq [OF assms(1)] eq nth_overlay pt_wf_def rs_set_def
        split: Direction.split)
  moreover have "pt_iter R q' d = pt_iter R p d"
    if "set_unauthed_range R p v d' (s, e) = Some q'" for d' s e q'
    using that rangeset.pt_iter_cong [OF assms(1,2), of q' d]
    by (cases d') (auto dest!: rangeset.fill_difference [OF assms(1)] split: Option.bind_splits)
  ultimately show ?thesis
    using q assms(2) by (auto simp: rangeset.pt_iter_eq [OF assms(1)] eq nth_overlay)
qed

theorem set_unauthed_keeps_authed_witness:
  "rangeset fset_ops \<and>
   (let p = \<lparr>pt_sent = [1, 0], pt_received = [], pt_sent_authed_idx = {|0|},
              pt_received_authed_idx = {||}\<rparr>
    in pt_wf fset_ops p \<and>
       (\<exists>q. set_unauthed fset_ops p 88 = Some q \<and> pt_sent q ! 1 = 88 \<and>
         pt_iter fset_ops q Sent = pt_iter fset_ops p Sent))"
proof -
  let ?p = "\<lparr>pt_sent = [1, 0], pt_received = [], pt_sent_authed_idx = {|0|},
    pt_received_authed_idx = {||}\<rparr> :: nat fset PartialTranscript"
  have wf: "pt_wf fset_ops ?p" by (simp add: pt_wf_def fset_eval)
  with set_unauthed_keeps_authed [OF fs.rangeset_axioms wf, of 88 Sent] fs.rangeset_axioms
  show ?thesis by (auto simp: Let_def rs_set_fset_ops)
qed

end
