(* ===== verification/Core_Hash.thy ===== *)
theory Core_Hash
  imports Prelude
begin

text \<open>
  Hash values, hash algorithms and the hash provider of \<open>crates/core/src/hash.rs\<close>. The digest
  functions themselves (crates \<open>sha2\<close>, \<open>blake3\<close>, \<open>tiny_keccak\<close>) are parameters; feeding a
  hasher several chunks is hashing their concatenation.
\<close>

section \<open>Hash values\<close>

definition MAX_LEN :: nat where
  "MAX_LEN = 64"

record Hash =
  hash_value :: bytes
  hash_len :: nat

definition Hash_default :: Hash where
  "Hash_default = \<lparr>hash_value = replicate MAX_LEN 0, hash_len = 0\<rparr>"

text \<open>\<open>Hash::new\<close>; \<open>None\<close> is the panic of its assertion.\<close>

definition Hash_new :: "bytes \<Rightarrow> Hash option" where
  "Hash_new value =
     (if length value \<le> MAX_LEN then
        do {
          bytes \<leftarrow> copy_from_slice (replicate MAX_LEN 0) 0 (length value) value;
          Some \<lparr>hash_value = bytes, hash_len = length value\<rparr>
        }
      else None)"

definition Hash_as_bytes :: "Hash \<Rightarrow> bytes" where
  "Hash_as_bytes h = take (hash_len h) (hash_value h)"

text \<open>\<open>TryFrom<Vec<u8>> for Hash\<close>, with the message of the error, and \<open>From<Hash> for Vec<u8>\<close>.\<close>

definition Hash_try_from :: "bytes \<Rightarrow> string + Hash" where
  "Hash_try_from value =
     (if length value > MAX_LEN then Inl ''hash value must be at most 64 bytes''
      else Inr \<lparr>hash_value = value @ replicate (MAX_LEN - length value) 0,
                hash_len = length value\<rparr>)"

definition Hash_into_vec :: "Hash \<Rightarrow> bytes" where
  "Hash_into_vec h = take (hash_len h) (hash_value h)"

text \<open>
  \<open>Serialize\<close> and \<open>Deserialize\<close>: the serializer emits the sequence of the first \<open>len\<close> bytes, the
  visitor's loop collects the elements of a sequence. \<open>Inl\<close> is \<open>Error::invalid_length(len)\<close>.
\<close>

definition Hash_serialize :: "Hash \<Rightarrow> bytes" where
  "Hash_serialize h = take (hash_len h) (hash_value h)"

fun visit_seq :: "bytes \<Rightarrow> bytes \<Rightarrow> nat \<Rightarrow> nat + Hash" where
  "visit_seq [] value len = Inr \<lparr>hash_value = value, hash_len = len\<rparr>"
| "visit_seq (byte # seq) value len =
     (if len \<ge> MAX_LEN then Inl len else visit_seq seq (value[len := byte]) (len + 1))"

definition Hash_deserialize :: "bytes \<Rightarrow> nat + Hash" where
  "Hash_deserialize seq = visit_seq seq (replicate MAX_LEN 0) 0"

text \<open>
  The invariant of the private fields: a 64-byte array whose bytes past \<open>len\<close> are zero. The
  derived equality compares whole arrays, so it relies on this.
\<close>

definition Hash_wf :: "Hash \<Rightarrow> bool" where
  "Hash_wf h \<longleftrightarrow> length (hash_value h) = MAX_LEN \<and> hash_len h \<le> MAX_LEN \<and>
     drop (hash_len h) (hash_value h) = replicate (MAX_LEN - hash_len h) 0"

lemma Hash_new_eq:
  "Hash_new value =
     (if length value \<le> MAX_LEN
      then Some \<lparr>hash_value = value @ replicate (MAX_LEN - length value) 0,
                 hash_len = length value\<rparr>
      else None)"
  by (simp add: Hash_new_def copy_from_slice_def)

lemma Hash_new_wf: "Hash_new value = Some h \<Longrightarrow> Hash_wf h"
  by (auto simp: Hash_new_eq Hash_wf_def split: if_splits)

lemma Hash_as_bytes_new: "Hash_new value = Some h \<Longrightarrow> Hash_as_bytes h = value"
  by (auto simp: Hash_new_eq Hash_as_bytes_def split: if_splits)

lemma visit_seq_eq:
  "length xs \<le> MAX_LEN \<Longrightarrow>
   visit_seq seq (xs @ replicate (MAX_LEN - length xs) 0) (length xs) =
     (if length xs + length seq \<le> MAX_LEN
      then Inr \<lparr>hash_value = xs @ seq @ replicate (MAX_LEN - (length xs + length seq)) 0,
                hash_len = length xs + length seq\<rparr>
      else Inl MAX_LEN)"
proof (induction seq arbitrary: xs)
  case Nil
  then show ?case by simp
next
  case (Cons byte seq)
  show ?case
  proof (cases "length xs < MAX_LEN")
    case True
    then obtain k where k: "MAX_LEN - length xs = Suc k" by (cases "MAX_LEN - length xs") auto
    then have "MAX_LEN - length (xs @ [byte]) = k" by simp
    with Cons.IH [of "xs @ [byte]"] True k show ?thesis
      by (simp add: list_update_append)
  next
    case False
    with Cons.prems show ?thesis by simp
  qed
qed

lemma Hash_deserialize_eq:
  "Hash_deserialize seq =
     (if length seq \<le> MAX_LEN
      then Inr \<lparr>hash_value = seq @ replicate (MAX_LEN - length seq) 0, hash_len = length seq\<rparr>
      else Inl MAX_LEN)"
  using visit_seq_eq [of "[]" seq] by (simp add: Hash_deserialize_def)

lemma Hash_wf_value: "Hash_wf h \<Longrightarrow>
    hash_value h = Hash_as_bytes h @ replicate (MAX_LEN - hash_len h) 0 \<and>
    length (Hash_as_bytes h) = hash_len h"
  by (auto simp: Hash_wf_def Hash_as_bytes_def) (metis append_take_drop_id)

lemma Hash_roundtrip: "Hash_wf h \<Longrightarrow> Hash_deserialize (Hash_serialize h) = Inr h"
proof (cases h)
  case (fields v l)
  assume "Hash_wf h"
  then have len: "length v = MAX_LEN" "l \<le> MAX_LEN" and "replicate (MAX_LEN - l) 0 = drop l v"
    by (simp_all add: Hash_wf_def fields)
  then have "take l v @ replicate (MAX_LEN - l) 0 = v" by simp
  with len show ?thesis
    by (simp add: Hash_deserialize_eq Hash_serialize_def fields min_absorb2)
qed

lemma Hash_eq_iff:
  assumes "Hash_wf h" "Hash_wf h'"
  shows "h = h' \<longleftrightarrow> Hash_as_bytes h = Hash_as_bytes h'"
proof
  assume eq: "Hash_as_bytes h = Hash_as_bytes h'"
  then have "hash_len h = hash_len h'" using Hash_wf_value assms by metis
  moreover from this have "hash_value h = hash_value h'" using Hash_wf_value assms eq by metis
  ultimately show "h = h'" by simp
qed simp

section \<open>Algorithms\<close>

datatype HashAlgId = HashAlgId u8

definition HashAlgId_SHA256 :: HashAlgId where
  "HashAlgId_SHA256 = HashAlgId 1"

definition HashAlgId_BLAKE3 :: HashAlgId where
  "HashAlgId_BLAKE3 = HashAlgId 2"

definition HashAlgId_KECCAK256 :: HashAlgId where
  "HashAlgId_KECCAK256 = HashAlgId 3"

text \<open>\<open>HashAlgId::new\<close> panics on the reserved identifiers.\<close>

definition HashAlgId_new :: "u8 \<Rightarrow> HashAlgId option" where
  "HashAlgId_new i = (if i \<ge> 128 then Some (HashAlgId i) else None)"

fun HashAlgId_as_u8 :: "HashAlgId \<Rightarrow> u8" where
  "HashAlgId_as_u8 (HashAlgId i) = i"

record TypedHash =
  th_alg :: HashAlgId
  th_value :: Hash

text \<open>The trait \<open>HashAlgorithm\<close>: a trait object is the record of its methods.\<close>

record HashAlgorithm =
  ha_id :: HashAlgId
  ha_hash :: "bytes \<Rightarrow> Hash"
  ha_hash_prefixed :: "bytes \<Rightarrow> bytes \<Rightarrow> Hash"

text \<open>
  The three built-in algorithms wrap an external digest, whose 32-byte output \<open>Hash::new\<close> takes
  without a panic.
\<close>

definition digest_algorithm :: "HashAlgId \<Rightarrow> (bytes \<Rightarrow> bytes) \<Rightarrow> HashAlgorithm" where
  "digest_algorithm i digest = \<lparr>
     ha_id = i,
     ha_hash = (\<lambda>data. the (Hash_new (digest data))),
     ha_hash_prefixed = (\<lambda>prefix data. the (Hash_new (digest (prefix @ data))))\<rparr>"

definition Sha256 :: "(bytes \<Rightarrow> bytes) \<Rightarrow> HashAlgorithm" where
  "Sha256 sha2 = digest_algorithm HashAlgId_SHA256 sha2"

definition Blake3 :: "(bytes \<Rightarrow> bytes) \<Rightarrow> HashAlgorithm" where
  "Blake3 blake3 = digest_algorithm HashAlgId_BLAKE3 blake3"

definition Keccak256 :: "(bytes \<Rightarrow> bytes) \<Rightarrow> HashAlgorithm" where
  "Keccak256 keccak = digest_algorithm HashAlgId_KECCAK256 keccak"

section \<open>The hash provider\<close>

type_synonym HashProvider = "HashAlgId \<rightharpoonup> HashAlgorithm"

definition HashProvider_default ::
  "(bytes \<Rightarrow> bytes) \<Rightarrow> (bytes \<Rightarrow> bytes) \<Rightarrow> (bytes \<Rightarrow> bytes) \<Rightarrow> HashProvider" where
  "HashProvider_default sha2 blake3 keccak =
     Map.empty(HashAlgId_SHA256 \<mapsto> Sha256 sha2, HashAlgId_BLAKE3 \<mapsto> Blake3 blake3,
       HashAlgId_KECCAK256 \<mapsto> Keccak256 keccak)"

definition HashProvider_set_algorithm ::
  "HashProvider \<Rightarrow> HashAlgId \<Rightarrow> HashAlgorithm \<Rightarrow> HashProvider" where
  "HashProvider_set_algorithm p i alg = p(i \<mapsto> alg)"

datatype HashProviderError = UnknownHashAlgId HashAlgId

definition HashProvider_get :: "HashProvider \<Rightarrow> HashAlgId \<Rightarrow> HashProviderError + HashAlgorithm" where
  "HashProvider_get p i = ok_or (p i) (UnknownHashAlgId i)"

lemma HashProvider_get_set:
  "HashProvider_get (HashProvider_set_algorithm p i alg) j =
     (if j = i then Inr alg else HashProvider_get p j)"
  by (simp add: HashProvider_get_def HashProvider_set_algorithm_def)

lemma HashProvider_get_default:
  "HashProvider_get (HashProvider_default sha2 blake3 keccak) i =
     (if i = HashAlgId_SHA256 then Inr (Sha256 sha2)
      else if i = HashAlgId_BLAKE3 then Inr (Blake3 blake3)
      else if i = HashAlgId_KECCAK256 then Inr (Keccak256 keccak)
      else Inl (UnknownHashAlgId i))"
  by (auto simp: HashProvider_get_def HashProvider_default_def HashAlgId_SHA256_def
      HashAlgId_BLAKE3_def HashAlgId_KECCAK256_def)

lemma digest_algorithm_prefixed:
  "ha_hash_prefixed (digest_algorithm i digest) p d = ha_hash (digest_algorithm i digest) (p @ d)"
  by (simp add: digest_algorithm_def)

lemma digest_algorithm_wf:
  assumes "\<And>d. length (digest d) = 32"
  shows "Hash_wf (ha_hash (digest_algorithm i digest) d) \<and>
    Hash_as_bytes (ha_hash (digest_algorithm i digest) d) = digest d"
proof -
  obtain h where "Hash_new (digest d) = Some h"
    using assms [of d] by (simp add: Hash_new_eq MAX_LEN_def)
  then show ?thesis
    using Hash_new_wf Hash_as_bytes_new by (simp add: digest_algorithm_def)
qed

section \<open>Blinders\<close>

text \<open>A blinder is a 16-byte array.\<close>

datatype Blinder = Blinder (Blinder_as_bytes: bytes)

definition Blinder_wf :: "Blinder \<Rightarrow> bool" where
  "Blinder_wf b \<longleftrightarrow> length (Blinder_as_bytes b) = 16"

end
