(* ===== verification/Commit.thy ===== *)
theory Commit
  imports Transcript Core_Hash
begin

text \<open>
  Transcript commitments, after \<open>crates/core/src/transcript/commit.rs\<close> and
  \<open>crates/core/src/transcript/hash.rs\<close>: the commitment, secret and configuration types, the builder
  of a commitment configuration and the request made from it, and the hash of a blinded plaintext.

  The builder collects commitments in a \<open>HashSet\<close>.  The order in which a \<open>HashSet\<close> is iterated is
  unspecified, so it is an argument \<open>order\<close> of \<open>build_commit_config\<close>; all that is used of it is
  \<open>hash_set_order\<close>, that it lists every element exactly once.
\<close>

section \<open>Data\<close>

datatype TranscriptCommitmentKind = KindHash HashAlgId

record 'r PlaintextHash =
  ph_direction :: Direction
  ph_idx :: 'r
  ph_hash :: TypedHash

record 'r PlaintextHashSecret =
  phs_direction :: Direction
  phs_idx :: 'r
  phs_alg :: HashAlgId
  phs_blinder :: Blinder

datatype 'r TranscriptCommitment = CommitmentHash "'r PlaintextHash"

datatype 'r TranscriptSecret = SecretHash "'r PlaintextHashSecret"

type_synonym 'r commit_entry = "(Direction \<times> 'r) \<times> TranscriptCommitmentKind"

record 'r TranscriptCommitConfig =
  cc_commits :: "'r commit_entry list"

record 'r TranscriptCommitRequest =
  cr_hash :: "(Direction \<times> 'r \<times> HashAlgId) list"

record 'r TranscriptCommitConfigBuilder =
  cb_transcript :: Transcript
  cb_default_kind :: TranscriptCommitmentKind
  cb_commits :: "'r commit_entry set"

text \<open>\<open>ErrorKind::Index\<close> with the three values of its message: direction, end and length.\<close>

datatype TranscriptCommitConfigBuilderError = CommitIndexError Direction nat nat

section \<open>Blinded plaintext hashes\<close>

definition hash_plaintext :: "HashAlgorithm \<Rightarrow> bytes \<Rightarrow> Blinder \<Rightarrow> TypedHash" where
  "hash_plaintext hasher msg blinder =
     \<lparr>th_alg = ha_id hasher, th_value = ha_hash_prefixed hasher msg (Blinder_as_bytes blinder)\<rparr>"

section \<open>Configuration and request\<close>

fun is_hash_kind :: "TranscriptCommitmentKind \<Rightarrow> bool" where
  "is_hash_kind (KindHash alg) = True"

definition config_has_hash :: "'r TranscriptCommitConfig \<Rightarrow> bool" where
  "config_has_hash c = list_ex (\<lambda>(_, kind). is_hash_kind kind) (cc_commits c)"

definition config_iter_hash :: "'r TranscriptCommitConfig \<Rightarrow> ((Direction \<times> 'r) \<times> HashAlgId) list" where
  "config_iter_hash c = map (\<lambda>(idx, kind). case kind of KindHash alg \<Rightarrow> (idx, alg)) (cc_commits c)"

definition to_request :: "'r TranscriptCommitConfig \<Rightarrow> 'r TranscriptCommitRequest" where
  "to_request c = \<lparr>cr_hash = map (\<lambda>((dir, idx), alg). (dir, idx, alg)) (config_iter_hash c)\<rparr>"

definition request_has_hash :: "'r TranscriptCommitRequest \<Rightarrow> bool" where
  "request_has_hash r = (cr_hash r \<noteq> [])"

definition request_iter_hash :: "'r TranscriptCommitRequest \<Rightarrow> (Direction \<times> 'r \<times> HashAlgId) list" where
  "request_iter_hash r = cr_hash r"

section \<open>Builder\<close>

definition commit_builder_new :: "Transcript \<Rightarrow> 'r TranscriptCommitConfigBuilder" where
  "commit_builder_new t =
     \<lparr>cb_transcript = t, cb_default_kind = KindHash HashAlgId_BLAKE3, cb_commits = {}\<rparr>"

definition set_default_kind ::
  "'r TranscriptCommitConfigBuilder \<Rightarrow> TranscriptCommitmentKind \<Rightarrow> 'r TranscriptCommitConfigBuilder"
  where
  "set_default_kind b kind = b\<lparr>cb_default_kind := kind\<rparr>"

definition commit_with_kind_inner ::
  "'r rangeset_ops \<Rightarrow> 'r TranscriptCommitConfigBuilder \<Rightarrow> 'r \<Rightarrow> Direction \<Rightarrow> TranscriptCommitmentKind
    \<Rightarrow> TranscriptCommitConfigBuilderError + 'r TranscriptCommitConfigBuilder" where
  "commit_with_kind_inner R b idx direction kind =
     (if rs_end0 R idx > len_of_direction (cb_transcript b) direction
      then Inl (CommitIndexError direction (rs_end0 R idx)
             (len_of_direction (cb_transcript b) direction))
      else Inr (b\<lparr>cb_commits := insert ((direction, idx), kind) (cb_commits b)\<rparr>))"

definition commit_with_kind ::
  "'r rangeset_ops \<Rightarrow> 'r TranscriptCommitConfigBuilder \<Rightarrow> range list \<Rightarrow> Direction
    \<Rightarrow> TranscriptCommitmentKind \<Rightarrow> TranscriptCommitConfigBuilderError + 'r TranscriptCommitConfigBuilder"
  where
  "commit_with_kind R b ranges direction kind =
     commit_with_kind_inner R b (rs_from_range_iter R ranges) direction kind"

definition commit ::
  "'r rangeset_ops \<Rightarrow> 'r TranscriptCommitConfigBuilder \<Rightarrow> range list \<Rightarrow> Direction
    \<Rightarrow> TranscriptCommitConfigBuilderError + 'r TranscriptCommitConfigBuilder" where
  "commit R b ranges direction =
     commit_with_kind_inner R b (rs_from_range_iter R ranges) direction (cb_default_kind b)"

definition commit_sent ::
  "'r rangeset_ops \<Rightarrow> 'r TranscriptCommitConfigBuilder \<Rightarrow> range list
    \<Rightarrow> TranscriptCommitConfigBuilderError + 'r TranscriptCommitConfigBuilder" where
  "commit_sent R b ranges =
     commit_with_kind_inner R b (rs_from_range_iter R ranges) Sent (cb_default_kind b)"

definition commit_recv ::
  "'r rangeset_ops \<Rightarrow> 'r TranscriptCommitConfigBuilder \<Rightarrow> range list
    \<Rightarrow> TranscriptCommitConfigBuilderError + 'r TranscriptCommitConfigBuilder" where
  "commit_recv R b ranges =
     commit_with_kind_inner R b (rs_from_range_iter R ranges) Received (cb_default_kind b)"

definition build_commit_config ::
  "('r commit_entry set \<Rightarrow> 'r commit_entry list) \<Rightarrow> 'r TranscriptCommitConfigBuilder
    \<Rightarrow> TranscriptCommitConfigBuilderError + 'r TranscriptCommitConfig" where
  "build_commit_config order b = Inr \<lparr>cc_commits = order (cb_commits b)\<rparr>"

definition hash_set_order :: "('a set \<Rightarrow> 'a list) \<Rightarrow> bool" where
  "hash_set_order order \<longleftrightarrow> (\<forall>A. finite A \<longrightarrow> set (order A) = A \<and> distinct (order A))"

section \<open>Builder runs\<close>

text \<open>The states a builder reaches by successful calls from \<open>new\<close>.\<close>

inductive commit_builder_reach ::
  "'r rangeset_ops \<Rightarrow> Transcript \<Rightarrow> 'r TranscriptCommitConfigBuilder \<Rightarrow> bool" for R t where
  cb_new: "commit_builder_reach R t (commit_builder_new t)"
| cb_kind: "commit_builder_reach R t b \<Longrightarrow> commit_builder_reach R t (set_default_kind b kind)"
| cb_commit_kind: "commit_builder_reach R t b \<Longrightarrow> commit_with_kind R b ranges d kind = Inr b' \<Longrightarrow>
    commit_builder_reach R t b'"
| cb_commit: "commit_builder_reach R t b \<Longrightarrow> commit R b ranges d = Inr b' \<Longrightarrow>
    commit_builder_reach R t b'"
| cb_sent: "commit_builder_reach R t b \<Longrightarrow> commit_sent R b ranges = Inr b' \<Longrightarrow>
    commit_builder_reach R t b'"
| cb_recv: "commit_builder_reach R t b \<Longrightarrow> commit_recv R b ranges = Inr b' \<Longrightarrow>
    commit_builder_reach R t b'"

text \<open>Every commitment is in bounds of the transcript it is made for.\<close>

definition commit_builder_ok ::
  "'r rangeset_ops \<Rightarrow> Transcript \<Rightarrow> 'r TranscriptCommitConfigBuilder \<Rightarrow> bool" where
  "commit_builder_ok R t b \<longleftrightarrow> cb_transcript b = t \<and> finite (cb_commits b) \<and>
     (\<forall>((d, idx), kind) \<in> cb_commits b. rs_end0 R idx \<le> len_of_direction t d)"

lemma commit_with_kind_inner_ok:
  "commit_builder_ok R t b \<Longrightarrow> commit_with_kind_inner R b idx d kind = Inr b' \<Longrightarrow>
   commit_builder_ok R t b'"
  by (auto simp: commit_with_kind_inner_def commit_builder_ok_def split: if_splits)

lemma commit_builder_reach_ok: "commit_builder_reach R t b \<Longrightarrow> commit_builder_ok R t b"
  by (induction rule: commit_builder_reach.induct)
    (auto simp: commit_with_kind_def commit_def commit_sent_def commit_recv_def
      intro: commit_with_kind_inner_ok,
      auto simp: commit_builder_new_def set_default_kind_def commit_builder_ok_def)

lemma set_to_request:
  "set (cr_hash (to_request c)) = {(d, i, a). ((d, i), KindHash a) \<in> set (cc_commits c)}"
  by (force simp: to_request_def config_iter_hash_def image_iff split: TranscriptCommitmentKind.splits)

section \<open>Properties\<close>



end
