(* ===== verification/Transcript_Proof.thy ===== *)
theory Transcript_Proof
  imports Commit
begin

text \<open>
  Transcript proofs, after \<open>crates/core/src/transcript/proof.rs\<close>: the proof, its verification against
  commitments, and the builder that selects the commitment openings for the ranges to reveal.

  The outer \<open>option\<close> of an operation is \<open>None\<close> where the code panics (an out-of-bounds slice).  The
  text of an error message is kept as a constructor with the values it prints.  The set cover of
  the \<open>rangeset\<close> crate is the argument \<open>cover_by\<close>, with the laws of \<open>rangeset_cover\<close>.
\<close>

section \<open>Data\<close>

record 'r TranscriptProof =
  tp_transcript :: "'r PartialTranscript"
  tp_hash_secrets :: "'r PlaintextHashSecret list"

datatype TranscriptProofError =
    ProofIncorrectLength
  | HashUnknownAlgorithm HashAlgId
  | HashIndexOutOfBounds
  | HashNoMatchingCommitment
  | ProofUnauthenticatedData

record 'r QueryIdx =
  q_sent :: 'r
  q_recv :: 'r

datatype 'r TranscriptProofBuilderError =
    BuilderIndex Direction nat nat
  | MissingCommitment Direction 'r
  | Cover "'r QueryIdx" "TranscriptCommitmentKind list"

record 'r TranscriptProofBuilder =
  pb_commitment_kinds :: "TranscriptCommitmentKind list"
  pb_transcript :: Transcript
  pb_hash_secrets :: "'r PlaintextHashSecret list"
  pb_committed_sent :: 'r
  pb_committed_recv :: 'r
  pb_query_idx :: "'r QueryIdx"

definition DEFAULT_COMMITMENT_KINDS :: "TranscriptCommitmentKind list" where
  "DEFAULT_COMMITMENT_KINDS =
     [KindHash HashAlgId_SHA256, KindHash HashAlgId_BLAKE3, KindHash HashAlgId_KECCAK256]"

section \<open>Verification\<close>

text \<open>The loop that appends \<open>plaintext[range]\<close> to the buffer for every range of the index.\<close>

fun extend_ranges :: "range list \<Rightarrow> bytes \<Rightarrow> bytes \<Rightarrow> bytes option" where
  "extend_ranges [] plaintext buffer = Some buffer"
| "extend_ranges ((s, e) # rs) plaintext buffer =
     do { b \<leftarrow> slice plaintext s e; extend_ranges rs plaintext (buffer @ b) }"

text \<open>The set of plaintext hashes indexed from the commitments.\<close>

fun index_commitments :: "'r TranscriptCommitment list \<Rightarrow> 'r PlaintextHash set" where
  "index_commitments [] = {}"
| "index_commitments (CommitmentHash h # cs) = insert h (index_commitments cs)"

fun pt_direction :: "'r PartialTranscript \<Rightarrow> Direction \<Rightarrow> bytes" where
  "pt_direction p Sent = pt_sent p"
| "pt_direction p Received = pt_received p"

text \<open>The loop over the openings; the state is the pair of index sets authenticated so far.\<close>

fun verify_secrets ::
  "'r rangeset_ops \<Rightarrow> HashProvider \<Rightarrow> 'r PlaintextHash set \<Rightarrow> 'r PartialTranscript
    \<Rightarrow> 'r PlaintextHashSecret list \<Rightarrow> 'r \<times> 'r \<Rightarrow> (TranscriptProofError + 'r \<times> 'r) option" where
  "verify_secrets R provider commitments p [] auth = Some (Inr auth)"
| "verify_secrets R provider commitments p (s # ss) (auth_sent, auth_recv) =
     (case HashProvider_get provider (phs_alg s) of
        Inl _ \<Rightarrow> Some (Inl (HashUnknownAlgorithm (phs_alg s)))
      | Inr hasher \<Rightarrow>
          (let plaintext = pt_direction p (phs_direction s) in
           if rs_end0 R (phs_idx s) > length plaintext then Some (Inl HashIndexOutOfBounds)
           else do {
             buffer \<leftarrow> extend_ranges (rs_iter R (phs_idx s)) plaintext [];
             let expected = \<lparr>ph_direction = phs_direction s, ph_idx = phs_idx s,
               ph_hash = hash_plaintext hasher buffer (phs_blinder s)\<rparr>;
             if expected \<notin> commitments then Some (Inl HashNoMatchingCommitment)
             else verify_secrets R provider commitments p ss
               (case phs_direction s of
                  Sent \<Rightarrow> (rs_union R auth_sent (phs_idx s), auth_recv)
                | Received \<Rightarrow> (auth_sent, rs_union R auth_recv (phs_idx s)))
           }))"

definition verify_with_provider ::
  "'r rangeset_ops \<Rightarrow> 'r TranscriptProof \<Rightarrow> HashProvider \<Rightarrow> TranscriptLength
    \<Rightarrow> 'r TranscriptCommitment list \<Rightarrow> (TranscriptProofError + 'r PartialTranscript) option" where
  "verify_with_provider R self provider len commitments =
     (let hash_commitments = index_commitments commitments; p = tp_transcript self in
      if length (pt_sent p) \<noteq> unat (tl_sent len) \<or> length (pt_received p) \<noteq> unat (tl_received len)
      then Some (Inl ProofIncorrectLength)
      else do {
        r \<leftarrow> verify_secrets R provider hash_commitments p (tp_hash_secrets self)
               (rs_default R, rs_default R);
        Some (res_bind r (\<lambda>(total_auth_sent, total_auth_recv).
          if total_auth_sent \<noteq> pt_sent_authed_idx p \<or> total_auth_recv \<noteq> pt_received_authed_idx p
          then Inl ProofUnauthenticatedData
          else Inr p))
      })"

section \<open>Query index\<close>

definition QueryIdx_new :: "'r rangeset_ops \<Rightarrow> 'r QueryIdx" where
  "QueryIdx_new R = \<lparr>q_sent = rs_default R, q_recv = rs_default R\<rparr>"

definition QueryIdx_is_empty :: "'r rangeset_ops \<Rightarrow> 'r QueryIdx \<Rightarrow> bool" where
  "QueryIdx_is_empty R q = (rs_is_empty R (q_sent q) \<and> rs_is_empty R (q_recv q))"

fun QueryIdx_union :: "'r rangeset_ops \<Rightarrow> 'r QueryIdx \<Rightarrow> Direction \<Rightarrow> 'r \<Rightarrow> 'r QueryIdx" where
  "QueryIdx_union R q Sent other = q\<lparr>q_sent := rs_union R (q_sent q) other\<rparr>"
| "QueryIdx_union R q Received other = q\<lparr>q_recv := rs_union R (q_recv q) other\<rparr>"

section \<open>Builder\<close>

text \<open>The loop of \<open>new\<close> over the secrets.\<close>

fun index_secrets ::
  "'r rangeset_ops \<Rightarrow> 'r TranscriptSecret list \<Rightarrow> 'r \<Rightarrow> 'r \<Rightarrow> 'r PlaintextHashSecret list
    \<Rightarrow> 'r \<times> 'r \<times> 'r PlaintextHashSecret list" where
  "index_secrets R [] committed_sent committed_recv hash_secrets =
     (committed_sent, committed_recv, hash_secrets)"
| "index_secrets R (SecretHash h # ss) committed_sent committed_recv hash_secrets =
     (case phs_direction h of
        Sent \<Rightarrow> index_secrets R ss (rs_union R committed_sent (phs_idx h)) committed_recv
                  (hash_secrets @ [h])
      | Received \<Rightarrow> index_secrets R ss committed_sent (rs_union R committed_recv (phs_idx h))
                      (hash_secrets @ [h]))"

definition proof_builder_new ::
  "'r rangeset_ops \<Rightarrow> Transcript \<Rightarrow> 'r TranscriptSecret list \<Rightarrow> 'r TranscriptProofBuilder" where
  "proof_builder_new R t secrets =
     (case index_secrets R secrets (rs_default R) (rs_default R) [] of
        (committed_sent, committed_recv, hash_secrets) \<Rightarrow>
          \<lparr>pb_commitment_kinds = DEFAULT_COMMITMENT_KINDS, pb_transcript = t,
           pb_hash_secrets = hash_secrets, pb_committed_sent = committed_sent,
           pb_committed_recv = committed_recv, pb_query_idx = QueryIdx_new R\<rparr>)"

text \<open>\<open>kinds.iter().filter(|kind| seen.insert(kind))\<close>\<close>

fun filter_seen :: "'a list \<Rightarrow> 'a set \<Rightarrow> 'a list" where
  "filter_seen [] seen = []"
| "filter_seen (k # ks) seen =
     (if k \<in> seen then filter_seen ks seen else k # filter_seen ks (insert k seen))"

definition commitment_kinds ::
  "'r TranscriptProofBuilder \<Rightarrow> TranscriptCommitmentKind list \<Rightarrow> 'r TranscriptProofBuilder" where
  "commitment_kinds b kinds =
     (if kinds \<noteq> [] then b\<lparr>pb_commitment_kinds := filter_seen kinds {}\<rparr> else b)"

definition reveal_inner ::
  "'r rangeset_ops \<Rightarrow> 'r TranscriptProofBuilder \<Rightarrow> 'r \<Rightarrow> Direction
    \<Rightarrow> 'r TranscriptProofBuilderError + 'r TranscriptProofBuilder" where
  "reveal_inner R b idx direction =
     (if rs_end0 R idx > len_of_direction (pb_transcript b) direction
      then Inl (BuilderIndex direction (rs_end0 R idx) (len_of_direction (pb_transcript b) direction))
      else
        (let committed = (case direction of
             Sent \<Rightarrow> pb_committed_sent b | Received \<Rightarrow> pb_committed_recv b) in
         if rs_is_subset R idx committed
         then Inr (b\<lparr>pb_query_idx := QueryIdx_union R (pb_query_idx b) direction idx\<rparr>)
         else Inl (MissingCommitment direction (rs_difference R idx committed))))"

definition reveal ::
  "'r rangeset_ops \<Rightarrow> 'r TranscriptProofBuilder \<Rightarrow> range list \<Rightarrow> Direction
    \<Rightarrow> 'r TranscriptProofBuilderError + 'r TranscriptProofBuilder" where
  "reveal R b ranges direction = reveal_inner R b (rs_from_range_iter R ranges) direction"

definition reveal_sent ::
  "'r rangeset_ops \<Rightarrow> 'r TranscriptProofBuilder \<Rightarrow> range list
    \<Rightarrow> 'r TranscriptProofBuilderError + 'r TranscriptProofBuilder" where
  "reveal_sent R b ranges = reveal_inner R b (rs_from_range_iter R ranges) Sent"

definition reveal_recv ::
  "'r rangeset_ops \<Rightarrow> 'r TranscriptProofBuilder \<Rightarrow> range list
    \<Rightarrow> 'r TranscriptProofBuilderError + 'r TranscriptProofBuilder" where
  "reveal_recv R b ranges = reveal_inner R b (rs_from_range_iter R ranges) Received"

type_synonym 'r secret_cover =
  "'r \<Rightarrow> 'r PlaintextHashSecret list \<Rightarrow> ('r PlaintextHashSecret \<Rightarrow> 'r)
    \<Rightarrow> 'r PlaintextHashSecret list \<times> 'r"

text \<open>The \<open>while\<close> loop over the commitment kinds in the order of preference.\<close>

fun cover_loop ::
  "'r rangeset_ops \<Rightarrow> 'r secret_cover \<Rightarrow> 'r PlaintextHashSecret list \<Rightarrow> TranscriptCommitmentKind list
    \<Rightarrow> 'r QueryIdx \<Rightarrow> 'r PlaintextHashSecret list \<Rightarrow> 'r QueryIdx \<times> 'r PlaintextHashSecret list" where
  "cover_loop R cover_by secrets [] uncovered acc = (uncovered, acc)"
| "cover_loop R cover_by secrets (KindHash alg # kinds) uncovered acc =
     (if QueryIdx_is_empty R uncovered then (uncovered, acc)
      else
        (let (sent_hashes, sent_uncovered) = cover_by (q_sent uncovered)
               (filter (\<lambda>h. phs_direction h = Sent \<and> phs_alg h = alg) secrets) phs_idx;
             (recv_hashes, recv_uncovered) = cover_by (q_recv uncovered)
               (filter (\<lambda>h. phs_direction h = Received \<and> phs_alg h = alg) secrets) phs_idx
         in cover_loop R cover_by secrets kinds
              \<lparr>q_sent = sent_uncovered, q_recv = recv_uncovered\<rparr>
              (acc @ sent_hashes @ recv_hashes)))"

definition build_proof ::
  "'r rangeset_ops \<Rightarrow> 'r secret_cover \<Rightarrow> 'r TranscriptProofBuilder
    \<Rightarrow> ('r TranscriptProofBuilderError + 'r TranscriptProof) option" where
  "build_proof R cover_by b =
     do {
       p \<leftarrow> to_partial R (pb_transcript b) (q_sent (pb_query_idx b)) (q_recv (pb_query_idx b));
       let (uncovered, secrets) = cover_loop R cover_by (pb_hash_secrets b) (pb_commitment_kinds b)
             (pb_query_idx b) [];
       Some (if \<not> QueryIdx_is_empty R uncovered
             then Inl (Cover uncovered (pb_commitment_kinds b))
             else Inr \<lparr>tp_transcript = p, tp_hash_secrets = secrets\<rparr>)
     }"

section \<open>Specification\<close>

text \<open>The bytes at an index, and the union of the indices of the secrets of one direction.\<close>

definition bytes_at :: "'r rangeset_ops \<Rightarrow> bytes \<Rightarrow> 'r \<Rightarrow> bytes" where
  "bytes_at R d idx = map ((!) d) (rs_vals R idx)"

definition secrets_idx :: "'r rangeset_ops \<Rightarrow> 'r PlaintextHashSecret list \<Rightarrow> Direction \<Rightarrow> nat set" where
  "secrets_idx R ss d = (\<Union>s \<in> {s \<in> set ss. phs_direction s = d}. rs_set R (phs_idx s))"

text \<open>The commitment a secret opens over some data.\<close>

definition commitment_of ::
  "'r rangeset_ops \<Rightarrow> HashAlgorithm \<Rightarrow> bytes \<Rightarrow> 'r PlaintextHashSecret \<Rightarrow> 'r PlaintextHash" where
  "commitment_of R hasher d s = \<lparr>ph_direction = phs_direction s, ph_idx = phs_idx s,
     ph_hash = hash_plaintext hasher (bytes_at R d (phs_idx s)) (phs_blinder s)\<rparr>"

definition opening_ok ::
  "'r rangeset_ops \<Rightarrow> HashProvider \<Rightarrow> 'r TranscriptCommitment list \<Rightarrow> 'r PartialTranscript
    \<Rightarrow> 'r PlaintextHashSecret \<Rightarrow> bool" where
  "opening_ok R provider cs p s \<longleftrightarrow>
     rs_end0 R (phs_idx s) \<le> length (pt_direction p (phs_direction s)) \<and>
     (\<exists>hasher. provider (phs_alg s) = Some hasher \<and>
       CommitmentHash (commitment_of R hasher (pt_direction p (phs_direction s)) s) \<in> set cs)"

text \<open>
  The query indices left uncovered by the secrets, kind by kind: a secret counts when its index
  lies inside what the kinds before it left uncovered.
\<close>

fun uncovered_spec ::
  "'r rangeset_ops \<Rightarrow> 'r PlaintextHashSecret list \<Rightarrow> Direction \<Rightarrow> TranscriptCommitmentKind list
    \<Rightarrow> nat set \<Rightarrow> nat set" where
  "uncovered_spec R ss d [] U = U"
| "uncovered_spec R ss d (KindHash alg # kinds) U =
     uncovered_spec R ss d kinds
       (U - (\<Union>s \<in> {s \<in> set ss. phs_direction s = d \<and> phs_alg s = alg \<and> rs_set R (phs_idx s) \<subseteq> U}.
               rs_set R (phs_idx s)))"

text \<open>The states a proof builder reaches by successful calls from \<open>new\<close>.\<close>

inductive proof_builder_reach ::
  "'r rangeset_ops \<Rightarrow> Transcript \<Rightarrow> 'r TranscriptSecret list \<Rightarrow> 'r TranscriptProofBuilder \<Rightarrow> bool"
  for R t secrets where
  pb_new: "proof_builder_reach R t secrets (proof_builder_new R t secrets)"
| pb_kinds: "proof_builder_reach R t secrets b \<Longrightarrow>
    proof_builder_reach R t secrets (commitment_kinds b kinds)"
| pb_reveal: "proof_builder_reach R t secrets b \<Longrightarrow> reveal R b ranges d = Inr b' \<Longrightarrow>
    proof_builder_reach R t secrets b'"
| pb_reveal_sent: "proof_builder_reach R t secrets b \<Longrightarrow> reveal_sent R b ranges = Inr b' \<Longrightarrow>
    proof_builder_reach R t secrets b'"
| pb_reveal_recv: "proof_builder_reach R t secrets b \<Longrightarrow> reveal_recv R b ranges = Inr b' \<Longrightarrow>
    proof_builder_reach R t secrets b'"

definition hash_secret :: "'r TranscriptSecret \<Rightarrow> 'r PlaintextHashSecret" where
  "hash_secret s = (case s of SecretHash h \<Rightarrow> h)"

fun q_direction :: "'r QueryIdx \<Rightarrow> Direction \<Rightarrow> 'r" where
  "q_direction q Sent = q_sent q"
| "q_direction q Received = q_recv q"

fun pb_committed :: "'r TranscriptProofBuilder \<Rightarrow> Direction \<Rightarrow> 'r" where
  "pb_committed b Sent = pb_committed_sent b"
| "pb_committed b Received = pb_committed_recv b"

definition proof_builder_ok ::
  "'r rangeset_ops \<Rightarrow> Transcript \<Rightarrow> 'r TranscriptSecret list \<Rightarrow> 'r TranscriptProofBuilder \<Rightarrow> bool" where
  "proof_builder_ok R t secrets b \<longleftrightarrow>
     pb_transcript b = t \<and> pb_hash_secrets b = map hash_secret secrets \<and>
     (\<forall>d. rs_set R (pb_committed b d) = secrets_idx R (map hash_secret secrets) d \<and>
          rs_set R (q_direction (pb_query_idx b) d) \<subseteq> rs_set R (pb_committed b d) \<and>
          rs_end0 R (q_direction (pb_query_idx b) d) \<le> len_of_direction t d)"

text \<open>
  The commitments were made from a transcript \<open>t\<close> with the secrets \<open>ss\<close>, and the opened and the
  committed messages do not collide under the hash algorithm they share.
\<close>

definition committed_from ::
  "'r rangeset_ops \<Rightarrow> HashProvider \<Rightarrow> Transcript \<Rightarrow> 'r PlaintextHashSecret list
    \<Rightarrow> 'r TranscriptCommitment list \<Rightarrow> bool" where
  "committed_from R provider t ss cs \<longleftrightarrow>
     (\<forall>c. CommitmentHash c \<in> set cs \<longrightarrow>
       (\<exists>s \<in> set ss. \<exists>hasher. provider (phs_alg s) = Some hasher \<and>
          c = commitment_of R hasher (direction_data t (phs_direction s)) s))"

definition no_collision ::
  "'r rangeset_ops \<Rightarrow> HashProvider \<Rightarrow> Transcript \<Rightarrow> 'r PlaintextHashSecret list
    \<Rightarrow> 'r PartialTranscript \<Rightarrow> 'r PlaintextHashSecret list \<Rightarrow> bool" where
  "no_collision R provider t ss p openings \<longleftrightarrow>
     (\<forall>s \<in> set ss. \<forall>s' \<in> set openings. \<forall>hasher.
       provider (phs_alg s) = Some hasher \<longrightarrow>
       (let m = bytes_at R (direction_data t (phs_direction s)) (phs_idx s);
            m' = bytes_at R (pt_direction p (phs_direction s')) (phs_idx s') in
        ha_hash_prefixed hasher m (Blinder_as_bytes (phs_blinder s)) =
          ha_hash_prefixed hasher m' (Blinder_as_bytes (phs_blinder s')) \<longrightarrow>
        m @ Blinder_as_bytes (phs_blinder s) = m' @ Blinder_as_bytes (phs_blinder s')))"

text \<open>The algorithm registered for an identifier reports that identifier.\<close>

definition provider_ok :: "HashProvider \<Rightarrow> bool" where
  "provider_ok provider \<longleftrightarrow> (\<forall>alg hasher. provider alg = Some hasher \<longrightarrow> ha_id hasher = alg)"

lemma HashProvider_default_ok: "provider_ok (HashProvider_default sha2 blake3 keccak)"
  by (auto simp: provider_ok_def HashProvider_default_def Sha256_def Blake3_def Keccak256_def
      digest_algorithm_def split: if_splits)

section \<open>Lemmas on verification\<close>

lemma all_Direction: "(\<forall>d. P d) \<longleftrightarrow> P Sent \<and> P Received"
  by (metis Direction.exhaust)

lemma index_commitments_iff: "h \<in> index_commitments cs \<longleftrightarrow> CommitmentHash h \<in> set cs"
  by (induction cs rule: index_commitments.induct) auto

lemma extend_ranges_eq:
  assumes "canonical rs" and "\<forall>i \<in> set (ranges_vals rs). i < length d"
  shows "extend_ranges rs d buf = Some (buf @ map ((!) d) (ranges_vals rs))"
  using assms
proof (induction rs arbitrary: buf)
  case (Cons r rs)
  obtain s e where r: "r = (s, e)" by (cases r)
  have se: "s < e" "canonical rs" using Cons.prems(1) by (auto simp: r canonical_Cons)
  then have "e - 1 \<in> set (ranges_vals (r # rs))" by (auto simp: r)
  with Cons.prems(2) se have "e \<le> length d" by fastforce
  with se Cons.IH [OF se(2), of "buf @ map ((!) d) [s..<e]"] Cons.prems(2) show ?case
    by (simp add: r slice_eq_map_nth)
qed simp

lemma secrets_idx_Nil [simp]: "secrets_idx R [] d = {}"
  by (simp add: secrets_idx_def)

lemma secrets_idx_Cons [simp]:
  "secrets_idx R (s # ss) d =
     (if phs_direction s = d then rs_set R (phs_idx s) \<union> secrets_idx R ss d else secrets_idx R ss d)"
  by (auto simp: secrets_idx_def)

lemma secrets_idx_append [simp]:
  "secrets_idx R (ss @ ss') d = secrets_idx R ss d \<union> secrets_idx R ss' d"
  by (induction ss) auto

lemma HashProvider_get_iff:
  "HashProvider_get p alg = (case p alg of None \<Rightarrow> Inl (UnknownHashAlgId alg) | Some h \<Rightarrow> Inr h)"
  by (simp add: HashProvider_get_def split: option.split)

context rangeset
begin

lemma extend_iter:
  "rs_end0 R a \<le> length d \<Longrightarrow> extend_ranges (rs_iter R a) d [] = Some (bytes_at R d a)"
  using extend_ranges_eq [OF iter_canonical iter_bounded] by (simp add: bytes_at_def rs_vals_def)

lemma verify_secrets_step:
  "verify_secrets R provider (index_commitments cs) p (s # ss) auth =
     (if opening_ok R provider cs p s
      then verify_secrets R provider (index_commitments cs) p ss
        (case phs_direction s of
           Sent \<Rightarrow> (rs_union R (fst auth) (phs_idx s), snd auth)
         | Received \<Rightarrow> (fst auth, rs_union R (snd auth) (phs_idx s)))
      else Some (Inl
        (if provider (phs_alg s) = None then HashUnknownAlgorithm (phs_alg s)
         else if length (pt_direction p (phs_direction s)) < rs_end0 R (phs_idx s)
         then HashIndexOutOfBounds else HashNoMatchingCommitment)))"
  by (cases auth; cases "phs_direction s")
    (auto simp: HashProvider_get_iff opening_ok_def Let_def extend_iter
      index_commitments_iff commitment_of_def split: option.split)

lemma verify_secrets_cases:
  "if list_all (opening_ok R provider cs p) ss
   then \<exists>as ar. verify_secrets R provider (index_commitments cs) p ss auth = Some (Inr (as, ar)) \<and>
     rs_set R as = rs_set R (fst auth) \<union> secrets_idx R ss Sent \<and>
     rs_set R ar = rs_set R (snd auth) \<union> secrets_idx R ss Received
   else \<exists>e. verify_secrets R provider (index_commitments cs) p ss auth = Some (Inl e)"
proof (induction ss arbitrary: auth)
  case Nil
  then show ?case by (cases auth) simp
next
  case (Cons s ss)
  let ?auth = "case phs_direction s of
      Sent \<Rightarrow> (rs_union R (fst auth) (phs_idx s), snd auth)
    | Received \<Rightarrow> (fst auth, rs_union R (snd auth) (phs_idx s))"
  from Cons.IH [of ?auth] show ?case
    by (cases "phs_direction s") (auto simp: verify_secrets_step set_union Un_assoc
        simp del: verify_secrets.simps)
qed

lemma verify_not_None: "verify_with_provider R pr provider len cs \<noteq> None"
  using verify_secrets_cases [of provider cs "tp_transcript pr" "tp_hash_secrets pr"
      "(rs_default R, rs_default R)"]
  by (auto simp: verify_with_provider_def Let_def split: if_splits)

lemma verify_iff:
  "verify_with_provider R pr provider len cs = Some (Inr q) \<longleftrightarrow>
     q = tp_transcript pr \<and> length (pt_sent q) = unat (tl_sent len) \<and>
     length (pt_received q) = unat (tl_received len) \<and>
     list_all (opening_ok R provider cs q) (tp_hash_secrets pr) \<and>
     rs_set R (pt_sent_authed_idx q) = secrets_idx R (tp_hash_secrets pr) Sent \<and>
     rs_set R (pt_received_authed_idx q) = secrets_idx R (tp_hash_secrets pr) Received"
proof (cases "list_all (opening_ok R provider cs (tp_transcript pr)) (tp_hash_secrets pr)")
  case True
  then obtain as ar where a: "verify_secrets R provider (index_commitments cs) (tp_transcript pr)
      (tp_hash_secrets pr) (rs_default R, rs_default R) = Some (Inr (as, ar))"
    "rs_set R as = secrets_idx R (tp_hash_secrets pr) Sent"
    "rs_set R ar = secrets_idx R (tp_hash_secrets pr) Received"
    using verify_secrets_cases [of provider cs "tp_transcript pr" "tp_hash_secrets pr"
        "(rs_default R, rs_default R)"] by auto
  have "as = x \<longleftrightarrow> rs_set R x = secrets_idx R (tp_hash_secrets pr) Sent"
    "ar = x \<longleftrightarrow> rs_set R x = secrets_idx R (tp_hash_secrets pr) Received" for x
    using a(2,3) set_ext by metis+
  with a(1) True show ?thesis by (auto simp: verify_with_provider_def Let_def)
next
  case False
  then obtain e where "verify_secrets R provider (index_commitments cs) (tp_transcript pr)
      (tp_hash_secrets pr) (rs_default R, rs_default R) = Some (Inl e)"
    using verify_secrets_cases [of provider cs "tp_transcript pr" "tp_hash_secrets pr"
        "(rs_default R, rs_default R)"] by auto
  with False show ?thesis by (auto simp: verify_with_provider_def Let_def)
qed

lemma index_secrets_eq:
  "index_secrets R ss a b acc = (a', b', acc') \<Longrightarrow>
     acc' = acc @ map hash_secret ss \<and>
     rs_set R a' = rs_set R a \<union> secrets_idx R (map hash_secret ss) Sent \<and>
     rs_set R b' = rs_set R b \<union> secrets_idx R (map hash_secret ss) Received"
proof (induction ss arbitrary: a b acc)
  case (Cons s ss)
  obtain h where s: "s = SecretHash h" by (cases s)
  show ?case
  proof (cases "phs_direction h")
    case Sent
    with Cons.prems Cons.IH [of "rs_union R a (phs_idx h)" b "acc @ [h]"] show ?thesis
      by (auto simp: s hash_secret_def set_union)
  next
    case Received
    with Cons.prems Cons.IH [of a "rs_union R b (phs_idx h)" "acc @ [h]"] show ?thesis
      by (auto simp: s hash_secret_def set_union)
  qed
qed simp

lemma proof_builder_new_ok: "proof_builder_ok R t ss (proof_builder_new R t ss)"
proof -
  obtain a b acc where i: "index_secrets R ss (rs_default R) (rs_default R) [] = (a, b, acc)"
    by (metis prod_cases3)
  have "rs_end0 R (rs_default R) \<le> n" for n by (simp add: end0_le_iff)
  with index_secrets_eq [OF i] i show ?thesis
    by (auto simp: proof_builder_new_def proof_builder_ok_def QueryIdx_new_def all_Direction)
qed

lemma reveal_inner_eq:
  "proof_builder_ok R t ss b \<Longrightarrow> reveal_inner R b idx d =
     (if len_of_direction t d < rs_end0 R idx
      then Inl (BuilderIndex d (rs_end0 R idx) (len_of_direction t d))
      else if rs_set R idx \<subseteq> secrets_idx R (map hash_secret ss) d
      then Inr (b\<lparr>pb_query_idx := QueryIdx_union R (pb_query_idx b) d idx\<rparr>)
      else Inl (MissingCommitment d (rs_difference R idx (pb_committed b d))))"
  by (cases d) (auto simp: reveal_inner_def proof_builder_ok_def is_subset_eq all_Direction)

lemma reveal_inner_ok:
  assumes "proof_builder_ok R t ss b" and "reveal_inner R b idx d = Inr b'"
  shows "proof_builder_ok R t ss b'"
  using assms(2) unfolding reveal_inner_eq [OF assms(1)] using assms(1)
  by (cases d) (auto simp: proof_builder_ok_def all_Direction set_union end0_union_le split: if_splits)

lemma proof_builder_reach_ok: "proof_builder_reach R t ss b \<Longrightarrow> proof_builder_ok R t ss b"
proof (induction rule: proof_builder_reach.induct)
  case pb_new
  then show ?case by (rule proof_builder_new_ok)
next
  case (pb_kinds b kinds)
  have "pb_committed (commitment_kinds b kinds) d = pb_committed b d" for d
    by (cases d) (simp_all add: commitment_kinds_def)
  moreover have "pb_query_idx (commitment_kinds b kinds) = pb_query_idx b"
    "pb_transcript (commitment_kinds b kinds) = pb_transcript b"
    "pb_hash_secrets (commitment_kinds b kinds) = pb_hash_secrets b"
    by (simp_all add: commitment_kinds_def)
  ultimately show ?case using pb_kinds.IH unfolding proof_builder_ok_def by auto
qed (auto simp: reveal_def reveal_sent_def reveal_recv_def intro: reveal_inner_ok)

lemma end0_attained:
  assumes "0 < rs_end0 R a"
  shows "\<exists>i \<in> rs_set R a. rs_end0 R a = Suc i"
proof -
  have "\<not> rs_end0 R a \<le> rs_end0 R a - 1" using assms by simp
  then obtain i where "i \<in> rs_set R a" "rs_end0 R a - 1 \<le> i"
    unfolding end0_le_iff [of a "rs_end0 R a - 1"] by (auto simp: not_less)
  moreover have "\<forall>i \<in> rs_set R a. i < rs_end0 R a" by (simp flip: end0_le_iff)
  ultimately show ?thesis by (intro bexI [of _ i]) (auto simp: Suc_le_eq)
qed

lemma view_of_erase:
  assumes "pt_wf R q"
    and "length (pt_sent q) = length (t_sent t)" "length (pt_received q) = length (t_received t)"
    and "\<forall>i \<in> rs_set R (pt_sent_authed_idx q). pt_sent q ! i = t_sent t ! i"
    and "\<forall>i \<in> rs_set R (pt_received_authed_idx q). pt_received q ! i = t_received t ! i"
  shows "to_partial R t (pt_sent_authed_idx q) (pt_received_authed_idx q) = Some (pt_erase R q)"
proof -
  have "overlay A xs (replicate n 0) = overlay A ys (replicate n 0)" if "\<forall>i \<in> A. xs ! i = ys ! i"
    for A xs ys n using that by (intro nth_equalityI) (auto simp: nth_overlay)
  from this [OF assms(4)] this [OF assms(5)] show ?thesis
    using assms(1-3) by (cases q) (simp add: to_partial_eq pt_erase_def pt_wf_def)
qed

lemma view_opening:
  assumes "to_partial R t si ri = Some p"
    and "rs_set R (phs_idx s) \<subseteq> rs_set R (case phs_direction s of Sent \<Rightarrow> si | Received \<Rightarrow> ri)"
    and "\<exists>hasher. provider (phs_alg s) = Some hasher \<and>
      CommitmentHash (commitment_of R hasher (direction_data t (phs_direction s)) s) \<in> set cs"
  shows "opening_ok R provider cs p s"
proof -
  have "bytes_at R (overlay A xs (replicate (length xs) 0)) idx = bytes_at R xs idx"
    if "rs_set R idx \<subseteq> A" "rs_end0 R idx \<le> length xs" for A xs idx
    using that vals_less [OF that(2)] by (auto simp: bytes_at_def nth_overlay rs_set_def)
  moreover have "rs_end0 R (phs_idx s) \<le> length (direction_data t (phs_direction s))"
    using assms(1) end0_mono [OF assms(2)]
    by (cases "phs_direction s") (auto simp: to_partial_eq split: if_splits)
  ultimately show ?thesis
    using assms by (cases "phs_direction s")
      (auto simp: to_partial_eq opening_ok_def commitment_of_def split: if_splits)
qed

lemma opening_binds:
  assumes "opening_ok R provider cs p s'" and "provider_ok provider"
    and "committed_from R provider t ss cs" and "no_collision R provider t ss p openings"
    and "s' \<in> set openings"
  shows "\<forall>i \<in> rs_set R (phs_idx s').
    pt_direction p (phs_direction s') ! i = direction_data t (phs_direction s') ! i"
proof -
  from assms(1,3) obtain h' s h where *: "provider (phs_alg s') = Some h'" "s \<in> set ss"
    "provider (phs_alg s) = Some h"
    "commitment_of R h' (pt_direction p (phs_direction s')) s' =
       commitment_of R h (direction_data t (phs_direction s)) s"
    unfolding opening_ok_def committed_from_def by blast
  then have eq: "phs_direction s = phs_direction s'" "phs_idx s = phs_idx s'" "ha_id h = ha_id h'"
    by (simp_all add: commitment_of_def hash_plaintext_def)
  with *(1,3) assms(2) have h: "h = h'" by (metis option.inject provider_ok_def)
  let ?m = "bytes_at R (direction_data t (phs_direction s)) (phs_idx s)"
  let ?m' = "bytes_at R (pt_direction p (phs_direction s')) (phs_idx s')"
  have "ha_hash_prefixed h ?m (Blinder_as_bytes (phs_blinder s)) =
      ha_hash_prefixed h ?m' (Blinder_as_bytes (phs_blinder s'))"
    using *(4) by (simp add: commitment_of_def hash_plaintext_def h eq)
  with assms(4,5) *(2,3)
  have "?m @ Blinder_as_bytes (phs_blinder s) = ?m' @ Blinder_as_bytes (phs_blinder s')"
    unfolding no_collision_def Let_def by blast
  then have "?m = ?m'" by (simp add: bytes_at_def eq)
  then show ?thesis by (simp add: bytes_at_def eq rs_set_def)
qed

end

section \<open>Lemmas on building\<close>

text \<open>The cover laws at the type the builder uses them.\<close>

locale proof_cover = rangeset_cover R cover_by
  for R :: "'r rangeset_ops" and cover_by :: "'r secret_cover"
begin

lemma cover_dir:
  assumes "cover_by q (filter (\<lambda>h. phs_direction h = d \<and> phs_alg h = alg) ss) phs_idx = (cs, u)"
  shows "set cs \<subseteq> set ss" and "\<forall>c \<in> set cs. phs_direction c = d"
    and "rs_set R q = rs_set R u \<union> secrets_idx R cs d"
    and "rs_set R u = rs_set R q -
      (\<Union>s \<in> {s \<in> set ss. phs_direction s = d \<and> phs_alg s = alg \<and> rs_set R (phs_idx s) \<subseteq> rs_set R q}.
         rs_set R (phs_idx s))"
proof -
  have *: "c \<in> set ss \<and> phs_direction c = d" if "c \<in> set cs" for c
    using cover_items [OF assms that] by simp
  then show "set cs \<subseteq> set ss" "\<forall>c \<in> set cs. phs_direction c = d" by auto
  have "secrets_idx R cs d = (\<Union>c \<in> set cs. rs_set R (phs_idx c))"
    using * by (auto simp: secrets_idx_def)
  with cover_split [OF assms] show "rs_set R q = rs_set R u \<union> secrets_idx R cs d" by simp
  show "rs_set R u = rs_set R q -
      (\<Union>s \<in> {s \<in> set ss. phs_direction s = d \<and> phs_alg s = alg \<and> rs_set R (phs_idx s) \<subseteq> rs_set R q}.
         rs_set R (phs_idx s))"
    unfolding cover_uncovered [OF assms] by auto
qed

lemma secrets_idx_other:
  "\<forall>c \<in> set cs. phs_direction c = d \<Longrightarrow> d \<noteq> d' \<Longrightarrow> secrets_idx R cs d' = {}"
  by (auto simp: secrets_idx_def)

lemma uncovered_spec_empty [simp]: "uncovered_spec R ss d kinds {} = {}"
proof (induction kinds)
  case (Cons k kinds)
  then show ?case by (cases k) simp
qed simp

lemma cover_loop_spec:
  assumes "cover_loop R cover_by ss kinds q acc = (q', acc')"
  shows "set acc' \<subseteq> set acc \<union> set ss \<and>
    (\<forall>d. rs_set R (q_direction q' d) = uncovered_spec R ss d kinds (rs_set R (q_direction q d)) \<and>
         rs_set R (q_direction q d) \<union> secrets_idx R acc d =
           rs_set R (q_direction q' d) \<union> secrets_idx R acc' d)"
  using assms
proof (induction kinds arbitrary: q acc)
  case Nil
  then show ?case by simp
next
  case (Cons k kinds)
  obtain alg where k: "k = KindHash alg" by (cases k)
  show ?case
  proof (cases "QueryIdx_is_empty R q")
    case True
    then have "rs_set R (q_direction q d) = {}" for d
      by (cases d) (simp_all add: QueryIdx_is_empty_def is_empty_set)
    with True Cons.prems show ?thesis by (simp add: k)
  next
    case False
    obtain sh su where s: "cover_by (q_sent q)
        (filter (\<lambda>h. phs_direction h = Sent \<and> phs_alg h = alg) ss) phs_idx = (sh, su)"
      by (metis surj_pair)
    obtain rh ru where r: "cover_by (q_recv q)
        (filter (\<lambda>h. phs_direction h = Received \<and> phs_alg h = alg) ss) phs_idx = (rh, ru)"
      by (metis surj_pair)
    note c = cover_dir [OF s] cover_dir [OF r]
    have "cover_loop R cover_by ss kinds \<lparr>q_sent = su, q_recv = ru\<rparr> (acc @ sh @ rh) = (q', acc')"
      using Cons.prems False s r by (simp add: k)
    note IH = Cons.IH [OF this, unfolded all_Direction]
    have "uncovered_spec R ss Sent (k # kinds) (rs_set R (q_sent q)) =
        uncovered_spec R ss Sent kinds (rs_set R su)"
      "uncovered_spec R ss Received (k # kinds) (rs_set R (q_recv q)) =
        uncovered_spec R ss Received kinds (rs_set R ru)"
      by (simp_all add: k c(4,8))
    with IH c(1,5) secrets_idx_other [OF c(2), of Received] secrets_idx_other [OF c(6), of Sent]
    show ?thesis
      unfolding all_Direction q_direction.simps c(3,7) by (simp add: Un_ac) blast
  qed
qed

end

interpretation fspc: proof_cover fset_ops fset_cover_by
  ..


section \<open>A concrete instance\<close>

text \<open>A three-byte request with one commitment, over a digest that pads to 32 bytes.\<close>

definition ex_digest :: "bytes \<Rightarrow> bytes" where
  "ex_digest m = take 32 (m @ replicate 32 0)"

definition ex_provider :: HashProvider where
  "ex_provider = HashProvider_default ex_digest ex_digest ex_digest"

definition ex_transcript :: Transcript where
  "ex_transcript = Transcript_new [10, 20, 30] [7]"

definition ex_secret :: "nat fset PlaintextHashSecret" where
  "ex_secret = \<lparr>phs_direction = Sent, phs_idx = {|0, 1|}, phs_alg = HashAlgId_SHA256,
     phs_blinder = Blinder (replicate 16 5)\<rparr>"

definition ex_commitment :: "nat fset TranscriptCommitment" where
  "ex_commitment = CommitmentHash (commitment_of fset_ops (Sha256 ex_digest) [10, 20, 30] ex_secret)"

definition ex_builder :: "nat fset TranscriptProofBuilder" where
  "ex_builder = (proof_builder_new fset_ops ex_transcript [SecretHash ex_secret])
     \<lparr>pb_query_idx := \<lparr>q_sent = {|0, 1|}, q_recv = {||}\<rparr>\<rparr>"

definition ex_proof :: "nat fset TranscriptProof" where
  "ex_proof = \<lparr>tp_transcript = \<lparr>pt_sent = [10, 20, 0], pt_received = [0],
     pt_sent_authed_idx = {|0, 1|}, pt_received_authed_idx = {||}\<rparr>, tp_hash_secrets = [ex_secret]\<rparr>"

lemmas ex_defs = ex_transcript_def ex_secret_def ex_commitment_def ex_builder_def
  ex_proof_def Transcript_new_def

lemma fset_01: "fset_ranges {|0, Suc 0|} = [(0, 2)]"
  by (simp add: fset_ranges_def sorted_list_of_fset.rep_eq)

lemma bytes_at_01: "bytes_at fset_ops d {|0, Suc 0|} = [d ! 0, d ! 1]"
  by (simp add: bytes_at_def rs_vals_def fset_01 upt_conv_Cons)

lemma ex_provider_sha: "ex_provider HashAlgId_SHA256 = Some (Sha256 ex_digest)"
  by (simp add: ex_provider_def HashProvider_default_def HashAlgId_SHA256_def HashAlgId_BLAKE3_def
      HashAlgId_KECCAK256_def)

lemma ex_opening: "opening_ok fset_ops ex_provider [ex_commitment] (tp_transcript ex_proof) ex_secret"
  using ex_provider_sha
  by (simp add: opening_ok_def ex_defs commitment_of_def bytes_at_01 rs_end0_def fset_01 ranges_end_def)

lemma ex_builder_reach:
  "proof_builder_reach fset_ops ex_transcript [SecretHash ex_secret] ex_builder"
proof (rule pb_reveal_sent [OF pb_new])
  show "reveal_sent fset_ops (proof_builder_new fset_ops ex_transcript [SecretHash ex_secret]) [(0, 2)] =
      Inr ex_builder"
    by (simp add: reveal_sent_def reveal_inner_def proof_builder_new_def QueryIdx_new_def ex_defs
        len_of_direction_def upt_conv_Cons fset_01 rs_end0_def ranges_end_def Let_def)
qed

lemma ex_builder_fields:
  "pb_commitment_kinds ex_builder = DEFAULT_COMMITMENT_KINDS"
  "pb_query_idx ex_builder = \<lparr>q_sent = {|0, 1|}, q_recv = {||}\<rparr>"
  by (simp_all add: ex_builder_def proof_builder_new_def split: prod.split)

lemma ex_builder_builds: "build_proof fset_ops fset_cover_by ex_builder = Some (Inr ex_proof)"
proof -
  have "overlay {0, Suc 0} [10, 20, 30] (replicate 3 0) = [10, 20, 0 :: u8]"
    by (simp add: overlay_def upt_conv_Cons numeral_3_eq_3)
  then have "to_partial fset_ops ex_transcript {|0, 1|} {||} = Some (tp_transcript ex_proof)"
    by (simp add: fs.to_partial_eq ex_defs rs_end0_def fset_01 ranges_end_def overlay_def)
  then show ?thesis
    by (simp add: build_proof_def ex_builder_def proof_builder_new_def DEFAULT_COMMITMENT_KINDS_def
        QueryIdx_is_empty_def fset_cover_by_def ex_secret_def ex_proof_def fminus_triv)
qed

section \<open>Properties\<close>

text \<open>C6: Verification never panics, and it accepts exactly when the transcript has the committed
  lengths, every opening is in bounds of the transcript and hashes, under an algorithm the
  provider knows, to one of the commitments for the same direction and index, and the
  authenticated indices are exactly the union of the indices of the openings.  The result is the
  transcript of the proof, unchanged.\<close>

theorem verify_accepts_iff:
  assumes "rangeset R"
  shows "verify_with_provider R pr provider len cs \<noteq> None \<and>
    (\<forall>q. verify_with_provider R pr provider len cs = Some (Inr q) \<longleftrightarrow>
       q = tp_transcript pr \<and> length (pt_sent q) = unat (tl_sent len) \<and>
       length (pt_received q) = unat (tl_received len) \<and>
       list_all (opening_ok R provider cs q) (tp_hash_secrets pr) \<and>
       rs_set R (pt_sent_authed_idx q) = secrets_idx R (tp_hash_secrets pr) Sent \<and>
       rs_set R (pt_received_authed_idx q) = secrets_idx R (tp_hash_secrets pr) Received)"
  using rangeset.verify_not_None [OF assms] rangeset.verify_iff [OF assms] by blast

theorem verify_accepts_iff_witness:
  "rangeset fset_ops \<and>
   verify_with_provider fset_ops ex_proof ex_provider (Transcript_length ex_transcript)
     [ex_commitment] = Some (Inr (tp_transcript ex_proof))"
  using verify_accepts_iff [OF fs.rangeset_axioms, of ex_proof ex_provider
      "Transcript_length ex_transcript" "[ex_commitment]"] ex_opening fs.rangeset_axioms
  by (simp add: Transcript_length_def ex_proof_def ex_transcript_def Transcript_new_def ex_secret_def)

text \<open>C1: A verified proof binds to the committed transcript: if the commitments were made from a
  transcript of the given length and no opened message collides with a committed one, then every
  byte the verifier takes as authenticated is the byte of that transcript; with the other bytes
  zeroed, the verified transcript is the partial view of the committed one.\<close>

theorem verify_binding:
  assumes "rangeset R" and "verify_with_provider R pr provider len cs = Some (Inr q)"
    and "provider_ok provider" and "committed_from R provider t ss cs"
    and "no_collision R provider t ss q (tp_hash_secrets pr)"
    and "length (t_sent t) = unat (tl_sent len)" and "length (t_received t) = unat (tl_received len)"
  shows "to_partial R t (pt_sent_authed_idx q) (pt_received_authed_idx q) = Some (pt_erase R q)"
proof -
  note v = assms(2) [unfolded rangeset.verify_iff [OF assms(1)]]
  then have vs: "length (pt_sent q) = unat (tl_sent len)"
    "length (pt_received q) = unat (tl_received len)"
    "rs_set R (pt_sent_authed_idx q) = secrets_idx R (tp_hash_secrets pr) Sent"
    "rs_set R (pt_received_authed_idx q) = secrets_idx R (tp_hash_secrets pr) Received" by auto
  have b: "pt_direction q d ! i = direction_data t d ! i"
    if "i \<in> secrets_idx R (tp_hash_secrets pr) d" for d i
    using that v rangeset.opening_binds [OF assms(1) _ assms(3,4,5)]
    by (auto simp: secrets_idx_def list_all_iff)
  have e: "i < length (pt_direction q d)" if "i \<in> secrets_idx R (tp_hash_secrets pr) d" for d i
    using that v by (auto simp: secrets_idx_def list_all_iff opening_ok_def
        rangeset.end0_le_iff [OF assms(1)])
  show ?thesis
  proof (rule rangeset.view_of_erase [OF assms(1)])
    show "pt_wf R q"
      using e [of _ Sent] e [of _ Received]
      by (simp add: pt_wf_def rangeset.end0_le_iff [OF assms(1)] vs)
  qed (use vs assms(6,7) b [of _ Sent] b [of _ Received] in simp_all)
qed

theorem verify_binding_witness:
  "provider_ok ex_provider \<and> committed_from fset_ops ex_provider ex_transcript [ex_secret] [ex_commitment] \<and>
   no_collision fset_ops ex_provider ex_transcript [ex_secret] (tp_transcript ex_proof) [ex_secret] \<and>
   to_partial fset_ops ex_transcript {|0, 1|} {||} = Some (pt_erase fset_ops (tp_transcript ex_proof))"
proof -
  have v: "verify_with_provider fset_ops ex_proof ex_provider (Transcript_length ex_transcript)
      [ex_commitment] = Some (Inr (tp_transcript ex_proof))"
    using ex_opening
    by (simp add: fs.verify_iff)
      (simp add: Transcript_length_def ex_proof_def ex_transcript_def Transcript_new_def ex_secret_def)
  have p: "provider_ok ex_provider" unfolding ex_provider_def by (rule HashProvider_default_ok)
  have c: "committed_from fset_ops ex_provider ex_transcript [ex_secret] [ex_commitment]"
    using ex_provider_sha by (simp add: committed_from_def ex_defs)
  have n: "no_collision fset_ops ex_provider ex_transcript [ex_secret] (tp_transcript ex_proof)
      (tp_hash_secrets ex_proof)"
    by (simp add: no_collision_def ex_defs bytes_at_01)
  have "to_partial fset_ops ex_transcript (pt_sent_authed_idx (tp_transcript ex_proof))
      (pt_received_authed_idx (tp_transcript ex_proof)) = Some (pt_erase fset_ops (tp_transcript ex_proof))"
    by (rule verify_binding [OF fs.rangeset_axioms v p c n])
      (simp_all add: Transcript_length_def ex_transcript_def Transcript_new_def)
  with p c n show ?thesis by (simp add: ex_proof_def)
qed

text \<open>A built proof is accepted, with the view of the transcript at the revealed indices.\<close>

lemma built_proof_accepted:
  assumes "proof_cover R cover_by" and "proof_builder_reach R t secrets b"
    and "build_proof R cover_by b = Some (Inr pr)"
    and "\<forall>s \<in> hash_secret ` set secrets. \<exists>hasher. provider (phs_alg s) = Some hasher \<and>
      CommitmentHash (commitment_of R hasher (direction_data t (phs_direction s)) s) \<in> set cs"
    and "length (t_sent t) < 2 ^ 32" and "length (t_received t) < 2 ^ 32"
  shows "\<exists>q. verify_with_provider R pr provider (Transcript_length t) cs = Some (Inr q) \<and>
    to_partial R t (q_sent (pb_query_idx b)) (q_recv (pb_query_idx b)) = Some q"
proof -
  have rs: "rangeset R" using assms(1) by (simp add: proof_cover_def rangeset_cover_def)
  note ok = rangeset.proof_builder_reach_ok [OF rs assms(2)]
  let ?q = "pb_query_idx b"
  obtain u ss p where b: "cover_loop R cover_by (pb_hash_secrets b) (pb_commitment_kinds b) ?q [] =
      (u, ss)" "to_partial R t (q_sent ?q) (q_recv ?q) = Some p"
    "QueryIdx_is_empty R u" "pr = \<lparr>tp_transcript = p, tp_hash_secrets = ss\<rparr>"
    using assms(3) ok
    by (auto simp: build_proof_def proof_builder_ok_def split: Option.bind_splits prod.splits if_splits)
  from b(3) have "rs_set R (q_direction u d) = {}" for d
    by (cases d) (simp_all add: QueryIdx_is_empty_def rangeset.is_empty_set [OF rs])
  with proof_cover.cover_loop_spec [OF assms(1) b(1)] ok
  have c: "set ss \<subseteq> hash_secret ` set secrets"
    "\<And>d. secrets_idx R ss d = rs_set R (q_direction ?q d)"
    by (auto simp: proof_builder_ok_def)
  note p = b(2) [unfolded rangeset.to_partial_eq [OF rs]]
  have "opening_ok R provider cs p s" if s: "s \<in> set ss" for s
  proof (rule rangeset.view_opening [OF rs b(2)])
    show "rs_set R (phs_idx s) \<subseteq> rs_set R (case phs_direction s of Sent \<Rightarrow> q_sent ?q | Received \<Rightarrow> q_recv ?q)"
      using c(2) [of "phs_direction s"] s by (cases "phs_direction s") (auto simp: secrets_idx_def)
  qed (use assms(4) c(1) s in blast)
  moreover have "length (pt_sent p) = unat (tl_sent (Transcript_length t))"
    "length (pt_received p) = unat (tl_received (Transcript_length t))"
    using p assms(5,6) by (auto simp: Transcript_length_def unsigned_of_nat take_bit_nat_eq_self split: if_splits)
  ultimately have "verify_with_provider R pr provider (Transcript_length t) cs = Some (Inr p)"
    using c(2) [of Sent] c(2) [of Received] p
    by (auto simp: rangeset.verify_iff [OF rs] b(4) list_all_iff split: if_splits)
  with b(2) show ?thesis by blast
qed

text \<open>C5: A proof the builder produces is accepted by the verifier, which obtains exactly the
  partial view of the transcript at the revealed indices: for every builder reached from \<open>new\<close>, if
  each secret's commitment over the transcript is among the commitments and the transcript's
  lengths fit 32 bits.\<close>

theorem built_proof_verifies:
  assumes "proof_cover R cover_by" and "proof_builder_reach R t secrets b"
    and "build_proof R cover_by b = Some (Inr pr)"
    and "\<forall>s \<in> hash_secret ` set secrets. \<exists>hasher. provider (phs_alg s) = Some hasher \<and>
      CommitmentHash (commitment_of R hasher (direction_data t (phs_direction s)) s) \<in> set cs"
    and "length (t_sent t) < 2 ^ 32" and "length (t_received t) < 2 ^ 32"
  shows "\<exists>q. verify_with_provider R pr provider (Transcript_length t) cs = Some (Inr q) \<and>
    to_partial R t (q_sent (pb_query_idx b)) (q_recv (pb_query_idx b)) = Some q"
  by (rule built_proof_accepted [OF assms])

theorem built_proof_verifies_witness:
  "proof_cover fset_ops fset_cover_by \<and>
   proof_builder_reach fset_ops ex_transcript [SecretHash ex_secret] ex_builder \<and>
   build_proof fset_ops fset_cover_by ex_builder = Some (Inr ex_proof) \<and>
   (\<exists>q. verify_with_provider fset_ops ex_proof ex_provider (Transcript_length ex_transcript)
     [ex_commitment] = Some (Inr q) \<and> to_partial fset_ops ex_transcript {|0, 1|} {||} = Some q)"
proof -
  have "\<exists>q. verify_with_provider fset_ops ex_proof ex_provider (Transcript_length ex_transcript)
      [ex_commitment] = Some (Inr q) \<and> to_partial fset_ops ex_transcript
        (q_sent (pb_query_idx ex_builder)) (q_recv (pb_query_idx ex_builder)) = Some q"
    by (rule built_proof_verifies [OF fspc.proof_cover_axioms ex_builder_reach ex_builder_builds])
      (simp_all add: hash_secret_def ex_provider_sha ex_defs)
  then show ?thesis
    using ex_builder_reach ex_builder_builds fspc.proof_cover_axioms by (simp add: ex_builder_fields)
qed

text \<open>C13: Building a proof never panics, and it succeeds exactly when the openings cover the query:
  taking the commitment kinds in the order of preference, every index is covered by a secret of
  one of the kinds that lies inside what the earlier kinds left uncovered.  Otherwise the error
  carries exactly the uncovered indices and the kinds tried.\<close>

theorem build_proof_succeeds_iff:
  assumes "proof_cover R cover_by" and "proof_builder_reach R t secrets b"
  shows "\<exists>r. build_proof R cover_by b = Some r \<and>
    (case r of
       Inr pr \<Rightarrow> (\<forall>d. uncovered_spec R (map hash_secret secrets) d (pb_commitment_kinds b)
                    (rs_set R (q_direction (pb_query_idx b) d)) = {})
     | Inl e \<Rightarrow> (\<exists>u. e = Cover u (pb_commitment_kinds b) \<and>
           (\<forall>d. rs_set R (q_direction u d) = uncovered_spec R (map hash_secret secrets) d
                  (pb_commitment_kinds b) (rs_set R (q_direction (pb_query_idx b) d))) \<and>
           (\<exists>d. rs_set R (q_direction u d) \<noteq> {})))"
proof -
  have rs: "rangeset R" using assms(1) by (simp add: proof_cover_def rangeset_cover_def)
  note ok = rangeset.proof_builder_reach_ok [OF rs assms(2)]
  let ?q = "pb_query_idx b"
  obtain u ss where c: "cover_loop R cover_by (pb_hash_secrets b) (pb_commitment_kinds b) ?q [] = (u, ss)"
    by (metis surj_pair)
  obtain p where p: "to_partial R (pb_transcript b) (q_sent ?q) (q_recv ?q) = Some p"
    using ok by (auto simp: proof_builder_ok_def all_Direction rangeset.to_partial_eq [OF rs]
        len_of_direction_def)
  have e: "QueryIdx_is_empty R u \<longleftrightarrow> (\<forall>d. rs_set R (q_direction u d) = {})"
    by (auto simp: all_Direction QueryIdx_is_empty_def rangeset.is_empty_set [OF rs])
  have h: "pb_hash_secrets b = map hash_secret secrets" using ok by (simp add: proof_builder_ok_def)
  have "rs_set R (q_direction u d) = uncovered_spec R (map hash_secret secrets) d
      (pb_commitment_kinds b) (rs_set R (q_direction ?q d))" for d
    using proof_cover.cover_loop_spec [OF assms(1) c] unfolding h by blast
  with c p e show ?thesis
    by (cases "QueryIdx_is_empty R u") (simp_all add: build_proof_def)
qed

theorem build_proof_succeeds_iff_witness:
  "proof_cover fset_ops fset_cover_by \<and>
   proof_builder_reach fset_ops ex_transcript [SecretHash ex_secret] ex_builder \<and>
   uncovered_spec fset_ops [ex_secret] Sent DEFAULT_COMMITMENT_KINDS {0, 1} = {}"
proof -
  have "\<forall>d. uncovered_spec fset_ops [ex_secret] d DEFAULT_COMMITMENT_KINDS
      (rs_set fset_ops (q_direction (pb_query_idx ex_builder) d)) = {}"
    using build_proof_succeeds_iff [OF fspc.proof_cover_axioms ex_builder_reach] ex_builder_builds
    by (simp add: hash_secret_def ex_builder_fields)
  from this [rule_format, of Sent] show ?thesis
    using ex_builder_reach fspc.proof_cover_axioms by (simp add: ex_builder_fields)
qed



end
