(* ===== verification/Codec.thy ===== *)
theory Codec
  imports Prelude
begin

text \<open>
  The TLS wire format, after \<open>crates/tls/core/src/msgs/codec.rs\<close> and \<open>base.rs\<close>.

  A \<open>Reader\<close> is a buffer and an offset.  \<open>Codec::encode\<close> appends to a byte vector, so it is a function
  from the vector to the vector; \<open>Codec::read\<close> takes a reader and returns the value with the moved
  reader, or \<open>None\<close>.  A failed read also leaves the reader somewhere, but no caller looks at it
  again.  A generic function over \<open>T: Codec\<close> takes \<open>T\<close>'s \<open>encode\<close> or \<open>read\<close> as an argument.
  \<open>debug_assert!\<close> is not part of the model: lengths are truncated as in a release build.

  The locale \<open>codec\<close> is the contract of the trait: reading accepts exactly the encodings of the
  well-formed values, and gives the value back.  Some encodings run to the end of the input; the
  predicate \<open>mid\<close> tells the values whose encoding can be followed by more bytes.
\<close>

section \<open>Reader\<close>

record Reader =
  rd_buf :: bytes
  rd_offs :: nat

definition Reader_init :: "bytes \<Rightarrow> Reader" where
  "Reader_init bytes = \<lparr>rd_buf = bytes, rd_offs = 0\<rparr>"

definition Reader_rest :: "Reader \<Rightarrow> bytes \<times> Reader" where
  "Reader_rest r = (drop (rd_offs r) (rd_buf r), r\<lparr>rd_offs := length (rd_buf r)\<rparr>)"

definition Reader_left :: "Reader \<Rightarrow> nat" where
  "Reader_left r = length (rd_buf r) - rd_offs r"

definition Reader_take :: "Reader \<Rightarrow> nat \<Rightarrow> (bytes \<times> Reader) option" where
  "Reader_take r len =
     (if Reader_left r < len then None
      else Some (take len (drop (rd_offs r) (rd_buf r)), r\<lparr>rd_offs := rd_offs r + len\<rparr>))"

definition Reader_any_left :: "Reader \<Rightarrow> bool" where
  "Reader_any_left r = (rd_offs r < length (rd_buf r))"

definition Reader_used :: "Reader \<Rightarrow> nat" where
  "Reader_used r = rd_offs r"

definition Reader_sub :: "Reader \<Rightarrow> nat \<Rightarrow> (Reader \<times> Reader) option" where
  "Reader_sub r len = map_option (\<lambda>(b, r). (Reader_init b, r)) (Reader_take r len)"

section \<open>The trait\<close>

type_synonym 'a encoder = "'a \<Rightarrow> bytes \<Rightarrow> bytes"
type_synonym 'a reader = "Reader \<Rightarrow> ('a \<times> Reader) option"

definition get_encoding :: "'a encoder \<Rightarrow> 'a \<Rightarrow> bytes" where
  "get_encoding encode x = encode x []"

definition read_bytes :: "'a reader \<Rightarrow> bytes \<Rightarrow> 'a option" where
  "read_bytes rd bytes = map_option fst (rd (Reader_init bytes))"

section \<open>Integers\<close>

definition decode_u8 :: "bytes \<Rightarrow> u8 option" where
  "decode_u8 bytes = (case bytes of [v] \<Rightarrow> Some v | _ \<Rightarrow> None)"

definition u8_encode :: "u8 encoder" where
  "u8_encode v bytes = bytes @ [v]"

text \<open>\<open>r.take(n).and_then(decode)\<close>\<close>

definition take_decode :: "nat \<Rightarrow> (bytes \<Rightarrow> 'a option) \<Rightarrow> 'a reader" where
  "take_decode n decode r =
     do { (b, r) \<leftarrow> Reader_take r n; v \<leftarrow> decode b; Some (v, r) }"

definition u8_read :: "u8 reader" where
  "u8_read = take_decode 1 decode_u8"

definition put_u16 :: "u16 \<Rightarrow> bytes" where
  "put_u16 v = be_bytes 2 (unat v)"

definition decode_u16 :: "bytes \<Rightarrow> u16 option" where
  "decode_u16 bytes = (if length bytes = 2 then Some (of_nat (be_value bytes)) else None)"

definition u16_encode :: "u16 encoder" where
  "u16_encode v bytes = bytes @ put_u16 v"

definition u16_read :: "u16 reader" where
  "u16_read = take_decode 2 decode_u16"

datatype u24 = u24 (u24_val: u32)

definition u24_decode :: "bytes \<Rightarrow> u24 option" where
  "u24_decode bytes =
     (if length bytes = 3 then Some (u24 (of_nat (be_value (0 # bytes)))) else None)"

definition u24_encode :: "u24 encoder" where
  "u24_encode v bytes = bytes @ drop 1 (be_bytes 4 (unat (u24_val v)))"

definition u24_read :: "u24 reader" where
  "u24_read = take_decode 3 u24_decode"

definition decode_u32 :: "bytes \<Rightarrow> u32 option" where
  "decode_u32 bytes = (if length bytes = 4 then Some (of_nat (be_value bytes)) else None)"

definition u32_encode :: "u32 encoder" where
  "u32_encode v bytes = bytes @ be_bytes 4 (unat v)"

definition u32_read :: "u32 reader" where
  "u32_read = take_decode 4 decode_u32"

definition put_u64 :: "u64 \<Rightarrow> bytes" where
  "put_u64 v = be_bytes 8 (unat v)"

definition decode_u64 :: "bytes \<Rightarrow> u64 option" where
  "decode_u64 bytes = (if length bytes = 8 then Some (of_nat (be_value bytes)) else None)"

definition u64_encode :: "u64 encoder" where
  "u64_encode v bytes = bytes @ put_u64 v"

definition u64_read :: "u64 reader" where
  "u64_read = take_decode 8 decode_u64"

section \<open>Vectors\<close>

text \<open>
  The encoders reserve the length field, append the items and write the length back into the
  reserved bytes.
\<close>

definition write_at :: "bytes \<Rightarrow> nat \<Rightarrow> bytes \<Rightarrow> bytes" where
  "write_at bytes offs xs = take offs bytes @ xs @ drop (offs + length xs) bytes"

definition encode_vec_u8 :: "'a encoder \<Rightarrow> 'a list encoder" where
  "encode_vec_u8 encode items bytes =
     (let len_offset = length bytes;
          bytes = bytes @ [0];
          bytes = fold encode items bytes;
          len = length bytes - len_offset - 1
      in bytes[len_offset := of_nat len])"

definition encode_vec_u16 :: "'a encoder \<Rightarrow> 'a list encoder" where
  "encode_vec_u16 encode items bytes =
     (let len_offset = length bytes;
          bytes = bytes @ [0, 0];
          bytes = fold encode items bytes;
          len = length bytes - len_offset - 2
      in write_at bytes len_offset (be_bytes 2 (unat (of_nat len :: u16))))"

definition encode_vec_u24 :: "'a encoder \<Rightarrow> 'a list encoder" where
  "encode_vec_u24 encode items bytes =
     (let len_offset = length bytes;
          bytes = bytes @ [0, 0, 0];
          bytes = fold encode items bytes;
          len = length bytes - len_offset - 3
      in write_at bytes len_offset (drop 1 (be_bytes 4 (unat (of_nat len :: u32)))))"

text \<open>
  \<open>while sub.any_left() { ret.push(T::read(&mut sub)?) }\<close>.  An element read that consumes nothing would
  make the loop run forever; the recursion stops there with \<open>None\<close>, and \<open>read_all_loop\<close> below shows
  that for the elements of the protocol this never happens.
\<close>

function read_all :: "'a reader \<Rightarrow> Reader \<Rightarrow> 'a list \<Rightarrow> 'a list option" where
  "read_all rd sub ret =
     (if Reader_any_left sub
      then (case rd sub of
              None \<Rightarrow> None
            | Some (x, sub') \<Rightarrow>
                if Reader_left sub' < Reader_left sub then read_all rd sub' (ret @ [x]) else None)
      else Some ret)"
  by auto
termination
  by (relation "measure (\<lambda>(rd, sub, ret). Reader_left sub)") auto

declare read_all.simps [simp del]

definition read_vec_u8 :: "'a reader \<Rightarrow> 'a list reader" where
  "read_vec_u8 rd r =
     do {
       (len, r) \<leftarrow> u8_read r;
       (sub, r) \<leftarrow> Reader_sub r (unat len);
       ret \<leftarrow> read_all rd sub [];
       Some (ret, r)
     }"

definition read_vec_u16 :: "'a reader \<Rightarrow> 'a list reader" where
  "read_vec_u16 rd r =
     do {
       (len, r) \<leftarrow> u16_read r;
       (sub, r) \<leftarrow> Reader_sub r (unat len);
       ret \<leftarrow> read_all rd sub [];
       Some (ret, r)
     }"

definition read_vec_u24_limited :: "'a reader \<Rightarrow> nat \<Rightarrow> 'a list reader" where
  "read_vec_u24_limited rd max_bytes r =
     do {
       (len, r) \<leftarrow> u24_read r;
       if unat (u24_val len) > max_bytes then None
       else do {
         (sub, r) \<leftarrow> Reader_sub r (unat (u24_val len));
         ret \<leftarrow> read_all rd sub [];
         Some (ret, r)
       }
     }"

section \<open>Payloads\<close>

datatype Payload = Payload (payload_bytes: bytes)

definition Payload_empty :: Payload where
  "Payload_empty = Payload []"

definition Payload_encode :: "Payload encoder" where
  "Payload_encode p bytes = bytes @ payload_bytes p"

definition Payload_read :: "Payload reader" where
  "Payload_read r = (case Reader_rest r of (b, r) \<Rightarrow> Some (Payload b, r))"

datatype Certificate = Certificate (certificate_bytes: bytes)

definition Certificate_encode :: "Certificate encoder" where
  "Certificate_encode c bytes =
     u24_encode (u24 (of_nat (length (certificate_bytes c)))) bytes @ certificate_bytes c"

definition Certificate_read :: "Certificate reader" where
  "Certificate_read r =
     do {
       (len, r) \<leftarrow> u24_read r;
       (sub, r) \<leftarrow> Reader_sub r (unat (u24_val len));
       let (body, _) = Reader_rest sub;
       Some (Certificate body, r)
     }"

datatype PayloadU24 = PayloadU24 (payload_u24_bytes: bytes)

definition PayloadU24_encode :: "PayloadU24 encoder" where
  "PayloadU24_encode p bytes =
     u24_encode (u24 (of_nat (length (payload_u24_bytes p)))) bytes @ payload_u24_bytes p"

definition PayloadU24_read :: "PayloadU24 reader" where
  "PayloadU24_read r =
     do {
       (len, r) \<leftarrow> u24_read r;
       (sub, r) \<leftarrow> Reader_sub r (unat (u24_val len));
       let (body, _) = Reader_rest sub;
       Some (PayloadU24 body, r)
     }"

datatype PayloadU16 = PayloadU16 (payload_u16_bytes: bytes)

definition PayloadU16_encode_slice :: "bytes \<Rightarrow> bytes \<Rightarrow> bytes" where
  "PayloadU16_encode_slice s bytes = u16_encode (of_nat (length s)) bytes @ s"

definition PayloadU16_encode :: "PayloadU16 encoder" where
  "PayloadU16_encode p bytes = PayloadU16_encode_slice (payload_u16_bytes p) bytes"

definition PayloadU16_read :: "PayloadU16 reader" where
  "PayloadU16_read r =
     do {
       (len, r) \<leftarrow> u16_read r;
       (sub, r) \<leftarrow> Reader_sub r (unat len);
       let (body, _) = Reader_rest sub;
       Some (PayloadU16 body, r)
     }"

datatype PayloadU8 = PayloadU8 (payload_u8_bytes: bytes)

definition PayloadU8_encode :: "PayloadU8 encoder" where
  "PayloadU8_encode p bytes =
     u8_encode (of_nat (length (payload_u8_bytes p))) bytes @ payload_u8_bytes p"

definition PayloadU8_read :: "PayloadU8 reader" where
  "PayloadU8_read r =
     do {
       (len, r) \<leftarrow> u8_read r;
       (sub, r) \<leftarrow> Reader_sub r (unat len);
       let (body, _) = Reader_rest sub;
       Some (PayloadU8 body, r)
     }"

section \<open>Reading as a relation\<close>

named_theorems codec_simps
named_theorems codec_enc
named_theorems codec_read

definition reader_ok :: "Reader \<Rightarrow> bool" where
  "reader_ok r \<longleftrightarrow> rd_offs r \<le> length (rd_buf r)"

definition remaining :: "Reader \<Rightarrow> bytes" where
  "remaining r = drop (rd_offs r) (rd_buf r)"

definition advance :: "nat \<Rightarrow> Reader \<Rightarrow> Reader" where
  "advance n r = r\<lparr>rd_offs := rd_offs r + n\<rparr>"

text \<open>The reader stands before the bytes \<open>e\<close>; unless \<open>m\<close>, nothing follows them.\<close>

definition fits :: "Reader \<Rightarrow> bytes \<Rightarrow> bool \<Rightarrow> bool" where
  "fits r e m \<longleftrightarrow> (\<exists>s. remaining r = e @ s \<and> (m \<or> s = []))"

definition reads :: "Reader \<Rightarrow> bytes \<Rightarrow> bool \<Rightarrow> Reader \<Rightarrow> bool" where
  "reads r e m r' \<longleftrightarrow> r' = advance (length e) r \<and> fits r e m"

lemma reader_ok_init [simp]: "reader_ok (Reader_init b)"
  by (simp add: reader_ok_def Reader_init_def)

lemma rd_buf_init: "rd_buf (Reader_init b) = b"
  by (simp add: Reader_init_def)

lemma remaining_init [simp]: "remaining (Reader_init b) = b"
  by (simp add: remaining_def Reader_init_def)

lemma remaining_advance [simp]: "remaining (advance n r) = drop n (remaining r)"
  by (simp add: remaining_def advance_def add.commute)

lemma advance_advance [simp]: "advance m (advance n r) = advance (n + m) r"
  by (simp add: advance_def)

lemma advance_0 [simp]: "advance 0 r = r"
  by (simp add: advance_def)

lemma advance_inj: "advance n r = advance m r \<longleftrightarrow> n = m"
  by (cases r) (auto simp: advance_def)

lemma fits_init: "fits (Reader_init b) e m \<longleftrightarrow> (\<exists>s. b = e @ s \<and> (m \<or> s = []))"
  by (simp add: fits_def)

lemma fits_init_all [simp]: "fits (Reader_init b) e False \<longleftrightarrow> b = e"
  by (simp add: fits_def)

lemma fits_Nil [simp]: "fits r [] True"
  by (simp add: fits_def)

lemma fits_mono: "fits r e m \<Longrightarrow> fits r e True"
  by (auto simp: fits_def)

lemma reader_ok_advance: "reader_ok r \<Longrightarrow> fits r e m \<Longrightarrow> reader_ok (advance (length e) r)"
  unfolding fits_def reader_ok_def remaining_def advance_def
  by (auto dest!: arg_cong [where f = length])

lemma fits_append: "fits r e True \<Longrightarrow> fits (advance (length e) r) e' m \<longleftrightarrow> fits r (e @ e') m"
  by (auto simp: fits_def)

lemma fits_appendD: "fits r (e @ e') m \<Longrightarrow> fits r e True"
  by (auto simp: fits_def)

lemma fits_conj: "fits r e True \<and> fits (advance (length e) r) e' m \<longleftrightarrow> fits r (e @ e') m"
  using fits_append fits_appendD by blast

lemma any_left_iff: "Reader_any_left r \<longleftrightarrow> remaining r \<noteq> []"
  by (auto simp: Reader_any_left_def remaining_def)

lemma left_eq: "Reader_left r = length (remaining r)"
  by (simp add: Reader_left_def remaining_def)

lemma take_iff:
  "reader_ok r \<Longrightarrow> Reader_take r n = Some (b, r') \<longleftrightarrow> length b = n \<and> reads r b True r'"
  by (auto simp: Reader_take_def left_eq reads_def fits_def advance_def simp flip: remaining_def)
    (metis append_take_drop_id)

lemma rest_iff: "reader_ok r \<Longrightarrow> Reader_rest r = (b, r') \<longleftrightarrow> reads r b False r'"
  by (auto simp: Reader_rest_def reads_def fits_def advance_def remaining_def reader_ok_def)

lemma sub_iff:
  "reader_ok r \<Longrightarrow> Reader_sub r n = Some (sub, r') \<longleftrightarrow>
    (\<exists>b. length b = n \<and> sub = Reader_init b \<and> reads r b True r')"
  by (auto simp: Reader_sub_def take_iff)

section \<open>The contract of the trait\<close>

locale appends =
  fixes encode :: "'a encoder"
  assumes enc_app: "encode x bs = bs @ get_encoding encode x"
begin

lemma fold_encode: "fold encode xs bs = bs @ concat (map (get_encoding encode) xs)"
proof (induction xs arbitrary: bs)
  case (Cons x xs)
  then show ?case using enc_app [of x bs] by simp
qed simp

end

locale decodable = appends encode for encode :: "'a encoder" +
  fixes rd :: "'a reader" and ok :: "'a \<Rightarrow> bool" and mid :: "'a \<Rightarrow> bool"
  assumes read_enc: "reader_ok r \<Longrightarrow> ok x \<Longrightarrow> reads r (get_encoding encode x) (mid x) r' \<Longrightarrow>
      rd r = Some (x, r')"
begin

lemma read_bytes_enc: "ok x \<Longrightarrow> read_bytes rd (get_encoding encode x) = Some x"
  using read_enc [of "Reader_init (get_encoding encode x)" x]
  by (auto simp: read_bytes_def reads_def fits_init)

end

locale codec = appends encode for encode :: "'a encoder" +
  fixes rd :: "'a reader" and ok :: "'a \<Rightarrow> bool" and mid :: "'a \<Rightarrow> bool"
  assumes read_iff: "reader_ok r \<Longrightarrow> rd r = Some (x, r') \<longleftrightarrow>
      ok x \<and> reads r (get_encoding encode x) (mid x) r'"
begin

lemma bind_iff:
  "reader_ok r \<Longrightarrow> (rd r \<bind> (\<lambda>(x, r). f x r)) = Some y \<longleftrightarrow>
     (\<exists>x. ok x \<and> fits r (get_encoding encode x) (mid x) \<and>
        f x (advance (length (get_encoding encode x)) r) = Some y)"
  by (auto simp: Option.bind_eq_Some_conv read_iff reads_def)

lemma read_bytes_iff:
  "read_bytes rd bs = Some x \<longleftrightarrow>
     ok x \<and> (\<exists>s. bs = get_encoding encode x @ s \<and> (mid x \<or> s = []))"
  by (auto simp: read_bytes_def read_iff reads_def fits_init) 

end

sublocale codec \<subseteq> decodable
  by unfold_locales (auto simp: read_iff)

text \<open>A vector element: its encoding is never empty, so the read loop makes progress.\<close>

locale codec_elem = codec +
  assumes enc_nonempty: "ok x \<Longrightarrow> get_encoding encode x \<noteq> []"

text \<open>
  Only the last element of a vector may run to the end of the vector.
\<close>

fun items_ok :: "('a \<Rightarrow> bool) \<Rightarrow> ('a \<Rightarrow> bool) \<Rightarrow> 'a list \<Rightarrow> bool" where
  "items_ok ok mid [] = True"
| "items_ok ok mid (x # xs) = (ok x \<and> (mid x \<or> xs = []) \<and> items_ok ok mid xs)"

lemma items_ok_mid: "items_ok ok (\<lambda>_. True) xs \<longleftrightarrow> list_all ok xs"
  by (induction xs) auto

definition vec_bytes :: "'a encoder \<Rightarrow> 'a list \<Rightarrow> bytes" where
  "vec_bytes encode xs = concat (map (get_encoding encode) xs)"

lemma vec_bytes_simps [simp]:
  "vec_bytes encode [] = []"
  "vec_bytes encode (x # xs) = get_encoding encode x @ vec_bytes encode xs"
  by (simp_all add: vec_bytes_def)

lemma get_encodingI: "(\<And>bs. encode x bs = bs @ e) \<Longrightarrow> get_encoding encode x = e"
  by (simp add: get_encoding_def)

definition vec_ok :: "'a encoder \<Rightarrow> ('a \<Rightarrow> bool) \<Rightarrow> ('a \<Rightarrow> bool) \<Rightarrow> nat \<Rightarrow> 'a list \<Rightarrow> bool" where
  "vec_ok encode ok mid n xs \<longleftrightarrow> items_ok ok mid xs \<and> length (vec_bytes encode xs) < 256 ^ n"

section \<open>Integers meet the contract\<close>

lemma take_decode_iff:
  assumes "reader_ok r"
  shows "take_decode n decode r = Some (x, r') \<longleftrightarrow>
    (\<exists>b. length b = n \<and> decode b = Some x \<and> reads r b True r')"
  unfolding take_decode_def Option.bind_eq_Some_conv
  by (auto simp: take_iff [OF assms] Option.bind_eq_Some_conv)

lemma take_decode_codec:
  assumes "\<And>x bs. encode x bs = bs @ get_encoding encode x"
    and "\<And>b x. length b = n \<and> decode b = Some x \<longleftrightarrow> ok x \<and> b = get_encoding encode x"
  shows "codec encode (take_decode n decode) ok (\<lambda>_. True)"
proof unfold_locales
  fix r r' :: Reader and x :: 'a
  assume "reader_ok r"
  then show "take_decode n decode r = Some (x, r') \<longleftrightarrow>
      ok x \<and> reads r (get_encoding encode x) True r'"
    unfolding take_decode_iff [OF \<open>reader_ok r\<close>] conj_assoc [symmetric] assms(2) by auto
qed (rule assms(1))

lemma be_bytes_drop: "drop 1 (be_bytes (Suc n) v) = be_bytes n v"
  by simp

lemma get_encoding_ints [simp, codec_simps]:
  "get_encoding u8_encode a = [a]"
  "get_encoding u16_encode b = be_bytes 2 (unat b)"
  "get_encoding u24_encode c = be_bytes 3 (unat (u24_val c))"
  "get_encoding u32_encode d = be_bytes 4 (unat d)"
  "get_encoding u64_encode e = be_bytes 8 (unat e)"
  using be_bytes_drop [of 3]
  by (simp_all add: get_encoding_def u8_encode_def u16_encode_def u24_encode_def u32_encode_def
      u64_encode_def put_u16_def put_u64_def)

lemma word_be_iff:
  fixes x :: "'w::len word"
  assumes "LENGTH('w) = 8 * n"
  shows "length b = n \<and> of_nat (be_value b) = x \<longleftrightarrow> b = be_bytes n (unat x)"
proof -
  have p: "(256 :: nat) ^ n = 2 ^ LENGTH('w)" by (simp add: assms power_mult)
  have "unat (of_nat (be_value b) :: 'w word) = be_value b" if "length b = n"
    using be_value_less [of b] that
    by (simp add: p unsigned_of_nat take_bit_nat_eq_self)
  moreover have "be_value (be_bytes n (unat x)) = unat x"
    by (simp add: be_value_be_bytes p mod_less)
  ultimately show ?thesis using be_bytes_be_value [of b] by auto
qed

lemma word_decode_iff:
  fixes x :: "'w::len word"
  assumes "LENGTH('w) = 8 * n"
  shows "length b = n \<and> (if length b = n then Some (of_nat (be_value b)) else None) = Some x \<longleftrightarrow>
    True \<and> b = be_bytes n (unat x)"
  using word_be_iff [OF assms, of b x] by auto

lemma be_bytes_not_Nil [simp]: "be_bytes n v = [] \<longleftrightarrow> n = 0"
  by (cases n) auto

lemma decode_u8_iff: "length b = 1 \<and> decode_u8 b = Some x \<longleftrightarrow> True \<and> b = [x]"
  by (auto simp: decode_u8_def length_Suc_conv split: list.splits)

lemma codec_elemI:
  "codec encode rd ok mid \<Longrightarrow> (\<And>x. ok x \<Longrightarrow> get_encoding encode x \<noteq> []) \<Longrightarrow>
   codec_elem encode rd ok mid"
  by (simp add: codec_elem.intro codec_elem_axioms.intro)

interpretation u8c: codec_elem u8_encode u8_read "\<lambda>_. True" "\<lambda>_. True"
  unfolding u8_read_def
  by (rule codec_elemI, rule take_decode_codec)
    (simp add: u8_encode_def, simp only: decode_u8_iff get_encoding_ints, simp)

interpretation u16c: codec_elem u16_encode u16_read "\<lambda>_. True" "\<lambda>_. True"
  unfolding u16_read_def
  by (rule codec_elemI, rule take_decode_codec)
    (simp add: u16_encode_def put_u16_def,
      simp only: decode_u16_def get_encoding_ints word_decode_iff [where 'w = 16 and n = 2, simplified], simp_all)

interpretation u32c: codec_elem u32_encode u32_read "\<lambda>_. True" "\<lambda>_. True"
  unfolding u32_read_def
  by (rule codec_elemI, rule take_decode_codec)
    (simp add: u32_encode_def,
      simp only: decode_u32_def get_encoding_ints word_decode_iff [where 'w = 32 and n = 4, simplified], simp_all)

interpretation u64c: codec_elem u64_encode u64_read "\<lambda>_. True" "\<lambda>_. True"
  unfolding u64_read_def
  by (rule codec_elemI, rule take_decode_codec)
    (simp add: u64_encode_def put_u64_def,
      simp only: decode_u64_def get_encoding_ints word_decode_iff [where 'w = 64 and n = 8, simplified], simp_all)

definition u24_ok :: "u24 \<Rightarrow> bool" where
  "u24_ok v \<longleftrightarrow> unat (u24_val v) < 2 ^ 24"

lemma u24_decode_iff:
  "length b = 3 \<and> u24_decode b = Some x \<longleftrightarrow> u24_ok x \<and> b = be_bytes 3 (unat (u24_val x))"
proof -
  have u: "unat (of_nat (be_value b) :: u32) = be_value b" if "length b = 3"
    using be_value_less [of b] that by (simp add: unsigned_of_nat take_bit_nat_eq_self)
  show ?thesis
  proof
    assume *: "length b = 3 \<and> u24_decode b = Some x"
    then have x: "x = u24 (of_nat (be_value b))" by (auto simp: u24_decode_def)
    with * u be_bytes_be_value [of b] be_value_less [of b]
    show "u24_ok x \<and> b = be_bytes 3 (unat (u24_val x))" by (simp add: u24_ok_def)
  next
    assume *: "u24_ok x \<and> b = be_bytes 3 (unat (u24_val x))"
    then have "be_value b = unat (u24_val x)" by (simp add: u24_ok_def be_value_be_bytes)
    with * show "length b = 3 \<and> u24_decode b = Some x"
      by (cases x) (simp add: u24_decode_def)
  qed
qed

interpretation u24c: codec_elem u24_encode u24_read u24_ok "\<lambda>_. True"
  unfolding u24_read_def
  by (rule codec_elemI, rule take_decode_codec)
    (use be_bytes_drop [of 3] in \<open>simp add: u24_encode_def\<close>,
      simp only: u24_decode_iff get_encoding_ints, simp_all)

section \<open>Length-prefixed bodies\<close>

text \<open>
  Reading a length and a sub-reader of that length, the way every vector and payload begins.\<close>

lemma prefix_iff:
  assumes "codec lenc lrd lok (\<lambda>_. True)"
    and "\<And>x. lok x \<Longrightarrow> get_encoding lenc x = be_bytes n (val x) \<and> val x < 256 ^ n"
    and "\<And>k. k < 256 ^ n \<Longrightarrow> \<exists>x. lok x \<and> val x = k"
    and "reader_ok r"
  shows "(lrd r \<bind> (\<lambda>(len, r). Reader_sub r (val len) \<bind> (\<lambda>(sub, r). f sub r))) = Some y \<longleftrightarrow>
    (\<exists>b. length b < 256 ^ n \<and> fits r (be_bytes n (length b) @ b) True \<and>
       f (Reader_init b) (advance (n + length b) r) = Some y)"
    (is "?l \<longleftrightarrow> ?r")
proof -
  have sub: "(Reader_sub r' k \<bind> (\<lambda>(sub, r). f sub r)) = Some y \<longleftrightarrow>
      (\<exists>b. length b = k \<and> fits r' b True \<and> f (Reader_init b) (advance (length b) r') = Some y)"
    if "reader_ok r'" for r' k
    by (auto simp: Option.bind_eq_Some_conv sub_iff [OF that] reads_def)
  have step: "fits r e True \<Longrightarrow> reader_ok (advance (length e) r)" for e
    using reader_ok_advance [OF assms(4)] by blast
  show ?thesis
  proof
    assume ?l
    then obtain x where x: "lok x" "fits r (be_bytes n (val x)) True"
      "(Reader_sub (advance n r) (val x) \<bind> (\<lambda>(sub, r). f sub r)) = Some y"
      using assms(2) by (auto simp: codec.bind_iff [OF assms(1,4)])
    from sub [of "advance n r" "val x"] step [of "be_bytes n (val x)"] x(2,3)
    obtain b where "length b = val x" "fits (advance n r) b True"
      "f (Reader_init b) (advance (length b) (advance n r)) = Some y" by auto
    with fits_append [OF x(2), of b True] assms(2) [OF x(1)]
    show ?r by (intro exI [of _ b]) auto
  next
    assume ?r
    then obtain b where b: "length b < 256 ^ n" "fits r (be_bytes n (length b) @ b) True"
      "f (Reader_init b) (advance (n + length b) r) = Some y" by blast
    from assms(3) [OF b(1)] obtain x where x: "lok x" "val x = length b" by blast
    with b fits_appendD [OF b(2)] sub [of "advance n r" "val x"]
      step [of "be_bytes n (length b)"] fits_append [OF fits_appendD [OF b(2)], of b True] assms(2)
    show ?l by (auto simp: codec.bind_iff [OF assms(1,4)] intro!: exI [of _ x])
  qed
qed

lemma prefix_u8_iff:
  "reader_ok r \<Longrightarrow>
   (u8_read r \<bind> (\<lambda>(len, r). Reader_sub r (unat len) \<bind> (\<lambda>(sub, r). f sub r))) = Some y \<longleftrightarrow>
     (\<exists>b. length b < 256 ^ 1 \<and> fits r (be_bytes 1 (length b) @ b) True \<and>
       f (Reader_init b) (advance (1 + length b) r) = Some y)"
proof (rule prefix_iff [OF u8c.codec_axioms])
  show "get_encoding u8_encode x = be_bytes 1 (unat x) \<and> unat x < 256 ^ 1" for x by simp
  show "\<exists>x :: u8. True \<and> unat x = k" if "k < 256 ^ 1" for k
    using that by (intro exI [of _ "of_nat k"]) (simp add: unsigned_of_nat take_bit_nat_eq_self)
qed

lemma prefix_u16_iff:
  "reader_ok r \<Longrightarrow>
   (u16_read r \<bind> (\<lambda>(len, r). Reader_sub r (unat len) \<bind> (\<lambda>(sub, r). f sub r))) = Some y \<longleftrightarrow>
     (\<exists>b. length b < 256 ^ 2 \<and> fits r (be_bytes 2 (length b) @ b) True \<and>
       f (Reader_init b) (advance (2 + length b) r) = Some y)"
proof (rule prefix_iff [OF u16c.codec_axioms])
  show "get_encoding u16_encode x = be_bytes 2 (unat x) \<and> unat x < 256 ^ 2" for x
    using unsigned_less [of x, where 'a = nat] by simp
  show "\<exists>x :: u16. True \<and> unat x = k" if "k < 256 ^ 2" for k
    using that by (intro exI [of _ "of_nat k"]) (simp add: unsigned_of_nat take_bit_nat_eq_self)
qed

lemma prefix_u24_iff:
  "reader_ok r \<Longrightarrow>
   (u24_read r \<bind> (\<lambda>(len, r). Reader_sub r (unat (u24_val len)) \<bind> (\<lambda>(sub, r). f sub r))) = Some y \<longleftrightarrow>
     (\<exists>b. length b < 256 ^ 3 \<and> fits r (be_bytes 3 (length b) @ b) True \<and>
       f (Reader_init b) (advance (3 + length b) r) = Some y)"
proof (rule prefix_iff [OF u24c.codec_axioms])
  show "get_encoding u24_encode x = be_bytes 3 (unat (u24_val x)) \<and> unat (u24_val x) < 256 ^ 3"
    if "u24_ok x" for x using that by (simp add: u24_ok_def)
  show "\<exists>x. u24_ok x \<and> unat (u24_val x) = k" if "k < 256 ^ 3" for k
    using that by (intro exI [of _ "u24 (of_nat k)"])
      (simp add: u24_ok_def unsigned_of_nat take_bit_nat_eq_self)
qed

lemmas prefix_iffs = prefix_u8_iff prefix_u16_iff prefix_u24_iff

text \<open>The length field as it is written.\<close>

lemma be_bytes_mod: "n \<le> k \<Longrightarrow> be_bytes n (v mod 256 ^ k) = be_bytes n v"
proof (rule be_value_inj)
  assume "n \<le> k"
  then have "(256 :: nat) ^ n dvd 256 ^ k" by (rule le_imp_power_dvd)
  then show "be_value (be_bytes n (v mod 256 ^ k)) = be_value (be_bytes n v)"
    by (simp add: be_value_be_bytes mod_mod_cancel)
qed simp

lemma be_bytes_of_nat:
  "be_bytes 2 (unat (of_nat k :: u16)) = be_bytes 2 k"
  "be_bytes 3 (unat (of_nat k :: u32)) = be_bytes 3 k"
  "be_bytes 1 k = [of_nat k]"
  using be_bytes_mod [of 2 2 k] be_bytes_mod [of 3 4 k]
  by (simp_all add: unsigned_of_nat take_bit_eq_mod)

section \<open>Vectors meet the contract\<close>

lemma write_at_prefix: "length xs = length ys \<Longrightarrow> write_at (bs @ xs @ cs) (length bs) ys = bs @ ys @ cs"
  by (simp add: write_at_def)

context appends
begin

lemma fold_vec_bytes: "fold encode xs bs = bs @ vec_bytes encode xs"
  by (simp add: fold_encode vec_bytes_def)

lemma encode_vec_u8_eq: "encode_vec_u8 encode xs bs =
    bs @ be_bytes 1 (length (vec_bytes encode xs)) @ vec_bytes encode xs"
  by (simp add: encode_vec_u8_def Let_def fold_vec_bytes list_update_append be_bytes_of_nat(3))

lemma encode_vec_u16_eq: "encode_vec_u16 encode xs bs =
    bs @ be_bytes 2 (length (vec_bytes encode xs)) @ vec_bytes encode xs"
  using write_at_prefix [of "[0, 0]" "be_bytes 2 (length (vec_bytes encode xs))" bs
      "vec_bytes encode xs"]
  by (simp add: encode_vec_u16_def Let_def fold_vec_bytes be_bytes_of_nat(1))

lemma encode_vec_u24_eq: "encode_vec_u24 encode xs bs =
    bs @ be_bytes 3 (length (vec_bytes encode xs)) @ vec_bytes encode xs"
  using write_at_prefix [of "[0, 0, 0]" "be_bytes 3 (length (vec_bytes encode xs))" bs
      "vec_bytes encode xs"] be_bytes_drop [of 3]
  by (simp add: encode_vec_u24_def Let_def fold_vec_bytes be_bytes_of_nat(2))

lemma get_encoding_vec [simp]:
  "get_encoding (encode_vec_u8 encode) xs =
     be_bytes 1 (length (vec_bytes encode xs)) @ vec_bytes encode xs"
  "get_encoding (encode_vec_u16 encode) xs =
     be_bytes 2 (length (vec_bytes encode xs)) @ vec_bytes encode xs"
  "get_encoding (encode_vec_u24 encode) xs =
     be_bytes 3 (length (vec_bytes encode xs)) @ vec_bytes encode xs"
  by (simp_all add: get_encoding_def encode_vec_u8_eq encode_vec_u16_eq encode_vec_u24_eq)

end

context codec_elem
begin

text \<open>The guard that stops a read without progress is never taken.\<close>

lemma read_progress:
  assumes "reader_ok r" "rd r = Some (x, r')"
  shows "Reader_left r' < Reader_left r" and "reader_ok r'"
proof -
  from assms have *: "ok x" "reads r (get_encoding encode x) (mid x) r'" by (simp_all add: read_iff)
  with enc_nonempty show "Reader_left r' < Reader_left r"
    by (auto simp: left_eq reads_def fits_def)
  from * show "reader_ok r'" using reader_ok_advance [OF assms(1)] by (auto simp: reads_def)
qed

lemma read_all_loop:
  "reader_ok sub \<Longrightarrow> read_all rd sub ret =
     (if Reader_any_left sub
      then do { (x, sub) \<leftarrow> rd sub; read_all rd sub (ret @ [x]) }
      else Some ret)"
  by (subst read_all.simps) (auto simp: read_progress split: option.split)

lemma vec_bytes_empty: "items_ok ok mid xs \<Longrightarrow> vec_bytes encode xs = [] \<longleftrightarrow> xs = []"
  by (cases xs) (auto simp: enc_nonempty)

lemma read_all_iff:
  "reader_ok sub \<Longrightarrow> read_all rd sub ret = Some ys \<longleftrightarrow>
     (\<exists>xs. ys = ret @ xs \<and> items_ok ok mid xs \<and> remaining sub = vec_bytes encode xs)"
proof (induction "Reader_left sub" arbitrary: sub ret rule: less_induct)
  case less
  show ?case
  proof (cases "remaining sub = []")
    case True
    then show ?thesis
      using vec_bytes_empty
      by (auto simp: read_all_loop [OF less.prems] any_left_iff eq_commute [of "[]"])
  next
    case False
    have IH: "read_all rd (advance (length (get_encoding encode x)) sub) (ret @ [x]) = Some ys \<longleftrightarrow>
        (\<exists>xs. ys = ret @ x # xs \<and> items_ok ok mid xs \<and>
          drop (length (get_encoding encode x)) (remaining sub) = vec_bytes encode xs)"
      if "ok x" "fits sub (get_encoding encode x) (mid x)" for x
    proof -
      from that have "rd sub = Some (x, advance (length (get_encoding encode x)) sub)"
        by (simp add: read_iff [OF less.prems] reads_def)
      from less.hyps [OF read_progress [OF less.prems this]] show ?thesis by simp
    qed
    have "read_all rd sub ret = Some ys \<longleftrightarrow>
        (\<exists>x. ok x \<and> fits sub (get_encoding encode x) (mid x) \<and>
          read_all rd (advance (length (get_encoding encode x)) sub) (ret @ [x]) = Some ys)"
      using False by (simp add: read_all_loop [OF less.prems] any_left_iff bind_iff [OF less.prems])
    also have "\<dots> \<longleftrightarrow> (\<exists>x xs. ok x \<and> ys = ret @ x # xs \<and> items_ok ok mid xs \<and>
        (mid x \<or> xs = []) \<and> remaining sub = get_encoding encode x @ vec_bytes encode xs)"
      using IH vec_bytes_empty by (fastforce simp: fits_def)
    also have "\<dots> \<longleftrightarrow> (\<exists>xs. ys = ret @ xs \<and> items_ok ok mid xs \<and> remaining sub = vec_bytes encode xs)"
      (is "?l \<longleftrightarrow> ?r")
    proof
      assume ?l
      then obtain x xs where "ok x" "ys = ret @ x # xs" "items_ok ok mid xs" "mid x \<or> xs = []"
        "remaining sub = get_encoding encode x @ vec_bytes encode xs" by blast
      then show ?r by (intro exI [of _ "x # xs"]) simp
    next
      assume ?r
      then obtain xs where *: "ys = ret @ xs" "items_ok ok mid xs" "remaining sub = vec_bytes encode xs"
        by blast
      with False show ?l by (cases xs) auto
    qed
    finally show ?thesis .
  qed
qed

lemma read_all_init: "read_all rd (Reader_init b) [] = Some xs \<longleftrightarrow>
    items_ok ok mid xs \<and> b = vec_bytes encode xs"
  using read_all_iff [of "Reader_init b" "[]" xs] by auto

lemma vec_u8: "codec_elem (encode_vec_u8 encode) (read_vec_u8 rd) (vec_ok encode ok mid 1) (\<lambda>_. True)"
proof unfold_locales
  fix r r' :: Reader and xs
  assume r: "reader_ok r"
  show "read_vec_u8 rd r = Some (xs, r') \<longleftrightarrow> vec_ok encode ok mid 1 xs \<and>
      reads r (get_encoding (encode_vec_u8 encode) xs) True r'"
    unfolding read_vec_u8_def prefix_u8_iff [OF r]
    by (auto simp: Option.bind_eq_Some_conv read_all_init vec_ok_def reads_def)
qed (auto simp: encode_vec_u8_eq)

lemma vec_u16: "codec_elem (encode_vec_u16 encode) (read_vec_u16 rd) (vec_ok encode ok mid 2) (\<lambda>_. True)"
proof unfold_locales
  fix r r' :: Reader and xs
  assume r: "reader_ok r"
  show "read_vec_u16 rd r = Some (xs, r') \<longleftrightarrow> vec_ok encode ok mid 2 xs \<and>
      reads r (get_encoding (encode_vec_u16 encode) xs) True r'"
    unfolding read_vec_u16_def prefix_u16_iff [OF r]
    by (auto simp: Option.bind_eq_Some_conv read_all_init vec_ok_def reads_def)
qed (auto simp: encode_vec_u16_eq)

lemma vec_u24:
  assumes "k < 256 ^ 3"
  shows "codec_elem (encode_vec_u24 encode) (read_vec_u24_limited rd k)
    (\<lambda>xs. items_ok ok mid xs \<and> length (vec_bytes encode xs) \<le> k) (\<lambda>_. True)"
proof unfold_locales
  fix r r' :: Reader and xs
  assume r: "reader_ok r"
  have *: "(u24_read r \<bind> (\<lambda>(len, r). if k < unat (u24_val len) then None
        else Reader_sub r (unat (u24_val len)) \<bind> (\<lambda>(sub, r). f sub r))) =
      (u24_read r \<bind> (\<lambda>(len, r). Reader_sub r (unat (u24_val len)) \<bind>
        (\<lambda>(sub, r). if k < length (rd_buf sub) then None else f sub r)))"
    for f :: "Reader \<Rightarrow> Reader \<Rightarrow> ('a list \<times> Reader) option"
    by (intro Option.bind_cong refl) (auto simp: Reader_sub_def Reader_take_def Reader_left_def Reader_init_def
        not_less split: prod.split)
  show "read_vec_u24_limited rd k r = Some (xs, r') \<longleftrightarrow>
      (items_ok ok mid xs \<and> length (vec_bytes encode xs) \<le> k) \<and>
      reads r (get_encoding (encode_vec_u24 encode) xs) True r'"
    unfolding read_vec_u24_limited_def * prefix_u24_iff [OF r]
    using assms
    by (auto simp: Option.bind_eq_Some_conv read_all_init reads_def rd_buf_init not_less split: if_splits)
qed (auto simp: encode_vec_u24_eq)

end

section \<open>Payloads meet the contract\<close>

interpretation payload: codec Payload_encode Payload_read "\<lambda>_. True" "\<lambda>_. False"
proof unfold_locales
  fix r r' :: Reader and x :: Payload
  have e: "get_encoding Payload_encode x = payload_bytes x"
    by (simp add: get_encoding_def Payload_encode_def)
  assume "reader_ok r"
  then show "Payload_read r = Some (x, r') \<longleftrightarrow> True \<and> reads r (get_encoding Payload_encode x) False r'"
    unfolding e Payload_read_def using rest_iff [of r "payload_bytes x" r']
    by (cases x) (auto split: prod.split)
qed (simp add: get_encoding_def Payload_encode_def)

lemma rest_init: "Reader_rest (Reader_init b) = (b, Reader_init b\<lparr>rd_offs := length b\<rparr>)"
  by (simp add: Reader_rest_def Reader_init_def)

definition PayloadU8_ok :: "PayloadU8 \<Rightarrow> bool" where
  "PayloadU8_ok p \<longleftrightarrow> length (payload_u8_bytes p) < 256 ^ 1"

definition PayloadU16_ok :: "PayloadU16 \<Rightarrow> bool" where
  "PayloadU16_ok p \<longleftrightarrow> length (payload_u16_bytes p) < 256 ^ 2"

definition PayloadU24_ok :: "PayloadU24 \<Rightarrow> bool" where
  "PayloadU24_ok p \<longleftrightarrow> length (payload_u24_bytes p) < 256 ^ 3"

definition Certificate_ok :: "Certificate \<Rightarrow> bool" where
  "Certificate_ok c \<longleftrightarrow> length (certificate_bytes c) < 256 ^ 3"

lemma get_encoding_payloads [simp, codec_simps]:
  "get_encoding Payload_encode a = payload_bytes a"
  "get_encoding PayloadU8_encode b =
     be_bytes 1 (length (payload_u8_bytes b)) @ payload_u8_bytes b"
  "get_encoding PayloadU16_encode c =
     be_bytes 2 (length (payload_u16_bytes c)) @ payload_u16_bytes c"
  "get_encoding PayloadU24_encode d =
     be_bytes 3 (length (payload_u24_bytes d)) @ payload_u24_bytes d"
  "get_encoding Certificate_encode e =
     be_bytes 3 (length (certificate_bytes e)) @ certificate_bytes e"
  using be_bytes_drop [of 3]
  by (simp_all add: get_encoding_def Payload_encode_def PayloadU8_encode_def PayloadU16_encode_def
      PayloadU16_encode_slice_def PayloadU24_encode_def Certificate_encode_def u8_encode_def
      u16_encode_def u24_encode_def put_u16_def be_bytes_of_nat)

interpretation payload_u8: codec_elem PayloadU8_encode PayloadU8_read PayloadU8_ok "\<lambda>_. True"
proof unfold_locales
  fix r r' :: Reader and x :: PayloadU8
  assume r: "reader_ok r"
  show "PayloadU8_read r = Some (x, r') \<longleftrightarrow>
      PayloadU8_ok x \<and> reads r (get_encoding PayloadU8_encode x) True r'"
    unfolding PayloadU8_read_def prefix_u8_iff [OF r]
    by (cases x) (auto simp: rest_init PayloadU8_ok_def reads_def)
qed (simp_all add: PayloadU8_encode_def u8_encode_def be_bytes_of_nat)

interpretation payload_u16: codec_elem PayloadU16_encode PayloadU16_read PayloadU16_ok "\<lambda>_. True"
proof unfold_locales
  fix r r' :: Reader and x :: PayloadU16
  assume r: "reader_ok r"
  show "PayloadU16_read r = Some (x, r') \<longleftrightarrow>
      PayloadU16_ok x \<and> reads r (get_encoding PayloadU16_encode x) True r'"
    unfolding PayloadU16_read_def prefix_u16_iff [OF r]
    by (cases x) (auto simp: rest_init PayloadU16_ok_def reads_def)
qed (simp_all add: PayloadU16_encode_def PayloadU16_encode_slice_def u16_encode_def put_u16_def
    be_bytes_of_nat)

interpretation payload_u24: codec_elem PayloadU24_encode PayloadU24_read PayloadU24_ok "\<lambda>_. True"
proof unfold_locales
  fix r r' :: Reader and x :: PayloadU24
  assume r: "reader_ok r"
  show "PayloadU24_read r = Some (x, r') \<longleftrightarrow>
      PayloadU24_ok x \<and> reads r (get_encoding PayloadU24_encode x) True r'"
    unfolding PayloadU24_read_def prefix_u24_iff [OF r]
    by (cases x) (auto simp: rest_init PayloadU24_ok_def reads_def)
qed (use be_bytes_drop [of 3] in
    \<open>simp_all add: PayloadU24_encode_def u24_encode_def be_bytes_of_nat\<close>)

interpretation certificate: codec_elem Certificate_encode Certificate_read Certificate_ok "\<lambda>_. True"
proof unfold_locales
  fix r r' :: Reader and x :: Certificate
  assume r: "reader_ok r"
  show "Certificate_read r = Some (x, r') \<longleftrightarrow>
      Certificate_ok x \<and> reads r (get_encoding Certificate_encode x) True r'"
    unfolding Certificate_read_def prefix_u24_iff [OF r]
    by (cases x) (auto simp: rest_init Certificate_ok_def reads_def)
qed (use be_bytes_drop [of 3] in
    \<open>simp_all add: Certificate_encode_def u24_encode_def be_bytes_of_nat\<close>)

section \<open>Composing readers\<close>

text \<open>
  The specification of a reader: \<open>S x e m\<close> when it reads \<open>x\<close> from the bytes \<open>e\<close>, with more bytes after
  them only if \<open>m\<close>.  The rules follow the structure of the reader's code.
\<close>

definition rspec :: "'a reader \<Rightarrow> ('a \<Rightarrow> bytes \<Rightarrow> bool \<Rightarrow> bool) \<Rightarrow> bool" where
  "rspec rd S \<longleftrightarrow> (\<forall>r x r'. reader_ok r \<longrightarrow>
     rd r = Some (x, r') \<longleftrightarrow> (\<exists>e m. S x e m \<and> reads r e m r'))"

lemma rspecD: "rspec rd S \<Longrightarrow> reader_ok r \<Longrightarrow>
    rd r = Some (x, r') \<longleftrightarrow> (\<exists>e m. S x e m \<and> reads r e m r')"
  by (simp add: rspec_def)

lemma rspec_codec:
  "codec encode rd ok mid \<Longrightarrow> rspec rd (\<lambda>x e m. ok x \<and> e = get_encoding encode x \<and> m = mid x)"
  by (auto simp: rspec_def codec.read_iff)

lemma reads_Nil: "reads r [] m r' \<longleftrightarrow> r' = r \<and> (m \<or> \<not> Reader_any_left r)"
  by (auto simp: reads_def fits_def any_left_iff)

lemma rspec_ret: "rspec (\<lambda>r. Some (c, r)) (\<lambda>x e m. x = c \<and> e = [] \<and> m = True)"
  by (simp add: rspec_def reads_Nil cong: conj_cong) blast

lemma rspec_none: "rspec (\<lambda>r. None) (\<lambda>x e m. False)"
  by (simp add: rspec_def)

lemma rspec_end: "rspec (\<lambda>r. if Reader_any_left r then None else Some (c, r))
    (\<lambda>x e m. x = c \<and> e = [] \<and> m = False)"
  by (simp add: rspec_def reads_Nil cong: conj_cong) blast

lemma rspec_if:
  "rspec f S \<Longrightarrow> rspec g T \<Longrightarrow>
   rspec (\<lambda>r. if b then f r else g r) (\<lambda>x e m. if b then S x e m else T x e m)"
  by (simp add: rspec_def)

lemma rspec_any_left:
  assumes "rspec f S" and "\<And>x m. S x [] m \<Longrightarrow> \<not> m"
  shows "rspec (\<lambda>r. if Reader_any_left r then f r else Some (c, r))
    (\<lambda>x e m. S x e m \<and> e \<noteq> [] \<or> x = c \<and> e = [] \<and> m = False)"
  unfolding rspec_def
proof (intro allI impI)
  fix r x r' assume r: "reader_ok r"
  show "(if Reader_any_left r then f r else Some (c, r)) = Some (x, r') \<longleftrightarrow>
      (\<exists>e m. (S x e m \<and> e \<noteq> [] \<or> x = c \<and> e = [] \<and> m = False) \<and> reads r e m r')"
  proof (cases "remaining r = []")
    case True
    then have "\<not> reads r e m r'" if "e \<noteq> []" for e m
      using that by (auto simp: reads_def fits_def)
    with True show ?thesis using reads_Nil [of r False r'] by (auto simp: any_left_iff)
  next
    case False
    have "(\<exists>e m. S x e m \<and> reads r e m r') \<longleftrightarrow> (\<exists>e m. (S x e m \<and> e \<noteq> []) \<and> reads r e m r')"
      using False assms(2) by (metis any_left_iff reads_Nil)
    moreover have "\<not> reads r [] False r'" using False by (simp add: reads_Nil any_left_iff)
    ultimately show ?thesis
      using False rspecD [OF assms(1) r, of x r'] by (auto simp: any_left_iff)
  qed
qed

lemma rspec_cong: "rspec rd S \<Longrightarrow> (\<And>x e m. S x e m \<longleftrightarrow> T x e m) \<Longrightarrow> rspec rd T"
  by (simp add: rspec_def)

lemma rspec_whole:
  "rspec rd S \<Longrightarrow> (\<exists>r'. rd (Reader_init b) = Some (x, r') \<and> \<not> Reader_any_left r') \<longleftrightarrow> (\<exists>m. S x b m)"
  (is "_ \<Longrightarrow> ?l \<longleftrightarrow> ?r")
proof
  assume S: "rspec rd S"
  have reads: "reads (Reader_init b) e m r' \<and> \<not> Reader_any_left r' \<Longrightarrow> e = b" for e m r'
    by (auto simp: reads_def fits_init any_left_iff)
  show ?r if ?l
    using that rspecD [OF S reader_ok_init] reads by blast
  show ?l if r: ?r
  proof -
    from r obtain m where "S x b m" by blast
    moreover have "reads (Reader_init b) b m (advance (length b) (Reader_init b))"
      "\<not> Reader_any_left (advance (length b) (Reader_init b))"
      by (auto simp: reads_def fits_init any_left_iff)
    ultimately show ?l using rspecD [OF S reader_ok_init] by blast
  qed
qed

lemma reads_seq:
  "reads r (e1 @ e2) (m1 \<and> m2) r' \<and> (m1 \<or> e2 = []) \<longleftrightarrow>
    (\<exists>r1. reads r e1 m1 r1 \<and> reads r1 e2 m2 r')"
  by (auto simp: reads_def fits_def)

lemma rspec_bind:
  assumes "rspec f S" and "\<And>a. rspec (g a) (T a)"
  shows "rspec (\<lambda>r. f r \<bind> (\<lambda>(a, r). g a r))
    (\<lambda>x e m. \<exists>a e1 m1 e2 m2. S a e1 m1 \<and> T a x e2 m2 \<and> e = e1 @ e2 \<and> (m1 \<or> e2 = []) \<and>
       m = (m1 \<and> m2))"
  unfolding rspec_def
proof (intro allI impI)
  fix r x r' assume r: "reader_ok r"
  have step: "g a r1 = Some (x, r') \<longleftrightarrow> (\<exists>e2 m2. T a x e2 m2 \<and> reads r1 e2 m2 r')"
    if "reads r e1 m1 r1" for a e1 m1 r1
    using that reader_ok_advance [OF r] by (intro rspecD [OF assms(2)]) (auto simp: reads_def)
  show "(f r \<bind> (\<lambda>(a, r). g a r)) = Some (x, r') \<longleftrightarrow>
      (\<exists>e m. (\<exists>a e1 m1 e2 m2. S a e1 m1 \<and> T a x e2 m2 \<and> e = e1 @ e2 \<and>
        (m1 \<or> e2 = []) \<and> m = (m1 \<and> m2)) \<and> reads r e m r')" (is "?l \<longleftrightarrow> ?r")
  proof
    assume ?l
    then obtain a r1 where a: "f r = Some (a, r1)" "g a r1 = Some (x, r')"
      by (auto simp: Option.bind_eq_Some_conv)
    from a(1) obtain e1 m1 where 1: "S a e1 m1" "reads r e1 m1 r1"
      using rspecD [OF assms(1) r] by blast
    from a(2) obtain e2 m2 where 2: "T a x e2 m2" "reads r1 e2 m2 r'"
      using step [OF 1(2)] by blast
    from 1 2 reads_seq [of r e1 e2 m1 m2 r'] show ?r by blast
  next
    assume ?r
    then obtain a e1 m1 e2 m2 where *: "S a e1 m1" "T a x e2 m2" "m1 \<or> e2 = []"
      "reads r (e1 @ e2) (m1 \<and> m2) r'" by blast
    with reads_seq [of r e1 e2 m1 m2 r'] obtain r1 where 1: "reads r e1 m1 r1" "reads r1 e2 m2 r'"
      by blast
    with *(1) have "f r = Some (a, r1)" using rspecD [OF assms(1) r] by blast
    moreover have "g a r1 = Some (x, r')" using step [OF 1(1)] *(2) 1(2) by blast
    ultimately show ?l by simp
  qed
qed

text \<open>A body with a length in front that must be read to its end.\<close>

lemma rspecI: "(\<And>r x r'. reader_ok r \<Longrightarrow> rd r = Some (x, r') \<longleftrightarrow> (\<exists>e m. S x e m \<and> reads r e m r')) \<Longrightarrow> rspec rd S"
  by (simp add: rspec_def)

lemma read_to_end:
  assumes "rspec h S"
  shows "(h (Reader_init b) \<bind> (\<lambda>(y, sub). if Reader_any_left sub then None else Some (y, r))) =
      Some (x, r') \<longleftrightarrow> r' = r \<and> (\<exists>m. S x b m)"
  using rspec_whole [OF assms, of b x] by (auto simp: Option.bind_eq_Some_conv split: if_splits)

lemma sub_reads:
  "(\<exists>b. length b < 256 ^ n \<and> fits r (be_bytes n (length b) @ b) True \<and>
      r' = advance (n + length b) r \<and> (\<exists>m. S b m)) \<longleftrightarrow>
   (\<exists>e m. ((\<exists>b m'. S b m' \<and> length b < 256 ^ n \<and> e = be_bytes n (length b) @ b) \<and> m = True) \<and> reads r e m r')"
  (is "?l \<longleftrightarrow> ?r")
proof
  assume ?l
  then obtain b m where "length b < 256 ^ n" "fits r (be_bytes n (length b) @ b) True"
    "r' = advance (n + length b) r" "S b m" by blast
  then show ?r
    by (intro exI [of _ "be_bytes n (length b) @ b"] exI [of _ True]) (auto simp: reads_def)
next
  assume ?r
  then show ?l by (auto simp: reads_def)
qed

lemma rspec_sub_u16:
  assumes "rspec h S"
  shows "rspec (\<lambda>r. u16_read r \<bind> (\<lambda>(len, r). Reader_sub r (unat len) \<bind> (\<lambda>(sub, r).
      h sub \<bind> (\<lambda>(y, sub). if Reader_any_left sub then None else Some (y, r)))))
    (\<lambda>x e m. (\<exists>b m'. S x b m' \<and> length b < 256 ^ 2 \<and> e = be_bytes 2 (length b) @ b) \<and> m = True)"
  by (rule rspecI) (unfold prefix_u16_iff read_to_end [OF assms], rule sub_reads)

lemma rspec_sub_u24:
  assumes "rspec h S"
  shows "rspec (\<lambda>r. u24_read r \<bind> (\<lambda>(len, r). Reader_sub r (unat (u24_val len)) \<bind> (\<lambda>(sub, r).
      h sub \<bind> (\<lambda>(y, sub). if Reader_any_left sub then None else Some (y, r)))))
    (\<lambda>x e m. (\<exists>b m'. S x b m' \<and> length b < 256 ^ 3 \<and> e = be_bytes 3 (length b) @ b) \<and> m = True)"
  by (rule rspecI) (unfold prefix_u24_iff read_to_end [OF assms], rule sub_reads)

lemma rspec_take [codec_read]:
  "rspec (\<lambda>r. Reader_take r n) (\<lambda>x e m. length x = n \<and> e = x \<and> m = True)"
  by (rule rspecI) (auto simp: take_iff)

lemmas rspec_intros = rspec_bind rspec_ret rspec_none rspec_if

text \<open>A codec from a specification of the reader that gives exactly the encodings.\<close>

lemma codecI:
  assumes "\<And>x bs. encode x bs = bs @ get_encoding encode x"
    and "rspec rd S"
    and "\<And>x e m. S x e m \<longleftrightarrow> ok x \<and> e = get_encoding encode x \<and> m = mid x"
  shows "codec encode rd ok mid"
proof unfold_locales
  show "rd r = Some (x, r') \<longleftrightarrow> ok x \<and> reads r (get_encoding encode x) (mid x) r'"
    if "reader_ok r" for r x r'
    unfolding rspecD [OF assms(2) that] assms(3) by auto
qed (rule assms(1))

context codec
begin

lemmas read_spec = rspec_codec [OF codec_axioms]

end

lemmas base_enc [codec_enc] =
  u8c.enc_app u16c.enc_app u24c.enc_app u32c.enc_app u64c.enc_app payload.enc_app
  payload_u8.enc_app payload_u16.enc_app payload_u24.enc_app certificate.enc_app

lemmas base_read [codec_read] =
  u8c.read_spec u16c.read_spec u24c.read_spec u32c.read_spec u64c.read_spec payload.read_spec
  payload_u8.read_spec payload_u16.read_spec payload_u24.read_spec certificate.read_spec

end
