(* ===== verification/Enums.thy ===== *)
theory Enums
  imports Codec
begin

text \<open>
  The protocol enumerations of \<open>crates/tls/core/src/msgs/enums.rs\<close>, expanded from the macro
  \<open>enum_builder\<close> of \<open>macros.rs\<close>: for each enumeration the type with its \<open>Unknown\<close> variant, \<open>get_u8\<close> or
  \<open>get_u16\<close>, \<open>From<u8>\<close> or \<open>From<u16>\<close>, and the codec.  \<open>HashAlgorithm\<close> and \<open>SignatureAlgorithm\<close> carry
  the prefix \<open>Tls\<close>, because the core crate has types of the same names.

  \<open>CipherSuite\<close> has 376 named variants.  It is modelled by the table of its values and names: the
  variant with value \<open>v\<close> of the table is \<open>Suite v\<close>.

  \<open>Unknown(v)\<close> for a value \<open>v\<close> that has a variant of its own can be built but never read, so a value is
  well formed when it is what \<open>From\<close> gives for its number.
\<close>

section \<open>The macro\<close>

locale enum_u8 =
  fixes get :: "'e \<Rightarrow> u8" and from_num :: "u8 \<Rightarrow> 'e"
  assumes get_from: "get (from_num v) = v"
begin

lemma enum_codec:
  "codec_elem (\<lambda>x. u8_encode (get x)) (\<lambda>r. map_option (\<lambda>(v, r). (from_num v, r)) (u8_read r))
     (\<lambda>x. from_num (get x) = x) (\<lambda>_. True)"
proof unfold_locales
  fix r r' :: Reader and x
  assume r: "reader_ok r"
  have e: "get_encoding (\<lambda>x. u8_encode (get x)) x = [get x]"
    by (simp add: get_encoding_def u8_encode_def)
  show "map_option (\<lambda>(v, r). (from_num v, r)) (u8_read r) = Some (x, r') \<longleftrightarrow>
      from_num (get x) = x \<and> reads r (get_encoding (\<lambda>x. u8_encode (get x)) x) True r'"
    unfolding e by (auto simp: u8c.read_iff [OF r] get_from intro!: exI [of _ "get x"])
qed (simp_all add: get_encoding_def u8_encode_def)

end

locale enum_u16 =
  fixes get :: "'e \<Rightarrow> u16" and from_num :: "u16 \<Rightarrow> 'e"
  assumes get_from: "get (from_num v) = v"
begin

lemma enum_codec:
  "codec_elem (\<lambda>x. u16_encode (get x)) (\<lambda>r. map_option (\<lambda>(v, r). (from_num v, r)) (u16_read r))
     (\<lambda>x. from_num (get x) = x) (\<lambda>_. True)"
proof unfold_locales
  fix r r' :: Reader and x
  assume r: "reader_ok r"
  have e: "get_encoding (\<lambda>x. u16_encode (get x)) x = be_bytes 2 (unat (get x))"
    by (simp add: get_encoding_def u16_encode_def put_u16_def)
  show "map_option (\<lambda>(v, r). (from_num v, r)) (u16_read r) = Some (x, r') \<longleftrightarrow>
      from_num (get x) = x \<and> reads r (get_encoding (\<lambda>x. u16_encode (get x)) x) True r'"
    unfolding e by (auto simp: u16c.read_iff [OF r] get_from intro!: exI [of _ "get x"])
qed (simp_all add: get_encoding_def u16_encode_def put_u16_def)

end

section \<open>The enumerations\<close>

datatype ProtocolVersion =
     SSLv2 | SSLv3 | TLSv1_0 | TLSv1_1 | TLSv1_2 | TLSv1_3 | DTLSv1_0 | DTLSv1_2 | Unknown u16

fun ProtocolVersion_get_u16 :: "ProtocolVersion \<Rightarrow> u16" where
  "ProtocolVersion_get_u16 ProtocolVersion.SSLv2 = 0x0200"
| "ProtocolVersion_get_u16 ProtocolVersion.SSLv3 = 0x0300"
| "ProtocolVersion_get_u16 ProtocolVersion.TLSv1_0 = 0x0301"
| "ProtocolVersion_get_u16 ProtocolVersion.TLSv1_1 = 0x0302"
| "ProtocolVersion_get_u16 ProtocolVersion.TLSv1_2 = 0x0303"
| "ProtocolVersion_get_u16 ProtocolVersion.TLSv1_3 = 0x0304"
| "ProtocolVersion_get_u16 ProtocolVersion.DTLSv1_0 = 0xFEFF"
| "ProtocolVersion_get_u16 ProtocolVersion.DTLSv1_2 = 0xFEFD"
| "ProtocolVersion_get_u16 (ProtocolVersion.Unknown v) = v"

definition ProtocolVersion_from :: "u16 \<Rightarrow> ProtocolVersion" where
  "ProtocolVersion_from x =
     (if x = 0x0200 then ProtocolVersion.SSLv2
      else if x = 0x0300 then ProtocolVersion.SSLv3
      else if x = 0x0301 then ProtocolVersion.TLSv1_0
      else if x = 0x0302 then ProtocolVersion.TLSv1_1
      else if x = 0x0303 then ProtocolVersion.TLSv1_2
      else if x = 0x0304 then ProtocolVersion.TLSv1_3
      else if x = 0xFEFF then ProtocolVersion.DTLSv1_0
      else if x = 0xFEFD then ProtocolVersion.DTLSv1_2
      else ProtocolVersion.Unknown x)"

definition ProtocolVersion_encode :: "ProtocolVersion encoder" where
  "ProtocolVersion_encode x = u16_encode (ProtocolVersion_get_u16 x)"

definition ProtocolVersion_read :: "ProtocolVersion reader" where
  "ProtocolVersion_read r = map_option (\<lambda>(v, r). (ProtocolVersion_from v, r)) (u16_read r)"

datatype TlsHashAlgorithm =
     NONE | MD5 | SHA1 | SHA224 | SHA256 | SHA384 | SHA512 | Unknown u8

fun TlsHashAlgorithm_get_u8 :: "TlsHashAlgorithm \<Rightarrow> u8" where
  "TlsHashAlgorithm_get_u8 TlsHashAlgorithm.NONE = 0x00"
| "TlsHashAlgorithm_get_u8 TlsHashAlgorithm.MD5 = 0x01"
| "TlsHashAlgorithm_get_u8 TlsHashAlgorithm.SHA1 = 0x02"
| "TlsHashAlgorithm_get_u8 TlsHashAlgorithm.SHA224 = 0x03"
| "TlsHashAlgorithm_get_u8 TlsHashAlgorithm.SHA256 = 0x04"
| "TlsHashAlgorithm_get_u8 TlsHashAlgorithm.SHA384 = 0x05"
| "TlsHashAlgorithm_get_u8 TlsHashAlgorithm.SHA512 = 0x06"
| "TlsHashAlgorithm_get_u8 (TlsHashAlgorithm.Unknown v) = v"

definition TlsHashAlgorithm_from :: "u8 \<Rightarrow> TlsHashAlgorithm" where
  "TlsHashAlgorithm_from x =
     (if x = 0x00 then TlsHashAlgorithm.NONE
      else if x = 0x01 then TlsHashAlgorithm.MD5
      else if x = 0x02 then TlsHashAlgorithm.SHA1
      else if x = 0x03 then TlsHashAlgorithm.SHA224
      else if x = 0x04 then TlsHashAlgorithm.SHA256
      else if x = 0x05 then TlsHashAlgorithm.SHA384
      else if x = 0x06 then TlsHashAlgorithm.SHA512
      else TlsHashAlgorithm.Unknown x)"

definition TlsHashAlgorithm_encode :: "TlsHashAlgorithm encoder" where
  "TlsHashAlgorithm_encode x = u8_encode (TlsHashAlgorithm_get_u8 x)"

definition TlsHashAlgorithm_read :: "TlsHashAlgorithm reader" where
  "TlsHashAlgorithm_read r = map_option (\<lambda>(v, r). (TlsHashAlgorithm_from v, r)) (u8_read r)"

datatype TlsSignatureAlgorithm =
     Anonymous | RSA | DSA | ECDSA | ED25519 | ED448 | Unknown u8

fun TlsSignatureAlgorithm_get_u8 :: "TlsSignatureAlgorithm \<Rightarrow> u8" where
  "TlsSignatureAlgorithm_get_u8 TlsSignatureAlgorithm.Anonymous = 0x00"
| "TlsSignatureAlgorithm_get_u8 TlsSignatureAlgorithm.RSA = 0x01"
| "TlsSignatureAlgorithm_get_u8 TlsSignatureAlgorithm.DSA = 0x02"
| "TlsSignatureAlgorithm_get_u8 TlsSignatureAlgorithm.ECDSA = 0x03"
| "TlsSignatureAlgorithm_get_u8 TlsSignatureAlgorithm.ED25519 = 0x07"
| "TlsSignatureAlgorithm_get_u8 TlsSignatureAlgorithm.ED448 = 0x08"
| "TlsSignatureAlgorithm_get_u8 (TlsSignatureAlgorithm.Unknown v) = v"

definition TlsSignatureAlgorithm_from :: "u8 \<Rightarrow> TlsSignatureAlgorithm" where
  "TlsSignatureAlgorithm_from x =
     (if x = 0x00 then TlsSignatureAlgorithm.Anonymous
      else if x = 0x01 then TlsSignatureAlgorithm.RSA
      else if x = 0x02 then TlsSignatureAlgorithm.DSA
      else if x = 0x03 then TlsSignatureAlgorithm.ECDSA
      else if x = 0x07 then TlsSignatureAlgorithm.ED25519
      else if x = 0x08 then TlsSignatureAlgorithm.ED448
      else TlsSignatureAlgorithm.Unknown x)"

definition TlsSignatureAlgorithm_encode :: "TlsSignatureAlgorithm encoder" where
  "TlsSignatureAlgorithm_encode x = u8_encode (TlsSignatureAlgorithm_get_u8 x)"

definition TlsSignatureAlgorithm_read :: "TlsSignatureAlgorithm reader" where
  "TlsSignatureAlgorithm_read r = map_option (\<lambda>(v, r). (TlsSignatureAlgorithm_from v, r)) (u8_read r)"

datatype ClientCertificateType =
     RSASign | DSSSign | RSAFixedDH | DSSFixedDH | RSAEphemeralDH | DSSEphemeralDH | FortezzaDMS
    | ECDSASign | RSAFixedECDH | ECDSAFixedECDH | Unknown u8

fun ClientCertificateType_get_u8 :: "ClientCertificateType \<Rightarrow> u8" where
  "ClientCertificateType_get_u8 ClientCertificateType.RSASign = 0x01"
| "ClientCertificateType_get_u8 ClientCertificateType.DSSSign = 0x02"
| "ClientCertificateType_get_u8 ClientCertificateType.RSAFixedDH = 0x03"
| "ClientCertificateType_get_u8 ClientCertificateType.DSSFixedDH = 0x04"
| "ClientCertificateType_get_u8 ClientCertificateType.RSAEphemeralDH = 0x05"
| "ClientCertificateType_get_u8 ClientCertificateType.DSSEphemeralDH = 0x06"
| "ClientCertificateType_get_u8 ClientCertificateType.FortezzaDMS = 0x14"
| "ClientCertificateType_get_u8 ClientCertificateType.ECDSASign = 0x40"
| "ClientCertificateType_get_u8 ClientCertificateType.RSAFixedECDH = 0x41"
| "ClientCertificateType_get_u8 ClientCertificateType.ECDSAFixedECDH = 0x42"
| "ClientCertificateType_get_u8 (ClientCertificateType.Unknown v) = v"

definition ClientCertificateType_from :: "u8 \<Rightarrow> ClientCertificateType" where
  "ClientCertificateType_from x =
     (if x = 0x01 then ClientCertificateType.RSASign
      else if x = 0x02 then ClientCertificateType.DSSSign
      else if x = 0x03 then ClientCertificateType.RSAFixedDH
      else if x = 0x04 then ClientCertificateType.DSSFixedDH
      else if x = 0x05 then ClientCertificateType.RSAEphemeralDH
      else if x = 0x06 then ClientCertificateType.DSSEphemeralDH
      else if x = 0x14 then ClientCertificateType.FortezzaDMS
      else if x = 0x40 then ClientCertificateType.ECDSASign
      else if x = 0x41 then ClientCertificateType.RSAFixedECDH
      else if x = 0x42 then ClientCertificateType.ECDSAFixedECDH
      else ClientCertificateType.Unknown x)"

definition ClientCertificateType_encode :: "ClientCertificateType encoder" where
  "ClientCertificateType_encode x = u8_encode (ClientCertificateType_get_u8 x)"

definition ClientCertificateType_read :: "ClientCertificateType reader" where
  "ClientCertificateType_read r = map_option (\<lambda>(v, r). (ClientCertificateType_from v, r)) (u8_read r)"

datatype Compression =
     Null | Deflate | LSZ | Unknown u8

fun Compression_get_u8 :: "Compression \<Rightarrow> u8" where
  "Compression_get_u8 Compression.Null = 0x00"
| "Compression_get_u8 Compression.Deflate = 0x01"
| "Compression_get_u8 Compression.LSZ = 0x40"
| "Compression_get_u8 (Compression.Unknown v) = v"

definition Compression_from :: "u8 \<Rightarrow> Compression" where
  "Compression_from x =
     (if x = 0x00 then Compression.Null
      else if x = 0x01 then Compression.Deflate
      else if x = 0x40 then Compression.LSZ
      else Compression.Unknown x)"

definition Compression_encode :: "Compression encoder" where
  "Compression_encode x = u8_encode (Compression_get_u8 x)"

definition Compression_read :: "Compression reader" where
  "Compression_read r = map_option (\<lambda>(v, r). (Compression_from v, r)) (u8_read r)"

datatype ContentType =
     ChangeCipherSpec | Alert | Handshake | ApplicationData | Heartbeat | Unknown u8

fun ContentType_get_u8 :: "ContentType \<Rightarrow> u8" where
  "ContentType_get_u8 ContentType.ChangeCipherSpec = 0x14"
| "ContentType_get_u8 ContentType.Alert = 0x15"
| "ContentType_get_u8 ContentType.Handshake = 0x16"
| "ContentType_get_u8 ContentType.ApplicationData = 0x17"
| "ContentType_get_u8 ContentType.Heartbeat = 0x18"
| "ContentType_get_u8 (ContentType.Unknown v) = v"

definition ContentType_from :: "u8 \<Rightarrow> ContentType" where
  "ContentType_from x =
     (if x = 0x14 then ContentType.ChangeCipherSpec
      else if x = 0x15 then ContentType.Alert
      else if x = 0x16 then ContentType.Handshake
      else if x = 0x17 then ContentType.ApplicationData
      else if x = 0x18 then ContentType.Heartbeat
      else ContentType.Unknown x)"

definition ContentType_encode :: "ContentType encoder" where
  "ContentType_encode x = u8_encode (ContentType_get_u8 x)"

definition ContentType_read :: "ContentType reader" where
  "ContentType_read r = map_option (\<lambda>(v, r). (ContentType_from v, r)) (u8_read r)"

datatype HandshakeType =
     HelloRequest | ClientHello | ServerHello | HelloVerifyRequest | NewSessionTicket
    | EndOfEarlyData | HelloRetryRequest | EncryptedExtensions | Certificate | ServerKeyExchange
    | CertificateRequest | ServerHelloDone | CertificateVerify | ClientKeyExchange | Finished
    | CertificateURL | CertificateStatus | KeyUpdate | MessageHash | Unknown u8

fun HandshakeType_get_u8 :: "HandshakeType \<Rightarrow> u8" where
  "HandshakeType_get_u8 HandshakeType.HelloRequest = 0x00"
| "HandshakeType_get_u8 HandshakeType.ClientHello = 0x01"
| "HandshakeType_get_u8 HandshakeType.ServerHello = 0x02"
| "HandshakeType_get_u8 HandshakeType.HelloVerifyRequest = 0x03"
| "HandshakeType_get_u8 HandshakeType.NewSessionTicket = 0x04"
| "HandshakeType_get_u8 HandshakeType.EndOfEarlyData = 0x05"
| "HandshakeType_get_u8 HandshakeType.HelloRetryRequest = 0x06"
| "HandshakeType_get_u8 HandshakeType.EncryptedExtensions = 0x08"
| "HandshakeType_get_u8 HandshakeType.Certificate = 0x0b"
| "HandshakeType_get_u8 HandshakeType.ServerKeyExchange = 0x0c"
| "HandshakeType_get_u8 HandshakeType.CertificateRequest = 0x0d"
| "HandshakeType_get_u8 HandshakeType.ServerHelloDone = 0x0e"
| "HandshakeType_get_u8 HandshakeType.CertificateVerify = 0x0f"
| "HandshakeType_get_u8 HandshakeType.ClientKeyExchange = 0x10"
| "HandshakeType_get_u8 HandshakeType.Finished = 0x14"
| "HandshakeType_get_u8 HandshakeType.CertificateURL = 0x15"
| "HandshakeType_get_u8 HandshakeType.CertificateStatus = 0x16"
| "HandshakeType_get_u8 HandshakeType.KeyUpdate = 0x18"
| "HandshakeType_get_u8 HandshakeType.MessageHash = 0xfe"
| "HandshakeType_get_u8 (HandshakeType.Unknown v) = v"

definition HandshakeType_from :: "u8 \<Rightarrow> HandshakeType" where
  "HandshakeType_from x =
     (if x = 0x00 then HandshakeType.HelloRequest
      else if x = 0x01 then HandshakeType.ClientHello
      else if x = 0x02 then HandshakeType.ServerHello
      else if x = 0x03 then HandshakeType.HelloVerifyRequest
      else if x = 0x04 then HandshakeType.NewSessionTicket
      else if x = 0x05 then HandshakeType.EndOfEarlyData
      else if x = 0x06 then HandshakeType.HelloRetryRequest
      else if x = 0x08 then HandshakeType.EncryptedExtensions
      else if x = 0x0b then HandshakeType.Certificate
      else if x = 0x0c then HandshakeType.ServerKeyExchange
      else if x = 0x0d then HandshakeType.CertificateRequest
      else if x = 0x0e then HandshakeType.ServerHelloDone
      else if x = 0x0f then HandshakeType.CertificateVerify
      else if x = 0x10 then HandshakeType.ClientKeyExchange
      else if x = 0x14 then HandshakeType.Finished
      else if x = 0x15 then HandshakeType.CertificateURL
      else if x = 0x16 then HandshakeType.CertificateStatus
      else if x = 0x18 then HandshakeType.KeyUpdate
      else if x = 0xfe then HandshakeType.MessageHash
      else HandshakeType.Unknown x)"

definition HandshakeType_encode :: "HandshakeType encoder" where
  "HandshakeType_encode x = u8_encode (HandshakeType_get_u8 x)"

definition HandshakeType_read :: "HandshakeType reader" where
  "HandshakeType_read r = map_option (\<lambda>(v, r). (HandshakeType_from v, r)) (u8_read r)"

datatype AlertLevel =
     Warning | Fatal | Unknown u8

fun AlertLevel_get_u8 :: "AlertLevel \<Rightarrow> u8" where
  "AlertLevel_get_u8 AlertLevel.Warning = 0x01"
| "AlertLevel_get_u8 AlertLevel.Fatal = 0x02"
| "AlertLevel_get_u8 (AlertLevel.Unknown v) = v"

definition AlertLevel_from :: "u8 \<Rightarrow> AlertLevel" where
  "AlertLevel_from x =
     (if x = 0x01 then AlertLevel.Warning
      else if x = 0x02 then AlertLevel.Fatal
      else AlertLevel.Unknown x)"

definition AlertLevel_encode :: "AlertLevel encoder" where
  "AlertLevel_encode x = u8_encode (AlertLevel_get_u8 x)"

definition AlertLevel_read :: "AlertLevel reader" where
  "AlertLevel_read r = map_option (\<lambda>(v, r). (AlertLevel_from v, r)) (u8_read r)"

datatype AlertDescription =
     CloseNotify | UnexpectedMessage | BadRecordMac | DecryptionFailed | RecordOverflow
    | DecompressionFailure | HandshakeFailure | NoCertificate | BadCertificate
    | UnsupportedCertificate | CertificateRevoked | CertificateExpired | CertificateUnknown
    | IllegalParameter | UnknownCA | AccessDenied | DecodeError | DecryptError | ExportRestriction
    | ProtocolVersion | InsufficientSecurity | InternalError | InappropriateFallback
    | UserCanceled | NoRenegotiation | MissingExtension | UnsupportedExtension
    | CertificateUnobtainable | UnrecognisedName | BadCertificateStatusResponse
    | BadCertificateHashValue | UnknownPSKIdentity | CertificateRequired | NoApplicationProtocol
    | Unknown u8

fun AlertDescription_get_u8 :: "AlertDescription \<Rightarrow> u8" where
  "AlertDescription_get_u8 AlertDescription.CloseNotify = 0x00"
| "AlertDescription_get_u8 AlertDescription.UnexpectedMessage = 0x0a"
| "AlertDescription_get_u8 AlertDescription.BadRecordMac = 0x14"
| "AlertDescription_get_u8 AlertDescription.DecryptionFailed = 0x15"
| "AlertDescription_get_u8 AlertDescription.RecordOverflow = 0x16"
| "AlertDescription_get_u8 AlertDescription.DecompressionFailure = 0x1e"
| "AlertDescription_get_u8 AlertDescription.HandshakeFailure = 0x28"
| "AlertDescription_get_u8 AlertDescription.NoCertificate = 0x29"
| "AlertDescription_get_u8 AlertDescription.BadCertificate = 0x2a"
| "AlertDescription_get_u8 AlertDescription.UnsupportedCertificate = 0x2b"
| "AlertDescription_get_u8 AlertDescription.CertificateRevoked = 0x2c"
| "AlertDescription_get_u8 AlertDescription.CertificateExpired = 0x2d"
| "AlertDescription_get_u8 AlertDescription.CertificateUnknown = 0x2e"
| "AlertDescription_get_u8 AlertDescription.IllegalParameter = 0x2f"
| "AlertDescription_get_u8 AlertDescription.UnknownCA = 0x30"
| "AlertDescription_get_u8 AlertDescription.AccessDenied = 0x31"
| "AlertDescription_get_u8 AlertDescription.DecodeError = 0x32"
| "AlertDescription_get_u8 AlertDescription.DecryptError = 0x33"
| "AlertDescription_get_u8 AlertDescription.ExportRestriction = 0x3c"
| "AlertDescription_get_u8 AlertDescription.ProtocolVersion = 0x46"
| "AlertDescription_get_u8 AlertDescription.InsufficientSecurity = 0x47"
| "AlertDescription_get_u8 AlertDescription.InternalError = 0x50"
| "AlertDescription_get_u8 AlertDescription.InappropriateFallback = 0x56"
| "AlertDescription_get_u8 AlertDescription.UserCanceled = 0x5a"
| "AlertDescription_get_u8 AlertDescription.NoRenegotiation = 0x64"
| "AlertDescription_get_u8 AlertDescription.MissingExtension = 0x6d"
| "AlertDescription_get_u8 AlertDescription.UnsupportedExtension = 0x6e"
| "AlertDescription_get_u8 AlertDescription.CertificateUnobtainable = 0x6f"
| "AlertDescription_get_u8 AlertDescription.UnrecognisedName = 0x70"
| "AlertDescription_get_u8 AlertDescription.BadCertificateStatusResponse = 0x71"
| "AlertDescription_get_u8 AlertDescription.BadCertificateHashValue = 0x72"
| "AlertDescription_get_u8 AlertDescription.UnknownPSKIdentity = 0x73"
| "AlertDescription_get_u8 AlertDescription.CertificateRequired = 0x74"
| "AlertDescription_get_u8 AlertDescription.NoApplicationProtocol = 0x78"
| "AlertDescription_get_u8 (AlertDescription.Unknown v) = v"

definition AlertDescription_from :: "u8 \<Rightarrow> AlertDescription" where
  "AlertDescription_from x =
     (if x = 0x00 then AlertDescription.CloseNotify
      else if x = 0x0a then AlertDescription.UnexpectedMessage
      else if x = 0x14 then AlertDescription.BadRecordMac
      else if x = 0x15 then AlertDescription.DecryptionFailed
      else if x = 0x16 then AlertDescription.RecordOverflow
      else if x = 0x1e then AlertDescription.DecompressionFailure
      else if x = 0x28 then AlertDescription.HandshakeFailure
      else if x = 0x29 then AlertDescription.NoCertificate
      else if x = 0x2a then AlertDescription.BadCertificate
      else if x = 0x2b then AlertDescription.UnsupportedCertificate
      else if x = 0x2c then AlertDescription.CertificateRevoked
      else if x = 0x2d then AlertDescription.CertificateExpired
      else if x = 0x2e then AlertDescription.CertificateUnknown
      else if x = 0x2f then AlertDescription.IllegalParameter
      else if x = 0x30 then AlertDescription.UnknownCA
      else if x = 0x31 then AlertDescription.AccessDenied
      else if x = 0x32 then AlertDescription.DecodeError
      else if x = 0x33 then AlertDescription.DecryptError
      else if x = 0x3c then AlertDescription.ExportRestriction
      else if x = 0x46 then AlertDescription.ProtocolVersion
      else if x = 0x47 then AlertDescription.InsufficientSecurity
      else if x = 0x50 then AlertDescription.InternalError
      else if x = 0x56 then AlertDescription.InappropriateFallback
      else if x = 0x5a then AlertDescription.UserCanceled
      else if x = 0x64 then AlertDescription.NoRenegotiation
      else if x = 0x6d then AlertDescription.MissingExtension
      else if x = 0x6e then AlertDescription.UnsupportedExtension
      else if x = 0x6f then AlertDescription.CertificateUnobtainable
      else if x = 0x70 then AlertDescription.UnrecognisedName
      else if x = 0x71 then AlertDescription.BadCertificateStatusResponse
      else if x = 0x72 then AlertDescription.BadCertificateHashValue
      else if x = 0x73 then AlertDescription.UnknownPSKIdentity
      else if x = 0x74 then AlertDescription.CertificateRequired
      else if x = 0x78 then AlertDescription.NoApplicationProtocol
      else AlertDescription.Unknown x)"

definition AlertDescription_encode :: "AlertDescription encoder" where
  "AlertDescription_encode x = u8_encode (AlertDescription_get_u8 x)"

definition AlertDescription_read :: "AlertDescription reader" where
  "AlertDescription_read r = map_option (\<lambda>(v, r). (AlertDescription_from v, r)) (u8_read r)"

datatype HeartbeatMessageType =
     Request | Response | Unknown u8

fun HeartbeatMessageType_get_u8 :: "HeartbeatMessageType \<Rightarrow> u8" where
  "HeartbeatMessageType_get_u8 HeartbeatMessageType.Request = 0x01"
| "HeartbeatMessageType_get_u8 HeartbeatMessageType.Response = 0x02"
| "HeartbeatMessageType_get_u8 (HeartbeatMessageType.Unknown v) = v"

definition HeartbeatMessageType_from :: "u8 \<Rightarrow> HeartbeatMessageType" where
  "HeartbeatMessageType_from x =
     (if x = 0x01 then HeartbeatMessageType.Request
      else if x = 0x02 then HeartbeatMessageType.Response
      else HeartbeatMessageType.Unknown x)"

definition HeartbeatMessageType_encode :: "HeartbeatMessageType encoder" where
  "HeartbeatMessageType_encode x = u8_encode (HeartbeatMessageType_get_u8 x)"

definition HeartbeatMessageType_read :: "HeartbeatMessageType reader" where
  "HeartbeatMessageType_read r = map_option (\<lambda>(v, r). (HeartbeatMessageType_from v, r)) (u8_read r)"

datatype ExtensionType =
     ServerName | MaxFragmentLength | ClientCertificateUrl | TrustedCAKeys | TruncatedHMAC
    | StatusRequest | UserMapping | ClientAuthz | ServerAuthz | CertificateType | EllipticCurves
    | ECPointFormats | SRP | SignatureAlgorithms | UseSRTP | Heartbeat | ALProtocolNegotiation
    | SCT | Padding | ExtendedMasterSecret | SessionTicket | PreSharedKey | EarlyData
    | SupportedVersions | Cookie | PSKKeyExchangeModes | TicketEarlyDataInfo
    | CertificateAuthorities | OIDFilters | PostHandshakeAuth | SignatureAlgorithmsCert | KeyShare
    | TransportParameters | NextProtocolNegotiation | ChannelId | RenegotiationInfo
    | TransportParametersDraft | Unknown u16

fun ExtensionType_get_u16 :: "ExtensionType \<Rightarrow> u16" where
  "ExtensionType_get_u16 ExtensionType.ServerName = 0x0000"
| "ExtensionType_get_u16 ExtensionType.MaxFragmentLength = 0x0001"
| "ExtensionType_get_u16 ExtensionType.ClientCertificateUrl = 0x0002"
| "ExtensionType_get_u16 ExtensionType.TrustedCAKeys = 0x0003"
| "ExtensionType_get_u16 ExtensionType.TruncatedHMAC = 0x0004"
| "ExtensionType_get_u16 ExtensionType.StatusRequest = 0x0005"
| "ExtensionType_get_u16 ExtensionType.UserMapping = 0x0006"
| "ExtensionType_get_u16 ExtensionType.ClientAuthz = 0x0007"
| "ExtensionType_get_u16 ExtensionType.ServerAuthz = 0x0008"
| "ExtensionType_get_u16 ExtensionType.CertificateType = 0x0009"
| "ExtensionType_get_u16 ExtensionType.EllipticCurves = 0x000a"
| "ExtensionType_get_u16 ExtensionType.ECPointFormats = 0x000b"
| "ExtensionType_get_u16 ExtensionType.SRP = 0x000c"
| "ExtensionType_get_u16 ExtensionType.SignatureAlgorithms = 0x000d"
| "ExtensionType_get_u16 ExtensionType.UseSRTP = 0x000e"
| "ExtensionType_get_u16 ExtensionType.Heartbeat = 0x000f"
| "ExtensionType_get_u16 ExtensionType.ALProtocolNegotiation = 0x0010"
| "ExtensionType_get_u16 ExtensionType.SCT = 0x0012"
| "ExtensionType_get_u16 ExtensionType.Padding = 0x0015"
| "ExtensionType_get_u16 ExtensionType.ExtendedMasterSecret = 0x0017"
| "ExtensionType_get_u16 ExtensionType.SessionTicket = 0x0023"
| "ExtensionType_get_u16 ExtensionType.PreSharedKey = 0x0029"
| "ExtensionType_get_u16 ExtensionType.EarlyData = 0x002a"
| "ExtensionType_get_u16 ExtensionType.SupportedVersions = 0x002b"
| "ExtensionType_get_u16 ExtensionType.Cookie = 0x002c"
| "ExtensionType_get_u16 ExtensionType.PSKKeyExchangeModes = 0x002d"
| "ExtensionType_get_u16 ExtensionType.TicketEarlyDataInfo = 0x002e"
| "ExtensionType_get_u16 ExtensionType.CertificateAuthorities = 0x002f"
| "ExtensionType_get_u16 ExtensionType.OIDFilters = 0x0030"
| "ExtensionType_get_u16 ExtensionType.PostHandshakeAuth = 0x0031"
| "ExtensionType_get_u16 ExtensionType.SignatureAlgorithmsCert = 0x0032"
| "ExtensionType_get_u16 ExtensionType.KeyShare = 0x0033"
| "ExtensionType_get_u16 ExtensionType.TransportParameters = 0x0039"
| "ExtensionType_get_u16 ExtensionType.NextProtocolNegotiation = 0x3374"
| "ExtensionType_get_u16 ExtensionType.ChannelId = 0x754f"
| "ExtensionType_get_u16 ExtensionType.RenegotiationInfo = 0xff01"
| "ExtensionType_get_u16 ExtensionType.TransportParametersDraft = 0xffa5"
| "ExtensionType_get_u16 (ExtensionType.Unknown v) = v"

definition ExtensionType_from :: "u16 \<Rightarrow> ExtensionType" where
  "ExtensionType_from x =
     (if x = 0x0000 then ExtensionType.ServerName
      else if x = 0x0001 then ExtensionType.MaxFragmentLength
      else if x = 0x0002 then ExtensionType.ClientCertificateUrl
      else if x = 0x0003 then ExtensionType.TrustedCAKeys
      else if x = 0x0004 then ExtensionType.TruncatedHMAC
      else if x = 0x0005 then ExtensionType.StatusRequest
      else if x = 0x0006 then ExtensionType.UserMapping
      else if x = 0x0007 then ExtensionType.ClientAuthz
      else if x = 0x0008 then ExtensionType.ServerAuthz
      else if x = 0x0009 then ExtensionType.CertificateType
      else if x = 0x000a then ExtensionType.EllipticCurves
      else if x = 0x000b then ExtensionType.ECPointFormats
      else if x = 0x000c then ExtensionType.SRP
      else if x = 0x000d then ExtensionType.SignatureAlgorithms
      else if x = 0x000e then ExtensionType.UseSRTP
      else if x = 0x000f then ExtensionType.Heartbeat
      else if x = 0x0010 then ExtensionType.ALProtocolNegotiation
      else if x = 0x0012 then ExtensionType.SCT
      else if x = 0x0015 then ExtensionType.Padding
      else if x = 0x0017 then ExtensionType.ExtendedMasterSecret
      else if x = 0x0023 then ExtensionType.SessionTicket
      else if x = 0x0029 then ExtensionType.PreSharedKey
      else if x = 0x002a then ExtensionType.EarlyData
      else if x = 0x002b then ExtensionType.SupportedVersions
      else if x = 0x002c then ExtensionType.Cookie
      else if x = 0x002d then ExtensionType.PSKKeyExchangeModes
      else if x = 0x002e then ExtensionType.TicketEarlyDataInfo
      else if x = 0x002f then ExtensionType.CertificateAuthorities
      else if x = 0x0030 then ExtensionType.OIDFilters
      else if x = 0x0031 then ExtensionType.PostHandshakeAuth
      else if x = 0x0032 then ExtensionType.SignatureAlgorithmsCert
      else if x = 0x0033 then ExtensionType.KeyShare
      else if x = 0x0039 then ExtensionType.TransportParameters
      else if x = 0x3374 then ExtensionType.NextProtocolNegotiation
      else if x = 0x754f then ExtensionType.ChannelId
      else if x = 0xff01 then ExtensionType.RenegotiationInfo
      else if x = 0xffa5 then ExtensionType.TransportParametersDraft
      else ExtensionType.Unknown x)"

definition ExtensionType_encode :: "ExtensionType encoder" where
  "ExtensionType_encode x = u16_encode (ExtensionType_get_u16 x)"

definition ExtensionType_read :: "ExtensionType reader" where
  "ExtensionType_read r = map_option (\<lambda>(v, r). (ExtensionType_from v, r)) (u16_read r)"

datatype ServerNameType =
     HostName | Unknown u8

fun ServerNameType_get_u8 :: "ServerNameType \<Rightarrow> u8" where
  "ServerNameType_get_u8 ServerNameType.HostName = 0x00"
| "ServerNameType_get_u8 (ServerNameType.Unknown v) = v"

definition ServerNameType_from :: "u8 \<Rightarrow> ServerNameType" where
  "ServerNameType_from x =
     (if x = 0x00 then ServerNameType.HostName
      else ServerNameType.Unknown x)"

definition ServerNameType_encode :: "ServerNameType encoder" where
  "ServerNameType_encode x = u8_encode (ServerNameType_get_u8 x)"

definition ServerNameType_read :: "ServerNameType reader" where
  "ServerNameType_read r = map_option (\<lambda>(v, r). (ServerNameType_from v, r)) (u8_read r)"

datatype NamedCurve =
     sect163k1 | sect163r1 | sect163r2 | sect193r1 | sect193r2 | sect233k1 | sect233r1 | sect239k1
    | sect283k1 | sect283r1 | sect409k1 | sect409r1 | sect571k1 | sect571r1 | secp160k1
    | secp160r1 | secp160r2 | secp192k1 | secp192r1 | secp224k1 | secp224r1 | secp256k1
    | secp256r1 | secp384r1 | secp521r1 | brainpoolp256r1 | brainpoolp384r1 | brainpoolp512r1
    | X25519 | X448 | arbitrary_explicit_prime_curves | arbitrary_explicit_char2_curves
    | Unknown u16

fun NamedCurve_get_u16 :: "NamedCurve \<Rightarrow> u16" where
  "NamedCurve_get_u16 NamedCurve.sect163k1 = 0x0001"
| "NamedCurve_get_u16 NamedCurve.sect163r1 = 0x0002"
| "NamedCurve_get_u16 NamedCurve.sect163r2 = 0x0003"
| "NamedCurve_get_u16 NamedCurve.sect193r1 = 0x0004"
| "NamedCurve_get_u16 NamedCurve.sect193r2 = 0x0005"
| "NamedCurve_get_u16 NamedCurve.sect233k1 = 0x0006"
| "NamedCurve_get_u16 NamedCurve.sect233r1 = 0x0007"
| "NamedCurve_get_u16 NamedCurve.sect239k1 = 0x0008"
| "NamedCurve_get_u16 NamedCurve.sect283k1 = 0x0009"
| "NamedCurve_get_u16 NamedCurve.sect283r1 = 0x000a"
| "NamedCurve_get_u16 NamedCurve.sect409k1 = 0x000b"
| "NamedCurve_get_u16 NamedCurve.sect409r1 = 0x000c"
| "NamedCurve_get_u16 NamedCurve.sect571k1 = 0x000d"
| "NamedCurve_get_u16 NamedCurve.sect571r1 = 0x000e"
| "NamedCurve_get_u16 NamedCurve.secp160k1 = 0x000f"
| "NamedCurve_get_u16 NamedCurve.secp160r1 = 0x0010"
| "NamedCurve_get_u16 NamedCurve.secp160r2 = 0x0011"
| "NamedCurve_get_u16 NamedCurve.secp192k1 = 0x0012"
| "NamedCurve_get_u16 NamedCurve.secp192r1 = 0x0013"
| "NamedCurve_get_u16 NamedCurve.secp224k1 = 0x0014"
| "NamedCurve_get_u16 NamedCurve.secp224r1 = 0x0015"
| "NamedCurve_get_u16 NamedCurve.secp256k1 = 0x0016"
| "NamedCurve_get_u16 NamedCurve.secp256r1 = 0x0017"
| "NamedCurve_get_u16 NamedCurve.secp384r1 = 0x0018"
| "NamedCurve_get_u16 NamedCurve.secp521r1 = 0x0019"
| "NamedCurve_get_u16 NamedCurve.brainpoolp256r1 = 0x001a"
| "NamedCurve_get_u16 NamedCurve.brainpoolp384r1 = 0x001b"
| "NamedCurve_get_u16 NamedCurve.brainpoolp512r1 = 0x001c"
| "NamedCurve_get_u16 NamedCurve.X25519 = 0x001d"
| "NamedCurve_get_u16 NamedCurve.X448 = 0x001e"
| "NamedCurve_get_u16 NamedCurve.arbitrary_explicit_prime_curves = 0xff01"
| "NamedCurve_get_u16 NamedCurve.arbitrary_explicit_char2_curves = 0xff02"
| "NamedCurve_get_u16 (NamedCurve.Unknown v) = v"

definition NamedCurve_from :: "u16 \<Rightarrow> NamedCurve" where
  "NamedCurve_from x =
     (if x = 0x0001 then NamedCurve.sect163k1
      else if x = 0x0002 then NamedCurve.sect163r1
      else if x = 0x0003 then NamedCurve.sect163r2
      else if x = 0x0004 then NamedCurve.sect193r1
      else if x = 0x0005 then NamedCurve.sect193r2
      else if x = 0x0006 then NamedCurve.sect233k1
      else if x = 0x0007 then NamedCurve.sect233r1
      else if x = 0x0008 then NamedCurve.sect239k1
      else if x = 0x0009 then NamedCurve.sect283k1
      else if x = 0x000a then NamedCurve.sect283r1
      else if x = 0x000b then NamedCurve.sect409k1
      else if x = 0x000c then NamedCurve.sect409r1
      else if x = 0x000d then NamedCurve.sect571k1
      else if x = 0x000e then NamedCurve.sect571r1
      else if x = 0x000f then NamedCurve.secp160k1
      else if x = 0x0010 then NamedCurve.secp160r1
      else if x = 0x0011 then NamedCurve.secp160r2
      else if x = 0x0012 then NamedCurve.secp192k1
      else if x = 0x0013 then NamedCurve.secp192r1
      else if x = 0x0014 then NamedCurve.secp224k1
      else if x = 0x0015 then NamedCurve.secp224r1
      else if x = 0x0016 then NamedCurve.secp256k1
      else if x = 0x0017 then NamedCurve.secp256r1
      else if x = 0x0018 then NamedCurve.secp384r1
      else if x = 0x0019 then NamedCurve.secp521r1
      else if x = 0x001a then NamedCurve.brainpoolp256r1
      else if x = 0x001b then NamedCurve.brainpoolp384r1
      else if x = 0x001c then NamedCurve.brainpoolp512r1
      else if x = 0x001d then NamedCurve.X25519
      else if x = 0x001e then NamedCurve.X448
      else if x = 0xff01 then NamedCurve.arbitrary_explicit_prime_curves
      else if x = 0xff02 then NamedCurve.arbitrary_explicit_char2_curves
      else NamedCurve.Unknown x)"

definition NamedCurve_encode :: "NamedCurve encoder" where
  "NamedCurve_encode x = u16_encode (NamedCurve_get_u16 x)"

definition NamedCurve_read :: "NamedCurve reader" where
  "NamedCurve_read r = map_option (\<lambda>(v, r). (NamedCurve_from v, r)) (u16_read r)"

datatype NamedGroup =
     secp256r1 | secp384r1 | secp521r1 | X25519 | X448 | FFDHE2048 | FFDHE3072 | FFDHE4096
    | FFDHE6144 | FFDHE8192 | Unknown u16

fun NamedGroup_get_u16 :: "NamedGroup \<Rightarrow> u16" where
  "NamedGroup_get_u16 NamedGroup.secp256r1 = 0x0017"
| "NamedGroup_get_u16 NamedGroup.secp384r1 = 0x0018"
| "NamedGroup_get_u16 NamedGroup.secp521r1 = 0x0019"
| "NamedGroup_get_u16 NamedGroup.X25519 = 0x001d"
| "NamedGroup_get_u16 NamedGroup.X448 = 0x001e"
| "NamedGroup_get_u16 NamedGroup.FFDHE2048 = 0x0100"
| "NamedGroup_get_u16 NamedGroup.FFDHE3072 = 0x0101"
| "NamedGroup_get_u16 NamedGroup.FFDHE4096 = 0x0102"
| "NamedGroup_get_u16 NamedGroup.FFDHE6144 = 0x0103"
| "NamedGroup_get_u16 NamedGroup.FFDHE8192 = 0x0104"
| "NamedGroup_get_u16 (NamedGroup.Unknown v) = v"

definition NamedGroup_from :: "u16 \<Rightarrow> NamedGroup" where
  "NamedGroup_from x =
     (if x = 0x0017 then NamedGroup.secp256r1
      else if x = 0x0018 then NamedGroup.secp384r1
      else if x = 0x0019 then NamedGroup.secp521r1
      else if x = 0x001d then NamedGroup.X25519
      else if x = 0x001e then NamedGroup.X448
      else if x = 0x0100 then NamedGroup.FFDHE2048
      else if x = 0x0101 then NamedGroup.FFDHE3072
      else if x = 0x0102 then NamedGroup.FFDHE4096
      else if x = 0x0103 then NamedGroup.FFDHE6144
      else if x = 0x0104 then NamedGroup.FFDHE8192
      else NamedGroup.Unknown x)"

definition NamedGroup_encode :: "NamedGroup encoder" where
  "NamedGroup_encode x = u16_encode (NamedGroup_get_u16 x)"

definition NamedGroup_read :: "NamedGroup reader" where
  "NamedGroup_read r = map_option (\<lambda>(v, r). (NamedGroup_from v, r)) (u16_read r)"

definition CipherSuite_table_1 :: "(u16 \<times> string) list" where
  "CipherSuite_table_1 = [
     (0x0000, ''TLS_NULL_WITH_NULL_NULL''),
     (0x0001, ''TLS_RSA_WITH_NULL_MD5''),
     (0x0002, ''TLS_RSA_WITH_NULL_SHA''),
     (0x0003, ''TLS_RSA_EXPORT_WITH_RC4_40_MD5''),
     (0x0004, ''TLS_RSA_WITH_RC4_128_MD5''),
     (0x0005, ''TLS_RSA_WITH_RC4_128_SHA''),
     (0x0006, ''TLS_RSA_EXPORT_WITH_RC2_CBC_40_MD5''),
     (0x0007, ''TLS_RSA_WITH_IDEA_CBC_SHA''),
     (0x0008, ''TLS_RSA_EXPORT_WITH_DES40_CBC_SHA''),
     (0x0009, ''TLS_RSA_WITH_DES_CBC_SHA''),
     (0x000a, ''TLS_RSA_WITH_3DES_EDE_CBC_SHA''),
     (0x000b, ''TLS_DH_DSS_EXPORT_WITH_DES40_CBC_SHA''),
     (0x000c, ''TLS_DH_DSS_WITH_DES_CBC_SHA''),
     (0x000d, ''TLS_DH_DSS_WITH_3DES_EDE_CBC_SHA''),
     (0x000e, ''TLS_DH_RSA_EXPORT_WITH_DES40_CBC_SHA''),
     (0x000f, ''TLS_DH_RSA_WITH_DES_CBC_SHA''),
     (0x0010, ''TLS_DH_RSA_WITH_3DES_EDE_CBC_SHA''),
     (0x0011, ''TLS_DHE_DSS_EXPORT_WITH_DES40_CBC_SHA''),
     (0x0012, ''TLS_DHE_DSS_WITH_DES_CBC_SHA''),
     (0x0013, ''TLS_DHE_DSS_WITH_3DES_EDE_CBC_SHA''),
     (0x0014, ''TLS_DHE_RSA_EXPORT_WITH_DES40_CBC_SHA''),
     (0x0015, ''TLS_DHE_RSA_WITH_DES_CBC_SHA''),
     (0x0016, ''TLS_DHE_RSA_WITH_3DES_EDE_CBC_SHA''),
     (0x0017, ''TLS_DH_anon_EXPORT_WITH_RC4_40_MD5''),
     (0x0018, ''TLS_DH_anon_WITH_RC4_128_MD5''),
     (0x0019, ''TLS_DH_anon_EXPORT_WITH_DES40_CBC_SHA''),
     (0x001a, ''TLS_DH_anon_WITH_DES_CBC_SHA''),
     (0x001b, ''TLS_DH_anon_WITH_3DES_EDE_CBC_SHA''),
     (0x001c, ''SSL_FORTEZZA_KEA_WITH_NULL_SHA''),
     (0x001d, ''SSL_FORTEZZA_KEA_WITH_FORTEZZA_CBC_SHA''),
     (0x001e, ''TLS_KRB5_WITH_DES_CBC_SHA_or_SSL_FORTEZZA_KEA_WITH_RC4_128_SHA''),
     (0x001f, ''TLS_KRB5_WITH_3DES_EDE_CBC_SHA''),
     (0x0020, ''TLS_KRB5_WITH_RC4_128_SHA''),
     (0x0021, ''TLS_KRB5_WITH_IDEA_CBC_SHA''),
     (0x0022, ''TLS_KRB5_WITH_DES_CBC_MD5''),
     (0x0023, ''TLS_KRB5_WITH_3DES_EDE_CBC_MD5''),
     (0x0024, ''TLS_KRB5_WITH_RC4_128_MD5''),
     (0x0025, ''TLS_KRB5_WITH_IDEA_CBC_MD5''),
     (0x0026, ''TLS_KRB5_EXPORT_WITH_DES_CBC_40_SHA''),
     (0x0027, ''TLS_KRB5_EXPORT_WITH_RC2_CBC_40_SHA''),
     (0x0028, ''TLS_KRB5_EXPORT_WITH_RC4_40_SHA''),
     (0x0029, ''TLS_KRB5_EXPORT_WITH_DES_CBC_40_MD5''),
     (0x002a, ''TLS_KRB5_EXPORT_WITH_RC2_CBC_40_MD5''),
     (0x002b, ''TLS_KRB5_EXPORT_WITH_RC4_40_MD5''),
     (0x002c, ''TLS_PSK_WITH_NULL_SHA''),
     (0x002d, ''TLS_DHE_PSK_WITH_NULL_SHA''),
     (0x002e, ''TLS_RSA_PSK_WITH_NULL_SHA''),
     (0x002f, ''TLS_RSA_WITH_AES_128_CBC_SHA''),
     (0x0030, ''TLS_DH_DSS_WITH_AES_128_CBC_SHA''),
     (0x0031, ''TLS_DH_RSA_WITH_AES_128_CBC_SHA''),
     (0x0032, ''TLS_DHE_DSS_WITH_AES_128_CBC_SHA''),
     (0x0033, ''TLS_DHE_RSA_WITH_AES_128_CBC_SHA''),
     (0x0034, ''TLS_DH_anon_WITH_AES_128_CBC_SHA''),
     (0x0035, ''TLS_RSA_WITH_AES_256_CBC_SHA''),
     (0x0036, ''TLS_DH_DSS_WITH_AES_256_CBC_SHA''),
     (0x0037, ''TLS_DH_RSA_WITH_AES_256_CBC_SHA''),
     (0x0038, ''TLS_DHE_DSS_WITH_AES_256_CBC_SHA''),
     (0x0039, ''TLS_DHE_RSA_WITH_AES_256_CBC_SHA''),
     (0x003a, ''TLS_DH_anon_WITH_AES_256_CBC_SHA''),
     (0x003b, ''TLS_RSA_WITH_NULL_SHA256''),
     (0x003c, ''TLS_RSA_WITH_AES_128_CBC_SHA256''),
     (0x003d, ''TLS_RSA_WITH_AES_256_CBC_SHA256''),
     (0x003e, ''TLS_DH_DSS_WITH_AES_128_CBC_SHA256''),
     (0x003f, ''TLS_DH_RSA_WITH_AES_128_CBC_SHA256''),
     (0x0040, ''TLS_DHE_DSS_WITH_AES_128_CBC_SHA256''),
     (0x0041, ''TLS_RSA_WITH_CAMELLIA_128_CBC_SHA''),
     (0x0042, ''TLS_DH_DSS_WITH_CAMELLIA_128_CBC_SHA''),
     (0x0043, ''TLS_DH_RSA_WITH_CAMELLIA_128_CBC_SHA''),
     (0x0044, ''TLS_DHE_DSS_WITH_CAMELLIA_128_CBC_SHA''),
     (0x0045, ''TLS_DHE_RSA_WITH_CAMELLIA_128_CBC_SHA''),
     (0x0046, ''TLS_DH_anon_WITH_CAMELLIA_128_CBC_SHA''),
     (0x0047, ''TLS_ECDH_ECDSA_WITH_NULL_SHA_draft''),
     (0x0048, ''TLS_ECDH_ECDSA_WITH_RC4_128_SHA_draft''),
     (0x0049, ''TLS_ECDH_ECDSA_WITH_DES_CBC_SHA_draft''),
     (0x004a, ''TLS_ECDH_ECDSA_WITH_3DES_EDE_CBC_SHA_draft''),
     (0x004b, ''TLS_ECDH_ECDSA_WITH_AES_128_CBC_SHA_draft''),
     (0x004c, ''TLS_ECDH_ECDSA_WITH_AES_256_CBC_SHA_draft''),
     (0x004d, ''TLS_ECDH_ECNRA_WITH_DES_CBC_SHA_draft''),
     (0x004e, ''TLS_ECDH_ECNRA_WITH_3DES_EDE_CBC_SHA_draft''),
     (0x004f, ''TLS_ECMQV_ECDSA_NULL_SHA_draft''),
     (0x0050, ''TLS_ECMQV_ECDSA_WITH_RC4_128_SHA_draft''),
     (0x0051, ''TLS_ECMQV_ECDSA_WITH_DES_CBC_SHA_draft''),
     (0x0052, ''TLS_ECMQV_ECDSA_WITH_3DES_EDE_CBC_SHA_draft''),
     (0x0053, ''TLS_ECMQV_ECNRA_NULL_SHA_draft''),
     (0x0054, ''TLS_ECMQV_ECNRA_WITH_RC4_128_SHA_draft''),
     (0x0055, ''TLS_ECMQV_ECNRA_WITH_DES_CBC_SHA_draft''),
     (0x0056, ''TLS_ECMQV_ECNRA_WITH_3DES_EDE_CBC_SHA_draft''),
     (0x0057, ''TLS_ECDH_anon_NULL_WITH_SHA_draft''),
     (0x0058, ''TLS_ECDH_anon_WITH_RC4_128_SHA_draft''),
     (0x0059, ''TLS_ECDH_anon_WITH_DES_CBC_SHA_draft''),
     (0x005a, ''TLS_ECDH_anon_WITH_3DES_EDE_CBC_SHA_draft''),
     (0x005b, ''TLS_ECDH_anon_EXPORT_WITH_DES40_CBC_SHA_draft''),
     (0x005c, ''TLS_ECDH_anon_EXPORT_WITH_RC4_40_SHA_draft''),
     (0x0060, ''TLS_RSA_EXPORT1024_WITH_RC4_56_MD5''),
     (0x0061, ''TLS_RSA_EXPORT1024_WITH_RC2_CBC_56_MD5''),
     (0x0062, ''TLS_RSA_EXPORT1024_WITH_DES_CBC_SHA''),
     (0x0063, ''TLS_DHE_DSS_EXPORT1024_WITH_DES_CBC_SHA''),
     (0x0064, ''TLS_RSA_EXPORT1024_WITH_RC4_56_SHA''),
     (0x0065, ''TLS_DHE_DSS_EXPORT1024_WITH_RC4_56_SHA''),
     (0x0066, ''TLS_DHE_DSS_WITH_RC4_128_SHA''),
     (0x0067, ''TLS_DHE_RSA_WITH_AES_128_CBC_SHA256''),
     (0x0068, ''TLS_DH_DSS_WITH_AES_256_CBC_SHA256''),
     (0x0069, ''TLS_DH_RSA_WITH_AES_256_CBC_SHA256''),
     (0x006a, ''TLS_DHE_DSS_WITH_AES_256_CBC_SHA256''),
     (0x006b, ''TLS_DHE_RSA_WITH_AES_256_CBC_SHA256''),
     (0x006c, ''TLS_DH_anon_WITH_AES_128_CBC_SHA256''),
     (0x006d, ''TLS_DH_anon_WITH_AES_256_CBC_SHA256''),
     (0x0072, ''TLS_DHE_DSS_WITH_3DES_EDE_CBC_RMD''),
     (0x0073, ''TLS_DHE_DSS_WITH_AES_128_CBC_RMD''),
     (0x0074, ''TLS_DHE_DSS_WITH_AES_256_CBC_RMD''),
     (0x0077, ''TLS_DHE_RSA_WITH_3DES_EDE_CBC_RMD''),
     (0x0078, ''TLS_DHE_RSA_WITH_AES_128_CBC_RMD''),
     (0x0079, ''TLS_DHE_RSA_WITH_AES_256_CBC_RMD''),
     (0x007c, ''TLS_RSA_WITH_3DES_EDE_CBC_RMD''),
     (0x007d, ''TLS_RSA_WITH_AES_128_CBC_RMD''),
     (0x007e, ''TLS_RSA_WITH_AES_256_CBC_RMD''),
     (0x0080, ''TLS_GOSTR341094_WITH_28147_CNT_IMIT''),
     (0x0081, ''TLS_GOSTR341001_WITH_28147_CNT_IMIT''),
     (0x0082, ''TLS_GOSTR341094_WITH_NULL_GOSTR3411''),
     (0x0083, ''TLS_GOSTR341001_WITH_NULL_GOSTR3411''),
     (0x0084, ''TLS_RSA_WITH_CAMELLIA_256_CBC_SHA''),
     (0x0085, ''TLS_DH_DSS_WITH_CAMELLIA_256_CBC_SHA''),
     (0x0086, ''TLS_DH_RSA_WITH_CAMELLIA_256_CBC_SHA''),
     (0x0087, ''TLS_DHE_DSS_WITH_CAMELLIA_256_CBC_SHA''),
     (0x0088, ''TLS_DHE_RSA_WITH_CAMELLIA_256_CBC_SHA'')]"

definition CipherSuite_table_2 :: "(u16 \<times> string) list" where
  "CipherSuite_table_2 = [
     (0x0089, ''TLS_DH_anon_WITH_CAMELLIA_256_CBC_SHA''),
     (0x008a, ''TLS_PSK_WITH_RC4_128_SHA''),
     (0x008b, ''TLS_PSK_WITH_3DES_EDE_CBC_SHA''),
     (0x008c, ''TLS_PSK_WITH_AES_128_CBC_SHA''),
     (0x008d, ''TLS_PSK_WITH_AES_256_CBC_SHA''),
     (0x008e, ''TLS_DHE_PSK_WITH_RC4_128_SHA''),
     (0x008f, ''TLS_DHE_PSK_WITH_3DES_EDE_CBC_SHA''),
     (0x0090, ''TLS_DHE_PSK_WITH_AES_128_CBC_SHA''),
     (0x0091, ''TLS_DHE_PSK_WITH_AES_256_CBC_SHA''),
     (0x0092, ''TLS_RSA_PSK_WITH_RC4_128_SHA''),
     (0x0093, ''TLS_RSA_PSK_WITH_3DES_EDE_CBC_SHA''),
     (0x0094, ''TLS_RSA_PSK_WITH_AES_128_CBC_SHA''),
     (0x0095, ''TLS_RSA_PSK_WITH_AES_256_CBC_SHA''),
     (0x0096, ''TLS_RSA_WITH_SEED_CBC_SHA''),
     (0x0097, ''TLS_DH_DSS_WITH_SEED_CBC_SHA''),
     (0x0098, ''TLS_DH_RSA_WITH_SEED_CBC_SHA''),
     (0x0099, ''TLS_DHE_DSS_WITH_SEED_CBC_SHA''),
     (0x009a, ''TLS_DHE_RSA_WITH_SEED_CBC_SHA''),
     (0x009b, ''TLS_DH_anon_WITH_SEED_CBC_SHA''),
     (0x009c, ''TLS_RSA_WITH_AES_128_GCM_SHA256''),
     (0x009d, ''TLS_RSA_WITH_AES_256_GCM_SHA384''),
     (0x009e, ''TLS_DHE_RSA_WITH_AES_128_GCM_SHA256''),
     (0x009f, ''TLS_DHE_RSA_WITH_AES_256_GCM_SHA384''),
     (0x00a0, ''TLS_DH_RSA_WITH_AES_128_GCM_SHA256''),
     (0x00a1, ''TLS_DH_RSA_WITH_AES_256_GCM_SHA384''),
     (0x00a2, ''TLS_DHE_DSS_WITH_AES_128_GCM_SHA256''),
     (0x00a3, ''TLS_DHE_DSS_WITH_AES_256_GCM_SHA384''),
     (0x00a4, ''TLS_DH_DSS_WITH_AES_128_GCM_SHA256''),
     (0x00a5, ''TLS_DH_DSS_WITH_AES_256_GCM_SHA384''),
     (0x00a6, ''TLS_DH_anon_WITH_AES_128_GCM_SHA256''),
     (0x00a7, ''TLS_DH_anon_WITH_AES_256_GCM_SHA384''),
     (0x00a8, ''TLS_PSK_WITH_AES_128_GCM_SHA256''),
     (0x00a9, ''TLS_PSK_WITH_AES_256_GCM_SHA384''),
     (0x00aa, ''TLS_DHE_PSK_WITH_AES_128_GCM_SHA256''),
     (0x00ab, ''TLS_DHE_PSK_WITH_AES_256_GCM_SHA384''),
     (0x00ac, ''TLS_RSA_PSK_WITH_AES_128_GCM_SHA256''),
     (0x00ad, ''TLS_RSA_PSK_WITH_AES_256_GCM_SHA384''),
     (0x00ae, ''TLS_PSK_WITH_AES_128_CBC_SHA256''),
     (0x00af, ''TLS_PSK_WITH_AES_256_CBC_SHA384''),
     (0x00b0, ''TLS_PSK_WITH_NULL_SHA256''),
     (0x00b1, ''TLS_PSK_WITH_NULL_SHA384''),
     (0x00b2, ''TLS_DHE_PSK_WITH_AES_128_CBC_SHA256''),
     (0x00b3, ''TLS_DHE_PSK_WITH_AES_256_CBC_SHA384''),
     (0x00b4, ''TLS_DHE_PSK_WITH_NULL_SHA256''),
     (0x00b5, ''TLS_DHE_PSK_WITH_NULL_SHA384''),
     (0x00b6, ''TLS_RSA_PSK_WITH_AES_128_CBC_SHA256''),
     (0x00b7, ''TLS_RSA_PSK_WITH_AES_256_CBC_SHA384''),
     (0x00b8, ''TLS_RSA_PSK_WITH_NULL_SHA256''),
     (0x00b9, ''TLS_RSA_PSK_WITH_NULL_SHA384''),
     (0x00ba, ''TLS_RSA_WITH_CAMELLIA_128_CBC_SHA256''),
     (0x00bb, ''TLS_DH_DSS_WITH_CAMELLIA_128_CBC_SHA256''),
     (0x00bc, ''TLS_DH_RSA_WITH_CAMELLIA_128_CBC_SHA256''),
     (0x00bd, ''TLS_DHE_DSS_WITH_CAMELLIA_128_CBC_SHA256''),
     (0x00be, ''TLS_DHE_RSA_WITH_CAMELLIA_128_CBC_SHA256''),
     (0x00bf, ''TLS_DH_anon_WITH_CAMELLIA_128_CBC_SHA256''),
     (0x00c0, ''TLS_RSA_WITH_CAMELLIA_256_CBC_SHA256''),
     (0x00c1, ''TLS_DH_DSS_WITH_CAMELLIA_256_CBC_SHA256''),
     (0x00c2, ''TLS_DH_RSA_WITH_CAMELLIA_256_CBC_SHA256''),
     (0x00c3, ''TLS_DHE_DSS_WITH_CAMELLIA_256_CBC_SHA256''),
     (0x00c4, ''TLS_DHE_RSA_WITH_CAMELLIA_256_CBC_SHA256''),
     (0x00c5, ''TLS_DH_anon_WITH_CAMELLIA_256_CBC_SHA256''),
     (0x00ff, ''TLS_EMPTY_RENEGOTIATION_INFO_SCSV''),
     (0x1301, ''TLS13_AES_128_GCM_SHA256''),
     (0x1302, ''TLS13_AES_256_GCM_SHA384''),
     (0x1303, ''TLS13_CHACHA20_POLY1305_SHA256''),
     (0x1304, ''TLS13_AES_128_CCM_SHA256''),
     (0x1305, ''TLS13_AES_128_CCM_8_SHA256''),
     (0xc001, ''TLS_ECDH_ECDSA_WITH_NULL_SHA''),
     (0xc002, ''TLS_ECDH_ECDSA_WITH_RC4_128_SHA''),
     (0xc003, ''TLS_ECDH_ECDSA_WITH_3DES_EDE_CBC_SHA''),
     (0xc004, ''TLS_ECDH_ECDSA_WITH_AES_128_CBC_SHA''),
     (0xc005, ''TLS_ECDH_ECDSA_WITH_AES_256_CBC_SHA''),
     (0xc006, ''TLS_ECDHE_ECDSA_WITH_NULL_SHA''),
     (0xc007, ''TLS_ECDHE_ECDSA_WITH_RC4_128_SHA''),
     (0xc008, ''TLS_ECDHE_ECDSA_WITH_3DES_EDE_CBC_SHA''),
     (0xc009, ''TLS_ECDHE_ECDSA_WITH_AES_128_CBC_SHA''),
     (0xc00a, ''TLS_ECDHE_ECDSA_WITH_AES_256_CBC_SHA''),
     (0xc00b, ''TLS_ECDH_RSA_WITH_NULL_SHA''),
     (0xc00c, ''TLS_ECDH_RSA_WITH_RC4_128_SHA''),
     (0xc00d, ''TLS_ECDH_RSA_WITH_3DES_EDE_CBC_SHA''),
     (0xc00e, ''TLS_ECDH_RSA_WITH_AES_128_CBC_SHA''),
     (0xc00f, ''TLS_ECDH_RSA_WITH_AES_256_CBC_SHA''),
     (0xc010, ''TLS_ECDHE_RSA_WITH_NULL_SHA''),
     (0xc011, ''TLS_ECDHE_RSA_WITH_RC4_128_SHA''),
     (0xc012, ''TLS_ECDHE_RSA_WITH_3DES_EDE_CBC_SHA''),
     (0xc013, ''TLS_ECDHE_RSA_WITH_AES_128_CBC_SHA''),
     (0xc014, ''TLS_ECDHE_RSA_WITH_AES_256_CBC_SHA''),
     (0xc015, ''TLS_ECDH_anon_WITH_NULL_SHA''),
     (0xc016, ''TLS_ECDH_anon_WITH_RC4_128_SHA''),
     (0xc017, ''TLS_ECDH_anon_WITH_3DES_EDE_CBC_SHA''),
     (0xc018, ''TLS_ECDH_anon_WITH_AES_128_CBC_SHA''),
     (0xc019, ''TLS_ECDH_anon_WITH_AES_256_CBC_SHA''),
     (0xc01a, ''TLS_SRP_SHA_WITH_3DES_EDE_CBC_SHA''),
     (0xc01b, ''TLS_SRP_SHA_RSA_WITH_3DES_EDE_CBC_SHA''),
     (0xc01c, ''TLS_SRP_SHA_DSS_WITH_3DES_EDE_CBC_SHA''),
     (0xc01d, ''TLS_SRP_SHA_WITH_AES_128_CBC_SHA''),
     (0xc01e, ''TLS_SRP_SHA_RSA_WITH_AES_128_CBC_SHA''),
     (0xc01f, ''TLS_SRP_SHA_DSS_WITH_AES_128_CBC_SHA''),
     (0xc020, ''TLS_SRP_SHA_WITH_AES_256_CBC_SHA''),
     (0xc021, ''TLS_SRP_SHA_RSA_WITH_AES_256_CBC_SHA''),
     (0xc022, ''TLS_SRP_SHA_DSS_WITH_AES_256_CBC_SHA''),
     (0xc023, ''TLS_ECDHE_ECDSA_WITH_AES_128_CBC_SHA256''),
     (0xc024, ''TLS_ECDHE_ECDSA_WITH_AES_256_CBC_SHA384''),
     (0xc025, ''TLS_ECDH_ECDSA_WITH_AES_128_CBC_SHA256''),
     (0xc026, ''TLS_ECDH_ECDSA_WITH_AES_256_CBC_SHA384''),
     (0xc027, ''TLS_ECDHE_RSA_WITH_AES_128_CBC_SHA256''),
     (0xc028, ''TLS_ECDHE_RSA_WITH_AES_256_CBC_SHA384''),
     (0xc029, ''TLS_ECDH_RSA_WITH_AES_128_CBC_SHA256''),
     (0xc02a, ''TLS_ECDH_RSA_WITH_AES_256_CBC_SHA384''),
     (0xc02b, ''TLS_ECDHE_ECDSA_WITH_AES_128_GCM_SHA256''),
     (0xc02c, ''TLS_ECDHE_ECDSA_WITH_AES_256_GCM_SHA384''),
     (0xc02d, ''TLS_ECDH_ECDSA_WITH_AES_128_GCM_SHA256''),
     (0xc02e, ''TLS_ECDH_ECDSA_WITH_AES_256_GCM_SHA384''),
     (0xc02f, ''TLS_ECDHE_RSA_WITH_AES_128_GCM_SHA256''),
     (0xc030, ''TLS_ECDHE_RSA_WITH_AES_256_GCM_SHA384''),
     (0xc031, ''TLS_ECDH_RSA_WITH_AES_128_GCM_SHA256''),
     (0xc032, ''TLS_ECDH_RSA_WITH_AES_256_GCM_SHA384''),
     (0xc033, ''TLS_ECDHE_PSK_WITH_RC4_128_SHA''),
     (0xc034, ''TLS_ECDHE_PSK_WITH_3DES_EDE_CBC_SHA''),
     (0xc035, ''TLS_ECDHE_PSK_WITH_AES_128_CBC_SHA''),
     (0xc036, ''TLS_ECDHE_PSK_WITH_AES_256_CBC_SHA''),
     (0xc037, ''TLS_ECDHE_PSK_WITH_AES_128_CBC_SHA256''),
     (0xc038, ''TLS_ECDHE_PSK_WITH_AES_256_CBC_SHA384''),
     (0xc039, ''TLS_ECDHE_PSK_WITH_NULL_SHA''),
     (0xc03a, ''TLS_ECDHE_PSK_WITH_NULL_SHA256'')]"

definition CipherSuite_table_3 :: "(u16 \<times> string) list" where
  "CipherSuite_table_3 = [
     (0xc03b, ''TLS_ECDHE_PSK_WITH_NULL_SHA384''),
     (0xc03c, ''TLS_RSA_WITH_ARIA_128_CBC_SHA256''),
     (0xc03d, ''TLS_RSA_WITH_ARIA_256_CBC_SHA384''),
     (0xc03e, ''TLS_DH_DSS_WITH_ARIA_128_CBC_SHA256''),
     (0xc03f, ''TLS_DH_DSS_WITH_ARIA_256_CBC_SHA384''),
     (0xc040, ''TLS_DH_RSA_WITH_ARIA_128_CBC_SHA256''),
     (0xc041, ''TLS_DH_RSA_WITH_ARIA_256_CBC_SHA384''),
     (0xc042, ''TLS_DHE_DSS_WITH_ARIA_128_CBC_SHA256''),
     (0xc043, ''TLS_DHE_DSS_WITH_ARIA_256_CBC_SHA384''),
     (0xc044, ''TLS_DHE_RSA_WITH_ARIA_128_CBC_SHA256''),
     (0xc045, ''TLS_DHE_RSA_WITH_ARIA_256_CBC_SHA384''),
     (0xc046, ''TLS_DH_anon_WITH_ARIA_128_CBC_SHA256''),
     (0xc047, ''TLS_DH_anon_WITH_ARIA_256_CBC_SHA384''),
     (0xc048, ''TLS_ECDHE_ECDSA_WITH_ARIA_128_CBC_SHA256''),
     (0xc049, ''TLS_ECDHE_ECDSA_WITH_ARIA_256_CBC_SHA384''),
     (0xc04a, ''TLS_ECDH_ECDSA_WITH_ARIA_128_CBC_SHA256''),
     (0xc04b, ''TLS_ECDH_ECDSA_WITH_ARIA_256_CBC_SHA384''),
     (0xc04c, ''TLS_ECDHE_RSA_WITH_ARIA_128_CBC_SHA256''),
     (0xc04d, ''TLS_ECDHE_RSA_WITH_ARIA_256_CBC_SHA384''),
     (0xc04e, ''TLS_ECDH_RSA_WITH_ARIA_128_CBC_SHA256''),
     (0xc04f, ''TLS_ECDH_RSA_WITH_ARIA_256_CBC_SHA384''),
     (0xc050, ''TLS_RSA_WITH_ARIA_128_GCM_SHA256''),
     (0xc051, ''TLS_RSA_WITH_ARIA_256_GCM_SHA384''),
     (0xc052, ''TLS_DHE_RSA_WITH_ARIA_128_GCM_SHA256''),
     (0xc053, ''TLS_DHE_RSA_WITH_ARIA_256_GCM_SHA384''),
     (0xc054, ''TLS_DH_RSA_WITH_ARIA_128_GCM_SHA256''),
     (0xc055, ''TLS_DH_RSA_WITH_ARIA_256_GCM_SHA384''),
     (0xc056, ''TLS_DHE_DSS_WITH_ARIA_128_GCM_SHA256''),
     (0xc057, ''TLS_DHE_DSS_WITH_ARIA_256_GCM_SHA384''),
     (0xc058, ''TLS_DH_DSS_WITH_ARIA_128_GCM_SHA256''),
     (0xc059, ''TLS_DH_DSS_WITH_ARIA_256_GCM_SHA384''),
     (0xc05a, ''TLS_DH_anon_WITH_ARIA_128_GCM_SHA256''),
     (0xc05b, ''TLS_DH_anon_WITH_ARIA_256_GCM_SHA384''),
     (0xc05c, ''TLS_ECDHE_ECDSA_WITH_ARIA_128_GCM_SHA256''),
     (0xc05d, ''TLS_ECDHE_ECDSA_WITH_ARIA_256_GCM_SHA384''),
     (0xc05e, ''TLS_ECDH_ECDSA_WITH_ARIA_128_GCM_SHA256''),
     (0xc05f, ''TLS_ECDH_ECDSA_WITH_ARIA_256_GCM_SHA384''),
     (0xc060, ''TLS_ECDHE_RSA_WITH_ARIA_128_GCM_SHA256''),
     (0xc061, ''TLS_ECDHE_RSA_WITH_ARIA_256_GCM_SHA384''),
     (0xc062, ''TLS_ECDH_RSA_WITH_ARIA_128_GCM_SHA256''),
     (0xc063, ''TLS_ECDH_RSA_WITH_ARIA_256_GCM_SHA384''),
     (0xc064, ''TLS_PSK_WITH_ARIA_128_CBC_SHA256''),
     (0xc065, ''TLS_PSK_WITH_ARIA_256_CBC_SHA384''),
     (0xc066, ''TLS_DHE_PSK_WITH_ARIA_128_CBC_SHA256''),
     (0xc067, ''TLS_DHE_PSK_WITH_ARIA_256_CBC_SHA384''),
     (0xc068, ''TLS_RSA_PSK_WITH_ARIA_128_CBC_SHA256''),
     (0xc069, ''TLS_RSA_PSK_WITH_ARIA_256_CBC_SHA384''),
     (0xc06a, ''TLS_PSK_WITH_ARIA_128_GCM_SHA256''),
     (0xc06b, ''TLS_PSK_WITH_ARIA_256_GCM_SHA384''),
     (0xc06c, ''TLS_DHE_PSK_WITH_ARIA_128_GCM_SHA256''),
     (0xc06d, ''TLS_DHE_PSK_WITH_ARIA_256_GCM_SHA384''),
     (0xc06e, ''TLS_RSA_PSK_WITH_ARIA_128_GCM_SHA256''),
     (0xc06f, ''TLS_RSA_PSK_WITH_ARIA_256_GCM_SHA384''),
     (0xc070, ''TLS_ECDHE_PSK_WITH_ARIA_128_CBC_SHA256''),
     (0xc071, ''TLS_ECDHE_PSK_WITH_ARIA_256_CBC_SHA384''),
     (0xc072, ''TLS_ECDHE_ECDSA_WITH_CAMELLIA_128_CBC_SHA256''),
     (0xc073, ''TLS_ECDHE_ECDSA_WITH_CAMELLIA_256_CBC_SHA384''),
     (0xc074, ''TLS_ECDH_ECDSA_WITH_CAMELLIA_128_CBC_SHA256''),
     (0xc075, ''TLS_ECDH_ECDSA_WITH_CAMELLIA_256_CBC_SHA384''),
     (0xc076, ''TLS_ECDHE_RSA_WITH_CAMELLIA_128_CBC_SHA256''),
     (0xc077, ''TLS_ECDHE_RSA_WITH_CAMELLIA_256_CBC_SHA384''),
     (0xc078, ''TLS_ECDH_RSA_WITH_CAMELLIA_128_CBC_SHA256''),
     (0xc079, ''TLS_ECDH_RSA_WITH_CAMELLIA_256_CBC_SHA384''),
     (0xc07a, ''TLS_RSA_WITH_CAMELLIA_128_GCM_SHA256''),
     (0xc07b, ''TLS_RSA_WITH_CAMELLIA_256_GCM_SHA384''),
     (0xc07c, ''TLS_DHE_RSA_WITH_CAMELLIA_128_GCM_SHA256''),
     (0xc07d, ''TLS_DHE_RSA_WITH_CAMELLIA_256_GCM_SHA384''),
     (0xc07e, ''TLS_DH_RSA_WITH_CAMELLIA_128_GCM_SHA256''),
     (0xc07f, ''TLS_DH_RSA_WITH_CAMELLIA_256_GCM_SHA384''),
     (0xc080, ''TLS_DHE_DSS_WITH_CAMELLIA_128_GCM_SHA256''),
     (0xc081, ''TLS_DHE_DSS_WITH_CAMELLIA_256_GCM_SHA384''),
     (0xc082, ''TLS_DH_DSS_WITH_CAMELLIA_128_GCM_SHA256''),
     (0xc083, ''TLS_DH_DSS_WITH_CAMELLIA_256_GCM_SHA384''),
     (0xc084, ''TLS_DH_anon_WITH_CAMELLIA_128_GCM_SHA256''),
     (0xc085, ''TLS_DH_anon_WITH_CAMELLIA_256_GCM_SHA384''),
     (0xc086, ''TLS_ECDHE_ECDSA_WITH_CAMELLIA_128_GCM_SHA256''),
     (0xc087, ''TLS_ECDHE_ECDSA_WITH_CAMELLIA_256_GCM_SHA384''),
     (0xc088, ''TLS_ECDH_ECDSA_WITH_CAMELLIA_128_GCM_SHA256''),
     (0xc089, ''TLS_ECDH_ECDSA_WITH_CAMELLIA_256_GCM_SHA384''),
     (0xc08a, ''TLS_ECDHE_RSA_WITH_CAMELLIA_128_GCM_SHA256''),
     (0xc08b, ''TLS_ECDHE_RSA_WITH_CAMELLIA_256_GCM_SHA384''),
     (0xc08c, ''TLS_ECDH_RSA_WITH_CAMELLIA_128_GCM_SHA256''),
     (0xc08d, ''TLS_ECDH_RSA_WITH_CAMELLIA_256_GCM_SHA384''),
     (0xc08e, ''TLS_PSK_WITH_CAMELLIA_128_GCM_SHA256''),
     (0xc08f, ''TLS_PSK_WITH_CAMELLIA_256_GCM_SHA384''),
     (0xc090, ''TLS_DHE_PSK_WITH_CAMELLIA_128_GCM_SHA256''),
     (0xc091, ''TLS_DHE_PSK_WITH_CAMELLIA_256_GCM_SHA384''),
     (0xc092, ''TLS_RSA_PSK_WITH_CAMELLIA_128_GCM_SHA256''),
     (0xc093, ''TLS_RSA_PSK_WITH_CAMELLIA_256_GCM_SHA384''),
     (0xc094, ''TLS_PSK_WITH_CAMELLIA_128_CBC_SHA256''),
     (0xc095, ''TLS_PSK_WITH_CAMELLIA_256_CBC_SHA384''),
     (0xc096, ''TLS_DHE_PSK_WITH_CAMELLIA_128_CBC_SHA256''),
     (0xc097, ''TLS_DHE_PSK_WITH_CAMELLIA_256_CBC_SHA384''),
     (0xc098, ''TLS_RSA_PSK_WITH_CAMELLIA_128_CBC_SHA256''),
     (0xc099, ''TLS_RSA_PSK_WITH_CAMELLIA_256_CBC_SHA384''),
     (0xc09a, ''TLS_ECDHE_PSK_WITH_CAMELLIA_128_CBC_SHA256''),
     (0xc09b, ''TLS_ECDHE_PSK_WITH_CAMELLIA_256_CBC_SHA384''),
     (0xc09c, ''TLS_RSA_WITH_AES_128_CCM''),
     (0xc09d, ''TLS_RSA_WITH_AES_256_CCM''),
     (0xc09e, ''TLS_DHE_RSA_WITH_AES_128_CCM''),
     (0xc09f, ''TLS_DHE_RSA_WITH_AES_256_CCM''),
     (0xc0a0, ''TLS_RSA_WITH_AES_128_CCM_8''),
     (0xc0a1, ''TLS_RSA_WITH_AES_256_CCM_8''),
     (0xc0a2, ''TLS_DHE_RSA_WITH_AES_128_CCM_8''),
     (0xc0a3, ''TLS_DHE_RSA_WITH_AES_256_CCM_8''),
     (0xc0a4, ''TLS_PSK_WITH_AES_128_CCM''),
     (0xc0a5, ''TLS_PSK_WITH_AES_256_CCM''),
     (0xc0a6, ''TLS_DHE_PSK_WITH_AES_128_CCM''),
     (0xc0a7, ''TLS_DHE_PSK_WITH_AES_256_CCM''),
     (0xc0a8, ''TLS_PSK_WITH_AES_128_CCM_8''),
     (0xc0a9, ''TLS_PSK_WITH_AES_256_CCM_8''),
     (0xc0aa, ''TLS_PSK_DHE_WITH_AES_128_CCM_8''),
     (0xc0ab, ''TLS_PSK_DHE_WITH_AES_256_CCM_8''),
     (0xc0ac, ''TLS_ECDHE_ECDSA_WITH_AES_128_CCM''),
     (0xc0ad, ''TLS_ECDHE_ECDSA_WITH_AES_256_CCM''),
     (0xc0ae, ''TLS_ECDHE_ECDSA_WITH_AES_128_CCM_8''),
     (0xc0af, ''TLS_ECDHE_ECDSA_WITH_AES_256_CCM_8''),
     (0xcca8, ''TLS_ECDHE_RSA_WITH_CHACHA20_POLY1305_SHA256''),
     (0xcca9, ''TLS_ECDHE_ECDSA_WITH_CHACHA20_POLY1305_SHA256''),
     (0xccaa, ''TLS_DHE_RSA_WITH_CHACHA20_POLY1305_SHA256''),
     (0xccab, ''TLS_PSK_WITH_CHACHA20_POLY1305_SHA256''),
     (0xccac, ''TLS_ECDHE_PSK_WITH_CHACHA20_POLY1305_SHA256''),
     (0xccad, ''TLS_DHE_PSK_WITH_CHACHA20_POLY1305_SHA256''),
     (0xccae, ''TLS_RSA_PSK_WITH_CHACHA20_POLY1305_SHA256''),
     (0xfefe, ''SSL_RSA_FIPS_WITH_DES_CBC_SHA'')]"

definition CipherSuite_table_4 :: "(u16 \<times> string) list" where
  "CipherSuite_table_4 = [
     (0xfeff, ''SSL_RSA_FIPS_WITH_3DES_EDE_CBC_SHA'')]"

definition CipherSuite_table :: "(u16 \<times> string) list" where
  "CipherSuite_table = CipherSuite_table_1 @ CipherSuite_table_2 @ CipherSuite_table_3 @ CipherSuite_table_4"

datatype CipherSuite = Suite u16 | Unknown u16

fun CipherSuite_get_u16 :: "CipherSuite \<Rightarrow> u16" where
  "CipherSuite_get_u16 (Suite v) = v"
| "CipherSuite_get_u16 (CipherSuite.Unknown v) = v"

definition CipherSuite_from :: "u16 \<Rightarrow> CipherSuite" where
  "CipherSuite_from x = (if x \<in> fst ` set CipherSuite_table then Suite x else CipherSuite.Unknown x)"

fun CipherSuite_as_str :: "CipherSuite \<Rightarrow> string option" where
  "CipherSuite_as_str (Suite v) = map_of CipherSuite_table v"
| "CipherSuite_as_str (CipherSuite.Unknown v) = None"

definition CipherSuite_encode :: "CipherSuite encoder" where
  "CipherSuite_encode x = u16_encode (CipherSuite_get_u16 x)"

definition CipherSuite_read :: "CipherSuite reader" where
  "CipherSuite_read r = map_option (\<lambda>(v, r). (CipherSuite_from v, r)) (u16_read r)"

datatype ECPointFormat =
     Uncompressed | ANSIX962CompressedPrime | ANSIX962CompressedChar2 | Unknown u8

fun ECPointFormat_get_u8 :: "ECPointFormat \<Rightarrow> u8" where
  "ECPointFormat_get_u8 ECPointFormat.Uncompressed = 0x00"
| "ECPointFormat_get_u8 ECPointFormat.ANSIX962CompressedPrime = 0x01"
| "ECPointFormat_get_u8 ECPointFormat.ANSIX962CompressedChar2 = 0x02"
| "ECPointFormat_get_u8 (ECPointFormat.Unknown v) = v"

definition ECPointFormat_from :: "u8 \<Rightarrow> ECPointFormat" where
  "ECPointFormat_from x =
     (if x = 0x00 then ECPointFormat.Uncompressed
      else if x = 0x01 then ECPointFormat.ANSIX962CompressedPrime
      else if x = 0x02 then ECPointFormat.ANSIX962CompressedChar2
      else ECPointFormat.Unknown x)"

definition ECPointFormat_encode :: "ECPointFormat encoder" where
  "ECPointFormat_encode x = u8_encode (ECPointFormat_get_u8 x)"

definition ECPointFormat_read :: "ECPointFormat reader" where
  "ECPointFormat_read r = map_option (\<lambda>(v, r). (ECPointFormat_from v, r)) (u8_read r)"

datatype HeartbeatMode =
     PeerAllowedToSend | PeerNotAllowedToSend | Unknown u8

fun HeartbeatMode_get_u8 :: "HeartbeatMode \<Rightarrow> u8" where
  "HeartbeatMode_get_u8 HeartbeatMode.PeerAllowedToSend = 0x01"
| "HeartbeatMode_get_u8 HeartbeatMode.PeerNotAllowedToSend = 0x02"
| "HeartbeatMode_get_u8 (HeartbeatMode.Unknown v) = v"

definition HeartbeatMode_from :: "u8 \<Rightarrow> HeartbeatMode" where
  "HeartbeatMode_from x =
     (if x = 0x01 then HeartbeatMode.PeerAllowedToSend
      else if x = 0x02 then HeartbeatMode.PeerNotAllowedToSend
      else HeartbeatMode.Unknown x)"

definition HeartbeatMode_encode :: "HeartbeatMode encoder" where
  "HeartbeatMode_encode x = u8_encode (HeartbeatMode_get_u8 x)"

definition HeartbeatMode_read :: "HeartbeatMode reader" where
  "HeartbeatMode_read r = map_option (\<lambda>(v, r). (HeartbeatMode_from v, r)) (u8_read r)"

datatype ECCurveType =
     ExplicitPrime | ExplicitChar2 | NamedCurve | Unknown u8

fun ECCurveType_get_u8 :: "ECCurveType \<Rightarrow> u8" where
  "ECCurveType_get_u8 ECCurveType.ExplicitPrime = 0x01"
| "ECCurveType_get_u8 ECCurveType.ExplicitChar2 = 0x02"
| "ECCurveType_get_u8 ECCurveType.NamedCurve = 0x03"
| "ECCurveType_get_u8 (ECCurveType.Unknown v) = v"

definition ECCurveType_from :: "u8 \<Rightarrow> ECCurveType" where
  "ECCurveType_from x =
     (if x = 0x01 then ECCurveType.ExplicitPrime
      else if x = 0x02 then ECCurveType.ExplicitChar2
      else if x = 0x03 then ECCurveType.NamedCurve
      else ECCurveType.Unknown x)"

definition ECCurveType_encode :: "ECCurveType encoder" where
  "ECCurveType_encode x = u8_encode (ECCurveType_get_u8 x)"

definition ECCurveType_read :: "ECCurveType reader" where
  "ECCurveType_read r = map_option (\<lambda>(v, r). (ECCurveType_from v, r)) (u8_read r)"

datatype SignatureScheme =
     RSA_PKCS1_SHA1 | ECDSA_SHA1_Legacy | RSA_PKCS1_SHA256 | ECDSA_NISTP256_SHA256
    | RSA_PKCS1_SHA384 | ECDSA_NISTP384_SHA384 | RSA_PKCS1_SHA512 | ECDSA_NISTP521_SHA512
    | RSA_PSS_SHA256 | RSA_PSS_SHA384 | RSA_PSS_SHA512 | ED25519 | ED448 | Unknown u16

fun SignatureScheme_get_u16 :: "SignatureScheme \<Rightarrow> u16" where
  "SignatureScheme_get_u16 SignatureScheme.RSA_PKCS1_SHA1 = 0x0201"
| "SignatureScheme_get_u16 SignatureScheme.ECDSA_SHA1_Legacy = 0x0203"
| "SignatureScheme_get_u16 SignatureScheme.RSA_PKCS1_SHA256 = 0x0401"
| "SignatureScheme_get_u16 SignatureScheme.ECDSA_NISTP256_SHA256 = 0x0403"
| "SignatureScheme_get_u16 SignatureScheme.RSA_PKCS1_SHA384 = 0x0501"
| "SignatureScheme_get_u16 SignatureScheme.ECDSA_NISTP384_SHA384 = 0x0503"
| "SignatureScheme_get_u16 SignatureScheme.RSA_PKCS1_SHA512 = 0x0601"
| "SignatureScheme_get_u16 SignatureScheme.ECDSA_NISTP521_SHA512 = 0x0603"
| "SignatureScheme_get_u16 SignatureScheme.RSA_PSS_SHA256 = 0x0804"
| "SignatureScheme_get_u16 SignatureScheme.RSA_PSS_SHA384 = 0x0805"
| "SignatureScheme_get_u16 SignatureScheme.RSA_PSS_SHA512 = 0x0806"
| "SignatureScheme_get_u16 SignatureScheme.ED25519 = 0x0807"
| "SignatureScheme_get_u16 SignatureScheme.ED448 = 0x0808"
| "SignatureScheme_get_u16 (SignatureScheme.Unknown v) = v"

definition SignatureScheme_from :: "u16 \<Rightarrow> SignatureScheme" where
  "SignatureScheme_from x =
     (if x = 0x0201 then SignatureScheme.RSA_PKCS1_SHA1
      else if x = 0x0203 then SignatureScheme.ECDSA_SHA1_Legacy
      else if x = 0x0401 then SignatureScheme.RSA_PKCS1_SHA256
      else if x = 0x0403 then SignatureScheme.ECDSA_NISTP256_SHA256
      else if x = 0x0501 then SignatureScheme.RSA_PKCS1_SHA384
      else if x = 0x0503 then SignatureScheme.ECDSA_NISTP384_SHA384
      else if x = 0x0601 then SignatureScheme.RSA_PKCS1_SHA512
      else if x = 0x0603 then SignatureScheme.ECDSA_NISTP521_SHA512
      else if x = 0x0804 then SignatureScheme.RSA_PSS_SHA256
      else if x = 0x0805 then SignatureScheme.RSA_PSS_SHA384
      else if x = 0x0806 then SignatureScheme.RSA_PSS_SHA512
      else if x = 0x0807 then SignatureScheme.ED25519
      else if x = 0x0808 then SignatureScheme.ED448
      else SignatureScheme.Unknown x)"

definition SignatureScheme_encode :: "SignatureScheme encoder" where
  "SignatureScheme_encode x = u16_encode (SignatureScheme_get_u16 x)"

definition SignatureScheme_read :: "SignatureScheme reader" where
  "SignatureScheme_read r = map_option (\<lambda>(v, r). (SignatureScheme_from v, r)) (u16_read r)"

datatype PSKKeyExchangeMode =
     PSK_KE | PSK_DHE_KE | Unknown u8

fun PSKKeyExchangeMode_get_u8 :: "PSKKeyExchangeMode \<Rightarrow> u8" where
  "PSKKeyExchangeMode_get_u8 PSKKeyExchangeMode.PSK_KE = 0x00"
| "PSKKeyExchangeMode_get_u8 PSKKeyExchangeMode.PSK_DHE_KE = 0x01"
| "PSKKeyExchangeMode_get_u8 (PSKKeyExchangeMode.Unknown v) = v"

definition PSKKeyExchangeMode_from :: "u8 \<Rightarrow> PSKKeyExchangeMode" where
  "PSKKeyExchangeMode_from x =
     (if x = 0x00 then PSKKeyExchangeMode.PSK_KE
      else if x = 0x01 then PSKKeyExchangeMode.PSK_DHE_KE
      else PSKKeyExchangeMode.Unknown x)"

definition PSKKeyExchangeMode_encode :: "PSKKeyExchangeMode encoder" where
  "PSKKeyExchangeMode_encode x = u8_encode (PSKKeyExchangeMode_get_u8 x)"

definition PSKKeyExchangeMode_read :: "PSKKeyExchangeMode reader" where
  "PSKKeyExchangeMode_read r = map_option (\<lambda>(v, r). (PSKKeyExchangeMode_from v, r)) (u8_read r)"

datatype KeyUpdateRequest =
     UpdateNotRequested | UpdateRequested | Unknown u8

fun KeyUpdateRequest_get_u8 :: "KeyUpdateRequest \<Rightarrow> u8" where
  "KeyUpdateRequest_get_u8 KeyUpdateRequest.UpdateNotRequested = 0x00"
| "KeyUpdateRequest_get_u8 KeyUpdateRequest.UpdateRequested = 0x01"
| "KeyUpdateRequest_get_u8 (KeyUpdateRequest.Unknown v) = v"

definition KeyUpdateRequest_from :: "u8 \<Rightarrow> KeyUpdateRequest" where
  "KeyUpdateRequest_from x =
     (if x = 0x00 then KeyUpdateRequest.UpdateNotRequested
      else if x = 0x01 then KeyUpdateRequest.UpdateRequested
      else KeyUpdateRequest.Unknown x)"

definition KeyUpdateRequest_encode :: "KeyUpdateRequest encoder" where
  "KeyUpdateRequest_encode x = u8_encode (KeyUpdateRequest_get_u8 x)"

definition KeyUpdateRequest_read :: "KeyUpdateRequest reader" where
  "KeyUpdateRequest_read r = map_option (\<lambda>(v, r). (KeyUpdateRequest_from v, r)) (u8_read r)"

datatype CertificateStatusType =
     OCSP | Unknown u8

fun CertificateStatusType_get_u8 :: "CertificateStatusType \<Rightarrow> u8" where
  "CertificateStatusType_get_u8 CertificateStatusType.OCSP = 0x01"
| "CertificateStatusType_get_u8 (CertificateStatusType.Unknown v) = v"

definition CertificateStatusType_from :: "u8 \<Rightarrow> CertificateStatusType" where
  "CertificateStatusType_from x =
     (if x = 0x01 then CertificateStatusType.OCSP
      else CertificateStatusType.Unknown x)"

definition CertificateStatusType_encode :: "CertificateStatusType encoder" where
  "CertificateStatusType_encode x = u8_encode (CertificateStatusType_get_u8 x)"

definition CertificateStatusType_read :: "CertificateStatusType reader" where
  "CertificateStatusType_read r = map_option (\<lambda>(v, r). (CertificateStatusType_from v, r)) (u8_read r)"

section \<open>The codecs\<close>

interpretation e_ProtocolVersion: enum_u16 ProtocolVersion_get_u16 ProtocolVersion_from
  by unfold_locales (simp add: ProtocolVersion_from_def)

definition ProtocolVersion_ok :: "ProtocolVersion \<Rightarrow> bool" where
  "ProtocolVersion_ok x \<longleftrightarrow> ProtocolVersion_from (ProtocolVersion_get_u16 x) = x"

interpretation ProtocolVersion_c: codec_elem ProtocolVersion_encode ProtocolVersion_read ProtocolVersion_ok "\<lambda>_. True"
  unfolding ProtocolVersion_encode_def [abs_def] ProtocolVersion_read_def [abs_def] ProtocolVersion_ok_def [abs_def]
  by (rule e_ProtocolVersion.enum_codec)

lemma get_encoding_ProtocolVersion [simp, codec_simps]:
  "get_encoding ProtocolVersion_encode x = be_bytes 2 (unat (ProtocolVersion_get_u16 x))"
  by (simp add: get_encoding_def ProtocolVersion_encode_def u16_encode_def put_u16_def)

interpretation e_TlsHashAlgorithm: enum_u8 TlsHashAlgorithm_get_u8 TlsHashAlgorithm_from
  by unfold_locales (simp add: TlsHashAlgorithm_from_def)

definition TlsHashAlgorithm_ok :: "TlsHashAlgorithm \<Rightarrow> bool" where
  "TlsHashAlgorithm_ok x \<longleftrightarrow> TlsHashAlgorithm_from (TlsHashAlgorithm_get_u8 x) = x"

interpretation TlsHashAlgorithm_c: codec_elem TlsHashAlgorithm_encode TlsHashAlgorithm_read TlsHashAlgorithm_ok "\<lambda>_. True"
  unfolding TlsHashAlgorithm_encode_def [abs_def] TlsHashAlgorithm_read_def [abs_def] TlsHashAlgorithm_ok_def [abs_def]
  by (rule e_TlsHashAlgorithm.enum_codec)

lemma get_encoding_TlsHashAlgorithm [simp, codec_simps]:
  "get_encoding TlsHashAlgorithm_encode x = [TlsHashAlgorithm_get_u8 x]"
  by (simp add: get_encoding_def TlsHashAlgorithm_encode_def u8_encode_def)

interpretation e_TlsSignatureAlgorithm: enum_u8 TlsSignatureAlgorithm_get_u8 TlsSignatureAlgorithm_from
  by unfold_locales (simp add: TlsSignatureAlgorithm_from_def)

definition TlsSignatureAlgorithm_ok :: "TlsSignatureAlgorithm \<Rightarrow> bool" where
  "TlsSignatureAlgorithm_ok x \<longleftrightarrow> TlsSignatureAlgorithm_from (TlsSignatureAlgorithm_get_u8 x) = x"

interpretation TlsSignatureAlgorithm_c: codec_elem TlsSignatureAlgorithm_encode TlsSignatureAlgorithm_read TlsSignatureAlgorithm_ok "\<lambda>_. True"
  unfolding TlsSignatureAlgorithm_encode_def [abs_def] TlsSignatureAlgorithm_read_def [abs_def] TlsSignatureAlgorithm_ok_def [abs_def]
  by (rule e_TlsSignatureAlgorithm.enum_codec)

lemma get_encoding_TlsSignatureAlgorithm [simp, codec_simps]:
  "get_encoding TlsSignatureAlgorithm_encode x = [TlsSignatureAlgorithm_get_u8 x]"
  by (simp add: get_encoding_def TlsSignatureAlgorithm_encode_def u8_encode_def)

interpretation e_ClientCertificateType: enum_u8 ClientCertificateType_get_u8 ClientCertificateType_from
  by unfold_locales (simp add: ClientCertificateType_from_def)

definition ClientCertificateType_ok :: "ClientCertificateType \<Rightarrow> bool" where
  "ClientCertificateType_ok x \<longleftrightarrow> ClientCertificateType_from (ClientCertificateType_get_u8 x) = x"

interpretation ClientCertificateType_c: codec_elem ClientCertificateType_encode ClientCertificateType_read ClientCertificateType_ok "\<lambda>_. True"
  unfolding ClientCertificateType_encode_def [abs_def] ClientCertificateType_read_def [abs_def] ClientCertificateType_ok_def [abs_def]
  by (rule e_ClientCertificateType.enum_codec)

lemma get_encoding_ClientCertificateType [simp, codec_simps]:
  "get_encoding ClientCertificateType_encode x = [ClientCertificateType_get_u8 x]"
  by (simp add: get_encoding_def ClientCertificateType_encode_def u8_encode_def)

interpretation e_Compression: enum_u8 Compression_get_u8 Compression_from
  by unfold_locales (simp add: Compression_from_def)

definition Compression_ok :: "Compression \<Rightarrow> bool" where
  "Compression_ok x \<longleftrightarrow> Compression_from (Compression_get_u8 x) = x"

interpretation Compression_c: codec_elem Compression_encode Compression_read Compression_ok "\<lambda>_. True"
  unfolding Compression_encode_def [abs_def] Compression_read_def [abs_def] Compression_ok_def [abs_def]
  by (rule e_Compression.enum_codec)

lemma get_encoding_Compression [simp, codec_simps]:
  "get_encoding Compression_encode x = [Compression_get_u8 x]"
  by (simp add: get_encoding_def Compression_encode_def u8_encode_def)

interpretation e_ContentType: enum_u8 ContentType_get_u8 ContentType_from
  by unfold_locales (simp add: ContentType_from_def)

definition ContentType_ok :: "ContentType \<Rightarrow> bool" where
  "ContentType_ok x \<longleftrightarrow> ContentType_from (ContentType_get_u8 x) = x"

interpretation ContentType_c: codec_elem ContentType_encode ContentType_read ContentType_ok "\<lambda>_. True"
  unfolding ContentType_encode_def [abs_def] ContentType_read_def [abs_def] ContentType_ok_def [abs_def]
  by (rule e_ContentType.enum_codec)

lemma get_encoding_ContentType [simp, codec_simps]:
  "get_encoding ContentType_encode x = [ContentType_get_u8 x]"
  by (simp add: get_encoding_def ContentType_encode_def u8_encode_def)

interpretation e_HandshakeType: enum_u8 HandshakeType_get_u8 HandshakeType_from
  by unfold_locales (simp add: HandshakeType_from_def)

definition HandshakeType_ok :: "HandshakeType \<Rightarrow> bool" where
  "HandshakeType_ok x \<longleftrightarrow> HandshakeType_from (HandshakeType_get_u8 x) = x"

interpretation HandshakeType_c: codec_elem HandshakeType_encode HandshakeType_read HandshakeType_ok "\<lambda>_. True"
  unfolding HandshakeType_encode_def [abs_def] HandshakeType_read_def [abs_def] HandshakeType_ok_def [abs_def]
  by (rule e_HandshakeType.enum_codec)

lemma get_encoding_HandshakeType [simp, codec_simps]:
  "get_encoding HandshakeType_encode x = [HandshakeType_get_u8 x]"
  by (simp add: get_encoding_def HandshakeType_encode_def u8_encode_def)

interpretation e_AlertLevel: enum_u8 AlertLevel_get_u8 AlertLevel_from
  by unfold_locales (simp add: AlertLevel_from_def)

definition AlertLevel_ok :: "AlertLevel \<Rightarrow> bool" where
  "AlertLevel_ok x \<longleftrightarrow> AlertLevel_from (AlertLevel_get_u8 x) = x"

interpretation AlertLevel_c: codec_elem AlertLevel_encode AlertLevel_read AlertLevel_ok "\<lambda>_. True"
  unfolding AlertLevel_encode_def [abs_def] AlertLevel_read_def [abs_def] AlertLevel_ok_def [abs_def]
  by (rule e_AlertLevel.enum_codec)

lemma get_encoding_AlertLevel [simp, codec_simps]:
  "get_encoding AlertLevel_encode x = [AlertLevel_get_u8 x]"
  by (simp add: get_encoding_def AlertLevel_encode_def u8_encode_def)

interpretation e_AlertDescription: enum_u8 AlertDescription_get_u8 AlertDescription_from
  by unfold_locales (simp add: AlertDescription_from_def)

definition AlertDescription_ok :: "AlertDescription \<Rightarrow> bool" where
  "AlertDescription_ok x \<longleftrightarrow> AlertDescription_from (AlertDescription_get_u8 x) = x"

interpretation AlertDescription_c: codec_elem AlertDescription_encode AlertDescription_read AlertDescription_ok "\<lambda>_. True"
  unfolding AlertDescription_encode_def [abs_def] AlertDescription_read_def [abs_def] AlertDescription_ok_def [abs_def]
  by (rule e_AlertDescription.enum_codec)

lemma get_encoding_AlertDescription [simp, codec_simps]:
  "get_encoding AlertDescription_encode x = [AlertDescription_get_u8 x]"
  by (simp add: get_encoding_def AlertDescription_encode_def u8_encode_def)

interpretation e_HeartbeatMessageType: enum_u8 HeartbeatMessageType_get_u8 HeartbeatMessageType_from
  by unfold_locales (simp add: HeartbeatMessageType_from_def)

definition HeartbeatMessageType_ok :: "HeartbeatMessageType \<Rightarrow> bool" where
  "HeartbeatMessageType_ok x \<longleftrightarrow> HeartbeatMessageType_from (HeartbeatMessageType_get_u8 x) = x"

interpretation HeartbeatMessageType_c: codec_elem HeartbeatMessageType_encode HeartbeatMessageType_read HeartbeatMessageType_ok "\<lambda>_. True"
  unfolding HeartbeatMessageType_encode_def [abs_def] HeartbeatMessageType_read_def [abs_def] HeartbeatMessageType_ok_def [abs_def]
  by (rule e_HeartbeatMessageType.enum_codec)

lemma get_encoding_HeartbeatMessageType [simp, codec_simps]:
  "get_encoding HeartbeatMessageType_encode x = [HeartbeatMessageType_get_u8 x]"
  by (simp add: get_encoding_def HeartbeatMessageType_encode_def u8_encode_def)

interpretation e_ExtensionType: enum_u16 ExtensionType_get_u16 ExtensionType_from
  by unfold_locales (simp add: ExtensionType_from_def)

definition ExtensionType_ok :: "ExtensionType \<Rightarrow> bool" where
  "ExtensionType_ok x \<longleftrightarrow> ExtensionType_from (ExtensionType_get_u16 x) = x"

interpretation ExtensionType_c: codec_elem ExtensionType_encode ExtensionType_read ExtensionType_ok "\<lambda>_. True"
  unfolding ExtensionType_encode_def [abs_def] ExtensionType_read_def [abs_def] ExtensionType_ok_def [abs_def]
  by (rule e_ExtensionType.enum_codec)

lemma get_encoding_ExtensionType [simp, codec_simps]:
  "get_encoding ExtensionType_encode x = be_bytes 2 (unat (ExtensionType_get_u16 x))"
  by (simp add: get_encoding_def ExtensionType_encode_def u16_encode_def put_u16_def)

interpretation e_ServerNameType: enum_u8 ServerNameType_get_u8 ServerNameType_from
  by unfold_locales (simp add: ServerNameType_from_def)

definition ServerNameType_ok :: "ServerNameType \<Rightarrow> bool" where
  "ServerNameType_ok x \<longleftrightarrow> ServerNameType_from (ServerNameType_get_u8 x) = x"

interpretation ServerNameType_c: codec_elem ServerNameType_encode ServerNameType_read ServerNameType_ok "\<lambda>_. True"
  unfolding ServerNameType_encode_def [abs_def] ServerNameType_read_def [abs_def] ServerNameType_ok_def [abs_def]
  by (rule e_ServerNameType.enum_codec)

lemma get_encoding_ServerNameType [simp, codec_simps]:
  "get_encoding ServerNameType_encode x = [ServerNameType_get_u8 x]"
  by (simp add: get_encoding_def ServerNameType_encode_def u8_encode_def)

interpretation e_NamedCurve: enum_u16 NamedCurve_get_u16 NamedCurve_from
  by unfold_locales (simp add: NamedCurve_from_def)

definition NamedCurve_ok :: "NamedCurve \<Rightarrow> bool" where
  "NamedCurve_ok x \<longleftrightarrow> NamedCurve_from (NamedCurve_get_u16 x) = x"

interpretation NamedCurve_c: codec_elem NamedCurve_encode NamedCurve_read NamedCurve_ok "\<lambda>_. True"
  unfolding NamedCurve_encode_def [abs_def] NamedCurve_read_def [abs_def] NamedCurve_ok_def [abs_def]
  by (rule e_NamedCurve.enum_codec)

lemma get_encoding_NamedCurve [simp, codec_simps]:
  "get_encoding NamedCurve_encode x = be_bytes 2 (unat (NamedCurve_get_u16 x))"
  by (simp add: get_encoding_def NamedCurve_encode_def u16_encode_def put_u16_def)

interpretation e_NamedGroup: enum_u16 NamedGroup_get_u16 NamedGroup_from
  by unfold_locales (simp add: NamedGroup_from_def)

definition NamedGroup_ok :: "NamedGroup \<Rightarrow> bool" where
  "NamedGroup_ok x \<longleftrightarrow> NamedGroup_from (NamedGroup_get_u16 x) = x"

interpretation NamedGroup_c: codec_elem NamedGroup_encode NamedGroup_read NamedGroup_ok "\<lambda>_. True"
  unfolding NamedGroup_encode_def [abs_def] NamedGroup_read_def [abs_def] NamedGroup_ok_def [abs_def]
  by (rule e_NamedGroup.enum_codec)

lemma get_encoding_NamedGroup [simp, codec_simps]:
  "get_encoding NamedGroup_encode x = be_bytes 2 (unat (NamedGroup_get_u16 x))"
  by (simp add: get_encoding_def NamedGroup_encode_def u16_encode_def put_u16_def)

interpretation e_CipherSuite: enum_u16 CipherSuite_get_u16 CipherSuite_from
  by unfold_locales (simp add: CipherSuite_from_def)

definition CipherSuite_ok :: "CipherSuite \<Rightarrow> bool" where
  "CipherSuite_ok x \<longleftrightarrow> CipherSuite_from (CipherSuite_get_u16 x) = x"

interpretation CipherSuite_c: codec_elem CipherSuite_encode CipherSuite_read CipherSuite_ok "\<lambda>_. True"
  unfolding CipherSuite_encode_def [abs_def] CipherSuite_read_def [abs_def] CipherSuite_ok_def [abs_def]
  by (rule e_CipherSuite.enum_codec)

lemma get_encoding_CipherSuite [simp, codec_simps]:
  "get_encoding CipherSuite_encode x = be_bytes 2 (unat (CipherSuite_get_u16 x))"
  by (simp add: get_encoding_def CipherSuite_encode_def u16_encode_def put_u16_def)

interpretation e_ECPointFormat: enum_u8 ECPointFormat_get_u8 ECPointFormat_from
  by unfold_locales (simp add: ECPointFormat_from_def)

definition ECPointFormat_ok :: "ECPointFormat \<Rightarrow> bool" where
  "ECPointFormat_ok x \<longleftrightarrow> ECPointFormat_from (ECPointFormat_get_u8 x) = x"

interpretation ECPointFormat_c: codec_elem ECPointFormat_encode ECPointFormat_read ECPointFormat_ok "\<lambda>_. True"
  unfolding ECPointFormat_encode_def [abs_def] ECPointFormat_read_def [abs_def] ECPointFormat_ok_def [abs_def]
  by (rule e_ECPointFormat.enum_codec)

lemma get_encoding_ECPointFormat [simp, codec_simps]:
  "get_encoding ECPointFormat_encode x = [ECPointFormat_get_u8 x]"
  by (simp add: get_encoding_def ECPointFormat_encode_def u8_encode_def)

interpretation e_HeartbeatMode: enum_u8 HeartbeatMode_get_u8 HeartbeatMode_from
  by unfold_locales (simp add: HeartbeatMode_from_def)

definition HeartbeatMode_ok :: "HeartbeatMode \<Rightarrow> bool" where
  "HeartbeatMode_ok x \<longleftrightarrow> HeartbeatMode_from (HeartbeatMode_get_u8 x) = x"

interpretation HeartbeatMode_c: codec_elem HeartbeatMode_encode HeartbeatMode_read HeartbeatMode_ok "\<lambda>_. True"
  unfolding HeartbeatMode_encode_def [abs_def] HeartbeatMode_read_def [abs_def] HeartbeatMode_ok_def [abs_def]
  by (rule e_HeartbeatMode.enum_codec)

lemma get_encoding_HeartbeatMode [simp, codec_simps]:
  "get_encoding HeartbeatMode_encode x = [HeartbeatMode_get_u8 x]"
  by (simp add: get_encoding_def HeartbeatMode_encode_def u8_encode_def)

interpretation e_ECCurveType: enum_u8 ECCurveType_get_u8 ECCurveType_from
  by unfold_locales (simp add: ECCurveType_from_def)

definition ECCurveType_ok :: "ECCurveType \<Rightarrow> bool" where
  "ECCurveType_ok x \<longleftrightarrow> ECCurveType_from (ECCurveType_get_u8 x) = x"

interpretation ECCurveType_c: codec_elem ECCurveType_encode ECCurveType_read ECCurveType_ok "\<lambda>_. True"
  unfolding ECCurveType_encode_def [abs_def] ECCurveType_read_def [abs_def] ECCurveType_ok_def [abs_def]
  by (rule e_ECCurveType.enum_codec)

lemma get_encoding_ECCurveType [simp, codec_simps]:
  "get_encoding ECCurveType_encode x = [ECCurveType_get_u8 x]"
  by (simp add: get_encoding_def ECCurveType_encode_def u8_encode_def)

interpretation e_SignatureScheme: enum_u16 SignatureScheme_get_u16 SignatureScheme_from
  by unfold_locales (simp add: SignatureScheme_from_def)

definition SignatureScheme_ok :: "SignatureScheme \<Rightarrow> bool" where
  "SignatureScheme_ok x \<longleftrightarrow> SignatureScheme_from (SignatureScheme_get_u16 x) = x"

interpretation SignatureScheme_c: codec_elem SignatureScheme_encode SignatureScheme_read SignatureScheme_ok "\<lambda>_. True"
  unfolding SignatureScheme_encode_def [abs_def] SignatureScheme_read_def [abs_def] SignatureScheme_ok_def [abs_def]
  by (rule e_SignatureScheme.enum_codec)

lemma get_encoding_SignatureScheme [simp, codec_simps]:
  "get_encoding SignatureScheme_encode x = be_bytes 2 (unat (SignatureScheme_get_u16 x))"
  by (simp add: get_encoding_def SignatureScheme_encode_def u16_encode_def put_u16_def)

interpretation e_PSKKeyExchangeMode: enum_u8 PSKKeyExchangeMode_get_u8 PSKKeyExchangeMode_from
  by unfold_locales (simp add: PSKKeyExchangeMode_from_def)

definition PSKKeyExchangeMode_ok :: "PSKKeyExchangeMode \<Rightarrow> bool" where
  "PSKKeyExchangeMode_ok x \<longleftrightarrow> PSKKeyExchangeMode_from (PSKKeyExchangeMode_get_u8 x) = x"

interpretation PSKKeyExchangeMode_c: codec_elem PSKKeyExchangeMode_encode PSKKeyExchangeMode_read PSKKeyExchangeMode_ok "\<lambda>_. True"
  unfolding PSKKeyExchangeMode_encode_def [abs_def] PSKKeyExchangeMode_read_def [abs_def] PSKKeyExchangeMode_ok_def [abs_def]
  by (rule e_PSKKeyExchangeMode.enum_codec)

lemma get_encoding_PSKKeyExchangeMode [simp, codec_simps]:
  "get_encoding PSKKeyExchangeMode_encode x = [PSKKeyExchangeMode_get_u8 x]"
  by (simp add: get_encoding_def PSKKeyExchangeMode_encode_def u8_encode_def)

interpretation e_KeyUpdateRequest: enum_u8 KeyUpdateRequest_get_u8 KeyUpdateRequest_from
  by unfold_locales (simp add: KeyUpdateRequest_from_def)

definition KeyUpdateRequest_ok :: "KeyUpdateRequest \<Rightarrow> bool" where
  "KeyUpdateRequest_ok x \<longleftrightarrow> KeyUpdateRequest_from (KeyUpdateRequest_get_u8 x) = x"

interpretation KeyUpdateRequest_c: codec_elem KeyUpdateRequest_encode KeyUpdateRequest_read KeyUpdateRequest_ok "\<lambda>_. True"
  unfolding KeyUpdateRequest_encode_def [abs_def] KeyUpdateRequest_read_def [abs_def] KeyUpdateRequest_ok_def [abs_def]
  by (rule e_KeyUpdateRequest.enum_codec)

lemma get_encoding_KeyUpdateRequest [simp, codec_simps]:
  "get_encoding KeyUpdateRequest_encode x = [KeyUpdateRequest_get_u8 x]"
  by (simp add: get_encoding_def KeyUpdateRequest_encode_def u8_encode_def)

interpretation e_CertificateStatusType: enum_u8 CertificateStatusType_get_u8 CertificateStatusType_from
  by unfold_locales (simp add: CertificateStatusType_from_def)

definition CertificateStatusType_ok :: "CertificateStatusType \<Rightarrow> bool" where
  "CertificateStatusType_ok x \<longleftrightarrow> CertificateStatusType_from (CertificateStatusType_get_u8 x) = x"

interpretation CertificateStatusType_c: codec_elem CertificateStatusType_encode CertificateStatusType_read CertificateStatusType_ok "\<lambda>_. True"
  unfolding CertificateStatusType_encode_def [abs_def] CertificateStatusType_read_def [abs_def] CertificateStatusType_ok_def [abs_def]
  by (rule e_CertificateStatusType.enum_codec)

lemma get_encoding_CertificateStatusType [simp, codec_simps]:
  "get_encoding CertificateStatusType_encode x = [CertificateStatusType_get_u8 x]"
  by (simp add: get_encoding_def CertificateStatusType_encode_def u8_encode_def)

lemmas enum_enc [codec_enc] =
  ProtocolVersion_c.enc_app
  TlsHashAlgorithm_c.enc_app
  TlsSignatureAlgorithm_c.enc_app
  ClientCertificateType_c.enc_app
  Compression_c.enc_app
  ContentType_c.enc_app
  HandshakeType_c.enc_app
  AlertLevel_c.enc_app
  AlertDescription_c.enc_app
  HeartbeatMessageType_c.enc_app
  ExtensionType_c.enc_app
  ServerNameType_c.enc_app
  NamedCurve_c.enc_app
  NamedGroup_c.enc_app
  CipherSuite_c.enc_app
  ECPointFormat_c.enc_app
  HeartbeatMode_c.enc_app
  ECCurveType_c.enc_app
  SignatureScheme_c.enc_app
  PSKKeyExchangeMode_c.enc_app
  KeyUpdateRequest_c.enc_app
  CertificateStatusType_c.enc_app

lemmas enum_read [codec_read] =
  ProtocolVersion_c.read_spec
  TlsHashAlgorithm_c.read_spec
  TlsSignatureAlgorithm_c.read_spec
  ClientCertificateType_c.read_spec
  Compression_c.read_spec
  ContentType_c.read_spec
  HandshakeType_c.read_spec
  AlertLevel_c.read_spec
  AlertDescription_c.read_spec
  HeartbeatMessageType_c.read_spec
  ExtensionType_c.read_spec
  ServerNameType_c.read_spec
  NamedCurve_c.read_spec
  NamedGroup_c.read_spec
  CipherSuite_c.read_spec
  ECPointFormat_c.read_spec
  HeartbeatMode_c.read_spec
  ECCurveType_c.read_spec
  SignatureScheme_c.read_spec
  PSKKeyExchangeMode_c.read_spec
  KeyUpdateRequest_c.read_spec
  CertificateStatusType_c.read_spec

end
