(* ===== verification/Hs_Basic.thy ===== *)
theory Hs_Basic
  imports Enums
begin

text \<open>
  The building blocks of handshake messages, after the first part of
  \<open>crates/tls/core/src/msgs/handshake.rs\<close>: random values, session identifiers, server names, protocol
  names, key shares, pre-shared key offers and certificate status requests, each with its codec.

  A type that \<open>declare_u8_vec\<close> or \<open>declare_u16_vec\<close> declares is the list type; its encoder and reader are
  abbreviations of the generic ones.  \<open>DnsName\<close> of the \<open>rustls_pki_types\<close> crate is represented by the
  bytes of the name; which byte strings \<open>DnsName::try_from\<close> accepts is the argument \<open>valid_dns\<close>.  Fixed-size arrays
  are lists, with their length in the well-formedness predicate of the type.
\<close>

section \<open>Random values\<close>

datatype Random = Random (random_bytes: bytes)

definition HELLO_RETRY_REQUEST_RANDOM :: Random where
  "HELLO_RETRY_REQUEST_RANDOM = Random
     [0xcf, 0x21, 0xad, 0x74, 0xe5, 0x9a, 0x61, 0x11, 0xbe, 0x1d, 0x8c, 0x02, 0x1e, 0x65, 0xb8, 0x91,
      0xc2, 0xa2, 0x11, 0x16, 0x7a, 0xbb, 0x8c, 0x5e, 0x07, 0x9e, 0x09, 0xe2, 0xc8, 0xa8, 0x33, 0x9c]"

definition ZERO_RANDOM :: Random where
  "ZERO_RANDOM = Random (replicate 32 0)"

definition Random_encode :: "Random encoder" where
  "Random_encode x bytes = bytes @ random_bytes x"

definition Random_read :: "Random reader" where
  "Random_read r = do { (bytes, r) \<leftarrow> Reader_take r 32; Some (Random bytes, r) }"

definition Random_write_slice :: "Random \<Rightarrow> bytes \<Rightarrow> bytes option" where
  "Random_write_slice x bytes =
     (let buf = get_encoding Random_encode x in copy_from_slice bytes 0 (length bytes) buf)"

definition Random_ok :: "Random \<Rightarrow> bool" where
  "Random_ok x \<longleftrightarrow> length (random_bytes x) = 32"

section \<open>Session identifiers\<close>

record SessionID =
  sid_len :: nat
  sid_data :: bytes

definition SessionID_eq :: "SessionID \<Rightarrow> SessionID \<Rightarrow> bool" where
  "SessionID_eq a b =
     (if sid_len a \<noteq> sid_len b then False
      else foldl (\<lambda>diff i. diff OR (sid_data a ! i XOR sid_data b ! i)) 0 [0..<sid_len a] = 0)"

definition SessionID_encode :: "SessionID encoder" where
  "SessionID_encode x bytes = bytes @ [of_nat (sid_len x)] @ take (sid_len x) (sid_data x)"

definition SessionID_read :: "SessionID reader" where
  "SessionID_read r =
     do {
       (len, r) \<leftarrow> u8_read r;
       if unat len > 32 then None
       else do {
         (bytes, r) \<leftarrow> Reader_take r (unat len);
         Some (\<lparr>sid_len = unat len,
                sid_data = take (unat len) bytes @ replicate (32 - unat len) 0\<rparr>, r)
       }
     }"

definition SessionID_empty :: SessionID where
  "SessionID_empty = \<lparr>sid_len = 0, sid_data = replicate 32 0\<rparr>"

definition SessionID_len :: "SessionID \<Rightarrow> nat" where
  "SessionID_len x = sid_len x"

definition SessionID_is_empty :: "SessionID \<Rightarrow> bool" where
  "SessionID_is_empty x = (sid_len x = 0)"

definition SessionID_ok :: "SessionID \<Rightarrow> bool" where
  "SessionID_ok x \<longleftrightarrow> sid_len x \<le> 32 \<and> length (sid_data x) = 32 \<and>
     drop (sid_len x) (sid_data x) = replicate (32 - sid_len x) 0"

section \<open>Vectors of simple items\<close>

abbreviation VecU16OfPayloadU8_encode :: "PayloadU8 list encoder" where
  "VecU16OfPayloadU8_encode \<equiv> encode_vec_u16 PayloadU8_encode"

abbreviation VecU16OfPayloadU8_read :: "PayloadU8 list reader" where
  "VecU16OfPayloadU8_read \<equiv> read_vec_u16 PayloadU8_read"

abbreviation VecU16OfPayloadU8_ok :: "PayloadU8 list \<Rightarrow> bool" where
  "VecU16OfPayloadU8_ok \<equiv> vec_ok PayloadU8_encode PayloadU8_ok (\<lambda>_. True) 2"

abbreviation VecU16OfPayloadU16_encode :: "PayloadU16 list encoder" where
  "VecU16OfPayloadU16_encode \<equiv> encode_vec_u16 PayloadU16_encode"

abbreviation VecU16OfPayloadU16_read :: "PayloadU16 list reader" where
  "VecU16OfPayloadU16_read \<equiv> read_vec_u16 PayloadU16_read"

abbreviation VecU16OfPayloadU16_ok :: "PayloadU16 list \<Rightarrow> bool" where
  "VecU16OfPayloadU16_ok \<equiv> vec_ok PayloadU16_encode PayloadU16_ok (\<lambda>_. True) 2"

abbreviation ECPointFormatList_encode :: "ECPointFormat list encoder" where
  "ECPointFormatList_encode \<equiv> encode_vec_u8 ECPointFormat_encode"

abbreviation ECPointFormatList_read :: "ECPointFormat list reader" where
  "ECPointFormatList_read \<equiv> read_vec_u8 ECPointFormat_read"

abbreviation ECPointFormatList_ok :: "ECPointFormat list \<Rightarrow> bool" where
  "ECPointFormatList_ok \<equiv> vec_ok ECPointFormat_encode ECPointFormat_ok (\<lambda>_. True) 1"

definition ECPointFormatList_supported :: "ECPointFormat list" where
  "ECPointFormatList_supported = [ECPointFormat.Uncompressed]"

abbreviation NamedGroups_encode :: "NamedGroup list encoder" where
  "NamedGroups_encode \<equiv> encode_vec_u16 NamedGroup_encode"

abbreviation NamedGroups_read :: "NamedGroup list reader" where
  "NamedGroups_read \<equiv> read_vec_u16 NamedGroup_read"

abbreviation NamedGroups_ok :: "NamedGroup list \<Rightarrow> bool" where
  "NamedGroups_ok \<equiv> vec_ok NamedGroup_encode NamedGroup_ok (\<lambda>_. True) 2"

abbreviation SupportedSignatureSchemes_encode :: "SignatureScheme list encoder" where
  "SupportedSignatureSchemes_encode \<equiv> encode_vec_u16 SignatureScheme_encode"

abbreviation SupportedSignatureSchemes_read :: "SignatureScheme list reader" where
  "SupportedSignatureSchemes_read \<equiv> read_vec_u16 SignatureScheme_read"

abbreviation SupportedSignatureSchemes_ok :: "SignatureScheme list \<Rightarrow> bool" where
  "SupportedSignatureSchemes_ok \<equiv> vec_ok SignatureScheme_encode SignatureScheme_ok (\<lambda>_. True) 2"

abbreviation PSKKeyExchangeModes_encode :: "PSKKeyExchangeMode list encoder" where
  "PSKKeyExchangeModes_encode \<equiv> encode_vec_u8 PSKKeyExchangeMode_encode"

abbreviation PSKKeyExchangeModes_read :: "PSKKeyExchangeMode list reader" where
  "PSKKeyExchangeModes_read \<equiv> read_vec_u8 PSKKeyExchangeMode_read"

abbreviation PSKKeyExchangeModes_ok :: "PSKKeyExchangeMode list \<Rightarrow> bool" where
  "PSKKeyExchangeModes_ok \<equiv> vec_ok PSKKeyExchangeMode_encode PSKKeyExchangeMode_ok (\<lambda>_. True) 1"

abbreviation ProtocolVersions_encode :: "ProtocolVersion list encoder" where
  "ProtocolVersions_encode \<equiv> encode_vec_u8 ProtocolVersion_encode"

abbreviation ProtocolVersions_read :: "ProtocolVersion list reader" where
  "ProtocolVersions_read \<equiv> read_vec_u8 ProtocolVersion_read"

abbreviation ProtocolVersions_ok :: "ProtocolVersion list \<Rightarrow> bool" where
  "ProtocolVersions_ok \<equiv> vec_ok ProtocolVersion_encode ProtocolVersion_ok (\<lambda>_. True) 1"

section \<open>Signature schemes\<close>

fun SignatureScheme_sign :: "SignatureScheme \<Rightarrow> TlsSignatureAlgorithm" where
  "SignatureScheme_sign RSA_PKCS1_SHA1 = TlsSignatureAlgorithm.RSA"
| "SignatureScheme_sign RSA_PKCS1_SHA256 = TlsSignatureAlgorithm.RSA"
| "SignatureScheme_sign RSA_PKCS1_SHA384 = TlsSignatureAlgorithm.RSA"
| "SignatureScheme_sign RSA_PKCS1_SHA512 = TlsSignatureAlgorithm.RSA"
| "SignatureScheme_sign RSA_PSS_SHA256 = TlsSignatureAlgorithm.RSA"
| "SignatureScheme_sign RSA_PSS_SHA384 = TlsSignatureAlgorithm.RSA"
| "SignatureScheme_sign RSA_PSS_SHA512 = TlsSignatureAlgorithm.RSA"
| "SignatureScheme_sign ECDSA_NISTP256_SHA256 = TlsSignatureAlgorithm.ECDSA"
| "SignatureScheme_sign ECDSA_NISTP384_SHA384 = TlsSignatureAlgorithm.ECDSA"
| "SignatureScheme_sign ECDSA_NISTP521_SHA512 = TlsSignatureAlgorithm.ECDSA"
| "SignatureScheme_sign _ = TlsSignatureAlgorithm.Unknown 0"

text \<open>\<open>None\<close> is the \<open>unreachable!\<close> branch.\<close>

fun SignatureScheme_make :: "TlsSignatureAlgorithm \<Rightarrow> TlsHashAlgorithm \<Rightarrow> SignatureScheme option" where
  "SignatureScheme_make TlsSignatureAlgorithm.RSA SHA1 = Some RSA_PKCS1_SHA1"
| "SignatureScheme_make TlsSignatureAlgorithm.RSA SHA256 = Some RSA_PKCS1_SHA256"
| "SignatureScheme_make TlsSignatureAlgorithm.RSA SHA384 = Some RSA_PKCS1_SHA384"
| "SignatureScheme_make TlsSignatureAlgorithm.RSA SHA512 = Some RSA_PKCS1_SHA512"
| "SignatureScheme_make TlsSignatureAlgorithm.ECDSA SHA256 = Some ECDSA_NISTP256_SHA256"
| "SignatureScheme_make TlsSignatureAlgorithm.ECDSA SHA384 = Some ECDSA_NISTP384_SHA384"
| "SignatureScheme_make TlsSignatureAlgorithm.ECDSA SHA512 = Some ECDSA_NISTP521_SHA512"
| "SignatureScheme_make _ _ = None"

section \<open>Unknown extensions\<close>

record UnknownExtension =
  unk_typ :: ExtensionType
  unk_payload :: Payload

definition UnknownExtension_encode :: "UnknownExtension encoder" where
  "UnknownExtension_encode x bytes = Payload_encode (unk_payload x) bytes"

definition UnknownExtension_read :: "ExtensionType \<Rightarrow> UnknownExtension reader" where
  "UnknownExtension_read typ r =
     do { (payload, r) \<leftarrow> Payload_read r; Some (\<lparr>unk_typ = typ, unk_payload = payload\<rparr>, r) }"

section \<open>Server names\<close>

type_synonym DnsName = bytes

datatype ServerNamePayload = HostName PayloadU16 DnsName | Unknown Payload

definition new_hostname :: "DnsName \<Rightarrow> ServerNamePayload" where
  "new_hostname hostname = ServerNamePayload.HostName (PayloadU16 hostname) hostname"

definition read_hostname :: "(bytes \<Rightarrow> bool) \<Rightarrow> ServerNamePayload reader" where
  "read_hostname valid_dns r =
     do {
       (raw, r) \<leftarrow> PayloadU16_read r;
       if valid_dns (payload_u16_bytes raw)
       then Some (ServerNamePayload.HostName raw (payload_u16_bytes raw), r)
       else None
     }"

fun ServerNamePayload_encode :: "ServerNamePayload encoder" where
  "ServerNamePayload_encode (ServerNamePayload.HostName r dns) bytes = PayloadU16_encode r bytes"
| "ServerNamePayload_encode (ServerNamePayload.Unknown r) bytes = Payload_encode r bytes"

record ServerName =
  sn_typ :: ServerNameType
  sn_payload :: ServerNamePayload

definition ServerName_encode :: "ServerName encoder" where
  "ServerName_encode x bytes =
     ServerNamePayload_encode (sn_payload x) (ServerNameType_encode (sn_typ x) bytes)"

definition ServerName_read :: "(bytes \<Rightarrow> bool) \<Rightarrow> ServerName reader" where
  "ServerName_read valid_dns r =
     do {
       (typ, r) \<leftarrow> ServerNameType_read r;
       (payload, r) \<leftarrow>
         (if typ = ServerNameType.HostName then read_hostname valid_dns r
          else do { (p, r) \<leftarrow> Payload_read r; Some (ServerNamePayload.Unknown p, r) });
       Some (\<lparr>sn_typ = typ, sn_payload = payload\<rparr>, r)
     }"

definition ServerName_ok :: "(bytes \<Rightarrow> bool) \<Rightarrow> ServerName \<Rightarrow> bool" where
  "ServerName_ok valid_dns x \<longleftrightarrow> ServerNameType_ok (sn_typ x) \<and>
     (case sn_payload x of
        ServerNamePayload.HostName r dns \<Rightarrow> sn_typ x = ServerNameType.HostName \<and> PayloadU16_ok r \<and>
          dns = payload_u16_bytes r \<and> valid_dns dns
      | ServerNamePayload.Unknown p \<Rightarrow> sn_typ x \<noteq> ServerNameType.HostName)"

text \<open>An unknown server name takes the rest of the list.\<close>

definition ServerName_mid :: "ServerName \<Rightarrow> bool" where
  "ServerName_mid x \<longleftrightarrow> (case sn_payload x of
     ServerNamePayload.HostName r dns \<Rightarrow> True | ServerNamePayload.Unknown p \<Rightarrow> False)"

abbreviation ServerNameRequest_encode :: "ServerName list encoder" where
  "ServerNameRequest_encode \<equiv> encode_vec_u16 ServerName_encode"

abbreviation ServerNameRequest_read :: "(bytes \<Rightarrow> bool) \<Rightarrow> ServerName list reader" where
  "ServerNameRequest_read valid_dns \<equiv> read_vec_u16 (ServerName_read valid_dns)"

abbreviation ServerNameRequest_ok :: "(bytes \<Rightarrow> bool) \<Rightarrow> ServerName list \<Rightarrow> bool" where
  "ServerNameRequest_ok valid_dns \<equiv>
     vec_ok ServerName_encode (ServerName_ok valid_dns) ServerName_mid 2"

text \<open>The loops over a \<open>HashSet\<close> of numbers seen so far.\<close>

fun has_duplicate :: "'a list \<Rightarrow> 'a set \<Rightarrow> bool" where
  "has_duplicate [] seen = False"
| "has_duplicate (x # xs) seen = (if x \<in> seen then True else has_duplicate xs (insert x seen))"

definition has_duplicate_names_for_type :: "ServerName list \<Rightarrow> bool" where
  "has_duplicate_names_for_type names =
     has_duplicate (map (\<lambda>name. ServerNameType_get_u8 (sn_typ name)) names) {}"

definition only_dns_hostnames :: "ServerName \<Rightarrow> DnsName option" where
  "only_dns_hostnames name =
     (case sn_payload name of ServerNamePayload.HostName _ dns \<Rightarrow> Some dns | _ \<Rightarrow> None)"

definition get_single_hostname :: "ServerName list \<Rightarrow> DnsName option" where
  "get_single_hostname names =
     (case List.map_filter only_dns_hostnames names of [] \<Rightarrow> None | d # _ \<Rightarrow> Some d)"

text \<open>\<open>None\<close> is the panic of \<open>unwrap\<close> when the trimmed name is not a valid name.\<close>

definition trim_hostname_trailing_dot_for_sni :: "(bytes \<Rightarrow> bool) \<Rightarrow> DnsName \<Rightarrow> DnsName option" where
  "trim_hostname_trailing_dot_for_sni valid_dns dns_name =
     (if dns_name \<noteq> [] \<and> last dns_name = 0x2e
      then (let trimmed = take (length dns_name - 1) dns_name in
            if valid_dns trimmed then Some trimmed else None)
      else Some dns_name)"

section \<open>Protocol names\<close>

definition from_slices :: "bytes list \<Rightarrow> PayloadU8 list" where
  "from_slices names = fold (\<lambda>name ret. ret @ [PayloadU8 name]) names []"

definition to_slices :: "PayloadU8 list \<Rightarrow> bytes list" where
  "to_slices names = map payload_u8_bytes names"

definition as_single_slice :: "PayloadU8 list \<Rightarrow> bytes option" where
  "as_single_slice names = (if length names = 1 then Some (payload_u8_bytes (names ! 0)) else None)"

section \<open>Key shares and pre-shared keys\<close>

record KeyShareEntry =
  kse_group :: NamedGroup
  kse_payload :: PayloadU16

definition KeyShareEntry_new :: "NamedGroup \<Rightarrow> bytes \<Rightarrow> KeyShareEntry" where
  "KeyShareEntry_new grp payload = \<lparr>kse_group = grp, kse_payload = PayloadU16 payload\<rparr>"

definition KeyShareEntry_encode :: "KeyShareEntry encoder" where
  "KeyShareEntry_encode x bytes =
     PayloadU16_encode (kse_payload x) (NamedGroup_encode (kse_group x) bytes)"

definition KeyShareEntry_read :: "KeyShareEntry reader" where
  "KeyShareEntry_read r =
     do {
       (group, r) \<leftarrow> NamedGroup_read r;
       (payload, r) \<leftarrow> PayloadU16_read r;
       Some (\<lparr>kse_group = group, kse_payload = payload\<rparr>, r)
     }"

definition KeyShareEntry_ok :: "KeyShareEntry \<Rightarrow> bool" where
  "KeyShareEntry_ok x \<longleftrightarrow> NamedGroup_ok (kse_group x) \<and> PayloadU16_ok (kse_payload x)"

abbreviation KeyShareEntries_encode :: "KeyShareEntry list encoder" where
  "KeyShareEntries_encode \<equiv> encode_vec_u16 KeyShareEntry_encode"

abbreviation KeyShareEntries_read :: "KeyShareEntry list reader" where
  "KeyShareEntries_read \<equiv> read_vec_u16 KeyShareEntry_read"

abbreviation KeyShareEntries_ok :: "KeyShareEntry list \<Rightarrow> bool" where
  "KeyShareEntries_ok \<equiv> vec_ok KeyShareEntry_encode KeyShareEntry_ok (\<lambda>_. True) 2"

record PresharedKeyIdentity =
  psk_identity :: PayloadU16
  psk_obfuscated_ticket_age :: u32

definition PresharedKeyIdentity_new :: "bytes \<Rightarrow> u32 \<Rightarrow> PresharedKeyIdentity" where
  "PresharedKeyIdentity_new ident age = \<lparr>psk_identity = PayloadU16 ident, psk_obfuscated_ticket_age = age\<rparr>"

definition PresharedKeyIdentity_encode :: "PresharedKeyIdentity encoder" where
  "PresharedKeyIdentity_encode x bytes =
     u32_encode (psk_obfuscated_ticket_age x) (PayloadU16_encode (psk_identity x) bytes)"

definition PresharedKeyIdentity_read :: "PresharedKeyIdentity reader" where
  "PresharedKeyIdentity_read r =
     do {
       (identity, r) \<leftarrow> PayloadU16_read r;
       (age, r) \<leftarrow> u32_read r;
       Some (\<lparr>psk_identity = identity, psk_obfuscated_ticket_age = age\<rparr>, r)
     }"

definition PresharedKeyIdentity_ok :: "PresharedKeyIdentity \<Rightarrow> bool" where
  "PresharedKeyIdentity_ok x \<longleftrightarrow> PayloadU16_ok (psk_identity x)"

abbreviation PresharedKeyIdentities_encode :: "PresharedKeyIdentity list encoder" where
  "PresharedKeyIdentities_encode \<equiv> encode_vec_u16 PresharedKeyIdentity_encode"

abbreviation PresharedKeyIdentities_read :: "PresharedKeyIdentity list reader" where
  "PresharedKeyIdentities_read \<equiv> read_vec_u16 PresharedKeyIdentity_read"

abbreviation PresharedKeyIdentities_ok :: "PresharedKeyIdentity list \<Rightarrow> bool" where
  "PresharedKeyIdentities_ok \<equiv>
     vec_ok PresharedKeyIdentity_encode PresharedKeyIdentity_ok (\<lambda>_. True) 2"

record PresharedKeyOffer =
  pko_identities :: "PresharedKeyIdentity list"
  pko_binders :: "PayloadU8 list"

definition PresharedKeyOffer_new :: "PresharedKeyIdentity \<Rightarrow> bytes \<Rightarrow> PresharedKeyOffer" where
  "PresharedKeyOffer_new i binder = \<lparr>pko_identities = [i], pko_binders = [PayloadU8 binder]\<rparr>"

definition PresharedKeyOffer_encode :: "PresharedKeyOffer encoder" where
  "PresharedKeyOffer_encode x bytes =
     VecU16OfPayloadU8_encode (pko_binders x) (PresharedKeyIdentities_encode (pko_identities x) bytes)"

definition PresharedKeyOffer_read :: "PresharedKeyOffer reader" where
  "PresharedKeyOffer_read r =
     do {
       (identities, r) \<leftarrow> PresharedKeyIdentities_read r;
       (binders, r) \<leftarrow> VecU16OfPayloadU8_read r;
       Some (\<lparr>pko_identities = identities, pko_binders = binders\<rparr>, r)
     }"

definition PresharedKeyOffer_ok :: "PresharedKeyOffer \<Rightarrow> bool" where
  "PresharedKeyOffer_ok x \<longleftrightarrow> PresharedKeyIdentities_ok (pko_identities x) \<and>
     VecU16OfPayloadU8_ok (pko_binders x)"

section \<open>Certificate status requests\<close>

record OCSPCertificateStatusRequest =
  ocsp_responder_ids :: "PayloadU16 list"
  ocsp_extensions :: PayloadU16

definition OCSPCertificateStatusRequest_encode :: "OCSPCertificateStatusRequest encoder" where
  "OCSPCertificateStatusRequest_encode x bytes =
     PayloadU16_encode (ocsp_extensions x)
       (VecU16OfPayloadU16_encode (ocsp_responder_ids x)
         (CertificateStatusType_encode CertificateStatusType.OCSP bytes))"

definition OCSPCertificateStatusRequest_read :: "OCSPCertificateStatusRequest reader" where
  "OCSPCertificateStatusRequest_read r =
     do {
       (responder_ids, r) \<leftarrow> VecU16OfPayloadU16_read r;
       (extensions, r) \<leftarrow> PayloadU16_read r;
       Some (\<lparr>ocsp_responder_ids = responder_ids, ocsp_extensions = extensions\<rparr>, r)
     }"

datatype CertificateStatusRequest =
    OCSP OCSPCertificateStatusRequest
  | Unknown CertificateStatusType Payload

fun CertificateStatusRequest_encode :: "CertificateStatusRequest encoder" where
  "CertificateStatusRequest_encode (CertificateStatusRequest.OCSP r) bytes =
     OCSPCertificateStatusRequest_encode r bytes"
| "CertificateStatusRequest_encode (CertificateStatusRequest.Unknown typ payload) bytes =
     Payload_encode payload (CertificateStatusType_encode typ bytes)"

definition CertificateStatusRequest_read :: "CertificateStatusRequest reader" where
  "CertificateStatusRequest_read r =
     do {
       (typ, r) \<leftarrow> CertificateStatusType_read r;
       if typ = CertificateStatusType.OCSP
       then do {
         (ocsp_req, r) \<leftarrow> OCSPCertificateStatusRequest_read r;
         Some (CertificateStatusRequest.OCSP ocsp_req, r)
       }
       else do {
         (data, r) \<leftarrow> Payload_read r;
         Some (CertificateStatusRequest.Unknown typ data, r)
       }
     }"

definition build_ocsp :: CertificateStatusRequest where
  "build_ocsp = CertificateStatusRequest.OCSP
     \<lparr>ocsp_responder_ids = [], ocsp_extensions = PayloadU16 []\<rparr>"

fun CertificateStatusRequest_ok :: "CertificateStatusRequest \<Rightarrow> bool" where
  "CertificateStatusRequest_ok (CertificateStatusRequest.OCSP r) \<longleftrightarrow>
     VecU16OfPayloadU16_ok (ocsp_responder_ids r) \<and> PayloadU16_ok (ocsp_extensions r)"
| "CertificateStatusRequest_ok (CertificateStatusRequest.Unknown typ payload) \<longleftrightarrow>
     CertificateStatusType_ok typ \<and> typ \<noteq> CertificateStatusType.OCSP"

fun CertificateStatusRequest_mid :: "CertificateStatusRequest \<Rightarrow> bool" where
  "CertificateStatusRequest_mid (CertificateStatusRequest.OCSP r) = True"
| "CertificateStatusRequest_mid (CertificateStatusRequest.Unknown typ payload) = False"

section \<open>The codecs\<close>

lemma ex_bool_simps [simp]:
  "(\<exists>m. m \<and> P m) \<longleftrightarrow> P True"
  "(\<exists>m. \<not> m \<and> P m) \<longleftrightarrow> P False"
  by (metis (full_types))+

lemma Random_bytes [simp]: "get_encoding Random_encode x = random_bytes x"
  by (rule get_encodingI) (simp add: Random_encode_def)

interpretation Random_c: codec_elem Random_encode Random_read Random_ok "\<lambda>_. True"
proof (rule codec_elemI [OF codecI])
  show "Random_encode x bs = bs @ get_encoding Random_encode x" for x bs
    by (simp add: Random_encode_def)
  show "rspec Random_read (\<lambda>x e m. Random_ok x \<and> e = get_encoding Random_encode x \<and> m = True)"
    unfolding Random_read_def [abs_def]
    by (rule rspec_cong, (rule rspec_intros codec_read)+)
      (case_tac x, auto simp: Random_ok_def)
qed (auto simp: Random_ok_def)

lemma SessionID_bytes: "get_encoding SessionID_encode x = of_nat (sid_len x) # take (sid_len x) (sid_data x)"
  by (rule get_encodingI) (simp add: SessionID_encode_def)

interpretation SessionID_c: codec_elem SessionID_encode SessionID_read SessionID_ok "\<lambda>_. True"
proof (rule codec_elemI [OF codecI])
  show "SessionID_encode x bs = bs @ get_encoding SessionID_encode x" for x bs
    by (simp add: SessionID_encode_def SessionID_bytes)
  have u: "unat (word_of_nat n :: u8) = n" if "n \<le> 32" for n
    using that by (simp add: unsigned_of_nat take_bit_nat_eq_self)
  show "rspec SessionID_read
      (\<lambda>x e m. SessionID_ok x \<and> e = get_encoding SessionID_encode x \<and> m = True)"
    unfolding SessionID_read_def [abs_def]
  proof (rule rspec_cong, (rule rspec_intros codec_read)+, intro iffI, goal_cases)
    case (1 x e m)
    then show ?case by (auto simp: SessionID_ok_def SessionID_bytes not_less split: if_splits)
  next
    case (2 x e m)
    then have x: "SessionID_ok x" "e = of_nat (sid_len x) # take (sid_len x) (sid_data x)" "m"
      by (simp_all add: SessionID_bytes)
    then have "sid_data x = take (sid_len x) (sid_data x) @ replicate (32 - sid_len x) 0"
      by (metis SessionID_ok_def append_take_drop_id)
    with x show ?case
      by (auto simp: SessionID_ok_def u not_less intro!: exI [of _ "word_of_nat (sid_len x)"])
  qed
qed (auto simp: SessionID_bytes)

lemmas hs_enc1 [codec_enc] = Random_c.enc_app SessionID_c.enc_app
lemmas hs_read1 [codec_read] = Random_c.read_spec SessionID_c.read_spec

interpretation VecU16OfPayloadU8_c: codec_elem VecU16OfPayloadU8_encode VecU16OfPayloadU8_read
  VecU16OfPayloadU8_ok "\<lambda>_. True"
  by (rule payload_u8.vec_u16)

interpretation VecU16OfPayloadU16_c: codec_elem VecU16OfPayloadU16_encode VecU16OfPayloadU16_read
  VecU16OfPayloadU16_ok "\<lambda>_. True"
  by (rule payload_u16.vec_u16)

interpretation ECPointFormatList_c: codec_elem ECPointFormatList_encode ECPointFormatList_read ECPointFormatList_ok "\<lambda>_. True"
  by (rule ECPointFormat_c.vec_u8)

interpretation NamedGroups_c: codec_elem NamedGroups_encode NamedGroups_read NamedGroups_ok "\<lambda>_. True"
  by (rule NamedGroup_c.vec_u16)

interpretation SupportedSignatureSchemes_c: codec_elem SupportedSignatureSchemes_encode SupportedSignatureSchemes_read SupportedSignatureSchemes_ok "\<lambda>_. True"
  by (rule SignatureScheme_c.vec_u16)

interpretation PSKKeyExchangeModes_c: codec_elem PSKKeyExchangeModes_encode PSKKeyExchangeModes_read PSKKeyExchangeModes_ok "\<lambda>_. True"
  by (rule PSKKeyExchangeMode_c.vec_u8)

interpretation ProtocolVersions_c: codec_elem ProtocolVersions_encode ProtocolVersions_read ProtocolVersions_ok "\<lambda>_. True"
  by (rule ProtocolVersion_c.vec_u8)

lemmas vec_enc1 [codec_enc] =
  VecU16OfPayloadU8_c.enc_app
  VecU16OfPayloadU16_c.enc_app
  ECPointFormatList_c.enc_app
  NamedGroups_c.enc_app
  SupportedSignatureSchemes_c.enc_app
  PSKKeyExchangeModes_c.enc_app
  ProtocolVersions_c.enc_app

lemmas vec_read1 [codec_read] =
  VecU16OfPayloadU8_c.read_spec
  VecU16OfPayloadU16_c.read_spec
  ECPointFormatList_c.read_spec
  NamedGroups_c.read_spec
  SupportedSignatureSchemes_c.read_spec
  PSKKeyExchangeModes_c.read_spec
  ProtocolVersions_c.read_spec

lemma KeyShareEntry_bytes: "get_encoding KeyShareEntry_encode x =
    get_encoding NamedGroup_encode (kse_group x) @
    get_encoding PayloadU16_encode (kse_payload x)"
  by (rule get_encodingI) (simp only: KeyShareEntry_encode_def  codec_enc append_assoc)

interpretation KeyShareEntry_c: codec_elem KeyShareEntry_encode KeyShareEntry_read KeyShareEntry_ok "\<lambda>_. True"
proof (rule codec_elemI [OF codecI])
  show "KeyShareEntry_encode x bs = bs @ get_encoding KeyShareEntry_encode x" for x bs
    by (simp only: KeyShareEntry_encode_def  KeyShareEntry_bytes codec_enc append_assoc)
  show "rspec KeyShareEntry_read
      (\<lambda>x e m. KeyShareEntry_ok x \<and> e = get_encoding KeyShareEntry_encode x \<and> m = True)"
    unfolding KeyShareEntry_read_def [abs_def]
    by (rule rspec_cong, (rule rspec_intros codec_read)+)
      (case_tac x, auto simp: KeyShareEntry_ok_def KeyShareEntry_bytes)
qed (auto simp: KeyShareEntry_bytes)

lemmas KeyShareEntry_codec [codec_enc] = KeyShareEntry_c.enc_app
lemmas KeyShareEntry_spec [codec_read] = KeyShareEntry_c.read_spec

lemma PresharedKeyIdentity_bytes: "get_encoding PresharedKeyIdentity_encode x =
    get_encoding PayloadU16_encode (psk_identity x) @
    get_encoding u32_encode (psk_obfuscated_ticket_age x)"
  by (rule get_encodingI) (simp only: PresharedKeyIdentity_encode_def  codec_enc append_assoc)

interpretation PresharedKeyIdentity_c: codec_elem PresharedKeyIdentity_encode PresharedKeyIdentity_read PresharedKeyIdentity_ok "\<lambda>_. True"
proof (rule codec_elemI [OF codecI])
  show "PresharedKeyIdentity_encode x bs = bs @ get_encoding PresharedKeyIdentity_encode x" for x bs
    by (simp only: PresharedKeyIdentity_encode_def  PresharedKeyIdentity_bytes codec_enc append_assoc)
  show "rspec PresharedKeyIdentity_read
      (\<lambda>x e m. PresharedKeyIdentity_ok x \<and> e = get_encoding PresharedKeyIdentity_encode x \<and> m = True)"
    unfolding PresharedKeyIdentity_read_def [abs_def]
    by (rule rspec_cong, (rule rspec_intros codec_read)+)
      (case_tac x, auto simp: PresharedKeyIdentity_ok_def PresharedKeyIdentity_bytes)
qed (auto simp: PresharedKeyIdentity_bytes)

lemmas PresharedKeyIdentity_codec [codec_enc] = PresharedKeyIdentity_c.enc_app
lemmas PresharedKeyIdentity_spec [codec_read] = PresharedKeyIdentity_c.read_spec

interpretation KeyShareEntries_c: codec_elem KeyShareEntries_encode KeyShareEntries_read KeyShareEntries_ok "\<lambda>_. True"
  by (rule KeyShareEntry_c.vec_u16)

interpretation PresharedKeyIdentities_c: codec_elem PresharedKeyIdentities_encode PresharedKeyIdentities_read PresharedKeyIdentities_ok "\<lambda>_. True"
  by (rule PresharedKeyIdentity_c.vec_u16)

lemmas vec_enc2 [codec_enc] = KeyShareEntries_c.enc_app PresharedKeyIdentities_c.enc_app
lemmas vec_read2 [codec_read] = KeyShareEntries_c.read_spec PresharedKeyIdentities_c.read_spec

lemma PresharedKeyOffer_bytes: "get_encoding PresharedKeyOffer_encode x =
    get_encoding PresharedKeyIdentities_encode (pko_identities x) @
    get_encoding VecU16OfPayloadU8_encode (pko_binders x)"
  by (rule get_encodingI) (simp only: PresharedKeyOffer_encode_def  codec_enc append_assoc)

interpretation PresharedKeyOffer_c: codec_elem PresharedKeyOffer_encode PresharedKeyOffer_read PresharedKeyOffer_ok "\<lambda>_. True"
proof (rule codec_elemI [OF codecI])
  show "PresharedKeyOffer_encode x bs = bs @ get_encoding PresharedKeyOffer_encode x" for x bs
    by (simp only: PresharedKeyOffer_encode_def  PresharedKeyOffer_bytes codec_enc append_assoc)
  show "rspec PresharedKeyOffer_read
      (\<lambda>x e m. PresharedKeyOffer_ok x \<and> e = get_encoding PresharedKeyOffer_encode x \<and> m = True)"
    unfolding PresharedKeyOffer_read_def [abs_def]
    by (rule rspec_cong, (rule rspec_intros codec_read)+)
      (case_tac x, auto simp: PresharedKeyOffer_ok_def PresharedKeyOffer_bytes)
qed (auto simp: PresharedKeyOffer_bytes)

lemmas PresharedKeyOffer_codec [codec_enc] = PresharedKeyOffer_c.enc_app
lemmas PresharedKeyOffer_spec [codec_read] = PresharedKeyOffer_c.read_spec

lemma ServerNamePayload_bytes:
  "get_encoding ServerNamePayload_encode (ServerNamePayload.HostName r d) = get_encoding PayloadU16_encode r"
  "get_encoding ServerNamePayload_encode (ServerNamePayload.Unknown p) = get_encoding Payload_encode p"
  by (simp_all add: get_encoding_def)

lemma ServerNamePayload_app: "ServerNamePayload_encode x bs = bs @ get_encoding ServerNamePayload_encode x"
  by (cases x; simp only: ServerNamePayload_encode.simps ServerNamePayload_bytes codec_enc)

lemma ServerName_bytes: "get_encoding ServerName_encode x =
    get_encoding ServerNameType_encode (sn_typ x) @ get_encoding ServerNamePayload_encode (sn_payload x)"
  by (rule get_encodingI) (simp only: ServerName_encode_def ServerNamePayload_app codec_enc append_assoc)

interpretation ServerName_c: codec_elem ServerName_encode "ServerName_read V" "ServerName_ok V" ServerName_mid
  for V
proof (rule codec_elemI [OF codecI])
  show "ServerName_encode x bs = bs @ get_encoding ServerName_encode x" for x bs
    by (simp only: ServerName_encode_def ServerName_bytes ServerNamePayload_app codec_enc append_assoc)
  show "rspec (ServerName_read V)
      (\<lambda>x e m. ServerName_ok V x \<and> e = get_encoding ServerName_encode x \<and> m = ServerName_mid x)"
    unfolding ServerName_read_def [abs_def] read_hostname_def [abs_def]
    apply (rule rspec_cong, (rule rspec_intros codec_read)+)
    subgoal for x e m
      by (cases x; cases "sn_payload x") (auto simp: ServerName_ok_def ServerName_mid_def ServerName_bytes
        ServerNamePayload_bytes split: if_splits)
    done
qed (auto simp: ServerName_bytes)

interpretation ServerNameRequest_c: codec_elem ServerNameRequest_encode "ServerNameRequest_read V"
  "ServerNameRequest_ok V" "\<lambda>_. True" for V
  by (rule ServerName_c.vec_u16)

lemma CertificateStatusRequest_bytes:
  "get_encoding CertificateStatusRequest_encode (CertificateStatusRequest.OCSP r) =
     get_encoding CertificateStatusType_encode CertificateStatusType.OCSP @
     get_encoding VecU16OfPayloadU16_encode (ocsp_responder_ids r) @
     get_encoding PayloadU16_encode (ocsp_extensions r)"
  "get_encoding CertificateStatusRequest_encode (CertificateStatusRequest.Unknown typ p) =
     get_encoding CertificateStatusType_encode typ @ get_encoding Payload_encode p"
  by (rule get_encodingI, simp only: CertificateStatusRequest_encode.simps
      OCSPCertificateStatusRequest_encode_def codec_enc append_assoc)+

interpretation CertificateStatusRequest_c: codec_elem CertificateStatusRequest_encode
  CertificateStatusRequest_read CertificateStatusRequest_ok CertificateStatusRequest_mid
proof (rule codec_elemI [OF codecI])
  show "CertificateStatusRequest_encode x bs = bs @ get_encoding CertificateStatusRequest_encode x" for x bs
    by (cases x; simp only: CertificateStatusRequest_encode.simps CertificateStatusRequest_bytes
        OCSPCertificateStatusRequest_encode_def codec_enc append_assoc)
  have ok: "CertificateStatusType_ok CertificateStatusType.OCSP"
    by (simp add: CertificateStatusType_ok_def CertificateStatusType_from_def)
  show "rspec CertificateStatusRequest_read
      (\<lambda>x e m. CertificateStatusRequest_ok x \<and> e = get_encoding CertificateStatusRequest_encode x \<and>
         m = CertificateStatusRequest_mid x)"
    unfolding CertificateStatusRequest_read_def [abs_def] OCSPCertificateStatusRequest_read_def [abs_def]
    apply (rule rspec_cong, (rule rspec_intros codec_read)+)
    subgoal for x e m
    proof (cases x)
      case (OCSP r)
      with ok show ?thesis by (cases r) (auto simp: CertificateStatusRequest_bytes split: if_splits)
    next
      case (Unknown ty p)
      with ok show ?thesis by (auto simp: CertificateStatusRequest_bytes split: if_splits)
    qed
    done
  show "get_encoding CertificateStatusRequest_encode x \<noteq> []" for x
    by (cases x) (simp_all add: CertificateStatusRequest_bytes)
qed simp

lemmas hs_enc3 [codec_enc] = ServerNameRequest_c.enc_app CertificateStatusRequest_c.enc_app
lemmas hs_read3 [codec_read] = ServerNameRequest_c.read_spec CertificateStatusRequest_c.read_spec

section \<open>Further lemmas\<close>

lemma has_duplicate_iff: "has_duplicate xs seen \<longleftrightarrow> \<not> distinct xs \<or> set xs \<inter> seen \<noteq> {}"
  by (induction xs seen rule: has_duplicate.induct) auto

lemma foldl_or_0:
  fixes f :: "'i \<Rightarrow> 'w::len word"
  shows "foldl (\<lambda>d i. d OR f i) acc xs = 0 \<longleftrightarrow> acc = 0 \<and> (\<forall>i \<in> set xs. f i = 0)"
  by (induction xs arbitrary: acc) (auto simp: or_eq_0_iff)

lemma xor_0_iff: "(a XOR b :: 'w::len word) = 0 \<longleftrightarrow> a = b"
  by (metis xor.assoc xor.right_neutral xor_self_eq xor.left_neutral)

text \<open>The comparison of session identifiers, which accumulates the differences of all bytes, is
  equality of the used bytes.\<close>

lemma SessionID_eq_iff:
  assumes "sid_len a \<le> length (sid_data a)" and "sid_len b \<le> length (sid_data b)"
  shows "SessionID_eq a b \<longleftrightarrow> take (sid_len a) (sid_data a) = take (sid_len b) (sid_data b)"
proof (cases "sid_len a = sid_len b")
  case True
  with assms show ?thesis
    by (auto simp: SessionID_eq_def foldl_or_0 xor_0_iff list_eq_iff_nth_eq)
next
  case False
  with assms show ?thesis by (auto simp: SessionID_eq_def dest: arg_cong [where f = length])
qed

lemma SessionID_eq_iff_example:
  "SessionID_eq \<lparr>sid_len = 2, sid_data = [1, 2, 3]\<rparr> \<lparr>sid_len = 2, sid_data = [1, 2, 4]\<rparr> \<longleftrightarrow>
   take (sid_len \<lparr>sid_len = 2, sid_data = [1, 2, 3]\<rparr>) (sid_data \<lparr>sid_len = 2, sid_data = [1, 2, 3]\<rparr>) =
   take (sid_len \<lparr>sid_len = 2, sid_data = [1, 2, 4]\<rparr>) (sid_data \<lparr>sid_len = 2, sid_data = [1, 2, 4]\<rparr>)"
  by (rule SessionID_eq_iff) simp_all

lemma from_to_slices: "to_slices (from_slices names) = names"
proof -
  have "fold (\<lambda>name ret. ret @ [PayloadU8 name]) names acc = acc @ map PayloadU8 names" for acc
    by (induction names arbitrary: acc) auto
  then show ?thesis by (simp add: from_slices_def to_slices_def comp_def)
qed

lemma SignatureScheme_make_sign: "SignatureScheme_make a h = Some s \<Longrightarrow> SignatureScheme_sign s = a"
  by (induction a h rule: SignatureScheme_make.induct) auto

end
