(* ===== verification/Extension.thy ===== *)
theory Extension
  imports Hs_Basic
begin

text \<open>
  The layout that all extension types of \<open>crates/tls/core/src/msgs/handshake.rs\<close> share: the type, the
  length of the body in two bytes, and a body that the reader has to use up.  The locale \<open>extension\<close>
  proves once that such a type is read back exactly; each extension type interprets it.
\<close>

definition ext_encode :: "('x \<Rightarrow> ExtensionType) \<Rightarrow> 'x encoder \<Rightarrow> 'x encoder" where
  "ext_encode get_type encode_sub x bytes =
     (let bytes = ExtensionType_encode (get_type x) bytes;
          sub = encode_sub x []
      in u16_encode (of_nat (length sub)) bytes @ sub)"

definition ext_read :: "(ExtensionType \<Rightarrow> 'x reader) \<Rightarrow> 'x reader" where
  "ext_read read_sub r =
     do {
       (ty, r) \<leftarrow> ExtensionType_read r;
       (len, r) \<leftarrow> u16_read r;
       (sub, r) \<leftarrow> Reader_sub r (unat len);
       (ext, sub) \<leftarrow> read_sub ty sub;
       if Reader_any_left sub then None else Some (ext, r)
     }"

definition ext_ok :: "('x \<Rightarrow> ExtensionType) \<Rightarrow> 'x encoder \<Rightarrow> ('x \<Rightarrow> bool) \<Rightarrow> 'x \<Rightarrow> bool" where
  "ext_ok get_type encode_sub body_ok x \<longleftrightarrow> ExtensionType_ok (get_type x) \<and> body_ok x \<and>
     length (get_encoding encode_sub x) < 256 ^ 2"

lemma UnknownExtension_spec [codec_read]: "rspec (UnknownExtension_read ty)
    (\<lambda>x e m. unk_typ x = ty \<and> e = payload_bytes (unk_payload x) \<and> m = False)"
  unfolding UnknownExtension_read_def [abs_def]
  by (rule rspec_cong, (rule rspec_intros codec_read)+) (case_tac x, auto)

lemma rspec_rest [codec_read]: "rspec (\<lambda>r. Some (Reader_rest r)) (\<lambda>x e m. e = x \<and> m = False)"
  by (rule rspecI) (auto simp: rest_iff)

lemma rspec_end_if: "rspec (\<lambda>r. if Reader_any_left r \<or> b then None else Some (c, r))
    (\<lambda>x e m. \<not> b \<and> x = c \<and> e = [] \<and> m = False)"
  using rspec_end [of c] rspec_none by (cases b) simp_all

locale extension =
  fixes get_type :: "'x \<Rightarrow> ExtensionType" and encode_sub :: "'x encoder"
    and read_sub :: "ExtensionType \<Rightarrow> 'x reader" and body_ok :: "'x \<Rightarrow> bool" and body_mid :: "'x \<Rightarrow> bool"
  assumes sub_spec: "rspec (read_sub ty) (\<lambda>x e m. get_type x = ty \<and> body_ok x \<and>
    e = get_encoding encode_sub x \<and> m = body_mid x)"
begin

lemma ext_bytes: "get_encoding (ext_encode get_type encode_sub) x =
    get_encoding ExtensionType_encode (get_type x) @
    get_encoding u16_encode (of_nat (length (get_encoding encode_sub x))) @ get_encoding encode_sub x"
  by (rule get_encodingI) (simp only: ext_encode_def Let_def codec_enc append_assoc get_encoding_def [of encode_sub])

lemma ext_codec: "codec_elem (ext_encode get_type encode_sub) (ext_read read_sub)
    (ext_ok get_type encode_sub body_ok) (\<lambda>_. True)"
proof (rule codec_elemI [OF codecI])
  show "ext_encode get_type encode_sub x bs = bs @ get_encoding (ext_encode get_type encode_sub) x" for x bs
    by (simp only: ext_encode_def Let_def ext_bytes codec_enc append_assoc get_encoding_def [of encode_sub])
  show "rspec (ext_read read_sub) (\<lambda>x e m. ext_ok get_type encode_sub body_ok x \<and>
      e = get_encoding (ext_encode get_type encode_sub) x \<and> m = True)"
    unfolding ext_read_def [abs_def]
    by (rule rspec_cong, rule rspec_bind, rule codec_read, rule rspec_sub_u16, rule sub_spec)
      (auto simp: ext_ok_def ext_bytes unsigned_of_nat take_bit_nat_eq_self)
qed (auto simp: ext_bytes)

end

end
