(* ===== verification/Hs_Client.thy ===== *)
theory Hs_Client
  imports Extension
begin

text \<open>
  The client hello and its extensions, after \<open>crates/tls/core/src/msgs/handshake.rs\<close>.  The body of an
  extension is read from a sub-reader of its declared length, which has to be used up.
\<close>

section \<open>Extensions\<close>

datatype ClientSessionTicket = Request | Offer Payload

datatype ClientExtension =
    ECPointFormats "ECPointFormat list"
  | NamedGroups "NamedGroup list"
  | SignatureAlgorithms "SignatureScheme list"
  | ServerName "ServerName list"
  | SessionTicket ClientSessionTicket
  | Protocols "PayloadU8 list"
  | SupportedVersions "ProtocolVersion list"
  | KeyShare "KeyShareEntry list"
  | PresharedKeyModes "PSKKeyExchangeMode list"
  | PresharedKey PresharedKeyOffer
  | Cookie PayloadU16
  | ExtendedMasterSecretRequest
  | CertificateStatusRequest CertificateStatusRequest
  | SignedCertificateTimestampRequest
  | TransportParameters bytes
  | TransportParametersDraft bytes
  | EarlyData
  | Unknown UnknownExtension

fun ClientExtension_get_type :: "ClientExtension \<Rightarrow> ExtensionType" where
  "ClientExtension_get_type (ClientExtension.ECPointFormats _) = ExtensionType.ECPointFormats"
| "ClientExtension_get_type (ClientExtension.NamedGroups _) = ExtensionType.EllipticCurves"
| "ClientExtension_get_type (ClientExtension.SignatureAlgorithms _) = ExtensionType.SignatureAlgorithms"
| "ClientExtension_get_type (ClientExtension.ServerName _) = ExtensionType.ServerName"
| "ClientExtension_get_type (ClientExtension.SessionTicket _) = ExtensionType.SessionTicket"
| "ClientExtension_get_type (ClientExtension.Protocols _) = ExtensionType.ALProtocolNegotiation"
| "ClientExtension_get_type (ClientExtension.SupportedVersions _) = ExtensionType.SupportedVersions"
| "ClientExtension_get_type (ClientExtension.KeyShare _) = ExtensionType.KeyShare"
| "ClientExtension_get_type (ClientExtension.PresharedKeyModes _) = ExtensionType.PSKKeyExchangeModes"
| "ClientExtension_get_type (ClientExtension.PresharedKey _) = ExtensionType.PreSharedKey"
| "ClientExtension_get_type (ClientExtension.Cookie _) = ExtensionType.Cookie"
| "ClientExtension_get_type ClientExtension.ExtendedMasterSecretRequest = ExtensionType.ExtendedMasterSecret"
| "ClientExtension_get_type (ClientExtension.CertificateStatusRequest _) = ExtensionType.StatusRequest"
| "ClientExtension_get_type ClientExtension.SignedCertificateTimestampRequest = ExtensionType.SCT"
| "ClientExtension_get_type (ClientExtension.TransportParameters _) = ExtensionType.TransportParameters"
| "ClientExtension_get_type (ClientExtension.TransportParametersDraft _) =
     ExtensionType.TransportParametersDraft"
| "ClientExtension_get_type ClientExtension.EarlyData = ExtensionType.EarlyData"
| "ClientExtension_get_type (ClientExtension.Unknown r) = unk_typ r"

text \<open>The encoding of the body into \<open>sub\<close>.\<close>

fun ClientExtension_encode_sub :: "ClientExtension encoder" where
  "ClientExtension_encode_sub (ClientExtension.ECPointFormats r) sub = ECPointFormatList_encode r sub"
| "ClientExtension_encode_sub (ClientExtension.NamedGroups r) sub = NamedGroups_encode r sub"
| "ClientExtension_encode_sub (ClientExtension.SignatureAlgorithms r) sub =
     SupportedSignatureSchemes_encode r sub"
| "ClientExtension_encode_sub (ClientExtension.ServerName r) sub = ServerNameRequest_encode r sub"
| "ClientExtension_encode_sub (ClientExtension.SessionTicket ClientSessionTicket.Request) sub = sub"
| "ClientExtension_encode_sub ClientExtension.ExtendedMasterSecretRequest sub = sub"
| "ClientExtension_encode_sub ClientExtension.SignedCertificateTimestampRequest sub = sub"
| "ClientExtension_encode_sub ClientExtension.EarlyData sub = sub"
| "ClientExtension_encode_sub (ClientExtension.SessionTicket (ClientSessionTicket.Offer r)) sub =
     Payload_encode r sub"
| "ClientExtension_encode_sub (ClientExtension.Protocols r) sub = VecU16OfPayloadU8_encode r sub"
| "ClientExtension_encode_sub (ClientExtension.SupportedVersions r) sub = ProtocolVersions_encode r sub"
| "ClientExtension_encode_sub (ClientExtension.KeyShare r) sub = KeyShareEntries_encode r sub"
| "ClientExtension_encode_sub (ClientExtension.PresharedKeyModes r) sub = PSKKeyExchangeModes_encode r sub"
| "ClientExtension_encode_sub (ClientExtension.PresharedKey r) sub = PresharedKeyOffer_encode r sub"
| "ClientExtension_encode_sub (ClientExtension.Cookie r) sub = PayloadU16_encode r sub"
| "ClientExtension_encode_sub (ClientExtension.CertificateStatusRequest r) sub =
     CertificateStatusRequest_encode r sub"
| "ClientExtension_encode_sub (ClientExtension.TransportParameters r) sub = sub @ r"
| "ClientExtension_encode_sub (ClientExtension.TransportParametersDraft r) sub = sub @ r"
| "ClientExtension_encode_sub (ClientExtension.Unknown r) sub = UnknownExtension_encode r sub"

definition ClientExtension_encode :: "ClientExtension encoder" where
  "ClientExtension_encode x bytes =
     (let bytes = ExtensionType_encode (ClientExtension_get_type x) bytes;
          sub = ClientExtension_encode_sub x []
      in u16_encode (of_nat (length sub)) bytes @ sub)"

text \<open>\<open>Self::Unknown(UnknownExtension::read(typ, &mut sub))\<close>\<close>

definition ClientExtension_read_unknown :: "ExtensionType \<Rightarrow> ClientExtension reader" where
  "ClientExtension_read_unknown ty sub =
     do { (u, sub) \<leftarrow> UnknownExtension_read ty sub; Some (ClientExtension.Unknown u, sub) }"

definition ClientExtension_read_sub :: "(bytes \<Rightarrow> bool) \<Rightarrow> ExtensionType \<Rightarrow> ClientExtension reader" where
  "ClientExtension_read_sub valid_dns ty sub =
     (case ty of
        ExtensionType.ECPointFormats \<Rightarrow>
          do { (x, sub) \<leftarrow> ECPointFormatList_read sub; Some (ClientExtension.ECPointFormats x, sub) }
      | ExtensionType.EllipticCurves \<Rightarrow>
          do { (x, sub) \<leftarrow> NamedGroups_read sub; Some (ClientExtension.NamedGroups x, sub) }
      | ExtensionType.SignatureAlgorithms \<Rightarrow>
          do { (x, sub) \<leftarrow> SupportedSignatureSchemes_read sub;
               Some (ClientExtension.SignatureAlgorithms x, sub) }
      | ExtensionType.ServerName \<Rightarrow>
          do { (x, sub) \<leftarrow> ServerNameRequest_read valid_dns sub; Some (ClientExtension.ServerName x, sub) }
      | ExtensionType.SessionTicket \<Rightarrow>
          (if Reader_any_left sub
           then do { (contents, sub) \<leftarrow> Payload_read sub;
                     Some (ClientExtension.SessionTicket (ClientSessionTicket.Offer contents), sub) }
           else Some (ClientExtension.SessionTicket ClientSessionTicket.Request, sub))
      | ExtensionType.ALProtocolNegotiation \<Rightarrow>
          do { (x, sub) \<leftarrow> VecU16OfPayloadU8_read sub; Some (ClientExtension.Protocols x, sub) }
      | ExtensionType.SupportedVersions \<Rightarrow>
          do { (x, sub) \<leftarrow> ProtocolVersions_read sub; Some (ClientExtension.SupportedVersions x, sub) }
      | ExtensionType.KeyShare \<Rightarrow>
          do { (x, sub) \<leftarrow> KeyShareEntries_read sub; Some (ClientExtension.KeyShare x, sub) }
      | ExtensionType.PSKKeyExchangeModes \<Rightarrow>
          do { (x, sub) \<leftarrow> PSKKeyExchangeModes_read sub; Some (ClientExtension.PresharedKeyModes x, sub) }
      | ExtensionType.PreSharedKey \<Rightarrow>
          do { (x, sub) \<leftarrow> PresharedKeyOffer_read sub; Some (ClientExtension.PresharedKey x, sub) }
      | ExtensionType.Cookie \<Rightarrow>
          do { (x, sub) \<leftarrow> PayloadU16_read sub; Some (ClientExtension.Cookie x, sub) }
      | ExtensionType.ExtendedMasterSecret \<Rightarrow>
          (if Reader_any_left sub then ClientExtension_read_unknown ty sub
           else Some (ClientExtension.ExtendedMasterSecretRequest, sub))
      | ExtensionType.StatusRequest \<Rightarrow>
          do { (csr, sub) \<leftarrow> CertificateStatusRequest_read sub;
               Some (ClientExtension.CertificateStatusRequest csr, sub) }
      | ExtensionType.SCT \<Rightarrow>
          (if Reader_any_left sub then ClientExtension_read_unknown ty sub
           else Some (ClientExtension.SignedCertificateTimestampRequest, sub))
      | ExtensionType.TransportParameters \<Rightarrow>
          do { (x, sub) \<leftarrow> Some (Reader_rest sub); Some (ClientExtension.TransportParameters x, sub) }
      | ExtensionType.TransportParametersDraft \<Rightarrow>
          do { (x, sub) \<leftarrow> Some (Reader_rest sub); Some (ClientExtension.TransportParametersDraft x, sub) }
      | ExtensionType.EarlyData \<Rightarrow>
          (if Reader_any_left sub then ClientExtension_read_unknown ty sub
           else Some (ClientExtension.EarlyData, sub))
      | _ \<Rightarrow> ClientExtension_read_unknown ty sub)"

definition ClientExtension_read :: "(bytes \<Rightarrow> bool) \<Rightarrow> ClientExtension reader" where
  "ClientExtension_read valid_dns r =
     do {
       (ty, r) \<leftarrow> ExtensionType_read r;
       (len, r) \<leftarrow> u16_read r;
       (sub, r) \<leftarrow> Reader_sub r (unat len);
       (ext, sub) \<leftarrow> ClientExtension_read_sub valid_dns ty sub;
       if Reader_any_left sub then None else Some (ext, r)
     }"

definition make_sni :: "(bytes \<Rightarrow> bool) \<Rightarrow> DnsName \<Rightarrow> ClientExtension option" where
  "make_sni valid_dns dns_name =
     do {
       name \<leftarrow> trim_hostname_trailing_dot_for_sni valid_dns dns_name;
       Some (ClientExtension.ServerName
         [\<lparr>sn_typ = ServerNameType.HostName, sn_payload = new_hostname name\<rparr>])
     }"

text \<open>
  An unknown extension is one whose type has no variant, or an extension that is only recognised
  with an empty body and has another one.
\<close>

definition client_ext_types :: "ExtensionType list" where
  "client_ext_types = [ExtensionType.ECPointFormats, ExtensionType.EllipticCurves,
     ExtensionType.SignatureAlgorithms, ExtensionType.ServerName, ExtensionType.SessionTicket,
     ExtensionType.ALProtocolNegotiation, ExtensionType.SupportedVersions, ExtensionType.KeyShare,
     ExtensionType.PSKKeyExchangeModes, ExtensionType.PreSharedKey, ExtensionType.Cookie,
     ExtensionType.StatusRequest, ExtensionType.TransportParameters,
     ExtensionType.TransportParametersDraft]"

definition client_empty_types :: "ExtensionType list" where
  "client_empty_types =
     [ExtensionType.ExtendedMasterSecret, ExtensionType.SCT, ExtensionType.EarlyData]"

fun ClientExtension_body_ok :: "(bytes \<Rightarrow> bool) \<Rightarrow> ClientExtension \<Rightarrow> bool" where
  "ClientExtension_body_ok V (ClientExtension.ECPointFormats r) = ECPointFormatList_ok r"
| "ClientExtension_body_ok V (ClientExtension.NamedGroups r) = NamedGroups_ok r"
| "ClientExtension_body_ok V (ClientExtension.SignatureAlgorithms r) = SupportedSignatureSchemes_ok r"
| "ClientExtension_body_ok V (ClientExtension.ServerName r) = ServerNameRequest_ok V r"
| "ClientExtension_body_ok V (ClientExtension.SessionTicket (ClientSessionTicket.Offer r)) =
     (payload_bytes r \<noteq> [])"
| "ClientExtension_body_ok V (ClientExtension.Protocols r) = VecU16OfPayloadU8_ok r"
| "ClientExtension_body_ok V (ClientExtension.SupportedVersions r) = ProtocolVersions_ok r"
| "ClientExtension_body_ok V (ClientExtension.KeyShare r) = KeyShareEntries_ok r"
| "ClientExtension_body_ok V (ClientExtension.PresharedKeyModes r) = PSKKeyExchangeModes_ok r"
| "ClientExtension_body_ok V (ClientExtension.PresharedKey r) = PresharedKeyOffer_ok r"
| "ClientExtension_body_ok V (ClientExtension.Cookie r) = PayloadU16_ok r"
| "ClientExtension_body_ok V (ClientExtension.CertificateStatusRequest r) = CertificateStatusRequest_ok r"
| "ClientExtension_body_ok V (ClientExtension.Unknown r) \<longleftrightarrow>
     unk_typ r \<notin> set client_ext_types \<and>
     (unk_typ r \<in> set client_empty_types \<longrightarrow> payload_bytes (unk_payload r) \<noteq> [])"
| "ClientExtension_body_ok V _ = True"

text \<open>Bodies that the reader takes up to the end of the extension.\<close>

fun ClientExtension_body_mid :: "ClientExtension \<Rightarrow> bool" where
  "ClientExtension_body_mid (ClientExtension.SessionTicket _) = False"
| "ClientExtension_body_mid (ClientExtension.CertificateStatusRequest r) = CertificateStatusRequest_mid r"
| "ClientExtension_body_mid ClientExtension.ExtendedMasterSecretRequest = False"
| "ClientExtension_body_mid ClientExtension.SignedCertificateTimestampRequest = False"
| "ClientExtension_body_mid ClientExtension.EarlyData = False"
| "ClientExtension_body_mid (ClientExtension.TransportParameters _) = False"
| "ClientExtension_body_mid (ClientExtension.TransportParametersDraft _) = False"
| "ClientExtension_body_mid (ClientExtension.Unknown r) = False"
| "ClientExtension_body_mid _ = True"

abbreviation ClientExtension_ok :: "(bytes \<Rightarrow> bool) \<Rightarrow> ClientExtension \<Rightarrow> bool" where
  "ClientExtension_ok V \<equiv>
     ext_ok ClientExtension_get_type ClientExtension_encode_sub (ClientExtension_body_ok V)"

section \<open>The codec of extensions\<close>

lemma ClientExtension_sub_bytes:
  "get_encoding ClientExtension_encode_sub x = ClientExtension_encode_sub x []"
  by (simp add: get_encoding_def)

lemma ClientExtension_unknown_spec [codec_read]: "rspec (ClientExtension_read_unknown ty)
    (\<lambda>x e m. \<exists>u. x = ClientExtension.Unknown u \<and> unk_typ u = ty \<and> e = payload_bytes (unk_payload u) \<and> m = False)"
  unfolding ClientExtension_read_unknown_def [abs_def]
  by (rule rspec_cong, (rule rspec_intros codec_read)+) auto

lemma ClientExtension_ticket:
  "ClientExtension_encode_sub (ClientExtension.SessionTicket t) sub =
     (case t of ClientSessionTicket.Request \<Rightarrow> sub | ClientSessionTicket.Offer r \<Rightarrow> Payload_encode r sub)"
  "ClientExtension_body_ok V (ClientExtension.SessionTicket t) \<longleftrightarrow>
     (case t of ClientSessionTicket.Request \<Rightarrow> True | ClientSessionTicket.Offer r \<Rightarrow> payload_bytes r \<noteq> [])"
  by (cases t; simp)+

lemma ClientExtension_sub_spec: "rspec (ClientExtension_read_sub V ty)
    (\<lambda>x e m. ClientExtension_get_type x = ty \<and> ClientExtension_body_ok V x \<and>
      e = get_encoding ClientExtension_encode_sub x \<and> m = ClientExtension_body_mid x)"
  unfolding ClientExtension_read_sub_def [abs_def] ClientExtension_sub_bytes
  apply (cases ty; simp only: ExtensionType.case; rule rspec_cong, (rule rspec_intros codec_read rspec_any_left)+)
  apply ((auto; fail) [1] | (rename_tac x e m, case_tac x; auto simp: codec_enc UnknownExtension_encode_def
      ClientExtension_ticket client_ext_types_def client_empty_types_def split: ClientSessionTicket.splits; fail) [1])+
  done

interpretation ClientExtension_e: extension ClientExtension_get_type ClientExtension_encode_sub
  "ClientExtension_read_sub V" "ClientExtension_body_ok V" ClientExtension_body_mid for V
  by unfold_locales (rule ClientExtension_sub_spec)

lemma ClientExtension_ext:
  "ClientExtension_encode = ext_encode ClientExtension_get_type ClientExtension_encode_sub"
  "ClientExtension_read V = ext_read (ClientExtension_read_sub V)"
  by (intro ext, simp only: ClientExtension_encode_def ClientExtension_read_def ext_encode_def ext_read_def)+

interpretation ClientExtension_c: codec_elem ClientExtension_encode "ClientExtension_read V"
  "ClientExtension_ok V" "\<lambda>_. True" for V
  unfolding ClientExtension_ext by (rule ClientExtension_e.ext_codec)

lemmas ClientExtension_codec [codec_enc] = ClientExtension_c.enc_app
lemmas ClientExtension_spec [codec_read] = ClientExtension_c.read_spec

lemmas if_simps = if_True if_False simp_thms

section \<open>The client hello\<close>

record ClientHelloPayload =
  chp_client_version :: ProtocolVersion
  chp_random :: Random
  chp_session_id :: SessionID
  chp_cipher_suites :: "CipherSuite list"
  chp_compression_methods :: "Compression list"
  chp_extensions :: "ClientExtension list"

definition ClientHelloPayload_encode :: "ClientHelloPayload encoder" where
  "ClientHelloPayload_encode x bytes =
     (let bytes = ProtocolVersion_encode (chp_client_version x) bytes;
          bytes = Random_encode (chp_random x) bytes;
          bytes = SessionID_encode (chp_session_id x) bytes;
          bytes = encode_vec_u16 CipherSuite_encode (chp_cipher_suites x) bytes;
          bytes = encode_vec_u8 Compression_encode (chp_compression_methods x) bytes
      in if chp_extensions x \<noteq> [] then encode_vec_u16 ClientExtension_encode (chp_extensions x) bytes
         else bytes)"

definition ClientHelloPayload_read :: "(bytes \<Rightarrow> bool) \<Rightarrow> ClientHelloPayload reader" where
  "ClientHelloPayload_read valid_dns r =
     do {
       (client_version, r) \<leftarrow> ProtocolVersion_read r;
       (random, r) \<leftarrow> Random_read r;
       (session_id, r) \<leftarrow> SessionID_read r;
       (cipher_suites, r) \<leftarrow> read_vec_u16 CipherSuite_read r;
       (compression_methods, r) \<leftarrow> read_vec_u8 Compression_read r;
       (extensions, r) \<leftarrow>
         (if Reader_any_left r then read_vec_u16 (ClientExtension_read valid_dns) r else Some ([], r));
       if Reader_any_left r \<or> extensions = [] then None
       else Some (\<lparr>chp_client_version = client_version, chp_random = random,
                   chp_session_id = session_id, chp_cipher_suites = cipher_suites,
                   chp_compression_methods = compression_methods, chp_extensions = extensions\<rparr>, r)
     }"

definition ClientHelloPayload_has_duplicate_extension :: "ClientHelloPayload \<Rightarrow> bool" where
  "ClientHelloPayload_has_duplicate_extension x =
     has_duplicate (map (\<lambda>ext. ExtensionType_get_u16 (ClientExtension_get_type ext)) (chp_extensions x)) {}"

definition ClientHelloPayload_find_extension ::
    "ClientHelloPayload \<Rightarrow> ExtensionType \<Rightarrow> ClientExtension option" where
  "ClientHelloPayload_find_extension x ext = List.find (\<lambda>y. ClientExtension_get_type y = ext) (chp_extensions x)"

definition get_sni_extension :: "ClientHelloPayload \<Rightarrow> ServerName list option" where
  "get_sni_extension x =
     do {
       ext \<leftarrow> ClientHelloPayload_find_extension x ExtensionType.ServerName;
       case ext of ClientExtension.ServerName req \<Rightarrow> Some req | _ \<Rightarrow> None
     }"

definition get_sigalgs_extension :: "ClientHelloPayload \<Rightarrow> SignatureScheme list option" where
  "get_sigalgs_extension x =
     do {
       ext \<leftarrow> ClientHelloPayload_find_extension x ExtensionType.SignatureAlgorithms;
       case ext of ClientExtension.SignatureAlgorithms req \<Rightarrow> Some req | _ \<Rightarrow> None
     }"

definition get_namedgroups_extension :: "ClientHelloPayload \<Rightarrow> NamedGroup list option" where
  "get_namedgroups_extension x =
     do {
       ext \<leftarrow> ClientHelloPayload_find_extension x ExtensionType.EllipticCurves;
       case ext of ClientExtension.NamedGroups req \<Rightarrow> Some req | _ \<Rightarrow> None
     }"

definition ClientHelloPayload_get_ecpoints_extension :: "ClientHelloPayload \<Rightarrow> ECPointFormat list option" where
  "ClientHelloPayload_get_ecpoints_extension x =
     do {
       ext \<leftarrow> ClientHelloPayload_find_extension x ExtensionType.ECPointFormats;
       case ext of ClientExtension.ECPointFormats req \<Rightarrow> Some req | _ \<Rightarrow> None
     }"

definition get_alpn_extension :: "ClientHelloPayload \<Rightarrow> PayloadU8 list option" where
  "get_alpn_extension x =
     do {
       ext \<leftarrow> ClientHelloPayload_find_extension x ExtensionType.ALProtocolNegotiation;
       case ext of ClientExtension.Protocols req \<Rightarrow> Some req | _ \<Rightarrow> None
     }"

definition get_ticket_extension :: "ClientHelloPayload \<Rightarrow> ClientExtension option" where
  "get_ticket_extension x = ClientHelloPayload_find_extension x ExtensionType.SessionTicket"

definition get_versions_extension :: "ClientHelloPayload \<Rightarrow> ProtocolVersion list option" where
  "get_versions_extension x =
     do {
       ext \<leftarrow> ClientHelloPayload_find_extension x ExtensionType.SupportedVersions;
       case ext of ClientExtension.SupportedVersions vers \<Rightarrow> Some vers | _ \<Rightarrow> None
     }"

definition get_keyshare_extension :: "ClientHelloPayload \<Rightarrow> KeyShareEntry list option" where
  "get_keyshare_extension x =
     do {
       ext \<leftarrow> ClientHelloPayload_find_extension x ExtensionType.KeyShare;
       case ext of ClientExtension.KeyShare shares \<Rightarrow> Some shares | _ \<Rightarrow> None
     }"

definition has_keyshare_extension_with_duplicates :: "ClientHelloPayload \<Rightarrow> bool" where
  "has_keyshare_extension_with_duplicates x =
     (case get_keyshare_extension x of
        Some entries \<Rightarrow> has_duplicate (map (\<lambda>kse. NamedGroup_get_u16 (kse_group kse)) entries) {}
      | None \<Rightarrow> False)"

definition get_psk :: "ClientHelloPayload \<Rightarrow> PresharedKeyOffer option" where
  "get_psk x =
     do {
       ext \<leftarrow> ClientHelloPayload_find_extension x ExtensionType.PreSharedKey;
       case ext of ClientExtension.PresharedKey psk \<Rightarrow> Some psk | _ \<Rightarrow> None
     }"

definition check_psk_ext_is_last :: "ClientHelloPayload \<Rightarrow> bool" where
  "check_psk_ext_is_last x =
     (chp_extensions x \<noteq> [] \<and>
      ClientExtension_get_type (last (chp_extensions x)) = ExtensionType.PreSharedKey)"

definition get_psk_modes :: "ClientHelloPayload \<Rightarrow> PSKKeyExchangeMode list option" where
  "get_psk_modes x =
     do {
       ext \<leftarrow> ClientHelloPayload_find_extension x ExtensionType.PSKKeyExchangeModes;
       case ext of ClientExtension.PresharedKeyModes psk_modes \<Rightarrow> Some psk_modes | _ \<Rightarrow> None
     }"

definition psk_mode_offered :: "ClientHelloPayload \<Rightarrow> PSKKeyExchangeMode \<Rightarrow> bool" where
  "psk_mode_offered x mode =
     (case get_psk_modes x of Some modes \<Rightarrow> mode \<in> set modes | None \<Rightarrow> False)"

text \<open>\<open>None\<close> is the panic of the index into an empty list of binders.\<close>

definition set_psk_binder :: "ClientHelloPayload \<Rightarrow> bytes \<Rightarrow> ClientHelloPayload option" where
  "set_psk_binder x binder =
     (let exts = chp_extensions x in
      if exts = [] then Some x
      else case last exts of
        ClientExtension.PresharedKey offer \<Rightarrow>
          (if pko_binders offer = [] then None
           else Some (x\<lparr>chp_extensions := exts[length exts - 1 := ClientExtension.PresharedKey
             (offer\<lparr>pko_binders := (pko_binders offer)[0 := PayloadU8 binder]\<rparr>)]\<rparr>))
      | _ \<Rightarrow> Some x)"

definition ems_support_offered :: "ClientHelloPayload \<Rightarrow> bool" where
  "ems_support_offered x =
     (ClientHelloPayload_find_extension x ExtensionType.ExtendedMasterSecret \<noteq> None)"

definition ClientHelloPayload_early_data_extension_offered :: "ClientHelloPayload \<Rightarrow> bool" where
  "ClientHelloPayload_early_data_extension_offered x =
     (ClientHelloPayload_find_extension x ExtensionType.EarlyData \<noteq> None)"

definition ClientHelloPayload_ok :: "(bytes \<Rightarrow> bool) \<Rightarrow> ClientHelloPayload \<Rightarrow> bool" where
  "ClientHelloPayload_ok V x \<longleftrightarrow> ProtocolVersion_ok (chp_client_version x) \<and> Random_ok (chp_random x) \<and>
     SessionID_ok (chp_session_id x) \<and>
     vec_ok CipherSuite_encode CipherSuite_ok (\<lambda>_. True) 2 (chp_cipher_suites x) \<and>
     vec_ok Compression_encode Compression_ok (\<lambda>_. True) 1 (chp_compression_methods x) \<and>
     chp_extensions x \<noteq> [] \<and>
     vec_ok ClientExtension_encode (ClientExtension_ok V) (\<lambda>_. True) 2 (chp_extensions x)"

interpretation CipherSuites_c: codec_elem "encode_vec_u16 CipherSuite_encode"
  "read_vec_u16 CipherSuite_read" "vec_ok CipherSuite_encode CipherSuite_ok (\<lambda>_. True) 2" "\<lambda>_. True"
  by (rule CipherSuite_c.vec_u16)

interpretation Compressions_c: codec_elem "encode_vec_u8 Compression_encode"
  "read_vec_u8 Compression_read" "vec_ok Compression_encode Compression_ok (\<lambda>_. True) 1" "\<lambda>_. True"
  by (rule Compression_c.vec_u8)

interpretation ClientExtensions_c: codec_elem "encode_vec_u16 ClientExtension_encode"
  "read_vec_u16 (ClientExtension_read V)"
  "vec_ok ClientExtension_encode (ClientExtension_ok V) (\<lambda>_. True) 2" "\<lambda>_. True" for V
  by (rule ClientExtension_c.vec_u16)

lemmas hello_enc [codec_enc] = CipherSuites_c.enc_app Compressions_c.enc_app ClientExtensions_c.enc_app
lemmas hello_read [codec_read] =
  CipherSuites_c.read_spec Compressions_c.read_spec ClientExtensions_c.read_spec

lemma ClientHelloPayload_bytes: "get_encoding ClientHelloPayload_encode x =
    get_encoding ProtocolVersion_encode (chp_client_version x) @
    get_encoding Random_encode (chp_random x) @
    get_encoding SessionID_encode (chp_session_id x) @
    get_encoding (encode_vec_u16 CipherSuite_encode) (chp_cipher_suites x) @
    get_encoding (encode_vec_u8 Compression_encode) (chp_compression_methods x) @
    (if chp_extensions x \<noteq> [] then get_encoding (encode_vec_u16 ClientExtension_encode) (chp_extensions x)
     else [])"
  by (rule get_encodingI)
    (cases "chp_extensions x = []"; simp only: ClientHelloPayload_encode_def Let_def codec_enc append_assoc
      append_Nil2 if_simps)

interpretation ClientHelloPayload_c: codec_elem ClientHelloPayload_encode "ClientHelloPayload_read V"
  "ClientHelloPayload_ok V" "\<lambda>_. False" for V
proof (rule codec_elemI [OF codecI])
  show "ClientHelloPayload_encode x bs = bs @ get_encoding ClientHelloPayload_encode x" for x bs
    by (cases "chp_extensions x = []"; simp only: ClientHelloPayload_encode_def Let_def
        ClientHelloPayload_bytes codec_enc append_assoc append_Nil2 if_simps)
  show "rspec (ClientHelloPayload_read V)
      (\<lambda>x e m. ClientHelloPayload_ok V x \<and> e = get_encoding ClientHelloPayload_encode x \<and> m = False)"
    unfolding ClientHelloPayload_read_def [abs_def]
    apply (rule rspec_cong, (rule rspec_intros codec_read rspec_any_left rspec_end_if)+)
    subgoal by auto
    by (rule rspec_end_if)
      (case_tac x, auto simp: ClientHelloPayload_ok_def ClientHelloPayload_bytes)
qed (auto simp: ClientHelloPayload_bytes)

lemma ClientHelloPayload_has_duplicate_iff:
  "ClientHelloPayload_has_duplicate_extension x \<longleftrightarrow>
     \<not> distinct (map (\<lambda>e. ExtensionType_get_u16 (ClientExtension_get_type e)) (chp_extensions x))"
  by (simp add: ClientHelloPayload_has_duplicate_extension_def has_duplicate_iff)

end
