(* ===== verification/Hs_Server.thy ===== *)
theory Hs_Server
  imports Hs_Client
begin

text \<open>
  The server hello and the hello retry request with their extensions, after
  \<open>crates/tls/core/src/msgs/handshake.rs\<close>.  The readers of the two payloads start after the version
  and the random value, which the reader of handshake messages has consumed.
\<close>

section \<open>Server extensions\<close>

datatype ServerExtension =
    ECPointFormats "ECPointFormat list"
  | ServerNameAck
  | SessionTicketAck
  | RenegotiationInfo PayloadU8
  | Protocols "PayloadU8 list"
  | KeyShare KeyShareEntry
  | PresharedKey u16
  | ExtendedMasterSecretAck
  | CertificateStatusAck
  | SignedCertificateTimestamp "PayloadU16 list"
  | SupportedVersions ProtocolVersion
  | TransportParameters bytes
  | TransportParametersDraft bytes
  | EarlyData
  | Unknown UnknownExtension

fun ServerExtension_get_type :: "ServerExtension \<Rightarrow> ExtensionType" where
  "ServerExtension_get_type (ServerExtension.ECPointFormats _) = ExtensionType.ECPointFormats"
| "ServerExtension_get_type ServerExtension.ServerNameAck = ExtensionType.ServerName"
| "ServerExtension_get_type ServerExtension.SessionTicketAck = ExtensionType.SessionTicket"
| "ServerExtension_get_type (ServerExtension.RenegotiationInfo _) = ExtensionType.RenegotiationInfo"
| "ServerExtension_get_type (ServerExtension.Protocols _) = ExtensionType.ALProtocolNegotiation"
| "ServerExtension_get_type (ServerExtension.KeyShare _) = ExtensionType.KeyShare"
| "ServerExtension_get_type (ServerExtension.PresharedKey _) = ExtensionType.PreSharedKey"
| "ServerExtension_get_type ServerExtension.ExtendedMasterSecretAck = ExtensionType.ExtendedMasterSecret"
| "ServerExtension_get_type ServerExtension.CertificateStatusAck = ExtensionType.StatusRequest"
| "ServerExtension_get_type (ServerExtension.SignedCertificateTimestamp _) = ExtensionType.SCT"
| "ServerExtension_get_type (ServerExtension.SupportedVersions _) = ExtensionType.SupportedVersions"
| "ServerExtension_get_type (ServerExtension.TransportParameters _) = ExtensionType.TransportParameters"
| "ServerExtension_get_type (ServerExtension.TransportParametersDraft _) = ExtensionType.TransportParametersDraft"
| "ServerExtension_get_type ServerExtension.EarlyData = ExtensionType.EarlyData"
| "ServerExtension_get_type (ServerExtension.Unknown r) = unk_typ r"

fun ServerExtension_encode_sub :: "ServerExtension encoder" where
  "ServerExtension_encode_sub (ServerExtension.ECPointFormats r) sub = ECPointFormatList_encode r sub"
| "ServerExtension_encode_sub ServerExtension.ServerNameAck sub = sub"
| "ServerExtension_encode_sub ServerExtension.SessionTicketAck sub = sub"
| "ServerExtension_encode_sub (ServerExtension.RenegotiationInfo r) sub = PayloadU8_encode r sub"
| "ServerExtension_encode_sub (ServerExtension.Protocols r) sub = VecU16OfPayloadU8_encode r sub"
| "ServerExtension_encode_sub (ServerExtension.KeyShare r) sub = KeyShareEntry_encode r sub"
| "ServerExtension_encode_sub (ServerExtension.PresharedKey r) sub = u16_encode r sub"
| "ServerExtension_encode_sub ServerExtension.ExtendedMasterSecretAck sub = sub"
| "ServerExtension_encode_sub ServerExtension.CertificateStatusAck sub = sub"
| "ServerExtension_encode_sub (ServerExtension.SignedCertificateTimestamp r) sub = VecU16OfPayloadU16_encode r sub"
| "ServerExtension_encode_sub (ServerExtension.SupportedVersions r) sub = ProtocolVersion_encode r sub"
| "ServerExtension_encode_sub (ServerExtension.TransportParameters r) sub = sub @ r"
| "ServerExtension_encode_sub (ServerExtension.TransportParametersDraft r) sub = sub @ r"
| "ServerExtension_encode_sub ServerExtension.EarlyData sub = sub"
| "ServerExtension_encode_sub (ServerExtension.Unknown r) sub = UnknownExtension_encode r sub"

definition ServerExtension_encode :: "ServerExtension encoder" where
  "ServerExtension_encode x bytes =
     (let bytes = ExtensionType_encode (ServerExtension_get_type x) bytes;
          sub = ServerExtension_encode_sub x []
      in u16_encode (of_nat (length sub)) bytes @ sub)"

definition ServerExtension_read_sub :: "ExtensionType \<Rightarrow> ServerExtension reader" where
  "ServerExtension_read_sub ty sub =
     (case ty of
        ExtensionType.ECPointFormats \<Rightarrow> do { (x, sub) \<leftarrow> ECPointFormatList_read sub; Some (ServerExtension.ECPointFormats x, sub) }
      | ExtensionType.ServerName \<Rightarrow> Some (ServerExtension.ServerNameAck, sub)
      | ExtensionType.SessionTicket \<Rightarrow> Some (ServerExtension.SessionTicketAck, sub)
      | ExtensionType.RenegotiationInfo \<Rightarrow> do { (x, sub) \<leftarrow> PayloadU8_read sub; Some (ServerExtension.RenegotiationInfo x, sub) }
      | ExtensionType.ALProtocolNegotiation \<Rightarrow> do { (x, sub) \<leftarrow> VecU16OfPayloadU8_read sub; Some (ServerExtension.Protocols x, sub) }
      | ExtensionType.KeyShare \<Rightarrow> do { (x, sub) \<leftarrow> KeyShareEntry_read sub; Some (ServerExtension.KeyShare x, sub) }
      | ExtensionType.PreSharedKey \<Rightarrow> do { (x, sub) \<leftarrow> u16_read sub; Some (ServerExtension.PresharedKey x, sub) }
      | ExtensionType.ExtendedMasterSecret \<Rightarrow> Some (ServerExtension.ExtendedMasterSecretAck, sub)
      | ExtensionType.StatusRequest \<Rightarrow> Some (ServerExtension.CertificateStatusAck, sub)
      | ExtensionType.SCT \<Rightarrow> do { (x, sub) \<leftarrow> VecU16OfPayloadU16_read sub; Some (ServerExtension.SignedCertificateTimestamp x, sub) }
      | ExtensionType.SupportedVersions \<Rightarrow> do { (x, sub) \<leftarrow> ProtocolVersion_read sub; Some (ServerExtension.SupportedVersions x, sub) }
      | ExtensionType.TransportParameters \<Rightarrow>
          do { (x, sub) \<leftarrow> Some (Reader_rest sub); Some (ServerExtension.TransportParameters x, sub) }
      | ExtensionType.TransportParametersDraft \<Rightarrow>
          do { (x, sub) \<leftarrow> Some (Reader_rest sub); Some (ServerExtension.TransportParametersDraft x, sub) }
      | ExtensionType.EarlyData \<Rightarrow> Some (ServerExtension.EarlyData, sub)
      | _ \<Rightarrow> do { (u, sub) \<leftarrow> UnknownExtension_read ty sub; Some (ServerExtension.Unknown u, sub) })"

definition ServerExtension_read :: "ServerExtension reader" where
  "ServerExtension_read r =
     do {
       (ty, r) \<leftarrow> ExtensionType_read r;
       (len, r) \<leftarrow> u16_read r;
       (sub, r) \<leftarrow> Reader_sub r (unat len);
       (ext, sub) \<leftarrow> ServerExtension_read_sub ty sub;
       if Reader_any_left sub then None else Some (ext, r)
     }"

fun ServerExtension_body_ok :: "ServerExtension \<Rightarrow> bool" where
  "ServerExtension_body_ok (ServerExtension.ECPointFormats r) = ECPointFormatList_ok r"
| "ServerExtension_body_ok ServerExtension.ServerNameAck = True"
| "ServerExtension_body_ok ServerExtension.SessionTicketAck = True"
| "ServerExtension_body_ok (ServerExtension.RenegotiationInfo r) = PayloadU8_ok r"
| "ServerExtension_body_ok (ServerExtension.Protocols r) = VecU16OfPayloadU8_ok r"
| "ServerExtension_body_ok (ServerExtension.KeyShare r) = KeyShareEntry_ok r"
| "ServerExtension_body_ok (ServerExtension.PresharedKey r) = True"
| "ServerExtension_body_ok ServerExtension.ExtendedMasterSecretAck = True"
| "ServerExtension_body_ok ServerExtension.CertificateStatusAck = True"
| "ServerExtension_body_ok (ServerExtension.SignedCertificateTimestamp r) = VecU16OfPayloadU16_ok r"
| "ServerExtension_body_ok (ServerExtension.SupportedVersions r) = ProtocolVersion_ok r"
| "ServerExtension_body_ok (ServerExtension.TransportParameters r) = True"
| "ServerExtension_body_ok (ServerExtension.TransportParametersDraft r) = True"
| "ServerExtension_body_ok ServerExtension.EarlyData = True"
| "ServerExtension_body_ok (ServerExtension.Unknown r) \<longleftrightarrow> unk_typ r \<notin> {ExtensionType.ECPointFormats, ExtensionType.ServerName, ExtensionType.SessionTicket, ExtensionType.RenegotiationInfo, ExtensionType.ALProtocolNegotiation, ExtensionType.KeyShare, ExtensionType.PreSharedKey, ExtensionType.ExtendedMasterSecret, ExtensionType.StatusRequest, ExtensionType.SCT, ExtensionType.SupportedVersions, ExtensionType.TransportParameters, ExtensionType.TransportParametersDraft, ExtensionType.EarlyData}"

fun ServerExtension_body_mid :: "ServerExtension \<Rightarrow> bool" where
  "ServerExtension_body_mid (ServerExtension.TransportParameters r) = False"
| "ServerExtension_body_mid (ServerExtension.TransportParametersDraft r) = False"
| "ServerExtension_body_mid (ServerExtension.Unknown r) = False"
| "ServerExtension_body_mid _ = True"

abbreviation ServerExtension_ok :: "ServerExtension \<Rightarrow> bool" where
  "ServerExtension_ok \<equiv> ext_ok ServerExtension_get_type ServerExtension_encode_sub ServerExtension_body_ok"

lemma ServerExtension_sub_bytes: "get_encoding ServerExtension_encode_sub x = ServerExtension_encode_sub x []"
  by (simp add: get_encoding_def)

lemma ServerExtension_sub_spec: "rspec (ServerExtension_read_sub ty)
    (\<lambda>x e m. ServerExtension_get_type x = ty \<and> ServerExtension_body_ok x \<and>
      e = get_encoding ServerExtension_encode_sub x \<and> m = ServerExtension_body_mid x)"
  unfolding ServerExtension_read_sub_def [abs_def] ServerExtension_sub_bytes
  apply (cases ty; simp only: ExtensionType.case; rule rspec_cong, (rule rspec_intros codec_read)+)
  apply ((rename_tac x e m, case_tac x; auto simp: codec_enc UnknownExtension_encode_def; fail) [1])+
  done

interpretation ServerExtension_e: extension ServerExtension_get_type ServerExtension_encode_sub ServerExtension_read_sub ServerExtension_body_ok ServerExtension_body_mid
  by unfold_locales (rule ServerExtension_sub_spec)

lemma ServerExtension_ext:
  "ServerExtension_encode = ext_encode ServerExtension_get_type ServerExtension_encode_sub"
  "ServerExtension_read = ext_read ServerExtension_read_sub"
  by (intro ext, simp only: ServerExtension_encode_def ServerExtension_read_def ext_encode_def ext_read_def)+

interpretation ServerExtension_c: codec_elem ServerExtension_encode ServerExtension_read ServerExtension_ok "\<lambda>_. True"
  unfolding ServerExtension_ext by (rule ServerExtension_e.ext_codec)

lemmas ServerExtension_codec [codec_enc] = ServerExtension_c.enc_app
lemmas ServerExtension_spec [codec_read] = ServerExtension_c.read_spec

abbreviation EncryptedExtensions_encode :: "ServerExtension list encoder" where
  "EncryptedExtensions_encode \<equiv> encode_vec_u16 ServerExtension_encode"

abbreviation EncryptedExtensions_read :: "ServerExtension list reader" where
  "EncryptedExtensions_read \<equiv> read_vec_u16 ServerExtension_read"

abbreviation EncryptedExtensions_ok :: "ServerExtension list \<Rightarrow> bool" where
  "EncryptedExtensions_ok \<equiv> vec_ok ServerExtension_encode ServerExtension_ok (\<lambda>_. True) 2"

interpretation EncryptedExtensions_c: codec_elem EncryptedExtensions_encode EncryptedExtensions_read EncryptedExtensions_ok "\<lambda>_. True"
  by (rule ServerExtension_c.vec_u16)

lemmas EncryptedExtensions_codec [codec_enc] = EncryptedExtensions_c.enc_app
lemmas EncryptedExtensions_spec [codec_read] = EncryptedExtensions_c.read_spec

definition make_alpn :: "bytes list \<Rightarrow> ServerExtension" where
  "make_alpn proto = ServerExtension.Protocols (from_slices proto)"

definition make_empty_renegotiation_info :: ServerExtension where
  "make_empty_renegotiation_info = ServerExtension.RenegotiationInfo (PayloadU8 [])"

text \<open>\<open>None\<close> is the panic of \<open>expect\<close> on a malformed list.\<close>

definition ServerExtension_make_sct :: "bytes \<Rightarrow> ServerExtension option" where
  "ServerExtension_make_sct sctl =
     do { scts \<leftarrow> read_bytes VecU16OfPayloadU16_read sctl;
          Some (ServerExtension.SignedCertificateTimestamp scts) }"

text \<open>The methods of the trait \<open>HasServerExtensions\<close>, on the result of \<open>get_extensions\<close>.\<close>

definition ServerExtensions_has_duplicate_extension :: "ServerExtension list \<Rightarrow> bool" where
  "ServerExtensions_has_duplicate_extension exts =
     has_duplicate (map (\<lambda>ext. ExtensionType_get_u16 (ServerExtension_get_type ext)) exts) {}"

definition ServerExtensions_find_extension ::
    "ServerExtension list \<Rightarrow> ExtensionType \<Rightarrow> ServerExtension option" where
  "ServerExtensions_find_extension exts ext = List.find (\<lambda>x. ServerExtension_get_type x = ext) exts"

definition get_alpn_protocol :: "ServerExtension list \<Rightarrow> bytes option" where
  "get_alpn_protocol exts =
     do {
       ext \<leftarrow> ServerExtensions_find_extension exts ExtensionType.ALProtocolNegotiation;
       case ext of ServerExtension.Protocols protos \<Rightarrow> as_single_slice protos | _ \<Rightarrow> None
     }"

definition ServerExtensions_early_data_extension_offered :: "ServerExtension list \<Rightarrow> bool" where
  "ServerExtensions_early_data_extension_offered exts =
     (ServerExtensions_find_extension exts ExtensionType.EarlyData \<noteq> None)"

section \<open>Hello retry requests\<close>

datatype HelloRetryExtension =
    KeyShare NamedGroup
  | Cookie PayloadU16
  | SupportedVersions ProtocolVersion
  | Unknown UnknownExtension

fun HelloRetryExtension_get_type :: "HelloRetryExtension \<Rightarrow> ExtensionType" where
  "HelloRetryExtension_get_type (HelloRetryExtension.KeyShare _) = ExtensionType.KeyShare"
| "HelloRetryExtension_get_type (HelloRetryExtension.Cookie _) = ExtensionType.Cookie"
| "HelloRetryExtension_get_type (HelloRetryExtension.SupportedVersions _) = ExtensionType.SupportedVersions"
| "HelloRetryExtension_get_type (HelloRetryExtension.Unknown r) = unk_typ r"

fun HelloRetryExtension_encode_sub :: "HelloRetryExtension encoder" where
  "HelloRetryExtension_encode_sub (HelloRetryExtension.KeyShare r) sub = NamedGroup_encode r sub"
| "HelloRetryExtension_encode_sub (HelloRetryExtension.Cookie r) sub = PayloadU16_encode r sub"
| "HelloRetryExtension_encode_sub (HelloRetryExtension.SupportedVersions r) sub = ProtocolVersion_encode r sub"
| "HelloRetryExtension_encode_sub (HelloRetryExtension.Unknown r) sub = UnknownExtension_encode r sub"

definition HelloRetryExtension_encode :: "HelloRetryExtension encoder" where
  "HelloRetryExtension_encode x bytes =
     (let bytes = ExtensionType_encode (HelloRetryExtension_get_type x) bytes;
          sub = HelloRetryExtension_encode_sub x []
      in u16_encode (of_nat (length sub)) bytes @ sub)"

definition HelloRetryExtension_read_sub :: "ExtensionType \<Rightarrow> HelloRetryExtension reader" where
  "HelloRetryExtension_read_sub ty sub =
     (case ty of
        ExtensionType.KeyShare \<Rightarrow> do { (x, sub) \<leftarrow> NamedGroup_read sub; Some (HelloRetryExtension.KeyShare x, sub) }
      | ExtensionType.Cookie \<Rightarrow> do { (x, sub) \<leftarrow> PayloadU16_read sub; Some (HelloRetryExtension.Cookie x, sub) }
      | ExtensionType.SupportedVersions \<Rightarrow> do { (x, sub) \<leftarrow> ProtocolVersion_read sub; Some (HelloRetryExtension.SupportedVersions x, sub) }
      | _ \<Rightarrow> do { (u, sub) \<leftarrow> UnknownExtension_read ty sub; Some (HelloRetryExtension.Unknown u, sub) })"

definition HelloRetryExtension_read :: "HelloRetryExtension reader" where
  "HelloRetryExtension_read r =
     do {
       (ty, r) \<leftarrow> ExtensionType_read r;
       (len, r) \<leftarrow> u16_read r;
       (sub, r) \<leftarrow> Reader_sub r (unat len);
       (ext, sub) \<leftarrow> HelloRetryExtension_read_sub ty sub;
       if Reader_any_left sub then None else Some (ext, r)
     }"

fun HelloRetryExtension_body_ok :: "HelloRetryExtension \<Rightarrow> bool" where
  "HelloRetryExtension_body_ok (HelloRetryExtension.KeyShare r) = NamedGroup_ok r"
| "HelloRetryExtension_body_ok (HelloRetryExtension.Cookie r) = PayloadU16_ok r"
| "HelloRetryExtension_body_ok (HelloRetryExtension.SupportedVersions r) = ProtocolVersion_ok r"
| "HelloRetryExtension_body_ok (HelloRetryExtension.Unknown r) \<longleftrightarrow> unk_typ r \<notin> {ExtensionType.KeyShare, ExtensionType.Cookie, ExtensionType.SupportedVersions}"

fun HelloRetryExtension_body_mid :: "HelloRetryExtension \<Rightarrow> bool" where
  "HelloRetryExtension_body_mid (HelloRetryExtension.Unknown r) = False"
| "HelloRetryExtension_body_mid _ = True"

abbreviation HelloRetryExtension_ok :: "HelloRetryExtension \<Rightarrow> bool" where
  "HelloRetryExtension_ok \<equiv> ext_ok HelloRetryExtension_get_type HelloRetryExtension_encode_sub HelloRetryExtension_body_ok"

lemma HelloRetryExtension_sub_bytes: "get_encoding HelloRetryExtension_encode_sub x = HelloRetryExtension_encode_sub x []"
  by (simp add: get_encoding_def)

lemma HelloRetryExtension_sub_spec: "rspec (HelloRetryExtension_read_sub ty)
    (\<lambda>x e m. HelloRetryExtension_get_type x = ty \<and> HelloRetryExtension_body_ok x \<and>
      e = get_encoding HelloRetryExtension_encode_sub x \<and> m = HelloRetryExtension_body_mid x)"
  unfolding HelloRetryExtension_read_sub_def [abs_def] HelloRetryExtension_sub_bytes
  apply (cases ty; simp only: ExtensionType.case; rule rspec_cong, (rule rspec_intros codec_read)+)
  apply ((rename_tac x e m, case_tac x; auto simp: codec_enc UnknownExtension_encode_def; fail) [1])+
  done

interpretation HelloRetryExtension_e: extension HelloRetryExtension_get_type HelloRetryExtension_encode_sub HelloRetryExtension_read_sub HelloRetryExtension_body_ok HelloRetryExtension_body_mid
  by unfold_locales (rule HelloRetryExtension_sub_spec)

lemma HelloRetryExtension_ext:
  "HelloRetryExtension_encode = ext_encode HelloRetryExtension_get_type HelloRetryExtension_encode_sub"
  "HelloRetryExtension_read = ext_read HelloRetryExtension_read_sub"
  by (intro ext, simp only: HelloRetryExtension_encode_def HelloRetryExtension_read_def ext_encode_def ext_read_def)+

interpretation HelloRetryExtension_c: codec_elem HelloRetryExtension_encode HelloRetryExtension_read HelloRetryExtension_ok "\<lambda>_. True"
  unfolding HelloRetryExtension_ext by (rule HelloRetryExtension_e.ext_codec)

lemmas HelloRetryExtension_codec [codec_enc] = HelloRetryExtension_c.enc_app
lemmas HelloRetryExtension_spec [codec_read] = HelloRetryExtension_c.read_spec

abbreviation HelloRetryExtensions_encode :: "HelloRetryExtension list encoder" where
  "HelloRetryExtensions_encode \<equiv> encode_vec_u16 HelloRetryExtension_encode"

abbreviation HelloRetryExtensions_read :: "HelloRetryExtension list reader" where
  "HelloRetryExtensions_read \<equiv> read_vec_u16 HelloRetryExtension_read"

abbreviation HelloRetryExtensions_ok :: "HelloRetryExtension list \<Rightarrow> bool" where
  "HelloRetryExtensions_ok \<equiv> vec_ok HelloRetryExtension_encode HelloRetryExtension_ok (\<lambda>_. True) 2"

interpretation HelloRetryExtensions_c: codec_elem HelloRetryExtensions_encode HelloRetryExtensions_read HelloRetryExtensions_ok "\<lambda>_. True"
  by (rule HelloRetryExtension_c.vec_u16)

lemmas HelloRetryExtensions_codec [codec_enc] = HelloRetryExtensions_c.enc_app
lemmas HelloRetryExtensions_spec [codec_read] = HelloRetryExtensions_c.read_spec

record HelloRetryRequest =
  hrr_legacy_version :: ProtocolVersion
  hrr_session_id :: SessionID
  hrr_cipher_suite :: CipherSuite
  hrr_extensions :: "HelloRetryExtension list"

definition HelloRetryRequest_encode :: "HelloRetryRequest encoder" where
  "HelloRetryRequest_encode x bytes =
     (let bytes = ProtocolVersion_encode (hrr_legacy_version x) bytes;
          bytes = Random_encode HELLO_RETRY_REQUEST_RANDOM bytes;
          bytes = SessionID_encode (hrr_session_id x) bytes;
          bytes = CipherSuite_encode (hrr_cipher_suite x) bytes;
          bytes = Compression_encode Compression.Null bytes
      in HelloRetryExtensions_encode (hrr_extensions x) bytes)"

definition HelloRetryRequest_read :: "HelloRetryRequest reader" where
  "HelloRetryRequest_read r =
     do {
       (session_id, r) \<leftarrow> SessionID_read r;
       (cipher_suite, r) \<leftarrow> CipherSuite_read r;
       (compression, r) \<leftarrow> Compression_read r;
       if compression \<noteq> Compression.Null then None
       else do {
         (extensions, r) \<leftarrow> HelloRetryExtensions_read r;
         Some (\<lparr>hrr_legacy_version = ProtocolVersion.Unknown 0, hrr_session_id = session_id,
                hrr_cipher_suite = cipher_suite, hrr_extensions = extensions\<rparr>, r)
       }
     }"

definition HelloRetryRequest_has_duplicate_extension :: "HelloRetryRequest \<Rightarrow> bool" where
  "HelloRetryRequest_has_duplicate_extension x =
     has_duplicate (map (\<lambda>ext. ExtensionType_get_u16 (HelloRetryExtension_get_type ext)) (hrr_extensions x)) {}"

definition HelloRetryRequest_has_unknown_extension :: "HelloRetryRequest \<Rightarrow> bool" where
  "HelloRetryRequest_has_unknown_extension x =
     list_ex (\<lambda>ext. HelloRetryExtension_get_type ext \<noteq> ExtensionType.KeyShare \<and>
       HelloRetryExtension_get_type ext \<noteq> ExtensionType.SupportedVersions \<and>
       HelloRetryExtension_get_type ext \<noteq> ExtensionType.Cookie) (hrr_extensions x)"

definition HelloRetryRequest_find_extension ::
    "HelloRetryRequest \<Rightarrow> ExtensionType \<Rightarrow> HelloRetryExtension option" where
  "HelloRetryRequest_find_extension x ext =
     List.find (\<lambda>y. HelloRetryExtension_get_type y = ext) (hrr_extensions x)"

definition get_requested_key_share_group :: "HelloRetryRequest \<Rightarrow> NamedGroup option" where
  "get_requested_key_share_group x =
     do {
       ext \<leftarrow> HelloRetryRequest_find_extension x ExtensionType.KeyShare;
       case ext of HelloRetryExtension.KeyShare grp \<Rightarrow> Some grp | _ \<Rightarrow> None
     }"

definition get_cookie :: "HelloRetryRequest \<Rightarrow> PayloadU16 option" where
  "get_cookie x =
     do {
       ext \<leftarrow> HelloRetryRequest_find_extension x ExtensionType.Cookie;
       case ext of HelloRetryExtension.Cookie ck \<Rightarrow> Some ck | _ \<Rightarrow> None
     }"

definition HelloRetryRequest_get_supported_versions :: "HelloRetryRequest \<Rightarrow> ProtocolVersion option" where
  "HelloRetryRequest_get_supported_versions x =
     do {
       ext \<leftarrow> HelloRetryRequest_find_extension x ExtensionType.SupportedVersions;
       case ext of HelloRetryExtension.SupportedVersions ver \<Rightarrow> Some ver | _ \<Rightarrow> None
     }"

definition HelloRetryRequest_ok :: "HelloRetryRequest \<Rightarrow> bool" where
  "HelloRetryRequest_ok x \<longleftrightarrow> ProtocolVersion_ok (hrr_legacy_version x) \<and> SessionID_ok (hrr_session_id x) \<and>
     CipherSuite_ok (hrr_cipher_suite x) \<and> HelloRetryExtensions_ok (hrr_extensions x)"

text \<open>The bytes after the version and the random value.\<close>

definition HelloRetryRequest_tail :: "HelloRetryRequest \<Rightarrow> bytes" where
  "HelloRetryRequest_tail x =
     get_encoding SessionID_encode (hrr_session_id x) @ get_encoding CipherSuite_encode (hrr_cipher_suite x) @
     get_encoding Compression_encode Compression.Null @
     get_encoding HelloRetryExtensions_encode (hrr_extensions x)"

lemma HelloRetryRequest_app: "HelloRetryRequest_encode x bytes =
    bytes @ get_encoding ProtocolVersion_encode (hrr_legacy_version x) @
    get_encoding Random_encode HELLO_RETRY_REQUEST_RANDOM @ HelloRetryRequest_tail x"
  by (simp only: HelloRetryRequest_encode_def HelloRetryRequest_tail_def Let_def codec_enc append_assoc)

lemma Compression_Null_ok: "Compression_ok Compression.Null"
  by (simp add: Compression_ok_def Compression_from_def)

lemma HelloRetryRequest_spec [codec_read]: "rspec HelloRetryRequest_read
    (\<lambda>x e m. hrr_legacy_version x = ProtocolVersion.Unknown 0 \<and> SessionID_ok (hrr_session_id x) \<and>
      CipherSuite_ok (hrr_cipher_suite x) \<and> HelloRetryExtensions_ok (hrr_extensions x) \<and>
      e = HelloRetryRequest_tail x \<and> m = True)"
  unfolding HelloRetryRequest_read_def [abs_def]
  by (rule rspec_cong, (rule rspec_intros codec_read)+)
    (case_tac x, auto simp: HelloRetryRequest_tail_def Compression_Null_ok)

section \<open>The server hello\<close>

record ServerHelloPayload =
  shp_legacy_version :: ProtocolVersion
  shp_random :: Random
  shp_session_id :: SessionID
  shp_cipher_suite :: CipherSuite
  shp_compression_method :: Compression
  shp_extensions :: "ServerExtension list"

definition ServerHelloPayload_encode :: "ServerHelloPayload encoder" where
  "ServerHelloPayload_encode x bytes =
     (let bytes = ProtocolVersion_encode (shp_legacy_version x) bytes;
          bytes = Random_encode (shp_random x) bytes;
          bytes = SessionID_encode (shp_session_id x) bytes;
          bytes = CipherSuite_encode (shp_cipher_suite x) bytes;
          bytes = Compression_encode (shp_compression_method x) bytes
      in EncryptedExtensions_encode (shp_extensions x) bytes)"

definition ServerHelloPayload_read :: "ServerHelloPayload reader" where
  "ServerHelloPayload_read r =
     do {
       (session_id, r) \<leftarrow> SessionID_read r;
       (suite, r) \<leftarrow> CipherSuite_read r;
       (compression, r) \<leftarrow> Compression_read r;
       (extensions, r) \<leftarrow> EncryptedExtensions_read r;
       if Reader_any_left r then None
       else Some (\<lparr>shp_legacy_version = ProtocolVersion.Unknown 0, shp_random = ZERO_RANDOM,
                   shp_session_id = session_id, shp_cipher_suite = suite,
                   shp_compression_method = compression, shp_extensions = extensions\<rparr>, r)
     }"

definition ServerHelloPayload_find_extension ::
    "ServerHelloPayload \<Rightarrow> ExtensionType \<Rightarrow> ServerExtension option" where
  "ServerHelloPayload_find_extension x = ServerExtensions_find_extension (shp_extensions x)"

definition ServerHelloPayload_get_key_share :: "ServerHelloPayload \<Rightarrow> KeyShareEntry option" where
  "ServerHelloPayload_get_key_share x =
     do {
       ext \<leftarrow> ServerHelloPayload_find_extension x ExtensionType.KeyShare;
       case ext of ServerExtension.KeyShare share \<Rightarrow> Some share | _ \<Rightarrow> None
     }"

definition get_psk_index :: "ServerHelloPayload \<Rightarrow> u16 option" where
  "get_psk_index x =
     do {
       ext \<leftarrow> ServerHelloPayload_find_extension x ExtensionType.PreSharedKey;
       case ext of ServerExtension.PresharedKey index \<Rightarrow> Some index | _ \<Rightarrow> None
     }"

definition ServerHelloPayload_get_ecpoints_extension :: "ServerHelloPayload \<Rightarrow> ECPointFormat list option" where
  "ServerHelloPayload_get_ecpoints_extension x =
     do {
       ext \<leftarrow> ServerHelloPayload_find_extension x ExtensionType.ECPointFormats;
       case ext of ServerExtension.ECPointFormats fmts \<Rightarrow> Some fmts | _ \<Rightarrow> None
     }"

definition ems_support_acked :: "ServerHelloPayload \<Rightarrow> bool" where
  "ems_support_acked x =
     (ServerHelloPayload_find_extension x ExtensionType.ExtendedMasterSecret \<noteq> None)"

definition ServerHelloPayload_get_sct_list :: "ServerHelloPayload \<Rightarrow> PayloadU16 list option" where
  "ServerHelloPayload_get_sct_list x =
     do {
       ext \<leftarrow> ServerHelloPayload_find_extension x ExtensionType.SCT;
       case ext of ServerExtension.SignedCertificateTimestamp sctl \<Rightarrow> Some sctl | _ \<Rightarrow> None
     }"

definition ServerHelloPayload_get_supported_versions :: "ServerHelloPayload \<Rightarrow> ProtocolVersion option" where
  "ServerHelloPayload_get_supported_versions x =
     do {
       ext \<leftarrow> ServerHelloPayload_find_extension x ExtensionType.SupportedVersions;
       case ext of ServerExtension.SupportedVersions vers \<Rightarrow> Some vers | _ \<Rightarrow> None
     }"

text \<open>
  A server hello whose random value is the fixed one of a hello retry request is not read as a server
  hello.
\<close>

definition ServerHelloPayload_ok :: "ServerHelloPayload \<Rightarrow> bool" where
  "ServerHelloPayload_ok x \<longleftrightarrow> ProtocolVersion_ok (shp_legacy_version x) \<and> Random_ok (shp_random x) \<and>
     shp_random x \<noteq> HELLO_RETRY_REQUEST_RANDOM \<and> SessionID_ok (shp_session_id x) \<and>
     CipherSuite_ok (shp_cipher_suite x) \<and> Compression_ok (shp_compression_method x) \<and>
     EncryptedExtensions_ok (shp_extensions x)"

definition ServerHelloPayload_tail :: "ServerHelloPayload \<Rightarrow> bytes" where
  "ServerHelloPayload_tail x =
     get_encoding SessionID_encode (shp_session_id x) @ get_encoding CipherSuite_encode (shp_cipher_suite x) @
     get_encoding Compression_encode (shp_compression_method x) @
     get_encoding EncryptedExtensions_encode (shp_extensions x)"

lemma ServerHelloPayload_app: "ServerHelloPayload_encode x bytes =
    bytes @ get_encoding ProtocolVersion_encode (shp_legacy_version x) @
    get_encoding Random_encode (shp_random x) @ ServerHelloPayload_tail x"
  by (simp only: ServerHelloPayload_encode_def ServerHelloPayload_tail_def Let_def codec_enc append_assoc)

lemma ServerHelloPayload_spec [codec_read]: "rspec ServerHelloPayload_read
    (\<lambda>x e m. shp_legacy_version x = ProtocolVersion.Unknown 0 \<and> shp_random x = ZERO_RANDOM \<and>
      SessionID_ok (shp_session_id x) \<and> CipherSuite_ok (shp_cipher_suite x) \<and>
      Compression_ok (shp_compression_method x) \<and> EncryptedExtensions_ok (shp_extensions x) \<and>
      e = ServerHelloPayload_tail x \<and> m = False)"
  unfolding ServerHelloPayload_read_def [abs_def]
  by (rule rspec_cong, (rule rspec_intros codec_read rspec_end)+)
    (case_tac x, auto simp: ServerHelloPayload_tail_def)

end
