(* ===== verification/Hs_Cert.thy ===== *)
theory Hs_Cert
  imports Hs_Server
begin

text \<open>
  The other handshake payloads of \<open>crates/tls/core/src/msgs/handshake.rs\<close>: certificates in their two
  encodings, key exchange parameters, certificate requests, session tickets and certificate status.\<close>

lemma rspec_guard:
  "rspec g T \<Longrightarrow> rspec (\<lambda>r. if b then None else g r) (\<lambda>x e m. \<not> b \<and> T x e m)"
  by (simp add: rspec_def)

section \<open>Certificate status\<close>

record CertificateStatus =
  cs_ocsp_response :: PayloadU24

definition CertificateStatus_encode :: "CertificateStatus encoder" where
  "CertificateStatus_encode x bytes =
     PayloadU24_encode (cs_ocsp_response x) (CertificateStatusType_encode CertificateStatusType.OCSP bytes)"

definition CertificateStatus_read :: "CertificateStatus reader" where
  "CertificateStatus_read r =
     do {
       (ty, r) \<leftarrow> CertificateStatusType_read r;
       if ty = CertificateStatusType.OCSP
       then do {
         (ocsp_response, r) \<leftarrow> PayloadU24_read r;
         Some (\<lparr>cs_ocsp_response = ocsp_response\<rparr>, r)
       }
       else None
     }"

definition CertificateStatus_new :: "bytes \<Rightarrow> CertificateStatus" where
  "CertificateStatus_new ocsp = \<lparr>cs_ocsp_response = PayloadU24 ocsp\<rparr>"

definition CertificateStatus_into_inner :: "CertificateStatus \<Rightarrow> bytes" where
  "CertificateStatus_into_inner x = payload_u24_bytes (cs_ocsp_response x)"

definition CertificateStatus_ok :: "CertificateStatus \<Rightarrow> bool" where
  "CertificateStatus_ok x \<longleftrightarrow> PayloadU24_ok (cs_ocsp_response x)"

lemma CertificateStatus_bytes: "get_encoding CertificateStatus_encode x =
    get_encoding CertificateStatusType_encode CertificateStatusType.OCSP @
    get_encoding PayloadU24_encode (cs_ocsp_response x)"
  by (rule get_encodingI) (simp only: CertificateStatus_encode_def codec_enc append_assoc)

interpretation CertificateStatus_c: codec_elem CertificateStatus_encode CertificateStatus_read
  CertificateStatus_ok "\<lambda>_. True"
proof (rule codec_elemI [OF codecI])
  show "CertificateStatus_encode x bs = bs @ get_encoding CertificateStatus_encode x" for x bs
    by (simp only: CertificateStatus_encode_def CertificateStatus_bytes codec_enc append_assoc)
  have ok: "CertificateStatusType_ok CertificateStatusType.OCSP"
    by (simp add: CertificateStatusType_ok_def CertificateStatusType_from_def)
  show "rspec CertificateStatus_read
      (\<lambda>x e m. CertificateStatus_ok x \<and> e = get_encoding CertificateStatus_encode x \<and> m = True)"
    unfolding CertificateStatus_read_def [abs_def]
    by (rule rspec_cong, (rule rspec_intros codec_read)+)
      (case_tac x, auto simp: CertificateStatus_ok_def CertificateStatus_bytes ok split: if_splits)
qed (auto simp: CertificateStatus_bytes)

lemmas CertificateStatus_codec [codec_enc] = CertificateStatus_c.enc_app
lemmas CertificateStatus_spec [codec_read] = CertificateStatus_c.read_spec

section \<open>Certificates\<close>

abbreviation CertificatePayload_encode :: "Certificate list encoder" where
  "CertificatePayload_encode \<equiv> encode_vec_u24 Certificate_encode"

abbreviation CertificatePayload_read :: "Certificate list reader" where
  "CertificatePayload_read \<equiv> read_vec_u24_limited Certificate_read 0x10000"

abbreviation CertificatePayload_ok :: "Certificate list \<Rightarrow> bool" where
  "CertificatePayload_ok \<equiv> (\<lambda>xs. items_ok Certificate_ok (\<lambda>_. True) xs \<and>
     length (vec_bytes Certificate_encode xs) \<le> 0x10000)"

interpretation CertificatePayload_c: codec_elem CertificatePayload_encode CertificatePayload_read
  CertificatePayload_ok "\<lambda>_. True"
  by (rule certificate.vec_u24) simp

lemmas CertificatePayload_codec [codec_enc] = CertificatePayload_c.enc_app
lemmas CertificatePayload_spec [codec_read] = CertificatePayload_c.read_spec

datatype CertificateExtension =
    CertificateStatus CertificateStatus
  | SignedCertificateTimestamp "PayloadU16 list"
  | Unknown UnknownExtension

fun CertificateExtension_get_type :: "CertificateExtension \<Rightarrow> ExtensionType" where
  "CertificateExtension_get_type (CertificateExtension.CertificateStatus _) = ExtensionType.StatusRequest"
| "CertificateExtension_get_type (CertificateExtension.SignedCertificateTimestamp _) = ExtensionType.SCT"
| "CertificateExtension_get_type (CertificateExtension.Unknown r) = unk_typ r"

fun CertificateExtension_encode_sub :: "CertificateExtension encoder" where
  "CertificateExtension_encode_sub (CertificateExtension.CertificateStatus r) sub = CertificateStatus_encode r sub"
| "CertificateExtension_encode_sub (CertificateExtension.SignedCertificateTimestamp r) sub = VecU16OfPayloadU16_encode r sub"
| "CertificateExtension_encode_sub (CertificateExtension.Unknown r) sub = UnknownExtension_encode r sub"

definition CertificateExtension_encode :: "CertificateExtension encoder" where
  "CertificateExtension_encode x bytes =
     (let bytes = ExtensionType_encode (CertificateExtension_get_type x) bytes;
          sub = CertificateExtension_encode_sub x []
      in u16_encode (of_nat (length sub)) bytes @ sub)"

definition CertificateExtension_read_sub :: "ExtensionType \<Rightarrow> CertificateExtension reader" where
  "CertificateExtension_read_sub ty sub =
     (case ty of
        ExtensionType.StatusRequest \<Rightarrow> do { (x, sub) \<leftarrow> CertificateStatus_read sub; Some (CertificateExtension.CertificateStatus x, sub) }
      | ExtensionType.SCT \<Rightarrow> do { (x, sub) \<leftarrow> VecU16OfPayloadU16_read sub; Some (CertificateExtension.SignedCertificateTimestamp x, sub) }
      | _ \<Rightarrow> do { (u, sub) \<leftarrow> UnknownExtension_read ty sub; Some (CertificateExtension.Unknown u, sub) })"

definition CertificateExtension_read :: "CertificateExtension reader" where
  "CertificateExtension_read r =
     do {
       (ty, r) \<leftarrow> ExtensionType_read r;
       (len, r) \<leftarrow> u16_read r;
       (sub, r) \<leftarrow> Reader_sub r (unat len);
       (ext, sub) \<leftarrow> CertificateExtension_read_sub ty sub;
       if Reader_any_left sub then None else Some (ext, r)
     }"

fun CertificateExtension_body_ok :: "CertificateExtension \<Rightarrow> bool" where
  "CertificateExtension_body_ok (CertificateExtension.CertificateStatus r) = CertificateStatus_ok r"
| "CertificateExtension_body_ok (CertificateExtension.SignedCertificateTimestamp r) = VecU16OfPayloadU16_ok r"
| "CertificateExtension_body_ok (CertificateExtension.Unknown r) \<longleftrightarrow> unk_typ r \<notin> {ExtensionType.StatusRequest, ExtensionType.SCT}"

fun CertificateExtension_body_mid :: "CertificateExtension \<Rightarrow> bool" where
  "CertificateExtension_body_mid (CertificateExtension.Unknown r) = False"
| "CertificateExtension_body_mid _ = True"

abbreviation CertificateExtension_ok :: "CertificateExtension \<Rightarrow> bool" where
  "CertificateExtension_ok \<equiv> ext_ok CertificateExtension_get_type CertificateExtension_encode_sub CertificateExtension_body_ok"

lemma CertificateExtension_sub_bytes: "get_encoding CertificateExtension_encode_sub x = CertificateExtension_encode_sub x []"
  by (simp add: get_encoding_def)

lemma CertificateExtension_sub_spec: "rspec (CertificateExtension_read_sub ty)
    (\<lambda>x e m. CertificateExtension_get_type x = ty \<and> CertificateExtension_body_ok x \<and>
      e = get_encoding CertificateExtension_encode_sub x \<and> m = CertificateExtension_body_mid x)"
  unfolding CertificateExtension_read_sub_def [abs_def] CertificateExtension_sub_bytes
  apply (cases ty; simp only: ExtensionType.case; rule rspec_cong, (rule rspec_intros codec_read)+)
  apply ((rename_tac x e m, case_tac x; auto simp: codec_enc UnknownExtension_encode_def; fail) [1])+
  done

interpretation CertificateExtension_e: extension CertificateExtension_get_type CertificateExtension_encode_sub CertificateExtension_read_sub CertificateExtension_body_ok CertificateExtension_body_mid
  by unfold_locales (rule CertificateExtension_sub_spec)

lemma CertificateExtension_ext:
  "CertificateExtension_encode = ext_encode CertificateExtension_get_type CertificateExtension_encode_sub"
  "CertificateExtension_read = ext_read CertificateExtension_read_sub"
  by (intro ext, simp only: CertificateExtension_encode_def CertificateExtension_read_def ext_encode_def ext_read_def)+

interpretation CertificateExtension_c: codec_elem CertificateExtension_encode CertificateExtension_read CertificateExtension_ok "\<lambda>_. True"
  unfolding CertificateExtension_ext by (rule CertificateExtension_e.ext_codec)

lemmas CertificateExtension_codec [codec_enc] = CertificateExtension_c.enc_app
lemmas CertificateExtension_spec [codec_read] = CertificateExtension_c.read_spec

definition CertificateExtension_make_sct :: "bytes \<Rightarrow> CertificateExtension option" where
  "CertificateExtension_make_sct sct_list =
     do { sctl \<leftarrow> read_bytes VecU16OfPayloadU16_read sct_list;
          Some (CertificateExtension.SignedCertificateTimestamp sctl) }"

definition get_cert_status :: "CertificateExtension \<Rightarrow> bytes option" where
  "get_cert_status x =
     (case x of CertificateExtension.CertificateStatus cs \<Rightarrow> Some (payload_u24_bytes (cs_ocsp_response cs))
      | _ \<Rightarrow> None)"

definition CertificateExtension_get_sct_list :: "CertificateExtension \<Rightarrow> PayloadU16 list option" where
  "CertificateExtension_get_sct_list x =
     (case x of CertificateExtension.SignedCertificateTimestamp sctl \<Rightarrow> Some sctl | _ \<Rightarrow> None)"

abbreviation CertificateExtensions_encode :: "CertificateExtension list encoder" where
  "CertificateExtensions_encode \<equiv> encode_vec_u16 CertificateExtension_encode"

abbreviation CertificateExtensions_read :: "CertificateExtension list reader" where
  "CertificateExtensions_read \<equiv> read_vec_u16 CertificateExtension_read"

abbreviation CertificateExtensions_ok :: "CertificateExtension list \<Rightarrow> bool" where
  "CertificateExtensions_ok \<equiv> vec_ok CertificateExtension_encode CertificateExtension_ok (\<lambda>_. True) 2"

interpretation CertificateExtensions_c: codec_elem CertificateExtensions_encode CertificateExtensions_read CertificateExtensions_ok "\<lambda>_. True"
  by (rule CertificateExtension_c.vec_u16)

lemmas CertificateExtensions_codec [codec_enc] = CertificateExtensions_c.enc_app
lemmas CertificateExtensions_spec [codec_read] = CertificateExtensions_c.read_spec

record CertificateEntry =
  ce_cert :: Certificate
  ce_exts :: "CertificateExtension list"

definition CertificateEntry_encode :: "CertificateEntry encoder" where
  "CertificateEntry_encode x bytes =
     CertificateExtensions_encode (ce_exts x) (Certificate_encode (ce_cert x) bytes)"

definition CertificateEntry_read :: "CertificateEntry reader" where
  "CertificateEntry_read r =
     do {
       (cert, r) \<leftarrow> Certificate_read r;
       (exts, r) \<leftarrow> CertificateExtensions_read r;
       Some (\<lparr>ce_cert = cert, ce_exts = exts\<rparr>, r)
     }"

definition CertificateEntry_ok :: "CertificateEntry \<Rightarrow> bool" where
  "CertificateEntry_ok x \<longleftrightarrow> Certificate_ok (ce_cert x) \<and>
     CertificateExtensions_ok (ce_exts x)"

lemma CertificateEntry_bytes: "get_encoding CertificateEntry_encode x =
    get_encoding Certificate_encode (ce_cert x) @
    get_encoding CertificateExtensions_encode (ce_exts x)"
  by (rule get_encodingI) (simp only: CertificateEntry_encode_def Let_def codec_enc append_assoc)

interpretation CertificateEntry_c: codec_elem CertificateEntry_encode CertificateEntry_read CertificateEntry_ok "\<lambda>_. True"
proof (rule codec_elemI [OF codecI])
  show "CertificateEntry_encode x bs = bs @ get_encoding CertificateEntry_encode x" for x bs
    by (simp only: CertificateEntry_encode_def Let_def CertificateEntry_bytes codec_enc append_assoc)
  show "rspec CertificateEntry_read (\<lambda>x e m. CertificateEntry_ok x \<and> e = get_encoding CertificateEntry_encode x \<and> m = True)"
    unfolding CertificateEntry_read_def [abs_def]
    by (rule rspec_cong, (rule rspec_intros codec_read)+) (case_tac x, auto simp: CertificateEntry_ok_def CertificateEntry_bytes)
qed (auto simp: CertificateEntry_bytes)

lemmas CertificateEntry_codec [codec_enc] = CertificateEntry_c.enc_app
lemmas CertificateEntry_spec [codec_read] = CertificateEntry_c.read_spec

definition CertificateEntry_new :: "Certificate \<Rightarrow> CertificateEntry" where
  "CertificateEntry_new cert = \<lparr>ce_cert = cert, ce_exts = []\<rparr>"

definition CertificateEntry_has_duplicate_extension :: "CertificateEntry \<Rightarrow> bool" where
  "CertificateEntry_has_duplicate_extension x =
     has_duplicate (map (\<lambda>ext. ExtensionType_get_u16 (CertificateExtension_get_type ext)) (ce_exts x)) {}"

definition CertificateEntry_has_unknown_extension :: "CertificateEntry \<Rightarrow> bool" where
  "CertificateEntry_has_unknown_extension x =
     list_ex (\<lambda>ext. CertificateExtension_get_type ext \<noteq> ExtensionType.StatusRequest \<and>
       CertificateExtension_get_type ext \<noteq> ExtensionType.SCT) (ce_exts x)"

definition get_ocsp_response :: "CertificateEntry \<Rightarrow> bytes option" where
  "get_ocsp_response x =
     List.find (\<lambda>ext. CertificateExtension_get_type ext = ExtensionType.StatusRequest) (ce_exts x) \<bind>
       get_cert_status"

definition get_scts :: "CertificateEntry \<Rightarrow> PayloadU16 list option" where
  "get_scts x =
     List.find (\<lambda>ext. CertificateExtension_get_type ext = ExtensionType.SCT) (ce_exts x) \<bind>
       CertificateExtension_get_sct_list"

abbreviation CertificateEntries_encode :: "CertificateEntry list encoder" where
  "CertificateEntries_encode \<equiv> encode_vec_u24 CertificateEntry_encode"

abbreviation CertificateEntries_read :: "CertificateEntry list reader" where
  "CertificateEntries_read \<equiv> read_vec_u24_limited CertificateEntry_read 0x10000"

abbreviation CertificateEntries_ok :: "CertificateEntry list \<Rightarrow> bool" where
  "CertificateEntries_ok \<equiv> (\<lambda>xs. items_ok CertificateEntry_ok (\<lambda>_. True) xs \<and>
     length (vec_bytes CertificateEntry_encode xs) \<le> 0x10000)"

interpretation CertificateEntries_c: codec_elem CertificateEntries_encode CertificateEntries_read
  CertificateEntries_ok "\<lambda>_. True"
  by (rule CertificateEntry_c.vec_u24) simp

lemmas CertificateEntries_codec [codec_enc] = CertificateEntries_c.enc_app
lemmas CertificateEntries_spec [codec_read] = CertificateEntries_c.read_spec

record CertificatePayloadTLS13 =
  cp13_context :: PayloadU8
  cp13_entries :: "CertificateEntry list"

definition CertificatePayloadTLS13_encode :: "CertificatePayloadTLS13 encoder" where
  "CertificatePayloadTLS13_encode x bytes =
     CertificateEntries_encode (cp13_entries x) (PayloadU8_encode (cp13_context x) bytes)"

definition CertificatePayloadTLS13_read :: "CertificatePayloadTLS13 reader" where
  "CertificatePayloadTLS13_read r =
     do {
       (context', r) \<leftarrow> PayloadU8_read r;
       (entries, r) \<leftarrow> CertificateEntries_read r;
       Some (\<lparr>cp13_context = context', cp13_entries = entries\<rparr>, r)
     }"

definition CertificatePayloadTLS13_ok :: "CertificatePayloadTLS13 \<Rightarrow> bool" where
  "CertificatePayloadTLS13_ok x \<longleftrightarrow> PayloadU8_ok (cp13_context x) \<and>
     CertificateEntries_ok (cp13_entries x)"

lemma CertificatePayloadTLS13_bytes: "get_encoding CertificatePayloadTLS13_encode x =
    get_encoding PayloadU8_encode (cp13_context x) @
    get_encoding CertificateEntries_encode (cp13_entries x)"
  by (rule get_encodingI) (simp only: CertificatePayloadTLS13_encode_def Let_def codec_enc append_assoc)

interpretation CertificatePayloadTLS13_c: codec_elem CertificatePayloadTLS13_encode CertificatePayloadTLS13_read CertificatePayloadTLS13_ok "\<lambda>_. True"
proof (rule codec_elemI [OF codecI])
  show "CertificatePayloadTLS13_encode x bs = bs @ get_encoding CertificatePayloadTLS13_encode x" for x bs
    by (simp only: CertificatePayloadTLS13_encode_def Let_def CertificatePayloadTLS13_bytes codec_enc append_assoc)
  show "rspec CertificatePayloadTLS13_read (\<lambda>x e m. CertificatePayloadTLS13_ok x \<and> e = get_encoding CertificatePayloadTLS13_encode x \<and> m = True)"
    unfolding CertificatePayloadTLS13_read_def [abs_def]
    by (rule rspec_cong, (rule rspec_intros codec_read)+) (case_tac x, auto simp: CertificatePayloadTLS13_ok_def CertificatePayloadTLS13_bytes)
qed (auto simp: CertificatePayloadTLS13_bytes)

lemmas CertificatePayloadTLS13_codec [codec_enc] = CertificatePayloadTLS13_c.enc_app
lemmas CertificatePayloadTLS13_spec [codec_read] = CertificatePayloadTLS13_c.read_spec

definition CertificatePayloadTLS13_new :: "CertificateEntry list \<Rightarrow> CertificatePayloadTLS13" where
  "CertificatePayloadTLS13_new entries = \<lparr>cp13_context = PayloadU8 [], cp13_entries = entries\<rparr>"

definition any_entry_has_duplicate_extension :: "CertificatePayloadTLS13 \<Rightarrow> bool" where
  "any_entry_has_duplicate_extension x = list_ex CertificateEntry_has_duplicate_extension (cp13_entries x)"

definition any_entry_has_unknown_extension :: "CertificatePayloadTLS13 \<Rightarrow> bool" where
  "any_entry_has_unknown_extension x = list_ex CertificateEntry_has_unknown_extension (cp13_entries x)"

definition any_entry_has_extension :: "CertificatePayloadTLS13 \<Rightarrow> bool" where
  "any_entry_has_extension x = list_ex (\<lambda>entry. ce_exts entry \<noteq> []) (cp13_entries x)"

definition get_end_entity_ocsp :: "CertificatePayloadTLS13 \<Rightarrow> bytes" where
  "get_end_entity_ocsp x =
     (case (case cp13_entries x of [] \<Rightarrow> None | e # _ \<Rightarrow> get_ocsp_response e) of
        Some b \<Rightarrow> b | None \<Rightarrow> [])"

definition get_end_entity_scts :: "CertificatePayloadTLS13 \<Rightarrow> PayloadU16 list option" where
  "get_end_entity_scts x = (case cp13_entries x of [] \<Rightarrow> None | e # _ \<Rightarrow> get_scts e)"

definition convert :: "CertificatePayloadTLS13 \<Rightarrow> Certificate list" where
  "convert x = fold (\<lambda>entry ret. ret @ [ce_cert entry]) (cp13_entries x) []"

section \<open>Key exchange\<close>

datatype KeyExchangeAlgorithm = BulkOnly | DH | DHE | RSA | ECDH | ECDHE

record ECParameters =
  ecp_curve_type :: ECCurveType
  ecp_named_group :: NamedGroup

definition ECParameters_encode :: "ECParameters encoder" where
  "ECParameters_encode x bytes =
     NamedGroup_encode (ecp_named_group x) (ECCurveType_encode (ecp_curve_type x) bytes)"

definition ECParameters_read :: "ECParameters reader" where
  "ECParameters_read r =
     do {
       (ct, r) \<leftarrow> ECCurveType_read r;
       if ct \<noteq> ECCurveType.NamedCurve then None
       else do {
         (grp, r) \<leftarrow> NamedGroup_read r;
         Some (\<lparr>ecp_curve_type = ct, ecp_named_group = grp\<rparr>, r)
       }
     }"

definition ECParameters_ok :: "ECParameters \<Rightarrow> bool" where
  "ECParameters_ok x \<longleftrightarrow> ECCurveType_ok (ecp_curve_type x) \<and>
     NamedGroup_ok (ecp_named_group x) \<and>
     ecp_curve_type x = ECCurveType.NamedCurve"

lemma ECParameters_bytes: "get_encoding ECParameters_encode x =
    get_encoding ECCurveType_encode (ecp_curve_type x) @
    get_encoding NamedGroup_encode (ecp_named_group x)"
  by (rule get_encodingI) (simp only: ECParameters_encode_def Let_def codec_enc append_assoc)

interpretation ECParameters_c: codec_elem ECParameters_encode ECParameters_read ECParameters_ok "\<lambda>_. True"
proof (rule codec_elemI [OF codecI])
  show "ECParameters_encode x bs = bs @ get_encoding ECParameters_encode x" for x bs
    by (simp only: ECParameters_encode_def Let_def ECParameters_bytes codec_enc append_assoc)
  show "rspec ECParameters_read (\<lambda>x e m. ECParameters_ok x \<and> e = get_encoding ECParameters_encode x \<and> m = True)"
    unfolding ECParameters_read_def [abs_def]
    by (rule rspec_cong, (rule rspec_intros codec_read)+) (case_tac x, auto simp: ECParameters_ok_def ECParameters_bytes)
qed (auto simp: ECParameters_bytes)

lemmas ECParameters_codec [codec_enc] = ECParameters_c.enc_app
lemmas ECParameters_spec [codec_read] = ECParameters_c.read_spec

record DigitallySignedStruct =
  dss_scheme :: SignatureScheme
  dss_sig :: PayloadU16

definition DigitallySignedStruct_encode :: "DigitallySignedStruct encoder" where
  "DigitallySignedStruct_encode x bytes =
     PayloadU16_encode (dss_sig x) (SignatureScheme_encode (dss_scheme x) bytes)"

definition DigitallySignedStruct_read :: "DigitallySignedStruct reader" where
  "DigitallySignedStruct_read r =
     do {
       (scheme, r) \<leftarrow> SignatureScheme_read r;
       (sig, r) \<leftarrow> PayloadU16_read r;
       Some (\<lparr>dss_scheme = scheme, dss_sig = sig\<rparr>, r)
     }"

definition DigitallySignedStruct_ok :: "DigitallySignedStruct \<Rightarrow> bool" where
  "DigitallySignedStruct_ok x \<longleftrightarrow> SignatureScheme_ok (dss_scheme x) \<and>
     PayloadU16_ok (dss_sig x)"

lemma DigitallySignedStruct_bytes: "get_encoding DigitallySignedStruct_encode x =
    get_encoding SignatureScheme_encode (dss_scheme x) @
    get_encoding PayloadU16_encode (dss_sig x)"
  by (rule get_encodingI) (simp only: DigitallySignedStruct_encode_def Let_def codec_enc append_assoc)

interpretation DigitallySignedStruct_c: codec_elem DigitallySignedStruct_encode DigitallySignedStruct_read DigitallySignedStruct_ok "\<lambda>_. True"
proof (rule codec_elemI [OF codecI])
  show "DigitallySignedStruct_encode x bs = bs @ get_encoding DigitallySignedStruct_encode x" for x bs
    by (simp only: DigitallySignedStruct_encode_def Let_def DigitallySignedStruct_bytes codec_enc append_assoc)
  show "rspec DigitallySignedStruct_read (\<lambda>x e m. DigitallySignedStruct_ok x \<and> e = get_encoding DigitallySignedStruct_encode x \<and> m = True)"
    unfolding DigitallySignedStruct_read_def [abs_def]
    by (rule rspec_cong, (rule rspec_intros codec_read)+) (case_tac x, auto simp: DigitallySignedStruct_ok_def DigitallySignedStruct_bytes)
qed (auto simp: DigitallySignedStruct_bytes)

lemmas DigitallySignedStruct_codec [codec_enc] = DigitallySignedStruct_c.enc_app
lemmas DigitallySignedStruct_spec [codec_read] = DigitallySignedStruct_c.read_spec

definition DigitallySignedStruct_new :: "SignatureScheme \<Rightarrow> bytes \<Rightarrow> DigitallySignedStruct" where
  "DigitallySignedStruct_new scheme sig = \<lparr>dss_scheme = scheme, dss_sig = PayloadU16 sig\<rparr>"

record ClientECDHParams =
  cep_public :: PayloadU8

definition ClientECDHParams_encode :: "ClientECDHParams encoder" where
  "ClientECDHParams_encode x bytes =
     PayloadU8_encode (cep_public x) bytes"

definition ClientECDHParams_read :: "ClientECDHParams reader" where
  "ClientECDHParams_read r =
     do {
       (public', r) \<leftarrow> PayloadU8_read r;
       Some (\<lparr>cep_public = public'\<rparr>, r)
     }"

definition ClientECDHParams_ok :: "ClientECDHParams \<Rightarrow> bool" where
  "ClientECDHParams_ok x \<longleftrightarrow> PayloadU8_ok (cep_public x)"

lemma ClientECDHParams_bytes: "get_encoding ClientECDHParams_encode x =
    get_encoding PayloadU8_encode (cep_public x)"
  by (rule get_encodingI) (simp only: ClientECDHParams_encode_def Let_def codec_enc append_assoc)

interpretation ClientECDHParams_c: codec_elem ClientECDHParams_encode ClientECDHParams_read ClientECDHParams_ok "\<lambda>_. True"
proof (rule codec_elemI [OF codecI])
  show "ClientECDHParams_encode x bs = bs @ get_encoding ClientECDHParams_encode x" for x bs
    by (simp only: ClientECDHParams_encode_def Let_def ClientECDHParams_bytes codec_enc append_assoc)
  show "rspec ClientECDHParams_read (\<lambda>x e m. ClientECDHParams_ok x \<and> e = get_encoding ClientECDHParams_encode x \<and> m = True)"
    unfolding ClientECDHParams_read_def [abs_def]
    by (rule rspec_cong, (rule rspec_intros codec_read)+) (case_tac x, auto simp: ClientECDHParams_ok_def ClientECDHParams_bytes)
qed (auto simp: ClientECDHParams_bytes)

lemmas ClientECDHParams_codec [codec_enc] = ClientECDHParams_c.enc_app
lemmas ClientECDHParams_spec [codec_read] = ClientECDHParams_c.read_spec

record ServerECDHParams =
  sep_curve_params :: ECParameters
  sep_public :: PayloadU8

definition ServerECDHParams_encode :: "ServerECDHParams encoder" where
  "ServerECDHParams_encode x bytes =
     PayloadU8_encode (sep_public x) (ECParameters_encode (sep_curve_params x) bytes)"

definition ServerECDHParams_read :: "ServerECDHParams reader" where
  "ServerECDHParams_read r =
     do {
       (curve_params, r) \<leftarrow> ECParameters_read r;
       (public', r) \<leftarrow> PayloadU8_read r;
       Some (\<lparr>sep_curve_params = curve_params, sep_public = public'\<rparr>, r)
     }"

definition ServerECDHParams_ok :: "ServerECDHParams \<Rightarrow> bool" where
  "ServerECDHParams_ok x \<longleftrightarrow> ECParameters_ok (sep_curve_params x) \<and>
     PayloadU8_ok (sep_public x)"

lemma ServerECDHParams_bytes: "get_encoding ServerECDHParams_encode x =
    get_encoding ECParameters_encode (sep_curve_params x) @
    get_encoding PayloadU8_encode (sep_public x)"
  by (rule get_encodingI) (simp only: ServerECDHParams_encode_def Let_def codec_enc append_assoc)

interpretation ServerECDHParams_c: codec_elem ServerECDHParams_encode ServerECDHParams_read ServerECDHParams_ok "\<lambda>_. True"
proof (rule codec_elemI [OF codecI])
  show "ServerECDHParams_encode x bs = bs @ get_encoding ServerECDHParams_encode x" for x bs
    by (simp only: ServerECDHParams_encode_def Let_def ServerECDHParams_bytes codec_enc append_assoc)
  show "rspec ServerECDHParams_read (\<lambda>x e m. ServerECDHParams_ok x \<and> e = get_encoding ServerECDHParams_encode x \<and> m = True)"
    unfolding ServerECDHParams_read_def [abs_def]
    by (rule rspec_cong, (rule rspec_intros codec_read)+) (case_tac x, auto simp: ServerECDHParams_ok_def ServerECDHParams_bytes)
qed (auto simp: ServerECDHParams_bytes)

lemmas ServerECDHParams_codec [codec_enc] = ServerECDHParams_c.enc_app
lemmas ServerECDHParams_spec [codec_read] = ServerECDHParams_c.read_spec

definition ServerECDHParams_new :: "NamedGroup \<Rightarrow> bytes \<Rightarrow> ServerECDHParams" where
  "ServerECDHParams_new named_group pubkey =
     \<lparr>sep_curve_params = \<lparr>ecp_curve_type = ECCurveType.NamedCurve, ecp_named_group = named_group\<rparr>,
      sep_public = PayloadU8 pubkey\<rparr>"

record ECDHEServerKeyExchange =
  ske_params :: ServerECDHParams
  ske_dss :: DigitallySignedStruct

definition ECDHEServerKeyExchange_encode :: "ECDHEServerKeyExchange encoder" where
  "ECDHEServerKeyExchange_encode x bytes =
     DigitallySignedStruct_encode (ske_dss x) (ServerECDHParams_encode (ske_params x) bytes)"

definition ECDHEServerKeyExchange_read :: "ECDHEServerKeyExchange reader" where
  "ECDHEServerKeyExchange_read r =
     do {
       (params, r) \<leftarrow> ServerECDHParams_read r;
       (dss, r) \<leftarrow> DigitallySignedStruct_read r;
       Some (\<lparr>ske_params = params, ske_dss = dss\<rparr>, r)
     }"

definition ECDHEServerKeyExchange_ok :: "ECDHEServerKeyExchange \<Rightarrow> bool" where
  "ECDHEServerKeyExchange_ok x \<longleftrightarrow> ServerECDHParams_ok (ske_params x) \<and>
     DigitallySignedStruct_ok (ske_dss x)"

lemma ECDHEServerKeyExchange_bytes: "get_encoding ECDHEServerKeyExchange_encode x =
    get_encoding ServerECDHParams_encode (ske_params x) @
    get_encoding DigitallySignedStruct_encode (ske_dss x)"
  by (rule get_encodingI) (simp only: ECDHEServerKeyExchange_encode_def Let_def codec_enc append_assoc)

interpretation ECDHEServerKeyExchange_c: codec_elem ECDHEServerKeyExchange_encode ECDHEServerKeyExchange_read ECDHEServerKeyExchange_ok "\<lambda>_. True"
proof (rule codec_elemI [OF codecI])
  show "ECDHEServerKeyExchange_encode x bs = bs @ get_encoding ECDHEServerKeyExchange_encode x" for x bs
    by (simp only: ECDHEServerKeyExchange_encode_def Let_def ECDHEServerKeyExchange_bytes codec_enc append_assoc)
  show "rspec ECDHEServerKeyExchange_read (\<lambda>x e m. ECDHEServerKeyExchange_ok x \<and> e = get_encoding ECDHEServerKeyExchange_encode x \<and> m = True)"
    unfolding ECDHEServerKeyExchange_read_def [abs_def]
    by (rule rspec_cong, (rule rspec_intros codec_read)+) (case_tac x, auto simp: ECDHEServerKeyExchange_ok_def ECDHEServerKeyExchange_bytes)
qed (auto simp: ECDHEServerKeyExchange_bytes ServerECDHParams_bytes ECParameters_bytes)

lemmas ECDHEServerKeyExchange_codec [codec_enc] = ECDHEServerKeyExchange_c.enc_app
lemmas ECDHEServerKeyExchange_spec [codec_read] = ECDHEServerKeyExchange_c.read_spec

datatype ServerKeyExchangePayload = ECDHE ECDHEServerKeyExchange | Unknown Payload

fun ServerKeyExchangePayload_encode :: "ServerKeyExchangePayload encoder" where
  "ServerKeyExchangePayload_encode (ServerKeyExchangePayload.ECDHE x) bytes =
     ECDHEServerKeyExchange_encode x bytes"
| "ServerKeyExchangePayload_encode (ServerKeyExchangePayload.Unknown x) bytes = Payload_encode x bytes"

definition ServerKeyExchangePayload_read :: "ServerKeyExchangePayload reader" where
  "ServerKeyExchangePayload_read r =
     do { (p, r) \<leftarrow> Payload_read r; Some (ServerKeyExchangePayload.Unknown p, r) }"

text \<open>
  In \<open>unwrap_given_kxa\<close> the reader is only at the end when the parameters were read completely; with
  another algorithm, or a failed read, the result is \<open>None\<close> in any case.
\<close>

definition unwrap_given_kxa ::
    "ServerKeyExchangePayload \<Rightarrow> KeyExchangeAlgorithm \<Rightarrow> ECDHEServerKeyExchange option" where
  "unwrap_given_kxa x kxa =
     (case x of
        ServerKeyExchangePayload.Unknown unk \<Rightarrow>
          (let rd = Reader_init (payload_bytes unk) in
           case (case kxa of KeyExchangeAlgorithm.ECDHE \<Rightarrow> ECDHEServerKeyExchange_read rd | _ \<Rightarrow> None) of
             Some (result, rd) \<Rightarrow> if \<not> Reader_any_left rd then Some result else None
           | None \<Rightarrow> None)
      | _ \<Rightarrow> None)"

lemma ServerKeyExchangePayload_spec [codec_read]: "rspec ServerKeyExchangePayload_read
    (\<lambda>x e m. (\<exists>p. x = ServerKeyExchangePayload.Unknown p \<and> e = payload_bytes p) \<and> m = False)"
  unfolding ServerKeyExchangePayload_read_def [abs_def]
  by (rule rspec_cong, (rule rspec_intros codec_read)+) auto

lemma unwrap_given_kxa_iff:
  "unwrap_given_kxa (ServerKeyExchangePayload.Unknown p) kxa = Some k \<longleftrightarrow>
     kxa = KeyExchangeAlgorithm.ECDHE \<and> ECDHEServerKeyExchange_ok k \<and>
     payload_bytes p = get_encoding ECDHEServerKeyExchange_encode k"
  using rspec_whole [OF ECDHEServerKeyExchange_c.read_spec, of "payload_bytes p" k]
  by (cases kxa) (auto simp: unwrap_given_kxa_def Let_def split: option.splits if_splits)

section \<open>Certificate requests\<close>

abbreviation ClientCertificateTypes_encode :: "ClientCertificateType list encoder" where
  "ClientCertificateTypes_encode \<equiv> encode_vec_u8 ClientCertificateType_encode"

abbreviation ClientCertificateTypes_read :: "ClientCertificateType list reader" where
  "ClientCertificateTypes_read \<equiv> read_vec_u8 ClientCertificateType_read"

abbreviation ClientCertificateTypes_ok :: "ClientCertificateType list \<Rightarrow> bool" where
  "ClientCertificateTypes_ok \<equiv> vec_ok ClientCertificateType_encode ClientCertificateType_ok (\<lambda>_. True) 1"

interpretation ClientCertificateTypes_c: codec_elem ClientCertificateTypes_encode ClientCertificateTypes_read ClientCertificateTypes_ok "\<lambda>_. True"
  by (rule ClientCertificateType_c.vec_u8)

lemmas ClientCertificateTypes_codec [codec_enc] = ClientCertificateTypes_c.enc_app
lemmas ClientCertificateTypes_spec [codec_read] = ClientCertificateTypes_c.read_spec

record CertificateRequestPayload =
  crp_certtypes :: "ClientCertificateType list"
  crp_sigschemes :: "SignatureScheme list"
  crp_canames :: "PayloadU16 list"

definition CertificateRequestPayload_encode :: "CertificateRequestPayload encoder" where
  "CertificateRequestPayload_encode x bytes =
     (let bytes = ClientCertificateTypes_encode (crp_certtypes x) bytes;
          bytes = SupportedSignatureSchemes_encode (crp_sigschemes x) bytes
      in VecU16OfPayloadU16_encode (crp_canames x) bytes)"

definition CertificateRequestPayload_read :: "CertificateRequestPayload reader" where
  "CertificateRequestPayload_read r =
     do {
       (certtypes, r) \<leftarrow> ClientCertificateTypes_read r;
       (sigschemes, r) \<leftarrow> SupportedSignatureSchemes_read r;
       (canames, r) \<leftarrow> VecU16OfPayloadU16_read r;
       if sigschemes = [] then None
       else Some (\<lparr>crp_certtypes = certtypes, crp_sigschemes = sigschemes, crp_canames = canames\<rparr>, r)
     }"

definition CertificateRequestPayload_ok :: "CertificateRequestPayload \<Rightarrow> bool" where
  "CertificateRequestPayload_ok x \<longleftrightarrow> ClientCertificateTypes_ok (crp_certtypes x) \<and>
     SupportedSignatureSchemes_ok (crp_sigschemes x) \<and>
     VecU16OfPayloadU16_ok (crp_canames x) \<and>
     crp_sigschemes x \<noteq> []"

lemma CertificateRequestPayload_bytes: "get_encoding CertificateRequestPayload_encode x =
    get_encoding ClientCertificateTypes_encode (crp_certtypes x) @
    get_encoding SupportedSignatureSchemes_encode (crp_sigschemes x) @
    get_encoding VecU16OfPayloadU16_encode (crp_canames x)"
  by (rule get_encodingI) (simp only: CertificateRequestPayload_encode_def Let_def codec_enc append_assoc)

interpretation CertificateRequestPayload_c: codec_elem CertificateRequestPayload_encode CertificateRequestPayload_read CertificateRequestPayload_ok "\<lambda>_. True"
proof (rule codec_elemI [OF codecI])
  show "CertificateRequestPayload_encode x bs = bs @ get_encoding CertificateRequestPayload_encode x" for x bs
    by (simp only: CertificateRequestPayload_encode_def Let_def CertificateRequestPayload_bytes codec_enc append_assoc)
  show "rspec CertificateRequestPayload_read (\<lambda>x e m. CertificateRequestPayload_ok x \<and> e = get_encoding CertificateRequestPayload_encode x \<and> m = True)"
    unfolding CertificateRequestPayload_read_def [abs_def]
    by (rule rspec_cong, (rule rspec_guard rspec_intros codec_read)+) (case_tac x, auto simp: CertificateRequestPayload_ok_def CertificateRequestPayload_bytes)
qed (auto simp: CertificateRequestPayload_bytes)

lemmas CertificateRequestPayload_codec [codec_enc] = CertificateRequestPayload_c.enc_app
lemmas CertificateRequestPayload_spec [codec_read] = CertificateRequestPayload_c.read_spec

datatype CertReqExtension =
    SignatureAlgorithms "SignatureScheme list"
  | AuthorityNames "PayloadU16 list"
  | Unknown UnknownExtension

fun CertReqExtension_get_type :: "CertReqExtension \<Rightarrow> ExtensionType" where
  "CertReqExtension_get_type (CertReqExtension.SignatureAlgorithms _) = ExtensionType.SignatureAlgorithms"
| "CertReqExtension_get_type (CertReqExtension.AuthorityNames _) = ExtensionType.CertificateAuthorities"
| "CertReqExtension_get_type (CertReqExtension.Unknown r) = unk_typ r"

fun CertReqExtension_encode_sub :: "CertReqExtension encoder" where
  "CertReqExtension_encode_sub (CertReqExtension.SignatureAlgorithms r) sub = SupportedSignatureSchemes_encode r sub"
| "CertReqExtension_encode_sub (CertReqExtension.AuthorityNames r) sub = VecU16OfPayloadU16_encode r sub"
| "CertReqExtension_encode_sub (CertReqExtension.Unknown r) sub = UnknownExtension_encode r sub"

definition CertReqExtension_encode :: "CertReqExtension encoder" where
  "CertReqExtension_encode x bytes =
     (let bytes = ExtensionType_encode (CertReqExtension_get_type x) bytes;
          sub = CertReqExtension_encode_sub x []
      in u16_encode (of_nat (length sub)) bytes @ sub)"

definition CertReqExtension_read_sub :: "ExtensionType \<Rightarrow> CertReqExtension reader" where
  "CertReqExtension_read_sub ty sub =
     (case ty of
        ExtensionType.SignatureAlgorithms \<Rightarrow>
          do { (x, sub) \<leftarrow> SupportedSignatureSchemes_read sub; if x = [] then None else Some (CertReqExtension.SignatureAlgorithms x, sub) }
      | ExtensionType.CertificateAuthorities \<Rightarrow> do { (x, sub) \<leftarrow> VecU16OfPayloadU16_read sub; Some (CertReqExtension.AuthorityNames x, sub) }
      | _ \<Rightarrow> do { (u, sub) \<leftarrow> UnknownExtension_read ty sub; Some (CertReqExtension.Unknown u, sub) })"

definition CertReqExtension_read :: "CertReqExtension reader" where
  "CertReqExtension_read r =
     do {
       (ty, r) \<leftarrow> ExtensionType_read r;
       (len, r) \<leftarrow> u16_read r;
       (sub, r) \<leftarrow> Reader_sub r (unat len);
       (ext, sub) \<leftarrow> CertReqExtension_read_sub ty sub;
       if Reader_any_left sub then None else Some (ext, r)
     }"

fun CertReqExtension_body_ok :: "CertReqExtension \<Rightarrow> bool" where
  "CertReqExtension_body_ok (CertReqExtension.SignatureAlgorithms r) \<longleftrightarrow> r \<noteq> [] \<and> SupportedSignatureSchemes_ok r"
| "CertReqExtension_body_ok (CertReqExtension.AuthorityNames r) = VecU16OfPayloadU16_ok r"
| "CertReqExtension_body_ok (CertReqExtension.Unknown r) \<longleftrightarrow> unk_typ r \<notin> {ExtensionType.SignatureAlgorithms, ExtensionType.CertificateAuthorities}"

fun CertReqExtension_body_mid :: "CertReqExtension \<Rightarrow> bool" where
  "CertReqExtension_body_mid (CertReqExtension.Unknown r) = False"
| "CertReqExtension_body_mid _ = True"

abbreviation CertReqExtension_ok :: "CertReqExtension \<Rightarrow> bool" where
  "CertReqExtension_ok \<equiv> ext_ok CertReqExtension_get_type CertReqExtension_encode_sub CertReqExtension_body_ok"

lemma CertReqExtension_sub_bytes: "get_encoding CertReqExtension_encode_sub x = CertReqExtension_encode_sub x []"
  by (simp add: get_encoding_def)

lemma CertReqExtension_sub_spec: "rspec (CertReqExtension_read_sub ty)
    (\<lambda>x e m. CertReqExtension_get_type x = ty \<and> CertReqExtension_body_ok x \<and>
      e = get_encoding CertReqExtension_encode_sub x \<and> m = CertReqExtension_body_mid x)"
  unfolding CertReqExtension_read_sub_def [abs_def] CertReqExtension_sub_bytes
  apply (cases ty; simp only: ExtensionType.case; rule rspec_cong, (rule rspec_intros codec_read)+)
  apply ((rename_tac x e m, case_tac x; auto simp: codec_enc UnknownExtension_encode_def; fail) [1])+
  done

interpretation CertReqExtension_e: extension CertReqExtension_get_type CertReqExtension_encode_sub CertReqExtension_read_sub CertReqExtension_body_ok CertReqExtension_body_mid
  by unfold_locales (rule CertReqExtension_sub_spec)

lemma CertReqExtension_ext:
  "CertReqExtension_encode = ext_encode CertReqExtension_get_type CertReqExtension_encode_sub"
  "CertReqExtension_read = ext_read CertReqExtension_read_sub"
  by (intro ext, simp only: CertReqExtension_encode_def CertReqExtension_read_def ext_encode_def ext_read_def)+

interpretation CertReqExtension_c: codec_elem CertReqExtension_encode CertReqExtension_read CertReqExtension_ok "\<lambda>_. True"
  unfolding CertReqExtension_ext by (rule CertReqExtension_e.ext_codec)

lemmas CertReqExtension_codec [codec_enc] = CertReqExtension_c.enc_app
lemmas CertReqExtension_spec [codec_read] = CertReqExtension_c.read_spec

abbreviation CertReqExtensions_encode :: "CertReqExtension list encoder" where
  "CertReqExtensions_encode \<equiv> encode_vec_u16 CertReqExtension_encode"

abbreviation CertReqExtensions_read :: "CertReqExtension list reader" where
  "CertReqExtensions_read \<equiv> read_vec_u16 CertReqExtension_read"

abbreviation CertReqExtensions_ok :: "CertReqExtension list \<Rightarrow> bool" where
  "CertReqExtensions_ok \<equiv> vec_ok CertReqExtension_encode CertReqExtension_ok (\<lambda>_. True) 2"

interpretation CertReqExtensions_c: codec_elem CertReqExtensions_encode CertReqExtensions_read CertReqExtensions_ok "\<lambda>_. True"
  by (rule CertReqExtension_c.vec_u16)

lemmas CertReqExtensions_codec [codec_enc] = CertReqExtensions_c.enc_app
lemmas CertReqExtensions_spec [codec_read] = CertReqExtensions_c.read_spec

record CertificateRequestPayloadTLS13 =
  crp13_context :: PayloadU8
  crp13_extensions :: "CertReqExtension list"

definition CertificateRequestPayloadTLS13_encode :: "CertificateRequestPayloadTLS13 encoder" where
  "CertificateRequestPayloadTLS13_encode x bytes =
     CertReqExtensions_encode (crp13_extensions x) (PayloadU8_encode (crp13_context x) bytes)"

definition CertificateRequestPayloadTLS13_read :: "CertificateRequestPayloadTLS13 reader" where
  "CertificateRequestPayloadTLS13_read r =
     do {
       (context', r) \<leftarrow> PayloadU8_read r;
       (extensions, r) \<leftarrow> CertReqExtensions_read r;
       Some (\<lparr>crp13_context = context', crp13_extensions = extensions\<rparr>, r)
     }"

definition CertificateRequestPayloadTLS13_ok :: "CertificateRequestPayloadTLS13 \<Rightarrow> bool" where
  "CertificateRequestPayloadTLS13_ok x \<longleftrightarrow> PayloadU8_ok (crp13_context x) \<and>
     CertReqExtensions_ok (crp13_extensions x)"

lemma CertificateRequestPayloadTLS13_bytes: "get_encoding CertificateRequestPayloadTLS13_encode x =
    get_encoding PayloadU8_encode (crp13_context x) @
    get_encoding CertReqExtensions_encode (crp13_extensions x)"
  by (rule get_encodingI) (simp only: CertificateRequestPayloadTLS13_encode_def Let_def codec_enc append_assoc)

interpretation CertificateRequestPayloadTLS13_c: codec_elem CertificateRequestPayloadTLS13_encode CertificateRequestPayloadTLS13_read CertificateRequestPayloadTLS13_ok "\<lambda>_. True"
proof (rule codec_elemI [OF codecI])
  show "CertificateRequestPayloadTLS13_encode x bs = bs @ get_encoding CertificateRequestPayloadTLS13_encode x" for x bs
    by (simp only: CertificateRequestPayloadTLS13_encode_def Let_def CertificateRequestPayloadTLS13_bytes codec_enc append_assoc)
  show "rspec CertificateRequestPayloadTLS13_read (\<lambda>x e m. CertificateRequestPayloadTLS13_ok x \<and> e = get_encoding CertificateRequestPayloadTLS13_encode x \<and> m = True)"
    unfolding CertificateRequestPayloadTLS13_read_def [abs_def]
    by (rule rspec_cong, (rule rspec_intros codec_read)+) (case_tac x, auto simp: CertificateRequestPayloadTLS13_ok_def CertificateRequestPayloadTLS13_bytes)
qed (auto simp: CertificateRequestPayloadTLS13_bytes)

lemmas CertificateRequestPayloadTLS13_codec [codec_enc] = CertificateRequestPayloadTLS13_c.enc_app
lemmas CertificateRequestPayloadTLS13_spec [codec_read] = CertificateRequestPayloadTLS13_c.read_spec

definition CertificateRequestPayloadTLS13_find_extension ::
    "CertificateRequestPayloadTLS13 \<Rightarrow> ExtensionType \<Rightarrow> CertReqExtension option" where
  "CertificateRequestPayloadTLS13_find_extension x ext =
     List.find (\<lambda>y. CertReqExtension_get_type y = ext) (crp13_extensions x)"

definition CertificateRequestPayloadTLS13_get_sigalgs_extension ::
    "CertificateRequestPayloadTLS13 \<Rightarrow> SignatureScheme list option" where
  "CertificateRequestPayloadTLS13_get_sigalgs_extension x =
     do {
       ext \<leftarrow> CertificateRequestPayloadTLS13_find_extension x ExtensionType.SignatureAlgorithms;
       case ext of CertReqExtension.SignatureAlgorithms sa \<Rightarrow> Some sa | _ \<Rightarrow> None
     }"

definition get_authorities_extension :: "CertificateRequestPayloadTLS13 \<Rightarrow> PayloadU16 list option" where
  "get_authorities_extension x =
     do {
       ext \<leftarrow> CertificateRequestPayloadTLS13_find_extension x ExtensionType.CertificateAuthorities;
       case ext of CertReqExtension.AuthorityNames an \<Rightarrow> Some an | _ \<Rightarrow> None
     }"

section \<open>Session tickets\<close>

record NewSessionTicketPayload =
  nst_lifetime_hint :: u32
  nst_ticket :: PayloadU16

definition NewSessionTicketPayload_encode :: "NewSessionTicketPayload encoder" where
  "NewSessionTicketPayload_encode x bytes =
     PayloadU16_encode (nst_ticket x) (u32_encode (nst_lifetime_hint x) bytes)"

definition NewSessionTicketPayload_read :: "NewSessionTicketPayload reader" where
  "NewSessionTicketPayload_read r =
     do {
       (lifetime_hint, r) \<leftarrow> u32_read r;
       (ticket, r) \<leftarrow> PayloadU16_read r;
       Some (\<lparr>nst_lifetime_hint = lifetime_hint, nst_ticket = ticket\<rparr>, r)
     }"

definition NewSessionTicketPayload_ok :: "NewSessionTicketPayload \<Rightarrow> bool" where
  "NewSessionTicketPayload_ok x \<longleftrightarrow> PayloadU16_ok (nst_ticket x)"

lemma NewSessionTicketPayload_bytes: "get_encoding NewSessionTicketPayload_encode x =
    get_encoding u32_encode (nst_lifetime_hint x) @
    get_encoding PayloadU16_encode (nst_ticket x)"
  by (rule get_encodingI) (simp only: NewSessionTicketPayload_encode_def Let_def codec_enc append_assoc)

interpretation NewSessionTicketPayload_c: codec_elem NewSessionTicketPayload_encode NewSessionTicketPayload_read NewSessionTicketPayload_ok "\<lambda>_. True"
proof (rule codec_elemI [OF codecI])
  show "NewSessionTicketPayload_encode x bs = bs @ get_encoding NewSessionTicketPayload_encode x" for x bs
    by (simp only: NewSessionTicketPayload_encode_def Let_def NewSessionTicketPayload_bytes codec_enc append_assoc)
  show "rspec NewSessionTicketPayload_read (\<lambda>x e m. NewSessionTicketPayload_ok x \<and> e = get_encoding NewSessionTicketPayload_encode x \<and> m = True)"
    unfolding NewSessionTicketPayload_read_def [abs_def]
    by (rule rspec_cong, (rule rspec_intros codec_read)+) (case_tac x, auto simp: NewSessionTicketPayload_ok_def NewSessionTicketPayload_bytes)
qed (auto simp: NewSessionTicketPayload_bytes)

lemmas NewSessionTicketPayload_codec [codec_enc] = NewSessionTicketPayload_c.enc_app
lemmas NewSessionTicketPayload_spec [codec_read] = NewSessionTicketPayload_c.read_spec

definition NewSessionTicketPayload_new :: "u32 \<Rightarrow> bytes \<Rightarrow> NewSessionTicketPayload" where
  "NewSessionTicketPayload_new lifetime_hint ticket =
     \<lparr>nst_lifetime_hint = lifetime_hint, nst_ticket = PayloadU16 ticket\<rparr>"

datatype NewSessionTicketExtension =
    EarlyData u32
  | Unknown UnknownExtension

fun NewSessionTicketExtension_get_type :: "NewSessionTicketExtension \<Rightarrow> ExtensionType" where
  "NewSessionTicketExtension_get_type (NewSessionTicketExtension.EarlyData _) = ExtensionType.EarlyData"
| "NewSessionTicketExtension_get_type (NewSessionTicketExtension.Unknown r) = unk_typ r"

fun NewSessionTicketExtension_encode_sub :: "NewSessionTicketExtension encoder" where
  "NewSessionTicketExtension_encode_sub (NewSessionTicketExtension.EarlyData r) sub = u32_encode r sub"
| "NewSessionTicketExtension_encode_sub (NewSessionTicketExtension.Unknown r) sub = UnknownExtension_encode r sub"

definition NewSessionTicketExtension_encode :: "NewSessionTicketExtension encoder" where
  "NewSessionTicketExtension_encode x bytes =
     (let bytes = ExtensionType_encode (NewSessionTicketExtension_get_type x) bytes;
          sub = NewSessionTicketExtension_encode_sub x []
      in u16_encode (of_nat (length sub)) bytes @ sub)"

definition NewSessionTicketExtension_read_sub :: "ExtensionType \<Rightarrow> NewSessionTicketExtension reader" where
  "NewSessionTicketExtension_read_sub ty sub =
     (case ty of
        ExtensionType.EarlyData \<Rightarrow> do { (x, sub) \<leftarrow> u32_read sub; Some (NewSessionTicketExtension.EarlyData x, sub) }
      | _ \<Rightarrow> do { (u, sub) \<leftarrow> UnknownExtension_read ty sub; Some (NewSessionTicketExtension.Unknown u, sub) })"

definition NewSessionTicketExtension_read :: "NewSessionTicketExtension reader" where
  "NewSessionTicketExtension_read r =
     do {
       (ty, r) \<leftarrow> ExtensionType_read r;
       (len, r) \<leftarrow> u16_read r;
       (sub, r) \<leftarrow> Reader_sub r (unat len);
       (ext, sub) \<leftarrow> NewSessionTicketExtension_read_sub ty sub;
       if Reader_any_left sub then None else Some (ext, r)
     }"

fun NewSessionTicketExtension_body_ok :: "NewSessionTicketExtension \<Rightarrow> bool" where
  "NewSessionTicketExtension_body_ok (NewSessionTicketExtension.EarlyData r) = True"
| "NewSessionTicketExtension_body_ok (NewSessionTicketExtension.Unknown r) \<longleftrightarrow> unk_typ r \<notin> {ExtensionType.EarlyData}"

fun NewSessionTicketExtension_body_mid :: "NewSessionTicketExtension \<Rightarrow> bool" where
  "NewSessionTicketExtension_body_mid (NewSessionTicketExtension.Unknown r) = False"
| "NewSessionTicketExtension_body_mid _ = True"

abbreviation NewSessionTicketExtension_ok :: "NewSessionTicketExtension \<Rightarrow> bool" where
  "NewSessionTicketExtension_ok \<equiv> ext_ok NewSessionTicketExtension_get_type NewSessionTicketExtension_encode_sub NewSessionTicketExtension_body_ok"

lemma NewSessionTicketExtension_sub_bytes: "get_encoding NewSessionTicketExtension_encode_sub x = NewSessionTicketExtension_encode_sub x []"
  by (simp add: get_encoding_def)

lemma NewSessionTicketExtension_sub_spec: "rspec (NewSessionTicketExtension_read_sub ty)
    (\<lambda>x e m. NewSessionTicketExtension_get_type x = ty \<and> NewSessionTicketExtension_body_ok x \<and>
      e = get_encoding NewSessionTicketExtension_encode_sub x \<and> m = NewSessionTicketExtension_body_mid x)"
  unfolding NewSessionTicketExtension_read_sub_def [abs_def] NewSessionTicketExtension_sub_bytes
  apply (cases ty; simp only: ExtensionType.case; rule rspec_cong, (rule rspec_intros codec_read)+)
  apply ((rename_tac x e m, case_tac x; auto simp: codec_enc UnknownExtension_encode_def; fail) [1])+
  done

interpretation NewSessionTicketExtension_e: extension NewSessionTicketExtension_get_type NewSessionTicketExtension_encode_sub NewSessionTicketExtension_read_sub NewSessionTicketExtension_body_ok NewSessionTicketExtension_body_mid
  by unfold_locales (rule NewSessionTicketExtension_sub_spec)

lemma NewSessionTicketExtension_ext:
  "NewSessionTicketExtension_encode = ext_encode NewSessionTicketExtension_get_type NewSessionTicketExtension_encode_sub"
  "NewSessionTicketExtension_read = ext_read NewSessionTicketExtension_read_sub"
  by (intro ext, simp only: NewSessionTicketExtension_encode_def NewSessionTicketExtension_read_def ext_encode_def ext_read_def)+

interpretation NewSessionTicketExtension_c: codec_elem NewSessionTicketExtension_encode NewSessionTicketExtension_read NewSessionTicketExtension_ok "\<lambda>_. True"
  unfolding NewSessionTicketExtension_ext by (rule NewSessionTicketExtension_e.ext_codec)

lemmas NewSessionTicketExtension_codec [codec_enc] = NewSessionTicketExtension_c.enc_app
lemmas NewSessionTicketExtension_spec [codec_read] = NewSessionTicketExtension_c.read_spec

abbreviation NewSessionTicketExtensions_encode :: "NewSessionTicketExtension list encoder" where
  "NewSessionTicketExtensions_encode \<equiv> encode_vec_u16 NewSessionTicketExtension_encode"

abbreviation NewSessionTicketExtensions_read :: "NewSessionTicketExtension list reader" where
  "NewSessionTicketExtensions_read \<equiv> read_vec_u16 NewSessionTicketExtension_read"

abbreviation NewSessionTicketExtensions_ok :: "NewSessionTicketExtension list \<Rightarrow> bool" where
  "NewSessionTicketExtensions_ok \<equiv> vec_ok NewSessionTicketExtension_encode NewSessionTicketExtension_ok (\<lambda>_. True) 2"

interpretation NewSessionTicketExtensions_c: codec_elem NewSessionTicketExtensions_encode NewSessionTicketExtensions_read NewSessionTicketExtensions_ok "\<lambda>_. True"
  by (rule NewSessionTicketExtension_c.vec_u16)

lemmas NewSessionTicketExtensions_codec [codec_enc] = NewSessionTicketExtensions_c.enc_app
lemmas NewSessionTicketExtensions_spec [codec_read] = NewSessionTicketExtensions_c.read_spec

record NewSessionTicketPayloadTLS13 =
  nst13_lifetime :: u32
  nst13_age_add :: u32
  nst13_nonce :: PayloadU8
  nst13_ticket :: PayloadU16
  nst13_exts :: "NewSessionTicketExtension list"

definition NewSessionTicketPayloadTLS13_encode :: "NewSessionTicketPayloadTLS13 encoder" where
  "NewSessionTicketPayloadTLS13_encode x bytes =
     (let bytes = u32_encode (nst13_lifetime x) bytes;
          bytes = u32_encode (nst13_age_add x) bytes;
          bytes = PayloadU8_encode (nst13_nonce x) bytes;
          bytes = PayloadU16_encode (nst13_ticket x) bytes
      in NewSessionTicketExtensions_encode (nst13_exts x) bytes)"

definition NewSessionTicketPayloadTLS13_read :: "NewSessionTicketPayloadTLS13 reader" where
  "NewSessionTicketPayloadTLS13_read r =
     do {
       (lifetime, r) \<leftarrow> u32_read r;
       (age_add, r) \<leftarrow> u32_read r;
       (nonce, r) \<leftarrow> PayloadU8_read r;
       (ticket, r) \<leftarrow> PayloadU16_read r;
       (exts, r) \<leftarrow> NewSessionTicketExtensions_read r;
       Some (\<lparr>nst13_lifetime = lifetime, nst13_age_add = age_add, nst13_nonce = nonce, nst13_ticket = ticket, nst13_exts = exts\<rparr>, r)
     }"

definition NewSessionTicketPayloadTLS13_ok :: "NewSessionTicketPayloadTLS13 \<Rightarrow> bool" where
  "NewSessionTicketPayloadTLS13_ok x \<longleftrightarrow> PayloadU8_ok (nst13_nonce x) \<and>
     PayloadU16_ok (nst13_ticket x) \<and>
     NewSessionTicketExtensions_ok (nst13_exts x)"

lemma NewSessionTicketPayloadTLS13_bytes: "get_encoding NewSessionTicketPayloadTLS13_encode x =
    get_encoding u32_encode (nst13_lifetime x) @
    get_encoding u32_encode (nst13_age_add x) @
    get_encoding PayloadU8_encode (nst13_nonce x) @
    get_encoding PayloadU16_encode (nst13_ticket x) @
    get_encoding NewSessionTicketExtensions_encode (nst13_exts x)"
  by (rule get_encodingI) (simp only: NewSessionTicketPayloadTLS13_encode_def Let_def codec_enc append_assoc)

interpretation NewSessionTicketPayloadTLS13_c: codec_elem NewSessionTicketPayloadTLS13_encode NewSessionTicketPayloadTLS13_read NewSessionTicketPayloadTLS13_ok "\<lambda>_. True"
proof (rule codec_elemI [OF codecI])
  show "NewSessionTicketPayloadTLS13_encode x bs = bs @ get_encoding NewSessionTicketPayloadTLS13_encode x" for x bs
    by (simp only: NewSessionTicketPayloadTLS13_encode_def Let_def NewSessionTicketPayloadTLS13_bytes codec_enc append_assoc)
  show "rspec NewSessionTicketPayloadTLS13_read (\<lambda>x e m. NewSessionTicketPayloadTLS13_ok x \<and> e = get_encoding NewSessionTicketPayloadTLS13_encode x \<and> m = True)"
    unfolding NewSessionTicketPayloadTLS13_read_def [abs_def]
    by (rule rspec_cong, (rule rspec_intros codec_read)+) (case_tac x, auto simp: NewSessionTicketPayloadTLS13_ok_def NewSessionTicketPayloadTLS13_bytes)
qed (auto simp: NewSessionTicketPayloadTLS13_bytes)

lemmas NewSessionTicketPayloadTLS13_codec [codec_enc] = NewSessionTicketPayloadTLS13_c.enc_app
lemmas NewSessionTicketPayloadTLS13_spec [codec_read] = NewSessionTicketPayloadTLS13_c.read_spec

definition NewSessionTicketPayloadTLS13_new ::
    "u32 \<Rightarrow> u32 \<Rightarrow> bytes \<Rightarrow> bytes \<Rightarrow> NewSessionTicketPayloadTLS13" where
  "NewSessionTicketPayloadTLS13_new lifetime age_add nonce ticket =
     \<lparr>nst13_lifetime = lifetime, nst13_age_add = age_add, nst13_nonce = PayloadU8 nonce,
      nst13_ticket = PayloadU16 ticket, nst13_exts = []\<rparr>"

definition NewSessionTicketPayloadTLS13_has_duplicate_extension :: "NewSessionTicketPayloadTLS13 \<Rightarrow> bool" where
  "NewSessionTicketPayloadTLS13_has_duplicate_extension x =
     has_duplicate
       (map (\<lambda>ext. ExtensionType_get_u16 (NewSessionTicketExtension_get_type ext)) (nst13_exts x)) {}"

definition NewSessionTicketPayloadTLS13_find_extension ::
    "NewSessionTicketPayloadTLS13 \<Rightarrow> ExtensionType \<Rightarrow> NewSessionTicketExtension option" where
  "NewSessionTicketPayloadTLS13_find_extension x ext =
     List.find (\<lambda>y. NewSessionTicketExtension_get_type y = ext) (nst13_exts x)"

definition get_max_early_data_size :: "NewSessionTicketPayloadTLS13 \<Rightarrow> u32 option" where
  "get_max_early_data_size x =
     do {
       ext \<leftarrow> NewSessionTicketPayloadTLS13_find_extension x ExtensionType.EarlyData;
       case ext of NewSessionTicketExtension.EarlyData sz \<Rightarrow> Some sz | _ \<Rightarrow> None
     }"

end
