(* ===== verification/Handshake.thy ===== *)
theory Handshake
  imports Hs_Cert
begin

text \<open>
  Handshake messages, after the last part of \<open>crates/tls/core/src/msgs/handshake.rs\<close>: a type, a length
  of three bytes and a payload that depends on the type and, for certificates, certificate requests and
  session tickets, on the protocol version.
\<close>

section \<open>Payloads\<close>

datatype HandshakePayload =
    HelloRequest
  | ClientHello ClientHelloPayload
  | ServerHello ServerHelloPayload
  | HelloRetryRequest HelloRetryRequest
  | Certificate "Certificate list"
  | CertificateTLS13 CertificatePayloadTLS13
  | ServerKeyExchange ServerKeyExchangePayload
  | CertificateRequest CertificateRequestPayload
  | CertificateRequestTLS13 CertificateRequestPayloadTLS13
  | CertificateVerify DigitallySignedStruct
  | ServerHelloDone
  | EndOfEarlyData
  | ClientKeyExchange Payload
  | NewSessionTicket NewSessionTicketPayload
  | NewSessionTicketTLS13 NewSessionTicketPayloadTLS13
  | EncryptedExtensions "ServerExtension list"
  | KeyUpdate KeyUpdateRequest
  | Finished Payload
  | CertificateStatus CertificateStatus
  | MessageHash Payload
  | Unknown Payload

fun HandshakePayload_encode :: "HandshakePayload encoder" where
  "HandshakePayload_encode HandshakePayload.HelloRequest bytes = bytes"
| "HandshakePayload_encode (HandshakePayload.ClientHello x) bytes = ClientHelloPayload_encode x bytes"
| "HandshakePayload_encode (HandshakePayload.ServerHello x) bytes = ServerHelloPayload_encode x bytes"
| "HandshakePayload_encode (HandshakePayload.HelloRetryRequest x) bytes = HelloRetryRequest_encode x bytes"
| "HandshakePayload_encode (HandshakePayload.Certificate x) bytes = CertificatePayload_encode x bytes"
| "HandshakePayload_encode (HandshakePayload.CertificateTLS13 x) bytes = CertificatePayloadTLS13_encode x bytes"
| "HandshakePayload_encode (HandshakePayload.ServerKeyExchange x) bytes = ServerKeyExchangePayload_encode x bytes"
| "HandshakePayload_encode (HandshakePayload.CertificateRequest x) bytes = CertificateRequestPayload_encode x bytes"
| "HandshakePayload_encode (HandshakePayload.CertificateRequestTLS13 x) bytes = CertificateRequestPayloadTLS13_encode x bytes"
| "HandshakePayload_encode (HandshakePayload.CertificateVerify x) bytes = DigitallySignedStruct_encode x bytes"
| "HandshakePayload_encode HandshakePayload.ServerHelloDone bytes = bytes"
| "HandshakePayload_encode HandshakePayload.EndOfEarlyData bytes = bytes"
| "HandshakePayload_encode (HandshakePayload.ClientKeyExchange x) bytes = Payload_encode x bytes"
| "HandshakePayload_encode (HandshakePayload.NewSessionTicket x) bytes = NewSessionTicketPayload_encode x bytes"
| "HandshakePayload_encode (HandshakePayload.NewSessionTicketTLS13 x) bytes = NewSessionTicketPayloadTLS13_encode x bytes"
| "HandshakePayload_encode (HandshakePayload.EncryptedExtensions x) bytes = EncryptedExtensions_encode x bytes"
| "HandshakePayload_encode (HandshakePayload.KeyUpdate x) bytes = KeyUpdateRequest_encode x bytes"
| "HandshakePayload_encode (HandshakePayload.Finished x) bytes = Payload_encode x bytes"
| "HandshakePayload_encode (HandshakePayload.CertificateStatus x) bytes = CertificateStatus_encode x bytes"
| "HandshakePayload_encode (HandshakePayload.MessageHash x) bytes = Payload_encode x bytes"
| "HandshakePayload_encode (HandshakePayload.Unknown x) bytes = Payload_encode x bytes"

section \<open>Messages\<close>

record HandshakeMessagePayload =
  hmp_typ :: HandshakeType
  hmp_payload :: HandshakePayload

definition HandshakeMessagePayload_encode :: "HandshakeMessagePayload encoder" where
  "HandshakeMessagePayload_encode x bytes =
     (let sub = HandshakePayload_encode (hmp_payload x) [];
          bytes = HandshakeType_encode
            (if hmp_typ x = HandshakeType.HelloRetryRequest then HandshakeType.ServerHello else hmp_typ x) bytes
      in u24_encode (u24 (of_nat (length sub))) bytes @ sub)"

text \<open>
  The match on the message type in \<open>read_version\<close>.  The branch for \<open>ServerHello\<close> may change the type,
  so that each branch gives the type with the payload.
\<close>

definition read_server_hello :: "HandshakeMessagePayload reader" where
  "read_server_hello sub =
     do {
       (version, sub) \<leftarrow> ProtocolVersion_read sub;
       (random, sub) \<leftarrow> Random_read sub;
       if random = HELLO_RETRY_REQUEST_RANDOM
       then do {
         (hrr, sub) \<leftarrow> HelloRetryRequest_read sub;
         Some (\<lparr>hmp_typ = HandshakeType.HelloRetryRequest,
                hmp_payload = HandshakePayload.HelloRetryRequest (hrr\<lparr>hrr_legacy_version := version\<rparr>)\<rparr>, sub)
       }
       else do {
         (shp, sub) \<leftarrow> ServerHelloPayload_read sub;
         Some (\<lparr>hmp_typ = HandshakeType.ServerHello,
                hmp_payload = HandshakePayload.ServerHello
                  (shp\<lparr>shp_legacy_version := version, shp_random := random\<rparr>)\<rparr>, sub)
       }
     }"

definition HandshakePayload_read ::
    "(bytes \<Rightarrow> bool) \<Rightarrow> ProtocolVersion \<Rightarrow> HandshakeType \<Rightarrow> HandshakeMessagePayload reader" where
  "HandshakePayload_read valid_dns vers ty sub =
     (let ret = (\<lambda>p. \<lparr>hmp_typ = ty, hmp_payload = p\<rparr>);
          unknown = (\<lambda>sub. do { (x, sub) \<leftarrow> Payload_read sub; Some (ret (HandshakePayload.Unknown x), sub) })
      in case ty of
        HandshakeType.HelloRequest \<Rightarrow>
          (if Reader_left sub = 0 then Some (ret HandshakePayload.HelloRequest, sub) else unknown sub)
      | HandshakeType.ClientHello \<Rightarrow>
          do { (x, sub) \<leftarrow> ClientHelloPayload_read valid_dns sub; Some (ret (HandshakePayload.ClientHello x), sub) }
      | HandshakeType.ServerHello \<Rightarrow> read_server_hello sub
      | HandshakeType.Certificate \<Rightarrow>
          (if vers = ProtocolVersion.TLSv1_3
           then do { (p, sub) \<leftarrow> CertificatePayloadTLS13_read sub;
                     Some (ret (HandshakePayload.CertificateTLS13 p), sub) }
           else do { (p, sub) \<leftarrow> CertificatePayload_read sub; Some (ret (HandshakePayload.Certificate p), sub) })
      | HandshakeType.ServerKeyExchange \<Rightarrow>
          do { (p, sub) \<leftarrow> ServerKeyExchangePayload_read sub;
               Some (ret (HandshakePayload.ServerKeyExchange p), sub) }
      | HandshakeType.ServerHelloDone \<Rightarrow>
          (if Reader_any_left sub then None else Some (ret HandshakePayload.ServerHelloDone, sub))
      | HandshakeType.ClientKeyExchange \<Rightarrow>
          do { (x, sub) \<leftarrow> Payload_read sub; Some (ret (HandshakePayload.ClientKeyExchange x), sub) }
      | HandshakeType.CertificateRequest \<Rightarrow>
          (if vers = ProtocolVersion.TLSv1_3
           then do { (p, sub) \<leftarrow> CertificateRequestPayloadTLS13_read sub;
                     Some (ret (HandshakePayload.CertificateRequestTLS13 p), sub) }
           else do { (p, sub) \<leftarrow> CertificateRequestPayload_read sub;
                     Some (ret (HandshakePayload.CertificateRequest p), sub) })
      | HandshakeType.CertificateVerify \<Rightarrow>
          do { (x, sub) \<leftarrow> DigitallySignedStruct_read sub; Some (ret (HandshakePayload.CertificateVerify x), sub) }
      | HandshakeType.NewSessionTicket \<Rightarrow>
          (if vers = ProtocolVersion.TLSv1_3
           then do { (p, sub) \<leftarrow> NewSessionTicketPayloadTLS13_read sub;
                     Some (ret (HandshakePayload.NewSessionTicketTLS13 p), sub) }
           else do { (p, sub) \<leftarrow> NewSessionTicketPayload_read sub;
                     Some (ret (HandshakePayload.NewSessionTicket p), sub) })
      | HandshakeType.EncryptedExtensions \<Rightarrow>
          do { (x, sub) \<leftarrow> EncryptedExtensions_read sub; Some (ret (HandshakePayload.EncryptedExtensions x), sub) }
      | HandshakeType.KeyUpdate \<Rightarrow>
          do { (x, sub) \<leftarrow> KeyUpdateRequest_read sub; Some (ret (HandshakePayload.KeyUpdate x), sub) }
      | HandshakeType.EndOfEarlyData \<Rightarrow>
          (if Reader_any_left sub then None else Some (ret HandshakePayload.EndOfEarlyData, sub))
      | HandshakeType.Finished \<Rightarrow>
          do { (x, sub) \<leftarrow> Payload_read sub; Some (ret (HandshakePayload.Finished x), sub) }
      | HandshakeType.CertificateStatus \<Rightarrow>
          do { (x, sub) \<leftarrow> CertificateStatus_read sub; Some (ret (HandshakePayload.CertificateStatus x), sub) }
      | HandshakeType.MessageHash \<Rightarrow> None
      | HandshakeType.HelloRetryRequest \<Rightarrow> None
      | _ \<Rightarrow> unknown sub)"

definition HandshakeMessagePayload_read_version ::
    "(bytes \<Rightarrow> bool) \<Rightarrow> ProtocolVersion \<Rightarrow> HandshakeMessagePayload reader" where
  "HandshakeMessagePayload_read_version valid_dns vers r =
     do {
       (ty, r) \<leftarrow> HandshakeType_read r;
       (len, r) \<leftarrow> u24_read r;
       (sub, r) \<leftarrow> Reader_sub r (unat (u24_val len));
       (msg, sub) \<leftarrow> HandshakePayload_read valid_dns vers ty sub;
       if Reader_any_left sub then None else Some (msg, r)
     }"

definition HandshakeMessagePayload_read :: "(bytes \<Rightarrow> bool) \<Rightarrow> HandshakeMessagePayload reader" where
  "HandshakeMessagePayload_read valid_dns r =
     HandshakeMessagePayload_read_version valid_dns ProtocolVersion.TLSv1_2 r"

definition build_key_update_notify :: HandshakeMessagePayload where
  "build_key_update_notify = \<lparr>hmp_typ = HandshakeType.KeyUpdate,
     hmp_payload = HandshakePayload.KeyUpdate KeyUpdateRequest.UpdateNotRequested\<rparr>"

definition get_encoding_for_binder_signing :: "HandshakeMessagePayload \<Rightarrow> bytes" where
  "get_encoding_for_binder_signing x =
     (let ret = get_encoding HandshakeMessagePayload_encode x;
          binder_len = (case hmp_payload x of
            HandshakePayload.ClientHello ch \<Rightarrow>
              (if chp_extensions ch = [] then 0
               else case last (chp_extensions ch) of
                 ClientExtension.PresharedKey offer \<Rightarrow>
                   length (VecU16OfPayloadU8_encode (pko_binders offer) [])
               | _ \<Rightarrow> 0)
          | _ \<Rightarrow> 0);
          ret_len = length ret - binder_len
      in take ret_len ret)"

definition build_handshake_hash :: "bytes \<Rightarrow> HandshakeMessagePayload" where
  "build_handshake_hash hash = \<lparr>hmp_typ = HandshakeType.MessageHash,
     hmp_payload = HandshakePayload.MessageHash (Payload hash)\<rparr>"

section \<open>Well-formed messages\<close>

text \<open>
  The messages that can be read: the payload belongs to the type and, where there are two encodings, to
  the version, and is well-formed itself.  A payload of unknown structure is one of a type the reader does
  not handle.
\<close>

definition unhandled_type :: "HandshakeType \<Rightarrow> bool" where
  "unhandled_type ty \<longleftrightarrow> (case ty of HandshakeType.HelloVerifyRequest \<Rightarrow> True
     | HandshakeType.CertificateURL \<Rightarrow> True | HandshakeType.Unknown _ \<Rightarrow> True | _ \<Rightarrow> False)"

fun HandshakePayload_ok ::
    "(bytes \<Rightarrow> bool) \<Rightarrow> ProtocolVersion \<Rightarrow> HandshakeType \<Rightarrow> HandshakePayload \<Rightarrow> bool" where
  "HandshakePayload_ok V vers ty HandshakePayload.HelloRequest \<longleftrightarrow> ty = HandshakeType.HelloRequest"
| "HandshakePayload_ok V vers ty (HandshakePayload.ClientHello x) \<longleftrightarrow>
     ty = HandshakeType.ClientHello \<and> ClientHelloPayload_ok V x"
| "HandshakePayload_ok V vers ty (HandshakePayload.ServerHello x) \<longleftrightarrow>
     ty = HandshakeType.ServerHello \<and> ServerHelloPayload_ok x"
| "HandshakePayload_ok V vers ty (HandshakePayload.HelloRetryRequest x) \<longleftrightarrow>
     ty = HandshakeType.HelloRetryRequest \<and> HelloRetryRequest_ok x"
| "HandshakePayload_ok V vers ty (HandshakePayload.Certificate x) \<longleftrightarrow>
     ty = HandshakeType.Certificate \<and> vers \<noteq> ProtocolVersion.TLSv1_3 \<and> CertificatePayload_ok x"
| "HandshakePayload_ok V vers ty (HandshakePayload.CertificateTLS13 x) \<longleftrightarrow>
     ty = HandshakeType.Certificate \<and> vers = ProtocolVersion.TLSv1_3 \<and> CertificatePayloadTLS13_ok x"
| "HandshakePayload_ok V vers ty (HandshakePayload.ServerKeyExchange x) \<longleftrightarrow>
     ty = HandshakeType.ServerKeyExchange \<and> (case x of ServerKeyExchangePayload.Unknown _ \<Rightarrow> True | _ \<Rightarrow> False)"
| "HandshakePayload_ok V vers ty (HandshakePayload.CertificateRequest x) \<longleftrightarrow>
     ty = HandshakeType.CertificateRequest \<and> vers \<noteq> ProtocolVersion.TLSv1_3 \<and> CertificateRequestPayload_ok x"
| "HandshakePayload_ok V vers ty (HandshakePayload.CertificateRequestTLS13 x) \<longleftrightarrow>
     ty = HandshakeType.CertificateRequest \<and> vers = ProtocolVersion.TLSv1_3 \<and> CertificateRequestPayloadTLS13_ok x"
| "HandshakePayload_ok V vers ty (HandshakePayload.CertificateVerify x) \<longleftrightarrow>
     ty = HandshakeType.CertificateVerify \<and> DigitallySignedStruct_ok x"
| "HandshakePayload_ok V vers ty HandshakePayload.ServerHelloDone \<longleftrightarrow> ty = HandshakeType.ServerHelloDone"
| "HandshakePayload_ok V vers ty HandshakePayload.EndOfEarlyData \<longleftrightarrow> ty = HandshakeType.EndOfEarlyData"
| "HandshakePayload_ok V vers ty (HandshakePayload.ClientKeyExchange x) \<longleftrightarrow> ty = HandshakeType.ClientKeyExchange"
| "HandshakePayload_ok V vers ty (HandshakePayload.NewSessionTicket x) \<longleftrightarrow>
     ty = HandshakeType.NewSessionTicket \<and> vers \<noteq> ProtocolVersion.TLSv1_3 \<and> NewSessionTicketPayload_ok x"
| "HandshakePayload_ok V vers ty (HandshakePayload.NewSessionTicketTLS13 x) \<longleftrightarrow>
     ty = HandshakeType.NewSessionTicket \<and> vers = ProtocolVersion.TLSv1_3 \<and> NewSessionTicketPayloadTLS13_ok x"
| "HandshakePayload_ok V vers ty (HandshakePayload.EncryptedExtensions x) \<longleftrightarrow>
     ty = HandshakeType.EncryptedExtensions \<and> EncryptedExtensions_ok x"
| "HandshakePayload_ok V vers ty (HandshakePayload.KeyUpdate x) \<longleftrightarrow>
     ty = HandshakeType.KeyUpdate \<and> KeyUpdateRequest_ok x"
| "HandshakePayload_ok V vers ty (HandshakePayload.Finished x) \<longleftrightarrow> ty = HandshakeType.Finished"
| "HandshakePayload_ok V vers ty (HandshakePayload.CertificateStatus x) \<longleftrightarrow>
     ty = HandshakeType.CertificateStatus \<and> CertificateStatus_ok x"
| "HandshakePayload_ok V vers ty (HandshakePayload.MessageHash x) \<longleftrightarrow> False"
| "HandshakePayload_ok V vers ty (HandshakePayload.Unknown x) \<longleftrightarrow>
     unhandled_type ty \<or> ty = HandshakeType.HelloRequest \<and> payload_bytes x \<noteq> []"

definition HandshakeMessagePayload_ok ::
    "(bytes \<Rightarrow> bool) \<Rightarrow> ProtocolVersion \<Rightarrow> HandshakeMessagePayload \<Rightarrow> bool" where
  "HandshakeMessagePayload_ok V vers x \<longleftrightarrow> HandshakeType_ok (hmp_typ x) \<and>
     HandshakePayload_ok V vers (hmp_typ x) (hmp_payload x) \<and>
     length (get_encoding HandshakePayload_encode (hmp_payload x)) < 256 ^ 3"

section \<open>The codec\<close>

lemmas ClientHelloPayload_codec [codec_enc] = ClientHelloPayload_c.enc_app
lemmas ClientHelloPayload_spec [codec_read] = ClientHelloPayload_c.read_spec

definition wire_type :: "HandshakeType \<Rightarrow> HandshakeType" where
  "wire_type ty = (if ty = HandshakeType.HelloRetryRequest then HandshakeType.ServerHello else ty)"

definition body_spec ::
    "(bytes \<Rightarrow> bool) \<Rightarrow> ProtocolVersion \<Rightarrow> HandshakeType \<Rightarrow> HandshakeMessagePayload \<Rightarrow> bytes \<Rightarrow> bool" where
  "body_spec V vers ty x e \<longleftrightarrow> wire_type (hmp_typ x) = ty \<and> HandshakePayload_ok V vers (hmp_typ x) (hmp_payload x) \<and>
     e = HandshakePayload_encode (hmp_payload x) []"

lemma left_0_iff: "Reader_left r = 0 \<longleftrightarrow> \<not> Reader_any_left r"
  by (auto simp: Reader_left_def Reader_any_left_def)

lemma if_not: "(if \<not> b then x else y) = (if b then y else x)"
  by simp

lemma rspec_ex: "rspec rd S \<Longrightarrow> (\<And>x e. (\<exists>m. S x e m) \<longleftrightarrow> T x e) \<Longrightarrow> \<exists>S. rspec rd S \<and> (\<forall>x e. (\<exists>m. S x e m) \<longleftrightarrow> T x e)"
  by blast

lemma HELLO_RETRY_REQUEST_RANDOM_ok: "Random_ok HELLO_RETRY_REQUEST_RANDOM"
  by (simp add: Random_ok_def HELLO_RETRY_REQUEST_RANDOM_def)

text \<open>The two payloads with the version and the random value put in afterwards.\<close>

lemma tail_update [simp]:
  "ServerHelloPayload_tail (q\<lparr>shp_legacy_version := v, shp_random := rd\<rparr>) = ServerHelloPayload_tail q"
  "HelloRetryRequest_tail (h\<lparr>hrr_legacy_version := v\<rparr>) = HelloRetryRequest_tail h"
  by (simp_all add: ServerHelloPayload_tail_def HelloRetryRequest_tail_def)

lemma ServerHelloPayload_update_spec:
  "rspec (\<lambda>r. ServerHelloPayload_read r \<bind> (\<lambda>(q, r). Some (c (q\<lparr>shp_legacy_version := v, shp_random := rd\<rparr>), r)))
    (\<lambda>x e m. \<exists>p. x = c p \<and> shp_legacy_version p = v \<and> shp_random p = rd \<and>
      SessionID_ok (shp_session_id p) \<and> CipherSuite_ok (shp_cipher_suite p) \<and>
      Compression_ok (shp_compression_method p) \<and> EncryptedExtensions_ok (shp_extensions p) \<and>
      e = ServerHelloPayload_tail p \<and> m = False)"
  apply (rule rspec_cong, (rule rspec_intros codec_read)+)
  subgoal for x e m
  proof (rule iffI, goal_cases)
    case 2
    then obtain p where "x = c p" "shp_legacy_version p = v" "shp_random p = rd"
      "SessionID_ok (shp_session_id p)" "CipherSuite_ok (shp_cipher_suite p)"
      "Compression_ok (shp_compression_method p)" "EncryptedExtensions_ok (shp_extensions p)"
      "e = ServerHelloPayload_tail p" "m = False" by blast
    then show ?case
      by (intro exI [of _ "p\<lparr>shp_legacy_version := ProtocolVersion.Unknown 0, shp_random := ZERO_RANDOM\<rparr>"])
        auto
  qed auto
  done

lemma HelloRetryRequest_update_spec:
  "rspec (\<lambda>r. HelloRetryRequest_read r \<bind> (\<lambda>(q, r). Some (c (q\<lparr>hrr_legacy_version := v\<rparr>), r)))
    (\<lambda>x e m. \<exists>p. x = c p \<and> hrr_legacy_version p = v \<and> SessionID_ok (hrr_session_id p) \<and>
      CipherSuite_ok (hrr_cipher_suite p) \<and> HelloRetryExtensions_ok (hrr_extensions p) \<and>
      e = HelloRetryRequest_tail p \<and> m = True)"
  apply (rule rspec_cong, (rule rspec_intros codec_read)+)
  subgoal for x e m
  proof (rule iffI, goal_cases)
    case 2
    then obtain p where "x = c p" "hrr_legacy_version p = v" "SessionID_ok (hrr_session_id p)"
      "CipherSuite_ok (hrr_cipher_suite p)" "HelloRetryExtensions_ok (hrr_extensions p)"
      "e = HelloRetryRequest_tail p" "m = True" by blast
    then show ?case
      by (intro exI [of _ "p\<lparr>hrr_legacy_version := ProtocolVersion.Unknown 0\<rparr>"]) auto
  qed auto
  done

lemma read_server_hello_spec: "rspec read_server_hello (\<lambda>x e m.
    (\<exists>p. x = \<lparr>hmp_typ = HandshakeType.ServerHello, hmp_payload = HandshakePayload.ServerHello p\<rparr> \<and>
      ServerHelloPayload_ok p \<and> e = ServerHelloPayload_encode p [] \<and> m = False) \<or>
    (\<exists>p. x = \<lparr>hmp_typ = HandshakeType.HelloRetryRequest, hmp_payload = HandshakePayload.HelloRetryRequest p\<rparr> \<and>
      HelloRetryRequest_ok p \<and> e = HelloRetryRequest_encode p [] \<and> m = True))"
  unfolding read_server_hello_def [abs_def]
  by (rule rspec_cong, (rule HelloRetryRequest_update_spec ServerHelloPayload_update_spec rspec_bind rspec_if codec_read)+)
    (auto simp: HELLO_RETRY_REQUEST_RANDOM_ok ServerHelloPayload_ok_def HelloRetryRequest_ok_def
      ServerHelloPayload_app HelloRetryRequest_app split: if_splits, blast)

lemma HandshakePayload_spec:
  "\<exists>S. rspec (HandshakePayload_read V vers ty) S \<and> (\<forall>x e. (\<exists>m. S x e m) \<longleftrightarrow> body_spec V vers ty x e)"
  unfolding HandshakePayload_read_def [abs_def] Let_def left_0_iff if_not
  apply (cases ty; simp only: HandshakeType.case; rule rspec_ex, (rule rspec_intros codec_read rspec_any_left rspec_end read_server_hello_spec)+)
  apply ((auto; fail) [1] | (case_tac x, rename_tac ty1 pl, case_tac pl; auto simp: body_spec_def wire_type_def codec_enc
     unhandled_type_def split: if_splits ServerKeyExchangePayload.splits; fail) [1])+
  done

lemma HandshakePayload_bytes: "get_encoding HandshakePayload_encode p = HandshakePayload_encode p []"
  by (simp add: get_encoding_def)

lemma HandshakeMessagePayload_bytes: "get_encoding HandshakeMessagePayload_encode x =
    get_encoding HandshakeType_encode (wire_type (hmp_typ x)) @
    get_encoding u24_encode (u24 (of_nat (length (HandshakePayload_encode (hmp_payload x) [])))) @
    HandshakePayload_encode (hmp_payload x) []"
  by (rule get_encodingI)
    (simp only: HandshakeMessagePayload_encode_def wire_type_def Let_def codec_enc append_assoc)

lemma wire_type_ok: "HandshakePayload_ok V vers ty p \<Longrightarrow> HandshakeType_ok (wire_type ty) \<longleftrightarrow> HandshakeType_ok ty"
  by (auto simp: wire_type_def HandshakeType_ok_def HandshakeType_from_def)

interpretation HandshakeMessagePayload_c: codec_elem HandshakeMessagePayload_encode
  "HandshakeMessagePayload_read_version V vers" "HandshakeMessagePayload_ok V vers" "\<lambda>_. True" for V vers
proof (rule codec_elemI [OF codecI])
  show "HandshakeMessagePayload_encode x bs = bs @ get_encoding HandshakeMessagePayload_encode x" for x bs
    by (simp only: HandshakeMessagePayload_encode_def HandshakeMessagePayload_bytes wire_type_def Let_def
        codec_enc append_assoc)
  obtain S where S: "rspec (HandshakePayload_read V vers ty) (S ty)"
    "(\<exists>m. S ty x e m) \<longleftrightarrow> body_spec V vers ty x e" for ty x e
    using HandshakePayload_spec [of V vers] by metis
  show "rspec (HandshakeMessagePayload_read_version V vers) (\<lambda>x e m. HandshakeMessagePayload_ok V vers x \<and>
      e = get_encoding HandshakeMessagePayload_encode x \<and> m = True)"
    unfolding HandshakeMessagePayload_read_version_def [abs_def]
    apply (rule rspec_cong, rule rspec_bind, rule codec_read, rule rspec_sub_u24, rule S(1))
    subgoal for x e m
      by (auto simp: HandshakeMessagePayload_ok_def HandshakeMessagePayload_bytes HandshakePayload_bytes S(2)
          body_spec_def wire_type_ok unsigned_of_nat take_bit_nat_eq_self)
    done
qed (auto simp: HandshakeMessagePayload_bytes)

section \<open>The bytes that a binder signs\<close>

text \<open>
  A client hello whose last extension is a pre-shared key offer, up to the list of binders; \<open>n\<close> is the
  length of the encoded list.
\<close>

definition hello_head :: "ClientHelloPayload \<Rightarrow> bytes" where
  "hello_head ch =
    get_encoding ProtocolVersion_encode (chp_client_version ch) @ get_encoding Random_encode (chp_random ch) @
    get_encoding SessionID_encode (chp_session_id ch) @
    get_encoding (encode_vec_u16 CipherSuite_encode) (chp_cipher_suites ch) @
    get_encoding (encode_vec_u8 Compression_encode) (chp_compression_methods ch)"

definition hello_before_binders ::
    "ClientHelloPayload \<Rightarrow> ClientExtension list \<Rightarrow> PresharedKeyIdentity list \<Rightarrow> nat \<Rightarrow> bytes" where
  "hello_before_binders ch es ids n =
     (let i = get_encoding PresharedKeyIdentities_encode ids;
          exts = length (vec_bytes ClientExtension_encode es) + 4 + length i + n
      in get_encoding HandshakeType_encode HandshakeType.ClientHello @
         get_encoding u24_encode (u24 (of_nat (length (hello_head ch) + 2 + exts))) @ hello_head ch @
         be_bytes 2 exts @ vec_bytes ClientExtension_encode es @
         get_encoding ExtensionType_encode ExtensionType.PreSharedKey @
         get_encoding u16_encode (of_nat (length i + n)) @ i)"

abbreviation hello_msg :: "ClientHelloPayload \<Rightarrow> HandshakeMessagePayload" where
  "hello_msg ch \<equiv> \<lparr>hmp_typ = HandshakeType.ClientHello, hmp_payload = HandshakePayload.ClientHello ch\<rparr>"

lemma vec_bytes_append: "vec_bytes encode (xs @ ys) = vec_bytes encode xs @ vec_bytes encode ys"
  by (simp add: vec_bytes_def)

lemma PresharedKey_ext_bytes: "get_encoding ClientExtension_encode (ClientExtension.PresharedKey offer) =
    get_encoding ExtensionType_encode ExtensionType.PreSharedKey @
    get_encoding u16_encode (of_nat (length (get_encoding PresharedKeyOffer_encode offer))) @
    get_encoding PresharedKeyOffer_encode offer"
  by (simp only: ClientExtension_ext ClientExtension_e.ext_bytes ClientExtension_get_type.simps
      ClientExtension_sub_bytes ClientExtension_encode_sub.simps codec_enc append_Nil)

lemma hello_msg_split:
  assumes "chp_extensions ch = es @ [ClientExtension.PresharedKey offer]"
  shows "get_encoding HandshakeMessagePayload_encode (hello_msg ch) =
    hello_before_binders ch es (pko_identities offer)
      (length (get_encoding VecU16OfPayloadU8_encode (pko_binders offer))) @
    get_encoding VecU16OfPayloadU8_encode (pko_binders offer)"
proof -
  let ?b = "get_encoding VecU16OfPayloadU8_encode (pko_binders offer)"
  let ?i = "get_encoding PresharedKeyIdentities_encode (pko_identities offer)"
  have o: "get_encoding PresharedKeyOffer_encode offer = ?i @ ?b" by (rule PresharedKeyOffer_bytes)
  have "vec_bytes ClientExtension_encode (chp_extensions ch) =
      vec_bytes ClientExtension_encode es @ get_encoding ExtensionType_encode ExtensionType.PreSharedKey @
      get_encoding u16_encode (of_nat (length ?i + length ?b)) @ ?i @ ?b"
    by (simp only: assms vec_bytes_append vec_bytes_simps PresharedKey_ext_bytes o length_append append_Nil2)
  moreover from this have "length (vec_bytes ClientExtension_encode (chp_extensions ch)) =
      length (vec_bytes ClientExtension_encode es) + 4 + length ?i + length ?b" by simp
  ultimately have "get_encoding ClientHelloPayload_encode ch = hello_head ch @
      be_bytes 2 (length (vec_bytes ClientExtension_encode es) + 4 + length ?i + length ?b) @
      vec_bytes ClientExtension_encode es @ get_encoding ExtensionType_encode ExtensionType.PreSharedKey @
      get_encoding u16_encode (of_nat (length ?i + length ?b)) @ ?i @ ?b"
    using assms
    by (simp only: ClientHelloPayload_bytes hello_head_def ClientExtension_c.get_encoding_vec append_assoc
        if_simps append_is_Nil_conv not_Cons_self2 list.distinct)
  moreover from this have "length (get_encoding ClientHelloPayload_encode ch) =
      length (hello_head ch) + 2 + (length (vec_bytes ClientExtension_encode es) + 4 + length ?i + length ?b)"
    by simp
  ultimately show ?thesis
    by (simp only: HandshakeMessagePayload_bytes HandshakePayload_encode.simps wire_type_def
        HandshakeMessagePayload.simps HandshakeType.distinct if_simps hello_before_binders_def Let_def
        codec_enc append_Nil append_assoc)
qed

lemma binder_signing_prefix_eq:
  assumes "chp_extensions ch = es @ [ClientExtension.PresharedKey offer]"
  shows "get_encoding_for_binder_signing (hello_msg ch) =
    hello_before_binders ch es (pko_identities offer)
      (length (get_encoding VecU16OfPayloadU8_encode (pko_binders offer)))"
  by (simp only: get_encoding_for_binder_signing_def hello_msg_split [OF assms] Let_def
      HandshakeMessagePayload.simps HandshakePayload.case assms last_snoc ClientExtension.case
      get_encoding_def [of VecU16OfPayloadU8_encode, symmetric] append_is_Nil_conv not_Cons_self2 if_simps
      length_append)
   simp

section \<open>Properties\<close>

text \<open>C23: a byte string is read as a handshake message, with nothing left over, exactly when it is the
  encoding of that message and the message is well-formed for the protocol version.  So every accepted
  byte string has one meaning, no two byte strings are read as the same message, and a message that was
  read encodes to the bytes it came from.\<close>

theorem handshake_read_exact:
  "(\<exists>r'. HandshakeMessagePayload_read_version V vers (Reader_init b) = Some (x, r') \<and> \<not> Reader_any_left r') \<longleftrightarrow>
   HandshakeMessagePayload_ok V vers x \<and> b = get_encoding HandshakeMessagePayload_encode x"
  using rspec_whole [OF HandshakeMessagePayload_c.read_spec, of V vers b x] by auto

text \<open>A handshake message at the front of a longer input is read back and the reader stops right
  behind it, whatever follows.\<close>

lemma handshake_roundtrip:
  assumes "HandshakeMessagePayload_ok V vers x"
  shows "HandshakeMessagePayload_read_version V vers
      (Reader_init (get_encoding HandshakeMessagePayload_encode x @ rest)) =
    Some (x, \<lparr>rd_buf = get_encoding HandshakeMessagePayload_encode x @ rest,
              rd_offs = length (get_encoding HandshakeMessagePayload_encode x)\<rparr>)"
proof -
  let ?e = "get_encoding HandshakeMessagePayload_encode x"
  have "reads (Reader_init (?e @ rest)) ?e True (advance (length ?e) (Reader_init (?e @ rest)))"
    by (simp add: reads_def fits_def)
  then have "HandshakeMessagePayload_read_version V vers (Reader_init (?e @ rest)) =
      Some (x, advance (length ?e) (Reader_init (?e @ rest)))"
    using assms HandshakeMessagePayload_c.read_iff [OF reader_ok_init] by blast
  then show ?thesis by (simp add: advance_def Reader_init_def)
qed

text \<open>C24: setting a binder of the length that was reserved for it completes the client hello so that its
  encoding is the byte string that the binder was computed over, followed by the list of binders: the
  signed bytes are exactly the message up to the binders.\<close>

theorem binder_signing_covers_hello:
  assumes "chp_extensions ch = es @ [ClientExtension.PresharedKey offer]"
    and "pko_binders offer = b # bs" and "length binder = length (payload_u8_bytes b)"
  shows "\<exists>ch'. set_psk_binder ch binder = Some ch' \<and>
    get_encoding HandshakeMessagePayload_encode (hello_msg ch') =
    get_encoding_for_binder_signing (hello_msg ch) @
    get_encoding VecU16OfPayloadU8_encode (PayloadU8 binder # bs)"
proof -
  let ?offer = "offer\<lparr>pko_binders := PayloadU8 binder # bs\<rparr>"
  let ?ch = "ch\<lparr>chp_extensions := es @ [ClientExtension.PresharedKey ?offer]\<rparr>"
  have "set_psk_binder ch binder = Some ?ch"
    using assms(1,2) by (simp add: set_psk_binder_def Let_def list_update_append)
  moreover have "hello_before_binders ?ch es ids n = hello_before_binders ch es ids n" for ids n
    by (simp add: hello_before_binders_def hello_head_def)
  moreover have "length (get_encoding VecU16OfPayloadU8_encode (PayloadU8 binder # bs)) =
      length (get_encoding VecU16OfPayloadU8_encode (pko_binders offer))"
    using assms(2,3) by simp
  ultimately show ?thesis
    using hello_msg_split [of ?ch es ?offer] binder_signing_prefix_eq [OF assms(1)] by simp
qed

definition ex_hello :: ClientHelloPayload where
  "ex_hello = \<lparr>chp_client_version = ProtocolVersion.TLSv1_2, chp_random = ZERO_RANDOM,
     chp_session_id = SessionID_empty, chp_cipher_suites = [CipherSuite.Suite 0x1301],
     chp_compression_methods = [Compression.Null],
     chp_extensions = [ClientExtension.SessionTicket ClientSessionTicket.Request,
       ClientExtension.PresharedKey
         \<lparr>pko_identities = [\<lparr>psk_identity = PayloadU16 [1, 2], psk_obfuscated_ticket_age = 7\<rparr>],
          pko_binders = [PayloadU8 [0, 0]]\<rparr>]\<rparr>"

lemma handshake_roundtrip_example:
  "HandshakeMessagePayload_read_version (\<lambda>_. True) ProtocolVersion.TLSv1_2
      (Reader_init (get_encoding HandshakeMessagePayload_encode build_key_update_notify @ [1])) =
    Some (build_key_update_notify,
      \<lparr>rd_buf = get_encoding HandshakeMessagePayload_encode build_key_update_notify @ [1],
       rd_offs = length (get_encoding HandshakeMessagePayload_encode build_key_update_notify)\<rparr>)"
  by (rule handshake_roundtrip)
    (simp add: build_key_update_notify_def HandshakeMessagePayload_ok_def HandshakePayload_bytes codec_enc
      HandshakeType_ok_def HandshakeType_from_def KeyUpdateRequest_ok_def KeyUpdateRequest_from_def)

theorem binder_signing_covers_hello_witness:
  "\<exists>ch'. set_psk_binder ex_hello [5, 6] = Some ch' \<and>
    get_encoding HandshakeMessagePayload_encode (hello_msg ch') =
    get_encoding_for_binder_signing (hello_msg ex_hello) @
    get_encoding VecU16OfPayloadU8_encode (PayloadU8 [5, 6] # [])"
  by (rule binder_signing_covers_hello [where es = "[ClientExtension.SessionTicket ClientSessionTicket.Request]"
        and b = "PayloadU8 [0, 0]"]) (simp add: ex_hello_def)+

end
