(* ===== verification/Messages.thy ===== *)
theory Messages
  imports Handshake
begin

text \<open>
  TLS messages, after \<open>alert.rs\<close>, \<open>ccs.rs\<close> and \<open>message.rs\<close> under \<open>crates/tls/core/src/msgs\<close>, and the error
  type of \<open>crates/tls/core/src/error.rs\<close>.  An \<open>OpaqueMessage\<close> is a record on the wire, a \<open>PlainMessage\<close> its
  content after decryption, and a \<open>Message\<close> the content with its payload parsed.
\<close>

section \<open>Errors\<close>

text \<open>The error type of the \<open>sct\<close> crate is opaque.\<close>

typedecl sct_error

datatype Error =
    InappropriateMessage "ContentType list" ContentType
  | InappropriateHandshakeMessage "HandshakeType list" HandshakeType
  | CorruptMessage
  | CorruptMessagePayload ContentType
  | NoCertificatesPresented
  | UnsupportedNameType
  | DecryptError
  | EncryptError
  | PeerIncompatibleError string
  | PeerMisbehavedError string
  | AlertReceived AlertDescription
  | InvalidCertificateEncoding
  | InvalidCertificateSignatureType
  | InvalidCertificateSignature
  | InvalidCertificateData string
  | InvalidSct sct_error
  | General string
  | FailedToGetCurrentTime
  | FailedToGetRandomBytes
  | HandshakeNotComplete
  | PeerSentOversizedRecord
  | NoApplicationProtocol
  | BadMaxFragmentSize

section \<open>Alerts and cipher spec changes\<close>

record AlertMessagePayload =
  amp_level :: AlertLevel
  amp_description :: AlertDescription

definition AlertMessagePayload_encode :: "AlertMessagePayload encoder" where
  "AlertMessagePayload_encode x bytes =
     AlertDescription_encode (amp_description x) (AlertLevel_encode (amp_level x) bytes)"

definition AlertMessagePayload_read :: "AlertMessagePayload reader" where
  "AlertMessagePayload_read r =
     do {
       (level, r) \<leftarrow> AlertLevel_read r;
       (description, r) \<leftarrow> AlertDescription_read r;
       Some (\<lparr>amp_level = level, amp_description = description\<rparr>, r)
     }"

datatype ChangeCipherSpecPayload = ChangeCipherSpecPayload

definition ChangeCipherSpecPayload_encode :: "ChangeCipherSpecPayload encoder" where
  "ChangeCipherSpecPayload_encode x bytes = u8_encode 1 bytes"

definition ChangeCipherSpecPayload_read :: "ChangeCipherSpecPayload reader" where
  "ChangeCipherSpecPayload_read r =
     do {
       (ty, r) \<leftarrow> u8_read r;
       if ty = 1 \<and> \<not> Reader_any_left r then Some (ChangeCipherSpecPayload, r) else None
     }"

section \<open>Parsed payloads\<close>

datatype MessagePayload =
    Alert AlertMessagePayload
  | Handshake HandshakeMessagePayload
  | ChangeCipherSpec ChangeCipherSpecPayload
  | ApplicationData Payload

fun MessagePayload_encode :: "MessagePayload encoder" where
  "MessagePayload_encode (MessagePayload.Alert x) bytes = AlertMessagePayload_encode x bytes"
| "MessagePayload_encode (MessagePayload.Handshake x) bytes = HandshakeMessagePayload_encode x bytes"
| "MessagePayload_encode (MessagePayload.ChangeCipherSpec x) bytes = ChangeCipherSpecPayload_encode x bytes"
| "MessagePayload_encode (MessagePayload.ApplicationData x) bytes = Payload_encode x bytes"

definition parse_all :: "'a reader \<Rightarrow> bytes \<Rightarrow> 'a option" where
  "parse_all rd b =
     (case rd (Reader_init b) of
        Some (x, r) \<Rightarrow> if Reader_any_left r then None else Some x
      | None \<Rightarrow> None)"

definition MessagePayload_new ::
    "(bytes \<Rightarrow> bool) \<Rightarrow> ContentType \<Rightarrow> ProtocolVersion \<Rightarrow> Payload \<Rightarrow> Error + MessagePayload" where
  "MessagePayload_new valid_dns ty vers payload =
     (let b = payload_bytes payload in
      if ty = ContentType.ApplicationData then Inr (MessagePayload.ApplicationData payload)
      else let parsed = (case ty of
             ContentType.Alert \<Rightarrow> map_option MessagePayload.Alert (parse_all AlertMessagePayload_read b)
           | ContentType.Handshake \<Rightarrow> map_option MessagePayload.Handshake
               (parse_all (HandshakeMessagePayload_read_version valid_dns vers) b)
           | ContentType.ChangeCipherSpec \<Rightarrow> map_option MessagePayload.ChangeCipherSpec
               (parse_all ChangeCipherSpecPayload_read b)
           | _ \<Rightarrow> None)
         in case parsed of Some p \<Rightarrow> Inr p | None \<Rightarrow> Inl (CorruptMessagePayload ty))"

fun content_type :: "MessagePayload \<Rightarrow> ContentType" where
  "content_type (MessagePayload.Alert _) = ContentType.Alert"
| "content_type (MessagePayload.Handshake _) = ContentType.Handshake"
| "content_type (MessagePayload.ChangeCipherSpec _) = ContentType.ChangeCipherSpec"
| "content_type (MessagePayload.ApplicationData _) = ContentType.ApplicationData"

section \<open>Messages\<close>

record OpaqueMessage =
  om_typ :: ContentType
  om_version :: ProtocolVersion
  om_payload :: Payload

record PlainMessage =
  pm_typ :: ContentType
  pm_version :: ProtocolVersion
  pm_payload :: Payload

record BorrowedPlainMessage =
  bpm_typ :: ContentType
  bpm_version :: ProtocolVersion
  bpm_payload :: bytes

record Message =
  msg_version :: ProtocolVersion
  msg_payload :: MessagePayload

datatype MessageError =
  TooShortForHeader | TooShortForLength | IllegalLength | IllegalContentType | IllegalProtocolVersion

definition MAX_PAYLOAD :: u16 where
  "MAX_PAYLOAD = 16384 + 2048"

definition HEADER_SIZE :: u16 where
  "HEADER_SIZE = 1 + 2 + 2"

definition MAX_WIRE_SIZE :: nat where
  "MAX_WIRE_SIZE = unat (MAX_PAYLOAD + HEADER_SIZE)"

definition illegal_version :: "ProtocolVersion \<Rightarrow> bool" where
  "illegal_version version \<longleftrightarrow>
     (case version of ProtocolVersion.Unknown v \<Rightarrow> v AND 0xff00 \<noteq> 0x0300 | _ \<Rightarrow> False)"

definition OpaqueMessage_read :: "Reader \<Rightarrow> MessageError + OpaqueMessage \<times> Reader" where
  "OpaqueMessage_read r =
     (case ContentType_read r of None \<Rightarrow> Inl TooShortForHeader | Some (ty, r) \<Rightarrow>
      case ProtocolVersion_read r of None \<Rightarrow> Inl TooShortForHeader | Some (version, r) \<Rightarrow>
      case u16_read r of None \<Rightarrow> Inl TooShortForHeader | Some (len, r) \<Rightarrow>
      if ty \<noteq> ContentType.ApplicationData \<and> len = 0 then Inl IllegalLength
      else if len \<ge> MAX_PAYLOAD then Inl IllegalLength
      else if (case ty of ContentType.Unknown _ \<Rightarrow> True | _ \<Rightarrow> False) then Inl IllegalContentType
      else if illegal_version version then Inl IllegalProtocolVersion
      else case Reader_sub r (unat len) of None \<Rightarrow> Inl TooShortForLength | Some (sub, r) \<Rightarrow>
        (case Payload_read sub of
           Some (payload, sub) \<Rightarrow> Inr (\<lparr>om_typ = ty, om_version = version, om_payload = payload\<rparr>, r)
         | None \<Rightarrow> Inl TooShortForLength))"

definition OpaqueMessage_encode :: "OpaqueMessage \<Rightarrow> bytes" where
  "OpaqueMessage_encode x =
     (let buf = [];
          buf = ContentType_encode (om_typ x) buf;
          buf = ProtocolVersion_encode (om_version x) buf;
          buf = u16_encode (of_nat (length (payload_bytes (om_payload x)))) buf
      in Payload_encode (om_payload x) buf)"

definition into_plain_message :: "OpaqueMessage \<Rightarrow> PlainMessage" where
  "into_plain_message x =
     \<lparr>pm_typ = om_typ x, pm_version = om_version x, pm_payload = om_payload x\<rparr>"

definition PlainMessage_from :: "Message \<Rightarrow> PlainMessage" where
  "PlainMessage_from msg =
     (let ty = content_type (msg_payload msg);
          payload = (case msg_payload msg of
            MessagePayload.ApplicationData payload \<Rightarrow> payload
          | p \<Rightarrow> Payload (MessagePayload_encode p []))
      in \<lparr>pm_typ = ty, pm_version = msg_version msg, pm_payload = payload\<rparr>)"

definition into_unencrypted_opaque :: "PlainMessage \<Rightarrow> OpaqueMessage" where
  "into_unencrypted_opaque x =
     \<lparr>om_typ = pm_typ x, om_version = pm_version x, om_payload = pm_payload x\<rparr>"

definition PlainMessage_borrow :: "PlainMessage \<Rightarrow> BorrowedPlainMessage" where
  "PlainMessage_borrow x =
     \<lparr>bpm_typ = pm_typ x, bpm_version = pm_version x, bpm_payload = payload_bytes (pm_payload x)\<rparr>"

definition is_handshake_type :: "Message \<Rightarrow> HandshakeType \<Rightarrow> bool" where
  "is_handshake_type x hstyp =
     (case msg_payload x of MessagePayload.Handshake hsp \<Rightarrow> hmp_typ hsp = hstyp | _ \<Rightarrow> False)"

definition build_alert :: "AlertLevel \<Rightarrow> AlertDescription \<Rightarrow> Message" where
  "build_alert level desc = \<lparr>msg_version = ProtocolVersion.TLSv1_2,
     msg_payload = MessagePayload.Alert \<lparr>amp_level = level, amp_description = desc\<rparr>\<rparr>"

definition Message_build_key_update_notify :: Message where
  "Message_build_key_update_notify = \<lparr>msg_version = ProtocolVersion.TLSv1_3,
     msg_payload = MessagePayload.Handshake build_key_update_notify\<rparr>"

definition Message_try_from :: "(bytes \<Rightarrow> bool) \<Rightarrow> PlainMessage \<Rightarrow> Error + Message" where
  "Message_try_from valid_dns plain =
     (case MessagePayload_new valid_dns (pm_typ plain) (pm_version plain) (pm_payload plain) of
        Inl e \<Rightarrow> Inl e
      | Inr payload \<Rightarrow> Inr \<lparr>msg_version = pm_version plain, msg_payload = payload\<rparr>)"

section \<open>Payloads are read exactly\<close>

lemma parse_all_iff: "rspec rd S \<Longrightarrow> parse_all rd b = Some x \<longleftrightarrow> (\<exists>m. S x b m)"
  by (subst rspec_whole [symmetric]) (auto simp: parse_all_def split: option.splits)

definition AlertMessagePayload_ok :: "AlertMessagePayload \<Rightarrow> bool" where
  "AlertMessagePayload_ok x \<longleftrightarrow> AlertLevel_ok (amp_level x) \<and> AlertDescription_ok (amp_description x)"

lemma AlertMessagePayload_app: "AlertMessagePayload_encode x bs =
    bs @ get_encoding AlertLevel_encode (amp_level x) @
    get_encoding AlertDescription_encode (amp_description x)"
  by (simp only: AlertMessagePayload_encode_def codec_enc append_assoc)

lemma AlertMessagePayload_spec: "rspec AlertMessagePayload_read
    (\<lambda>x e m. AlertMessagePayload_ok x \<and> e = AlertMessagePayload_encode x [] \<and> m = True)"
  unfolding AlertMessagePayload_read_def [abs_def]
  by (rule rspec_cong, (rule rspec_intros codec_read)+)
    (case_tac x, auto simp: AlertMessagePayload_ok_def AlertMessagePayload_app)

lemma ChangeCipherSpecPayload_spec: "rspec ChangeCipherSpecPayload_read
    (\<lambda>x e m. e = ChangeCipherSpecPayload_encode x [] \<and> m = False)"
proof -
  have *: "(\<lambda>r. if ty = 1 \<and> \<not> Reader_any_left r then Some (ChangeCipherSpecPayload, r) else None) =
      (\<lambda>r. if Reader_any_left r \<or> ty \<noteq> 1 then None else Some (ChangeCipherSpecPayload, r))" for ty :: u8
    by (rule ext) simp
  show ?thesis
    unfolding ChangeCipherSpecPayload_read_def [abs_def] *
    by (rule rspec_cong, (rule rspec_bind codec_read rspec_end_if)+)
      (case_tac x, auto simp: ChangeCipherSpecPayload_encode_def u8_encode_def)
qed

fun MessagePayload_ok :: "(bytes \<Rightarrow> bool) \<Rightarrow> ProtocolVersion \<Rightarrow> MessagePayload \<Rightarrow> bool" where
  "MessagePayload_ok V vers (MessagePayload.Alert x) = AlertMessagePayload_ok x"
| "MessagePayload_ok V vers (MessagePayload.Handshake x) = HandshakeMessagePayload_ok V vers x"
| "MessagePayload_ok V vers (MessagePayload.ChangeCipherSpec x) = True"
| "MessagePayload_ok V vers (MessagePayload.ApplicationData x) = True"

lemma MessagePayload_new_iff:
  "MessagePayload_new V ty vers p = Inr x \<longleftrightarrow> content_type x = ty \<and> MessagePayload_ok V vers x \<and>
     payload_bytes p = MessagePayload_encode x []"
proof -
  note iffs = parse_all_iff [OF AlertMessagePayload_spec] parse_all_iff [OF ChangeCipherSpecPayload_spec]
    parse_all_iff [OF HandshakeMessagePayload_c.read_spec]
  have opt: "(case o' of None \<Rightarrow> Inl e | Some q \<Rightarrow> (Inr \<circ> f) q) = Inr y \<longleftrightarrow> (\<exists>q. o' = Some q \<and> f q = y)"
    for o' :: "'q option" and f :: "'q \<Rightarrow> 'x" and e :: 'e and y
    by (auto split: option.splits)
  have enc: "HandshakeMessagePayload_encode h [] = get_encoding HandshakeMessagePayload_encode h"
    "Payload_encode q [] = payload_bytes q" for h q
    by (simp_all add: get_encoding_def Payload_encode_def)
  show ?thesis
    by (cases ty; cases x; cases p) (auto simp: MessagePayload_new_def opt iffs enc)
qed

lemma MessagePayload_new_error: "MessagePayload_new V ty vers p = Inl e \<Longrightarrow> e = CorruptMessagePayload ty"
  by (auto simp: MessagePayload_new_def Let_def split: if_splits option.splits)

section \<open>Records are read exactly\<close>

definition OpaqueMessage_ok :: "OpaqueMessage \<Rightarrow> bool" where
  "OpaqueMessage_ok m \<longleftrightarrow>
     om_typ m \<in> {ContentType.ChangeCipherSpec, ContentType.Alert, ContentType.Handshake,
       ContentType.ApplicationData, ContentType.Heartbeat} \<and>
     ProtocolVersion_ok (om_version m) \<and> \<not> illegal_version (om_version m) \<and>
     length (payload_bytes (om_payload m)) < 16384 + 2048 \<and>
     (om_typ m = ContentType.ApplicationData \<or> payload_bytes (om_payload m) \<noteq> [])"

lemma take_decode_at: "take_decode n dec \<lparr>rd_buf = b, rd_offs = k\<rparr> =
    (if length b - k < n then None
     else map_option (\<lambda>v. (v, \<lparr>rd_buf = b, rd_offs = k + n\<rparr>)) (dec (take n (drop k b))))"
  by (auto simp: take_decode_def Reader_take_def Reader_left_def map_option_case split: option.split)

definition header_type :: "bytes \<Rightarrow> ContentType" where
  "header_type b = ContentType_from (hd b)"

definition header_version :: "bytes \<Rightarrow> ProtocolVersion" where
  "header_version b = ProtocolVersion_from (of_nat (be_value (take 2 (drop 1 b))))"

definition header_len :: "bytes \<Rightarrow> u16" where
  "header_len b = of_nat (be_value (take 2 (drop 3 b)))"

definition header_error :: "bytes \<Rightarrow> MessageError option" where
  "header_error b =
     (if header_type b \<noteq> ContentType.ApplicationData \<and> header_len b = 0 then Some IllegalLength
      else if header_len b \<ge> MAX_PAYLOAD then Some IllegalLength
      else if (case header_type b of ContentType.Unknown _ \<Rightarrow> True | _ \<Rightarrow> False) then Some IllegalContentType
      else if illegal_version (header_version b) then Some IllegalProtocolVersion
      else None)"

lemma u8_read_at: "u8_read \<lparr>rd_buf = b, rd_offs = k\<rparr> =
    (if length b \<le> k then None else Some (b ! k, \<lparr>rd_buf = b, rd_offs = Suc k\<rparr>))"
  by (auto simp: u8_read_def take_decode_at decode_u8_def take_Suc_conv_app_nth hd_drop_conv_nth take_Suc
      split: list.split)

lemma u16_read_at: "u16_read \<lparr>rd_buf = b, rd_offs = k\<rparr> =
    (if length b < k + 2 then None
     else Some (of_nat (be_value (take 2 (drop k b))), \<lparr>rd_buf = b, rd_offs = k + 2\<rparr>))"
  by (auto simp: u16_read_def take_decode_at decode_u16_def)

lemma OpaqueMessage_read_init: "OpaqueMessage_read (Reader_init b) =
    (if length b < 5 then Inl TooShortForHeader
     else case header_error b of Some e \<Rightarrow> Inl e
       | None \<Rightarrow> if length b < 5 + unat (header_len b) then Inl TooShortForLength
         else Inr (\<lparr>om_typ = header_type b, om_version = header_version b,
                    om_payload = Payload (take (unat (header_len b)) (drop 5 b))\<rparr>,
                   \<lparr>rd_buf = b, rd_offs = 5 + unat (header_len b)\<rparr>))"
proof (cases "length b < 5")
  case True
  then show ?thesis
    by (auto simp: OpaqueMessage_read_def Reader_init_def ContentType_read_def ProtocolVersion_read_def u8_read_at
        u16_read_at)
next
  case False
  then have b: "b \<noteq> []" "\<not> length b < 5" by auto
  have "ContentType_read (Reader_init b) = Some (header_type b, \<lparr>rd_buf = b, rd_offs = 1\<rparr>)"
    "ProtocolVersion_read \<lparr>rd_buf = b, rd_offs = 1\<rparr> = Some (header_version b, \<lparr>rd_buf = b, rd_offs = 3\<rparr>)"
    "u16_read \<lparr>rd_buf = b, rd_offs = 3\<rparr> = Some (header_len b, \<lparr>rd_buf = b, rd_offs = 5\<rparr>)"
    using b by (simp_all add: Reader_init_def ContentType_read_def ProtocolVersion_read_def u8_read_at u16_read_at
        header_type_def header_version_def header_len_def hd_conv_nth)
  moreover have "Reader_sub \<lparr>rd_buf = b, rd_offs = 5\<rparr> n = (if length b < 5 + n then None
      else Some (Reader_init (take n (drop 5 b)), \<lparr>rd_buf = b, rd_offs = 5 + n\<rparr>))" for n
    using b by (auto simp: Reader_sub_def Reader_take_def Reader_left_def)
  moreover have "\<exists>r. Payload_read (Reader_init c) = Some (Payload c, r)" for c
    by (simp add: Payload_read_def Reader_rest_def Reader_init_def)
  then obtain r' where "Payload_read (Reader_init c) = Some (Payload c, r' c)" for c by metis
  ultimately show ?thesis
    using b(2) by (simp add: OpaqueMessage_read_def header_error_def)
qed

lemma be_bytes_2: "be_bytes 2 v = [of_nat (v div 256), of_nat v]"
  by (simp add: numeral_2_eq_2)

lemma be16: "length c = 2 \<Longrightarrow> be_bytes 2 (unat (of_nat (be_value c) :: u16)) = c"
  using word_be_iff [of 2 c "of_nat (be_value c) :: u16"] by auto

lemma be16_value [simp]: "(of_nat (be_value (be_bytes 2 (unat v))) :: u16) = v"
  using word_be_iff [of 2 "be_bytes 2 (unat v)" v] by simp

lemma OpaqueMessage_bytes: "OpaqueMessage_encode m = ContentType_get_u8 (om_typ m) #
    be_bytes 2 (unat (ProtocolVersion_get_u16 (om_version m))) @
    be_bytes 2 (unat (of_nat (length (payload_bytes (om_payload m))) :: u16)) @ payload_bytes (om_payload m)"
  by (simp only: OpaqueMessage_encode_def Let_def codec_enc) simp

lemma MAX_PAYLOAD_le: "MAX_PAYLOAD \<le> n \<longleftrightarrow> 16384 + 2048 \<le> unat n"
  by (simp add: MAX_PAYLOAD_def word_le_nat_alt)

lemma header_error_None: "header_error b = None \<longleftrightarrow>
    header_type b \<in> {ContentType.ChangeCipherSpec, ContentType.Alert, ContentType.Handshake,
       ContentType.ApplicationData, ContentType.Heartbeat} \<and>
    \<not> illegal_version (header_version b) \<and> unat (header_len b) < 16384 + 2048 \<and>
    (header_type b = ContentType.ApplicationData \<or> unat (header_len b) \<noteq> 0)"
proof -
  have "unat (header_len b) = 0 \<longleftrightarrow> header_len b = 0" by (rule unat_eq_0)
  then show ?thesis
    unfolding header_error_def MAX_PAYLOAD_le not_le [symmetric] by (cases "header_type b") simp_all
qed

lemma header_split: "length b \<ge> 5 \<Longrightarrow> b = hd b # take 2 (drop 1 b) @ take 2 (drop 3 b) @ drop 5 b"
  by (cases b) (simp_all add: take_drop [symmetric] numeral_eq_Suc, metis append_take_drop_id drop_drop add_Suc add_0)

lemma OpaqueMessage_read_iff:
  "OpaqueMessage_read (Reader_init b) = Inr (m, r') \<longleftrightarrow> OpaqueMessage_ok m \<and>
     (\<exists>rest. b = OpaqueMessage_encode m @ rest) \<and> r' = \<lparr>rd_buf = b, rd_offs = length (OpaqueMessage_encode m)\<rparr>"
  (is "?l \<longleftrightarrow> ?r")
proof
  assume ?l
  then have b: "length b \<ge> 5 + unat (header_len b)" and h: "header_error b = None"
    and m: "m = \<lparr>om_typ = header_type b, om_version = header_version b,
      om_payload = Payload (take (unat (header_len b)) (drop 5 b))\<rparr>"
    and r': "r' = \<lparr>rd_buf = b, rd_offs = 5 + unat (header_len b)\<rparr>"
    by (auto simp: OpaqueMessage_read_init split: if_splits option.splits)
  let ?n = "unat (header_len b)"
  have e: "OpaqueMessage_encode m = hd b # take 2 (drop 1 b) @ take 2 (drop 3 b) @ take ?n (drop 5 b)"
    using b by (simp add: OpaqueMessage_bytes m header_type_def header_version_def e_ContentType.get_from
        e_ProtocolVersion.get_from be16 min_absorb2) (simp add: header_len_def be16)
  have "OpaqueMessage_encode m @ drop ?n (drop 5 b) =
      hd b # take 2 (drop 1 b) @ take 2 (drop 3 b) @ drop 5 b"
    unfolding e by (simp only: append_Cons append_assoc append_take_drop_id)
  also have "\<dots> = b" using header_split [of b] b by simp
  finally have "b = OpaqueMessage_encode m @ drop ?n (drop 5 b)" ..
  moreover have "OpaqueMessage_ok m"
    using h b by (auto simp: OpaqueMessage_ok_def header_error_None m ProtocolVersion_ok_def header_version_def
        e_ProtocolVersion.get_from)
  moreover have "length (OpaqueMessage_encode m) = 5 + ?n" using b by (simp add: e)
  ultimately show ?r using r' by auto
next
  assume ?r
  then obtain rest where m: "OpaqueMessage_ok m" and b: "b = OpaqueMessage_encode m @ rest"
    and r': "r' = \<lparr>rd_buf = b, rd_offs = length (OpaqueMessage_encode m)\<rparr>" by blast
  let ?p = "payload_bytes (om_payload m)"
  have n: "unat (of_nat (length ?p) :: u16) = length ?p"
    using m by (simp add: OpaqueMessage_ok_def unsigned_of_nat take_bit_nat_eq_self)
  have "header_type b = om_typ m"
    using m by (auto simp: b OpaqueMessage_bytes header_type_def OpaqueMessage_ok_def ContentType_from_def)
  moreover have "header_version b = om_version m"
    using m by (simp add: b OpaqueMessage_bytes header_version_def OpaqueMessage_ok_def ProtocolVersion_ok_def)
  moreover have "header_len b = of_nat (length ?p)"
    by (simp add: b OpaqueMessage_bytes header_len_def drop_Cons')
  moreover have "drop 5 b = ?p @ rest"
    by (simp add: b OpaqueMessage_bytes drop_Cons')
  moreover from calculation(1-3) have "header_error b = None"
    using m n by (auto simp: header_error_None OpaqueMessage_ok_def)
  moreover have "length b = 5 + length ?p + length rest" "length (OpaqueMessage_encode m) = 5 + length ?p"
    by (simp_all add: b OpaqueMessage_bytes)
  moreover have "\<lparr>om_typ = om_typ m, om_version = om_version m, om_payload = Payload ?p\<rparr> = m"
    by (cases m) simp
  ultimately show ?l using n by (simp add: OpaqueMessage_read_init r')
qed

text \<open>Reading does not depend on what follows, once there is a header that decides.\<close>

definition undecided :: "MessageError \<Rightarrow> bool" where
  "undecided e \<longleftrightarrow> e = TooShortForHeader \<or> e = TooShortForLength"

lemma header_append: "length b \<ge> 5 \<Longrightarrow> header_error (b @ c) = header_error b \<and> header_len (b @ c) = header_len b \<and>
    header_type (b @ c) = header_type b \<and> header_version (b @ c) = header_version b"
  by (cases b) (auto simp: header_error_def header_type_def header_version_def header_len_def)

lemma header_error_decided: "header_error b = Some e \<Longrightarrow> \<not> undecided e"
  by (auto simp: header_error_def undecided_def split: if_splits)

lemma OpaqueMessage_read_stable:
  assumes "OpaqueMessage_read (Reader_init b) = Inl e" and "\<not> undecided e"
  shows "OpaqueMessage_read (Reader_init (b @ c)) = Inl e"
  using assms header_append [of b c]
  by (auto simp: OpaqueMessage_read_init undecided_def split: if_splits option.splits)

lemma OpaqueMessage_undecided_length:
  assumes "OpaqueMessage_read (Reader_init b) = Inl e" and "undecided e"
  shows "length b < 5 \<or> length b < 5 + unat (header_len b) \<and> unat (header_len b) < 16384 + 2048"
  using assms header_error_None [of b] header_error_decided [of b]
  by (auto simp: OpaqueMessage_read_init split: if_splits option.splits)

text \<open>A record at the front of the input is the only one there.\<close>

lemma OpaqueMessage_prefix_free:
  assumes "OpaqueMessage_ok m" and "OpaqueMessage_ok m'"
    and "OpaqueMessage_encode m @ c = OpaqueMessage_encode m' @ c'"
  shows "m = m' \<and> c = c'"
proof -
  have "OpaqueMessage_read (Reader_init (OpaqueMessage_encode m @ c)) =
      Inr (m, \<lparr>rd_buf = OpaqueMessage_encode m @ c, rd_offs = length (OpaqueMessage_encode m)\<rparr>)"
    using assms(1) OpaqueMessage_read_iff by blast
  moreover have "OpaqueMessage_read (Reader_init (OpaqueMessage_encode m @ c)) =
      Inr (m', \<lparr>rd_buf = OpaqueMessage_encode m @ c, rd_offs = length (OpaqueMessage_encode m')\<rparr>)"
    using assms(2,3) OpaqueMessage_read_iff by metis
  ultimately show ?thesis using assms(3) by simp
qed

lemma OpaqueMessage_length: "length (OpaqueMessage_encode m) = 5 + length (payload_bytes (om_payload m))"
  by (simp add: OpaqueMessage_bytes)

section \<open>Properties\<close>

text \<open>C36: the content of a record is accepted as a message exactly when it is the content that the
  message is sent with and the message is well-formed for the record's version; any other content gives
  the error that names the content type.\<close>

theorem message_parse_exact:
  "(Message_try_from V plain = Inr msg \<longleftrightarrow>
      PlainMessage_from msg = plain \<and> MessagePayload_ok V (msg_version msg) (msg_payload msg)) \<and>
   ((\<nexists>msg. Message_try_from V plain = Inr msg) \<longleftrightarrow>
      Message_try_from V plain = Inl (CorruptMessagePayload (pm_typ plain)))"
proof
  have p: "MessagePayload_new V ty vers p = Inr x \<longleftrightarrow> content_type x = ty \<and> MessagePayload_ok V vers x \<and>
      p = (case x of MessagePayload.ApplicationData q \<Rightarrow> q | _ \<Rightarrow> Payload (MessagePayload_encode x []))" for ty vers p x
    by (cases p; cases x) (auto simp: MessagePayload_new_iff Payload_encode_def)
  have t: "Message_try_from V plain = Inr msg \<longleftrightarrow> msg_version msg = pm_version plain \<and>
      MessagePayload_new V (pm_typ plain) (pm_version plain) (pm_payload plain) = Inr (msg_payload msg)"
    by (cases msg) (auto simp: Message_try_from_def split: sum.splits)
  show "Message_try_from V plain = Inr msg \<longleftrightarrow>
      PlainMessage_from msg = plain \<and> MessagePayload_ok V (msg_version msg) (msg_payload msg)"
    unfolding t p by (cases plain; cases msg; cases "msg_payload msg") (auto simp: PlainMessage_from_def Let_def)
  show "(\<nexists>msg. Message_try_from V plain = Inr msg) \<longleftrightarrow>
      Message_try_from V plain = Inl (CorruptMessagePayload (pm_typ plain))"
    by (auto simp: Message_try_from_def dest: MessagePayload_new_error split: sum.splits)
qed

text \<open>C37: a record is read from the front of the input exactly when the input starts with the encoding of a
  well-formed record, and the reader then stands behind it.\<close>

theorem opaque_read_exact:
  "OpaqueMessage_read (Reader_init b) = Inr (m, r') \<longleftrightarrow> OpaqueMessage_ok m \<and>
     (\<exists>rest. b = OpaqueMessage_encode m @ rest) \<and>
     r' = \<lparr>rd_buf = b, rd_offs = length (OpaqueMessage_encode m)\<rparr>"
  by (rule OpaqueMessage_read_iff)


end
