(* ===== verification/Record_Stream.thy ===== *)
theory Record_Stream
  imports Messages
begin

text \<open>
  The three state machines between the byte stream and messages, after \<open>fragmenter.rs\<close>, \<open>deframer.rs\<close> and
  \<open>hsjoiner.rs\<close> under \<open>crates/tls/core/src/msgs\<close>: the fragmenter cuts messages to the record size, the
  deframer recovers records from reads of any size, and the joiner recovers handshake messages from
  records.

  Reading from a socket is the argument \<open>rd\<close>, which gives for the length of the free part of the buffer
  either an error or the bytes that were read.
\<close>

section \<open>Fragmenter\<close>

definition MAX_FRAGMENT_LEN :: nat where
  "MAX_FRAGMENT_LEN = 16384"

definition PACKET_OVERHEAD :: nat where
  "PACKET_OVERHEAD = 1 + 2 + 2"

definition MAX_FRAGMENT_SIZE :: nat where
  "MAX_FRAGMENT_SIZE = MAX_FRAGMENT_LEN + PACKET_OVERHEAD"

record MessageFragmenter =
  max_frag :: nat

definition set_max_fragment_size ::
    "MessageFragmenter \<Rightarrow> nat option \<Rightarrow> Error + MessageFragmenter" where
  "set_max_fragment_size f new =
     (case new of
        Some sz \<Rightarrow> if 32 \<le> sz \<and> sz \<le> MAX_FRAGMENT_SIZE then Inr (f\<lparr>max_frag := sz - PACKET_OVERHEAD\<rparr>)
          else Inl BadMaxFragmentSize
      | None \<Rightarrow> Inr (f\<lparr>max_frag := MAX_FRAGMENT_LEN\<rparr>))"

definition MessageFragmenter_new :: "nat option \<Rightarrow> Error + MessageFragmenter" where
  "MessageFragmenter_new max_fragment_size = set_max_fragment_size \<lparr>max_frag = 0\<rparr> max_fragment_size"

text \<open>\<open>slice::chunks\<close>; \<open>None\<close> is its panic on the size 0.\<close>

function chunks :: "nat \<Rightarrow> 'a list \<Rightarrow> 'a list list" where
  "chunks n xs = (if n = 0 \<or> xs = [] then [] else take n xs # chunks n (drop n xs))"
  by auto
termination by (relation "measure (\<lambda>(n, xs). length xs)") auto

declare chunks.simps [simp del]

definition slice_chunks :: "nat \<Rightarrow> 'a list \<Rightarrow> 'a list list option" where
  "slice_chunks n xs = (if n = 0 then None else Some (chunks n xs))"

definition fragment ::
    "MessageFragmenter \<Rightarrow> PlainMessage \<Rightarrow> PlainMessage list \<Rightarrow> PlainMessage list option" where
  "fragment f msg out =
     (if length (payload_bytes (pm_payload msg)) \<le> max_frag f then Some (out @ [msg])
      else do {
        cs \<leftarrow> slice_chunks (max_frag f) (payload_bytes (pm_payload msg));
        Some (fold (\<lambda>chunk out. out @ [\<lparr>pm_typ = pm_typ msg, pm_version = pm_version msg,
          pm_payload = Payload chunk\<rparr>]) cs out)
      })"

definition fragment_borrow ::
    "MessageFragmenter \<Rightarrow> ContentType \<Rightarrow> ProtocolVersion \<Rightarrow> bytes \<Rightarrow> BorrowedPlainMessage list \<Rightarrow>
     BorrowedPlainMessage list option" where
  "fragment_borrow f ty version payload out =
     do {
       cs \<leftarrow> slice_chunks (max_frag f) payload;
       Some (fold (\<lambda>chunk out. out @ [\<lparr>bpm_typ = ty, bpm_version = version, bpm_payload = chunk\<rparr>]) cs out)
     }"

section \<open>Deframer\<close>

record MessageDeframer =
  df_frames :: "OpaqueMessage list"
  df_desynced :: bool
  df_buf :: bytes
  df_used :: nat

datatype BufferContents = Invalid | Partial | Valid

definition MessageDeframer_new :: MessageDeframer where
  "MessageDeframer_new =
     \<lparr>df_frames = [], df_desynced = False, df_buf = replicate MAX_WIRE_SIZE 0, df_used = 0\<rparr>"

definition has_pending :: "MessageDeframer \<Rightarrow> bool" where
  "has_pending s = (df_frames s \<noteq> [] \<or> df_used s > 0)"

text \<open>\<open>copy_within(taken..used, 0)\<close> moves the pending bytes to the front.\<close>

definition buf_consume :: "nat \<Rightarrow> MessageDeframer \<Rightarrow> MessageDeframer" where
  "buf_consume taken s =
     (if taken < df_used s
      then s\<lparr>df_buf := take (df_used s - taken) (drop taken (df_buf s)) @ drop (df_used s - taken) (df_buf s),
             df_used := df_used s - taken\<rparr>
      else if taken = df_used s then s\<lparr>df_used := 0\<rparr>
      else s)"

definition try_deframe_one :: "MessageDeframer \<Rightarrow> BufferContents \<times> MessageDeframer" where
  "try_deframe_one s =
     (case OpaqueMessage_read (Reader_init (take (df_used s) (df_buf s))) of
        Inr (m, rd) \<Rightarrow>
          (let used = Reader_used rd;
               s = s\<lparr>df_frames := df_frames s @ [m]\<rparr>
           in (Valid, buf_consume used s))
      | Inl TooShortForHeader \<Rightarrow> (Partial, s)
      | Inl TooShortForLength \<Rightarrow> (Partial, s)
      | Inl _ \<Rightarrow> (Invalid, s))"

lemma OpaqueMessage_read_used:
  "OpaqueMessage_read (Reader_init b) = Inr (m, rd) \<Longrightarrow> 0 < Reader_used rd \<and> Reader_used rd \<le> length b"
  by (auto simp: OpaqueMessage_read_iff Reader_used_def OpaqueMessage_length)

lemma try_deframe_one_used: "try_deframe_one s = (Valid, s') \<Longrightarrow> df_used s' < df_used s"
  using OpaqueMessage_read_used [of "take (df_used s) (df_buf s)"]
  by (fastforce simp: try_deframe_one_def buf_consume_def Let_def split: sum.splits MessageError.splits if_splits)

function deframe_loop :: "MessageDeframer \<Rightarrow> MessageDeframer" where
  "deframe_loop s =
     (case try_deframe_one s of
        (Invalid, s) \<Rightarrow> s\<lparr>df_desynced := True\<rparr>
      | (Valid, s) \<Rightarrow> deframe_loop s
      | (Partial, s) \<Rightarrow> s)"
  by auto
termination
  by (relation "measure df_used") (auto dest: try_deframe_one_used [OF sym])

declare deframe_loop.simps [simp del]

text \<open>\<open>None\<close> is the panic of the slice \<open>buf[used..]\<close>.\<close>

definition deframer_read ::
    "(nat \<Rightarrow> 'e + bytes) \<Rightarrow> MessageDeframer \<Rightarrow> (('e + nat) \<times> MessageDeframer) option" where
  "deframer_read rd s =
     (if df_used s > length (df_buf s) then None
      else case rd (length (df_buf s) - df_used s) of
        Inl e \<Rightarrow> Some (Inl e, s)
      | Inr data \<Rightarrow>
          let new_bytes = length data;
              s = s\<lparr>df_buf := write_at (df_buf s) (df_used s) data, df_used := df_used s + new_bytes\<rparr>
          in Some (Inr new_bytes, deframe_loop s))"

definition deframer_read_async ::
    "(nat \<Rightarrow> 'e + bytes) \<Rightarrow> MessageDeframer \<Rightarrow> (('e + nat) \<times> MessageDeframer) option" where
  "deframer_read_async rd s =
     (if df_used s > length (df_buf s) then None
      else case rd (length (df_buf s) - df_used s) of
        Inl e \<Rightarrow> Some (Inl e, s)
      | Inr data \<Rightarrow>
          let new_bytes = length data;
              s = s\<lparr>df_buf := write_at (df_buf s) (df_used s) data, df_used := df_used s + new_bytes\<rparr>
          in Some (Inr new_bytes, deframe_loop s))"

lemma deframer_read_async_eq: "deframer_read_async = deframer_read"
  by (intro ext) (simp only: deframer_read_def deframer_read_async_def)

section \<open>Handshake joiner\<close>

definition HS_HEADER_SIZE :: nat where
  "HS_HEADER_SIZE = 1 + 3"

definition MAX_HANDSHAKE_SIZE :: u32 where
  "MAX_HANDSHAKE_SIZE = 0xffff"

record HandshakeJoiner =
  hj_frames :: "Message list"
  hj_buf :: bytes

datatype BufferState = MessageTooLarge | OneMessage | NeedsMoreData

definition HandshakeJoiner_new :: HandshakeJoiner where
  "HandshakeJoiner_new = \<lparr>hj_frames = [], hj_buf = []\<rparr>"

definition want_message :: "PlainMessage \<Rightarrow> bool" where
  "want_message msg = (pm_typ msg = ContentType.Handshake)"

definition HandshakeJoiner_is_empty :: "HandshakeJoiner \<Rightarrow> bool" where
  "HandshakeJoiner_is_empty s = (hj_buf s = [])"

definition buf_contains_message :: "HandshakeJoiner \<Rightarrow> BufferState" where
  "buf_contains_message s =
     (if length (hj_buf s) < HS_HEADER_SIZE then NeedsMoreData
      else let header = take HS_HEADER_SIZE (hj_buf s); rest = drop HS_HEADER_SIZE (hj_buf s) in
        case u24_decode (drop 1 header) of
          Some len \<Rightarrow>
            (if u24_val len > MAX_HANDSHAKE_SIZE then MessageTooLarge
             else if unat (u24_val len) \<le> length rest then OneMessage
             else NeedsMoreData)
        | None \<Rightarrow> NeedsMoreData)"

text \<open>\<open>None\<close> is the result \<open>false\<close>.\<close>

definition deframe_one ::
    "(bytes \<Rightarrow> bool) \<Rightarrow> ProtocolVersion \<Rightarrow> HandshakeJoiner \<Rightarrow> HandshakeJoiner option" where
  "deframe_one valid_dns version s =
     (case HandshakeMessagePayload_read_version valid_dns version (Reader_init (hj_buf s)) of
        None \<Rightarrow> None
      | Some (payload, rd) \<Rightarrow>
          let m = \<lparr>msg_version = version, msg_payload = MessagePayload.Handshake payload\<rparr>;
              used = Reader_used rd
          in Some (s\<lparr>hj_frames := hj_frames s @ [m], hj_buf := drop used (hj_buf s)\<rparr>))"

lemma HandshakeMessage_read_init:
  "HandshakeMessagePayload_read_version V vers (Reader_init b) = Some (x, r') \<longleftrightarrow>
   HandshakeMessagePayload_ok V vers x \<and> (\<exists>rest. b = get_encoding HandshakeMessagePayload_encode x @ rest) \<and>
   r' = \<lparr>rd_buf = b, rd_offs = length (get_encoding HandshakeMessagePayload_encode x)\<rparr>"
  unfolding HandshakeMessagePayload_c.read_iff [OF reader_ok_init]
  by (auto simp: reads_def fits_def advance_def Reader_init_def remaining_def)

lemma deframe_one_shorter: "deframe_one V vers s = Some s' \<Longrightarrow> length (hj_buf s') < length (hj_buf s)"
  by (auto simp: deframe_one_def HandshakeMessage_read_init Reader_used_def HandshakeMessagePayload_bytes Let_def
      split: option.splits)

function join_loop ::
    "(bytes \<Rightarrow> bool) \<Rightarrow> ProtocolVersion \<Rightarrow> nat \<Rightarrow> HandshakeJoiner \<Rightarrow> (nat \<times> HandshakeJoiner) option" where
  "join_loop valid_dns version count s =
     (case buf_contains_message s of
        MessageTooLarge \<Rightarrow> None
      | NeedsMoreData \<Rightarrow> Some (count, s)
      | OneMessage \<Rightarrow>
          (case deframe_one valid_dns version s of
             None \<Rightarrow> None
           | Some s' \<Rightarrow> join_loop valid_dns version (count + 1) s'))"
  by auto
termination
  by (relation "measure (\<lambda>(_, _, _, s). length (hj_buf s))") (auto dest: deframe_one_shorter)

declare join_loop.simps [simp del]

definition take_message ::
    "(bytes \<Rightarrow> bool) \<Rightarrow> PlainMessage \<Rightarrow> HandshakeJoiner \<Rightarrow> (nat \<times> HandshakeJoiner) option" where
  "take_message valid_dns msg s =
     (let s = (if hj_buf s = [] then s\<lparr>hj_buf := payload_bytes (pm_payload msg)\<rparr>
               else s\<lparr>hj_buf := hj_buf s @ payload_bytes (pm_payload msg)\<rparr>)
      in join_loop valid_dns (pm_version msg) 0 s)"

section \<open>Fragments\<close>

lemma concat_chunks: "0 < n \<Longrightarrow> concat (chunks n xs) = xs"
  by (induction n xs rule: chunks.induct) (simp add: chunks.simps)

lemma chunks_bounds: "c \<in> set (chunks n xs) \<Longrightarrow> c \<noteq> [] \<and> length c \<le> n"
proof (induction n xs rule: chunks.induct)
  case (1 n xs)
  then show ?case by (subst (asm) (2) chunks.simps) (auto split: if_splits)
qed

lemma length_chunks: "0 < n \<Longrightarrow> length (chunks n xs) = (length xs + n - 1) div n"
proof (induction n xs rule: chunks.induct)
  case (1 n xs)
  show ?case
  proof (cases "xs = []")
    case False
    moreover have "(length xs + n - 1) div n = Suc ((length xs - n + n - 1) div n)" if "n < length xs"
      using 1(2) that by (simp add: le_div_geq Suc_diff_le)
    moreover have "(length xs + n - 1) div n = 1" if "length xs \<le> n"
    proof (rule div_nat_eqI)
      show "n * 1 \<le> length xs + n - 1" using False by (cases xs) auto
      show "length xs + n - 1 < n * Suc 1" using that 1(2) by simp
    qed
    ultimately show ?thesis
      using 1 False by (subst chunks.simps) (cases "n < length xs"; simp add: not_less)
  qed (use 1(2) in \<open>simp add: chunks.simps\<close>)
qed

lemma fold_snoc: "fold (\<lambda>x out. out @ [f x]) xs out = out @ map f xs"
  by (induction xs arbitrary: out) auto

lemma MessageFragmenter_new_cases:
  "MessageFragmenter_new sz = (case sz of None \<Rightarrow> Inr \<lparr>max_frag = 16384\<rparr>
     | Some n \<Rightarrow> if 32 \<le> n \<and> n \<le> 16389 then Inr \<lparr>max_frag = n - 5\<rparr> else Inl BadMaxFragmentSize)"
proof -
  have "MAX_FRAGMENT_SIZE = 16389" "PACKET_OVERHEAD = 5"
    by (simp_all add: MAX_FRAGMENT_SIZE_def MAX_FRAGMENT_LEN_def PACKET_OVERHEAD_def)
  then show ?thesis
    by (simp add: MessageFragmenter_new_def set_max_fragment_size_def MAX_FRAGMENT_LEN_def split: option.split)
qed

lemma MessageFragmenter_new_bounds:
  "MessageFragmenter_new sz = Inr f \<Longrightarrow> 27 \<le> max_frag f \<and> max_frag f \<le> 16384"
  by (auto simp: MessageFragmenter_new_cases split: option.splits if_splits)

lemma fragment_spec:
  assumes "0 < max_frag f"
  obtains frs where "fragment f msg out = Some (out @ frs)"
    and "concat (map (\<lambda>fr. payload_bytes (pm_payload fr)) frs) = payload_bytes (pm_payload msg)"
    and "\<And>fr. fr \<in> set frs \<Longrightarrow> pm_typ fr = pm_typ msg \<and> pm_version fr = pm_version msg \<and>
      length (payload_bytes (pm_payload fr)) \<le> max_frag f \<and>
      (payload_bytes (pm_payload msg) \<noteq> [] \<longrightarrow> payload_bytes (pm_payload fr) \<noteq> [])"
    and "length frs = max 1 ((length (payload_bytes (pm_payload msg)) + max_frag f - 1) div max_frag f)"
proof -
  let ?p = "payload_bytes (pm_payload msg)"
  let ?m = "\<lambda>c. \<lparr>pm_typ = pm_typ msg, pm_version = pm_version msg, pm_payload = Payload c\<rparr>"
  show thesis
  proof (cases "length ?p \<le> max_frag f")
    case True
    then have "(length ?p + max_frag f - 1) div max_frag f \<le> 1"
      using assms by (simp add: div_le_mono less_Suc_eq_le [symmetric] div_less_iff_less_mult)
    then show ?thesis using True by (intro that [of "[msg]"]) (auto simp: fragment_def)
  next
    case False
    then have "1 \<le> (length ?p + max_frag f - 1) div max_frag f"
      using assms by (simp add: Suc_le_eq div_greater_zero_iff)
    then show ?thesis
      using False assms chunks_bounds [of _ "max_frag f" ?p]
      by (intro that [of "map ?m (chunks (max_frag f) ?p)"])
        (auto simp: fragment_def slice_chunks_def fold_snoc comp_def concat_chunks length_chunks)
  qed
qed

section \<open>Records from reads of any size\<close>

definition pending :: "MessageDeframer \<Rightarrow> bytes" where
  "pending s = take (df_used s) (df_buf s)"

definition deframer_inv :: "MessageDeframer \<Rightarrow> bool" where
  "deframer_inv s \<longleftrightarrow> length (df_buf s) = MAX_WIRE_SIZE \<and> df_used s \<le> MAX_WIRE_SIZE"

text \<open>The front of \<open>b\<close> is not a record, and no more input will make it one.\<close>

definition refused :: "bytes \<Rightarrow> bool" where
  "refused b \<longleftrightarrow> (\<exists>e. OpaqueMessage_read (Reader_init b) = Inl e \<and> \<not> undecided e)"

definition incomplete :: "bytes \<Rightarrow> bool" where
  "incomplete b \<longleftrightarrow> (\<exists>e. OpaqueMessage_read (Reader_init b) = Inl e \<and> undecided e)"

text \<open>\<open>b\<close> consists of the records \<open>ms\<close> and a rest that does not start with a record.\<close>

definition stream_split :: "bytes \<Rightarrow> OpaqueMessage list \<Rightarrow> bytes \<Rightarrow> bool" where
  "stream_split b ms rest \<longleftrightarrow> b = concat (map OpaqueMessage_encode ms) @ rest \<and>
     (\<forall>m \<in> set ms. OpaqueMessage_ok m) \<and> (refused rest \<or> incomplete rest)"

lemma not_split_iff: "refused b \<or> incomplete b \<longleftrightarrow> (\<nexists>m rest. OpaqueMessage_ok m \<and> b = OpaqueMessage_encode m @ rest)"
proof -
  have "refused b \<or> incomplete b \<longleftrightarrow> (\<nexists>x. OpaqueMessage_read (Reader_init b) = Inr x)"
    unfolding refused_def incomplete_def
    by (cases "OpaqueMessage_read (Reader_init b)") auto
  then show ?thesis by (auto simp: OpaqueMessage_read_iff)
qed

lemma stream_split_unique:
  "stream_split b ms rest \<Longrightarrow> stream_split b ms' rest' \<Longrightarrow> ms = ms' \<and> rest = rest'"
proof (induction ms arbitrary: b ms')
  case Nil
  then show ?case by (cases ms') (auto simp: stream_split_def not_split_iff)
next
  case (Cons m ms)
  then obtain m' ms1 where ms': "ms' = m' # ms1"
    by (cases ms') (auto simp: stream_split_def not_split_iff)
  with Cons.prems have "m = m' \<and> concat (map OpaqueMessage_encode ms) @ rest =
      concat (map OpaqueMessage_encode ms1) @ rest'"
    by (intro OpaqueMessage_prefix_free) (auto simp: stream_split_def)
  with Cons show ?case by (auto simp: stream_split_def ms')
qed

lemma refused_append: "refused b \<Longrightarrow> refused (b @ c)"
  using OpaqueMessage_read_stable by (auto simp: refused_def)

lemma not_refused_and_incomplete: "\<not> (refused b \<and> incomplete b)"
  by (auto simp: refused_def incomplete_def)

lemma MAX_WIRE_SIZE_eq: "MAX_WIRE_SIZE = 18437"
  by (simp add: MAX_WIRE_SIZE_def MAX_PAYLOAD_def HEADER_SIZE_def)

lemma incomplete_short: "incomplete b \<Longrightarrow> length b < MAX_WIRE_SIZE"
  using OpaqueMessage_undecided_length [of b] by (auto simp: incomplete_def MAX_WIRE_SIZE_eq)

lemma buf_consume_pending:
  assumes "deframer_inv s" and "pending s = e @ rest"
  shows "deframer_inv (buf_consume (length e) s)" and "pending (buf_consume (length e) s) = rest"
    and "df_frames (buf_consume (length e) s) = df_frames s"
    and "df_desynced (buf_consume (length e) s) = df_desynced s"
proof -
  have l: "length e + length rest = df_used s"
    using assms by (metis deframer_inv_def length_append length_take min.absorb2 pending_def)
  have "take (df_used s - length e) (drop (length e) (df_buf s)) = rest"
    using assms(2) by (metis append_eq_conv_conj drop_take pending_def)
  then show "pending (buf_consume (length e) s) = rest" "deframer_inv (buf_consume (length e) s)"
    using assms l by (auto simp: buf_consume_def pending_def deframer_inv_def)
qed (simp_all add: buf_consume_def)

lemma pending_frames [simp]: "pending (s\<lparr>df_frames := x\<rparr>) = pending s" "pending (s\<lparr>df_desynced := d\<rparr>) = pending s"
    "deframer_inv (s\<lparr>df_frames := x\<rparr>) = deframer_inv s" "deframer_inv (s\<lparr>df_desynced := d\<rparr>) = deframer_inv s"
  by (simp_all add: pending_def deframer_inv_def)

lemma try_deframe_one_cases:
  assumes "deframer_inv s"
  obtains (Valid) m rest s' where "try_deframe_one s = (Valid, s')" "OpaqueMessage_ok m"
      "pending s = OpaqueMessage_encode m @ rest" "deframer_inv s'" "pending s' = rest"
      "df_frames s' = df_frames s @ [m]" "df_desynced s' = df_desynced s"
  | (Partial) "try_deframe_one s = (Partial, s)" "incomplete (pending s)"
  | (Invalid) "try_deframe_one s = (Invalid, s)" "refused (pending s)"
proof (cases "OpaqueMessage_read (Reader_init (pending s))")
  case (Inl e)
  then show ?thesis
    using that(2,3) by (cases e) (auto simp: try_deframe_one_def pending_def refused_def incomplete_def undecided_def)
next
  case (Inr x)
  then obtain m rd where x: "OpaqueMessage_read (Reader_init (pending s)) = Inr (m, rd)" by (cases x) auto
  then obtain rest where m: "OpaqueMessage_ok m" "pending s = OpaqueMessage_encode m @ rest"
    "Reader_used rd = length (OpaqueMessage_encode m)"
    by (auto simp: OpaqueMessage_read_iff Reader_used_def)
  let ?s = "s\<lparr>df_frames := df_frames s @ [m]\<rparr>"
  have "try_deframe_one s = (Valid, buf_consume (length (OpaqueMessage_encode m)) ?s)"
    using x m(3) by (simp add: try_deframe_one_def pending_def)
  then show ?thesis
    using m(1,2) assms buf_consume_pending [of ?s "OpaqueMessage_encode m" rest]
    by (intro that(1) [of "buf_consume (length (OpaqueMessage_encode m)) ?s" m rest]) simp_all
qed

lemma deframe_loop_split:
  assumes "deframer_inv s"
  shows "\<exists>ms. deframer_inv (deframe_loop s) \<and> df_frames (deframe_loop s) = df_frames s @ ms \<and>
    stream_split (pending s) ms (pending (deframe_loop s)) \<and>
    df_desynced (deframe_loop s) = (df_desynced s \<or> refused (pending (deframe_loop s)))"
  using assms
proof (induction s rule: deframe_loop.induct)
  case (1 s)
  from 1(2) show ?case
  proof (cases rule: try_deframe_one_cases)
    case (Valid m rest s')
    then obtain ms where "deframer_inv (deframe_loop s') \<and> df_frames (deframe_loop s') = df_frames s' @ ms \<and>
        stream_split (pending s') ms (pending (deframe_loop s')) \<and>
        df_desynced (deframe_loop s') = (df_desynced s' \<or> refused (pending (deframe_loop s')))"
      using 1(1) [OF Valid(1) [symmetric] refl Valid(4)] by blast
    moreover have "deframe_loop s = deframe_loop s'"
      using Valid(1) by (subst deframe_loop.simps) simp
    ultimately show ?thesis
      using Valid by (intro exI [of _ "m # ms"]) (simp add: stream_split_def)
  next
    case Partial
    then have "deframe_loop s = s" by (subst deframe_loop.simps) simp
    then show ?thesis
      using Partial(2) 1(2) not_refused_and_incomplete [of "pending s"]
      by (intro exI [of _ "[]"]) (simp add: stream_split_def)
  next
    case Invalid
    then have "deframe_loop s = s\<lparr>df_desynced := True\<rparr>" by (subst deframe_loop.simps) simp
    then show ?thesis
      using Invalid(2) 1(2) by (intro exI [of _ "[]"]) (simp add: stream_split_def)
  qed
qed

text \<open>A sequence of reads that deliver the given byte strings, each no longer than the buffer it is read into.\<close>

fun deframer_feed :: "bytes list \<Rightarrow> MessageDeframer \<Rightarrow> MessageDeframer option" where
  "deframer_feed [] s = Some s"
| "deframer_feed (c # cs) s =
     (if length c \<le> length (df_buf s) - df_used s
      then (case deframer_read (\<lambda>_. (Inr c :: unit + bytes)) s of
              Some (_, s') \<Rightarrow> deframer_feed cs s'
            | None \<Rightarrow> None)
      else None)"

definition stream_state :: "bytes \<Rightarrow> MessageDeframer \<Rightarrow> bool" where
  "stream_state b s \<longleftrightarrow> deframer_inv s \<and> stream_split b (df_frames s) (pending s) \<and>
     df_desynced s = refused (pending s)"

lemma stream_state_new: "stream_state [] MessageDeframer_new"
  by (auto simp: stream_state_def MessageDeframer_new_def deframer_inv_def pending_def stream_split_def
      refused_def incomplete_def OpaqueMessage_read_init undecided_def)

lemma stream_state_read:
  assumes "stream_state b s" and "length c \<le> length (df_buf s) - df_used s"
  shows "\<exists>s'. deframer_read (\<lambda>_. Inr c) s = Some (Inr (length c), s') \<and> stream_state (b @ c) s'"
proof -
  let ?s = "s\<lparr>df_buf := write_at (df_buf s) (df_used s) c, df_used := df_used s + length c\<rparr>"
  have inv: "deframer_inv s" using assms(1) by (simp add: stream_state_def)
  then have read: "deframer_read (\<lambda>_. Inr c) s = Some (Inr (length c), deframe_loop ?s)"
    by (simp add: deframer_read_def deframer_inv_def Let_def)
  have p: "pending ?s = pending s @ c" "deframer_inv ?s"
    using inv assms(2) by (auto simp: pending_def deframer_inv_def write_at_def)
  obtain ms where ms: "deframer_inv (deframe_loop ?s)" "df_frames (deframe_loop ?s) = df_frames s @ ms"
    "stream_split (pending s @ c) ms (pending (deframe_loop ?s))"
    "df_desynced (deframe_loop ?s) = (df_desynced s \<or> refused (pending (deframe_loop ?s)))"
    using deframe_loop_split [OF p(2)] p(1) by auto
  have "df_desynced s \<Longrightarrow> stream_split (pending s @ c) [] (pending s @ c)"
    using assms(1) refused_append by (simp add: stream_state_def stream_split_def)
  then have "df_desynced s \<Longrightarrow> refused (pending (deframe_loop ?s))"
    using stream_split_unique [OF ms(3)] assms(1) refused_append by (fastforce simp: stream_state_def)
  with ms assms(1) have "stream_state (b @ c) (deframe_loop ?s)"
    by (auto simp: stream_state_def stream_split_def)
  with read show ?thesis by blast
qed

lemma deframer_feed_state:
  "stream_state b s \<Longrightarrow> deframer_feed cs s = Some s' \<Longrightarrow> stream_state (b @ concat cs) s'"
proof (induction cs arbitrary: b s)
  case (Cons c cs)
  then have c: "length c \<le> length (df_buf s) - df_used s" by (auto split: if_splits)
  from stream_state_read [OF Cons.prems(1) c] obtain s1 where
    "deframer_read (\<lambda>_. (Inr c :: unit + bytes)) s = Some (Inr (length c), s1)" "stream_state (b @ c) s1" by blast
  with Cons c show ?case by fastforce
qed simp

section \<open>Handshake messages from records\<close>

abbreviation hs_bytes :: "HandshakeMessagePayload \<Rightarrow> bytes" where
  "hs_bytes \<equiv> get_encoding HandshakeMessagePayload_encode"

definition hs_msg :: "ProtocolVersion \<Rightarrow> HandshakeMessagePayload \<Rightarrow> Message" where
  "hs_msg vers h = \<lparr>msg_version = vers, msg_payload = MessagePayload.Handshake h\<rparr>"

text \<open>The messages that the joiner lets through: well-formed and at most 64 KB long.\<close>

definition joinable :: "(bytes \<Rightarrow> bool) \<Rightarrow> ProtocolVersion \<Rightarrow> HandshakeMessagePayload \<Rightarrow> bool" where
  "joinable V vers h \<longleftrightarrow> HandshakeMessagePayload_ok V vers h \<and> length (hs_bytes h) \<le> 4 + 0xffff"

lemma hs_bytes_eq: "hs_bytes h = HandshakeType_get_u8 (wire_type (hmp_typ h)) #
    be_bytes 3 (length (HandshakePayload_encode (hmp_payload h) [])) @ HandshakePayload_encode (hmp_payload h) []"
  if "joinable V vers h"
  using that by (simp add: joinable_def HandshakeMessagePayload_bytes unsigned_of_nat take_bit_nat_eq_self)

lemma u24_decode_be: "n < 256 ^ 3 \<Longrightarrow> u24_decode (be_bytes 3 n) = Some (u24 (of_nat n))"
  by (simp add: u24_decode_def be_value_be_bytes)

lemma buf_contains_prefix:
  assumes "joinable V vers h" and "4 \<le> length b" and "b @ c = hs_bytes h @ d"
  shows "buf_contains_message \<lparr>hj_frames = fs, hj_buf = b\<rparr> =
    (if length (hs_bytes h) \<le> length b then OneMessage else NeedsMoreData)"
proof -
  let ?n = "length (HandshakePayload_encode (hmp_payload h) [])"
  have n: "?n \<le> 0xffff" and l: "length (hs_bytes h) = 4 + ?n"
    using assms(1) hs_bytes_eq [OF assms(1)] by (auto simp: joinable_def)
  have "take 4 b = take 4 (b @ c)" using assms(2) by simp
  also have "\<dots> = HandshakeType_get_u8 (wire_type (hmp_typ h)) # be_bytes 3 ?n"
    unfolding assms(3) by (simp add: hs_bytes_eq [OF assms(1)] take_Cons')
  finally have "drop 1 (take 4 b) = be_bytes 3 ?n" by simp
  moreover have "unat (of_nat ?n :: u32) = ?n" using n by (simp add: unsigned_of_nat take_bit_nat_eq_self)
  moreover from this n have "\<not> (of_nat ?n :: u32) > MAX_HANDSHAKE_SIZE"
    by (simp add: MAX_HANDSHAKE_SIZE_def word_less_nat_alt)
  ultimately show ?thesis
    using n assms(2) by (auto simp: buf_contains_message_def HS_HEADER_SIZE_def u24_decode_be l Let_def)
qed

lemma deframe_one_front:
  assumes "HandshakeMessagePayload_ok V vers h"
  shows "deframe_one V vers \<lparr>hj_frames = fs, hj_buf = hs_bytes h @ c\<rparr> =
    Some \<lparr>hj_frames = fs @ [hs_msg vers h], hj_buf = c\<rparr>"
proof -
  have "HandshakeMessagePayload_read_version V vers (Reader_init (hs_bytes h @ c)) =
      Some (h, \<lparr>rd_buf = hs_bytes h @ c, rd_offs = length (hs_bytes h)\<rparr>)"
    using assms by (simp add: HandshakeMessage_read_init)
  then show ?thesis by (simp add: deframe_one_def Reader_used_def hs_msg_def)
qed

text \<open>\<open>rest\<close> is what remains of \<open>b\<close> after all complete messages, which are \<open>ks\<close> out of \<open>hs\<close>.\<close>

definition hs_split :: "HandshakeMessagePayload list \<Rightarrow> bytes \<Rightarrow> HandshakeMessagePayload list \<Rightarrow>
    HandshakeMessagePayload list \<Rightarrow> bytes \<Rightarrow> bool" where
  "hs_split hs b ks ls rest \<longleftrightarrow> hs = ks @ ls \<and> b = concat (map hs_bytes ks) @ rest \<and>
     (case ls of [] \<Rightarrow> rest = [] | l # _ \<Rightarrow> length rest < length (hs_bytes l) \<and> (\<exists>c. rest @ c = hs_bytes l))"

lemma hs_split_exists:
  "b @ c = concat (map hs_bytes hs) \<Longrightarrow> \<exists>ks ls rest. hs_split hs b ks ls rest"
proof (induction hs arbitrary: b)
  case Nil
  then show ?case by (auto simp: hs_split_def)
next
  case (Cons h hs)
  show ?case
  proof (cases "length b < length (hs_bytes h)")
    case True
    with Cons.prems have "hs_split (h # hs) b [] (h # hs) b"
      by (auto simp: hs_split_def append_eq_append_conv_if) (metis append_take_drop_id)
    then show ?thesis by blast
  next
    case False
    let ?b = "drop (length (hs_bytes h)) b"
    have "take (length (hs_bytes h)) (b @ c) = hs_bytes h" using Cons.prems by simp
    with False have b: "b = hs_bytes h @ ?b" by (simp, metis append_take_drop_id)
    have c: "?b @ c = concat (map hs_bytes hs)" using Cons.prems by (subst (asm) b) simp
    from Cons.IH [OF c] obtain ks ls rest where "hs_split hs ?b ks ls rest" by blast
    then have "hs_split (h # hs) b (h # ks) ls rest" using b by (simp add: hs_split_def)
    then show ?thesis by blast
  qed
qed

lemma join_loop_split:
  assumes "\<forall>h \<in> set hs. joinable V vers h" and "hs_split hs b ks ls rest"
  shows "join_loop V vers n \<lparr>hj_frames = fs, hj_buf = b\<rparr> =
    Some (n + length ks, \<lparr>hj_frames = fs @ map (hs_msg vers) ks, hj_buf = rest\<rparr>)"
  using assms
proof (induction ks arbitrary: hs b n fs)
  case Nil
  have "buf_contains_message \<lparr>hj_frames = fs, hj_buf = b\<rparr> = NeedsMoreData"
  proof (cases "length b < 4")
    case False
    with Nil obtain l ls' c where "ls = l # ls'" "joinable V vers l" "b @ c = hs_bytes l" "length b < length (hs_bytes l)"
      by (auto simp: hs_split_def split: list.splits)
    then show ?thesis using buf_contains_prefix [of V vers l b c "[]" fs] False by simp
  qed (simp add: buf_contains_message_def HS_HEADER_SIZE_def)
  with Nil show ?case by (subst join_loop.simps) (auto simp: hs_split_def split: list.splits)
next
  case (Cons k ks)
  let ?b = "concat (map hs_bytes ks) @ rest"
  from Cons.prems have b: "b = hs_bytes k @ ?b" and k: "joinable V vers k" and hs: "hs = k # ks @ ls"
    and s: "hs_split (ks @ ls) ?b ks ls rest"
    by (auto simp: hs_split_def)
  have "4 \<le> length b" using hs_bytes_eq [OF k] by (simp add: b)
  then have "buf_contains_message \<lparr>hj_frames = fs, hj_buf = b\<rparr> = OneMessage"
    using buf_contains_prefix [OF k, of b "[]" ?b] by (simp add: b)
  moreover have "deframe_one V vers \<lparr>hj_frames = fs, hj_buf = b\<rparr> =
      Some \<lparr>hj_frames = fs @ [hs_msg vers k], hj_buf = ?b\<rparr>"
    using deframe_one_front k by (simp add: b joinable_def)
  ultimately show ?case
    using Cons.IH [of "ks @ ls" ?b "n + 1" "fs @ [hs_msg vers k]"] Cons.prems(1) s hs
    by (subst join_loop.simps) simp
qed

text \<open>A sequence of records given to the joiner, with the total count of messages.\<close>

fun joiner_feed :: "(bytes \<Rightarrow> bool) \<Rightarrow> PlainMessage list \<Rightarrow> HandshakeJoiner \<Rightarrow> (nat \<times> HandshakeJoiner) option" where
  "joiner_feed V [] s = Some (0, s)"
| "joiner_feed V (p # ps) s =
     do { (n, s) \<leftarrow> take_message V p s; (m, s) \<leftarrow> joiner_feed V ps s; Some (n + m, s) }"

lemma joiner_feed_split:
  assumes "\<forall>h \<in> set ls. joinable V vers h" and "\<forall>p \<in> set ps. pm_version p = vers"
    and "rest @ concat (map (\<lambda>p. payload_bytes (pm_payload p)) ps) = concat (map hs_bytes ls)"
    and "hs_split ls rest [] ls rest"
  shows "joiner_feed V ps \<lparr>hj_frames = fs, hj_buf = rest\<rparr> =
    Some (length ls, \<lparr>hj_frames = fs @ map (hs_msg vers) ls, hj_buf = []\<rparr>)"
  using assms
proof (induction ps arbitrary: ls rest fs)
  case Nil
  then have "ls = []" by (cases ls) (auto simp: hs_split_def)
  with Nil show ?case by simp
next
  case (Cons p ps)
  let ?p = "payload_bytes (pm_payload p)" and ?ps = "concat (map (\<lambda>p. payload_bytes (pm_payload p)) ps)"
  from Cons.prems(3) have pre: "(rest @ ?p) @ ?ps = concat (map hs_bytes ls)" by simp
  from hs_split_exists [OF this] obtain ks ls' rest' where s: "hs_split ls (rest @ ?p) ks ls' rest'" by blast
  then have ls: "ls = ks @ ls'" "rest @ ?p = concat (map hs_bytes ks) @ rest'" "hs_split ls' rest' [] ls' rest'"
    by (auto simp: hs_split_def)
  have "take_message V p \<lparr>hj_frames = fs, hj_buf = rest\<rparr> =
      Some (length ks, \<lparr>hj_frames = fs @ map (hs_msg vers) ks, hj_buf = rest'\<rparr>)"
    using join_loop_split [OF Cons.prems(1) s, of 0 fs] Cons.prems(2)
    by (cases "rest = []") (simp_all add: take_message_def)
  moreover have "rest' @ ?ps = concat (map hs_bytes ls')" using pre unfolding ls(2) by (simp add: ls(1))
  ultimately show ?case
    using Cons.IH [of ls' rest' "fs @ map (hs_msg vers) ks"] Cons.prems(1,2) ls by auto
qed

section \<open>Properties\<close>

text \<open>C34: a fragmenter that was created cuts a message into records that together carry its payload in
  order, each of the message's type and version and none longer than the limit, which lies between 27
  and 16384 bytes; it never panics and makes as few records as possible.\<close>

theorem fragment_exact:
  assumes "MessageFragmenter_new sz = Inr f"
  shows "\<exists>frs. fragment f msg out = Some (out @ frs) \<and>
    concat (map (\<lambda>fr. payload_bytes (pm_payload fr)) frs) = payload_bytes (pm_payload msg) \<and>
    (\<forall>fr \<in> set frs. pm_typ fr = pm_typ msg \<and> pm_version fr = pm_version msg \<and>
      length (payload_bytes (pm_payload fr)) \<le> max_frag f) \<and>
    length frs = max 1 ((length (payload_bytes (pm_payload msg)) + max_frag f - 1) div max_frag f) \<and>
    27 \<le> max_frag f \<and> max_frag f \<le> 16384"
proof -
  have b: "27 \<le> max_frag f" "max_frag f \<le> 16384" using MessageFragmenter_new_bounds [OF assms] by auto
  then obtain frs where "fragment f msg out = Some (out @ frs)"
    "concat (map (\<lambda>fr. payload_bytes (pm_payload fr)) frs) = payload_bytes (pm_payload msg)"
    "\<And>fr. fr \<in> set frs \<Longrightarrow> pm_typ fr = pm_typ msg \<and> pm_version fr = pm_version msg \<and>
      length (payload_bytes (pm_payload fr)) \<le> max_frag f"
    "length frs = max 1 ((length (payload_bytes (pm_payload msg)) + max_frag f - 1) div max_frag f)"
    using fragment_spec [of f msg out] by (metis less_le_trans zero_less_numeral)
  with b show ?thesis by blast
qed



text \<open>C27: whatever the records that a sequence of handshake messages is spread over, the joiner outputs exactly
  these messages in order, counts them, and has nothing left in its buffer.\<close>

theorem joiner_exact:
  assumes "\<forall>h \<in> set hs. joinable V vers h" and "\<forall>p \<in> set ps. pm_version p = vers"
    and "concat (map (\<lambda>p. payload_bytes (pm_payload p)) ps) = concat (map hs_bytes hs)"
  shows "joiner_feed V ps HandshakeJoiner_new =
    Some (length hs, \<lparr>hj_frames = map (hs_msg vers) hs, hj_buf = []\<rparr>)"
proof -
  have "hs_split hs [] [] hs []"
  proof (cases hs)
    case (Cons h hs')
    with assms(1) have "joinable V vers h" by simp
    from hs_bytes_eq [OF this] Cons show ?thesis by (simp add: hs_split_def)
  qed (simp add: hs_split_def)
  from joiner_feed_split [OF assms(1,2) _ this, of "[]"] assms(3) show ?thesis
    by (simp add: HandshakeJoiner_new_def)
qed


section \<open>Witnesses\<close>

definition ex_record :: OpaqueMessage where
  "ex_record = \<lparr>om_typ = ContentType.Alert, om_version = ProtocolVersion.TLSv1_2, om_payload = Payload [1, 0]\<rparr>"

lemma ex_record_ok: "OpaqueMessage_ok ex_record"
  by (simp add: ex_record_def OpaqueMessage_ok_def ProtocolVersion_ok_def ProtocolVersion_from_def
      illegal_version_def)

lemma ex_record_bytes: "OpaqueMessage_encode ex_record = [0x15, 3, 3, 0, 2, 1, 0]"
  by (simp add: ex_record_def OpaqueMessage_bytes be_bytes_2)

lemma deframer_feed_total:
  "stream_state b s \<Longrightarrow> length b + length (concat cs) \<le> MAX_WIRE_SIZE \<Longrightarrow> \<exists>s'. deframer_feed cs s = Some s'"
proof (induction cs arbitrary: b s)
  case (Cons c cs)
  then have "length (pending s) = df_used s" "length (pending s) \<le> length b"
    by (auto simp: stream_state_def deframer_inv_def pending_def stream_split_def)
  with Cons.prems have c: "length c \<le> length (df_buf s) - df_used s"
    by (simp add: stream_state_def deframer_inv_def)
  from stream_state_read [OF Cons.prems(1) c] obtain s1 where
    "deframer_read (\<lambda>_. (Inr c :: unit + bytes)) s = Some (Inr (length c), s1)" "stream_state (b @ c) s1" by blast
  with Cons c show ?case by simp
qed simp

lemma ex_feed: "\<exists>s. deframer_feed [[0x15, 3, 3], [0, 2, 1, 0, 0x16]] MessageDeframer_new = Some s"
  by (rule deframer_feed_total [OF stream_state_new]) (simp add: MAX_WIRE_SIZE_eq)

theorem fragment_exact_witness:
  "\<exists>frs. fragment \<lparr>max_frag = 27\<rparr> \<lparr>pm_typ = ContentType.Alert, pm_version = ProtocolVersion.TLSv1_2,
      pm_payload = Payload (replicate 30 1)\<rparr> [] = Some ([] @ frs) \<and>
    concat (map (\<lambda>fr. payload_bytes (pm_payload fr)) frs) = replicate 30 1 \<and> length frs = 2"
proof -
  have "MessageFragmenter_new (Some 32) = Inr \<lparr>max_frag = 27\<rparr>"
    by (simp add: MessageFragmenter_new_cases)
  from fragment_exact [OF this, of "\<lparr>pm_typ = ContentType.Alert, pm_version = ProtocolVersion.TLSv1_2,
      pm_payload = Payload (replicate 30 1)\<rparr>" "[]"]
  show ?thesis by auto
qed



definition ex_hs_record :: "bytes \<Rightarrow> PlainMessage" where
  "ex_hs_record b = \<lparr>pm_typ = ContentType.Handshake, pm_version = ProtocolVersion.TLSv1_2, pm_payload = Payload b\<rparr>"

lemma ex_key_update: "joinable V ProtocolVersion.TLSv1_2 build_key_update_notify"
    "hs_bytes build_key_update_notify = [24, 0, 0, 1, 0]"
  by (simp_all add: joinable_def build_key_update_notify_def HandshakeMessagePayload_ok_def codec_enc wire_type_def
      HandshakePayload_bytes HandshakeMessagePayload_bytes HandshakeType_ok_def HandshakeType_from_def
      KeyUpdateRequest_ok_def KeyUpdateRequest_from_def numeral_3_eq_3)

theorem joiner_exact_witness:
  "joiner_feed (\<lambda>_. True) [ex_hs_record [24, 0], ex_hs_record [0, 1, 0, 24, 0, 0, 1], ex_hs_record [0]]
     HandshakeJoiner_new =
   Some (length [build_key_update_notify, build_key_update_notify],
     \<lparr>hj_frames = map (hs_msg ProtocolVersion.TLSv1_2) [build_key_update_notify, build_key_update_notify],
      hj_buf = []\<rparr>)"
  by (rule joiner_exact) (simp_all add: ex_hs_record_def ex_key_update)


end
