(* ===== verification/Suites.thy ===== *)
theory Suites
  imports Messages
begin

text \<open>
  Cipher suites and protocol versions, after \<open>suites/mod.rs\<close>, \<open>suites/tls12.rs\<close>, \<open>suites/tls13.rs\<close> and
  \<open>versions.rs\<close> under \<open>crates/tls/core/src\<close>, with the feature \<open>tls12\<close> enabled.
\<close>

section \<open>Protocol versions\<close>

record SupportedProtocolVersion =
  spv_version :: ProtocolVersion

definition TLS12 :: SupportedProtocolVersion where
  "TLS12 = \<lparr>spv_version = ProtocolVersion.TLSv1_2\<rparr>"

definition TLS13 :: SupportedProtocolVersion where
  "TLS13 = \<lparr>spv_version = ProtocolVersion.TLSv1_3\<rparr>"

definition ALL_VERSIONS :: "SupportedProtocolVersion list" where
  "ALL_VERSIONS = [TLS12]"

definition DEFAULT_VERSIONS :: "SupportedProtocolVersion list" where
  "DEFAULT_VERSIONS = ALL_VERSIONS"

record EnabledVersions =
  ev_tls12 :: "SupportedProtocolVersion option"
  ev_tls13 :: "SupportedProtocolVersion option"

definition EnabledVersions_new :: "SupportedProtocolVersion list \<Rightarrow> EnabledVersions" where
  "EnabledVersions_new versions =
     fold (\<lambda>v ev. case spv_version v of
         ProtocolVersion.TLSv1_2 \<Rightarrow> ev\<lparr>ev_tls12 := Some v\<rparr>
       | ProtocolVersion.TLSv1_3 \<Rightarrow> ev\<lparr>ev_tls13 := Some v\<rparr>
       | _ \<Rightarrow> ev) versions \<lparr>ev_tls12 = None, ev_tls13 = None\<rparr>"

definition EnabledVersions_contains :: "EnabledVersions \<Rightarrow> ProtocolVersion \<Rightarrow> bool" where
  "EnabledVersions_contains ev version =
     (case version of
        ProtocolVersion.TLSv1_2 \<Rightarrow> ev_tls12 ev \<noteq> None
      | ProtocolVersion.TLSv1_3 \<Rightarrow> ev_tls13 ev \<noteq> None
      | _ \<Rightarrow> False)"

section \<open>Algorithms\<close>

datatype AEADAlgorithm = AES_128_GCM | AES_256_GCM | CHACHA20_POLY1305

datatype SuiteHashAlgorithm = SHA1 | SHA256 | SHA384 | SHA512 | SHA512_256

fun output_len :: "SuiteHashAlgorithm \<Rightarrow> nat" where
  "output_len SuiteHashAlgorithm.SHA1 = 20"
| "output_len SuiteHashAlgorithm.SHA256 = 32"
| "output_len SuiteHashAlgorithm.SHA384 = 48"
| "output_len SuiteHashAlgorithm.SHA512 = 64"
| "output_len SuiteHashAlgorithm.SHA512_256 = 32"

datatype HKDFAlgorithm = SHA1 | SHA256 | SHA384 | SHA512

fun HKDFAlgorithm_hash_algorithm :: "HKDFAlgorithm \<Rightarrow> SuiteHashAlgorithm" where
  "HKDFAlgorithm_hash_algorithm HKDFAlgorithm.SHA1 = SuiteHashAlgorithm.SHA1"
| "HKDFAlgorithm_hash_algorithm HKDFAlgorithm.SHA256 = SuiteHashAlgorithm.SHA256"
| "HKDFAlgorithm_hash_algorithm HKDFAlgorithm.SHA384 = SuiteHashAlgorithm.SHA384"
| "HKDFAlgorithm_hash_algorithm HKDFAlgorithm.SHA512 = SuiteHashAlgorithm.SHA512"

section \<open>Suites\<close>

record CipherSuiteCommon =
  csc_suite :: CipherSuite
  csc_aead_algorithm :: AEADAlgorithm

record Tls12CipherSuite =
  s12_common :: CipherSuiteCommon
  s12_hmac_algorithm :: SuiteHashAlgorithm
  s12_kx :: KeyExchangeAlgorithm
  s12_sign :: "SignatureScheme list"
  s12_fixed_iv_len :: nat
  s12_explicit_nonce_len :: nat

record Tls13CipherSuite =
  s13_common :: CipherSuiteCommon
  s13_hkdf_algorithm :: HKDFAlgorithm

datatype SupportedCipherSuite = Tls12 Tls12CipherSuite | Tls13 Tls13CipherSuite

definition TLS12_ECDSA_SCHEMES :: "SignatureScheme list" where
  "TLS12_ECDSA_SCHEMES = [SignatureScheme.ED25519, SignatureScheme.ECDSA_NISTP521_SHA512,
     SignatureScheme.ECDSA_NISTP384_SHA384, SignatureScheme.ECDSA_NISTP256_SHA256]"

definition TLS12_RSA_SCHEMES :: "SignatureScheme list" where
  "TLS12_RSA_SCHEMES = [SignatureScheme.RSA_PSS_SHA512, SignatureScheme.RSA_PSS_SHA384,
     SignatureScheme.RSA_PSS_SHA256, SignatureScheme.RSA_PKCS1_SHA512, SignatureScheme.RSA_PKCS1_SHA384,
     SignatureScheme.RSA_PKCS1_SHA256]"

definition TLS_ECDHE_ECDSA_WITH_CHACHA20_POLY1305_SHA256 :: SupportedCipherSuite where
  "TLS_ECDHE_ECDSA_WITH_CHACHA20_POLY1305_SHA256 = SupportedCipherSuite.Tls12
     \<lparr>s12_common = \<lparr>csc_suite = CipherSuite.Suite 0xcca9, csc_aead_algorithm = CHACHA20_POLY1305\<rparr>,
      s12_hmac_algorithm = SuiteHashAlgorithm.SHA256, s12_kx = KeyExchangeAlgorithm.ECDHE,
      s12_sign = TLS12_ECDSA_SCHEMES, s12_fixed_iv_len = 12, s12_explicit_nonce_len = 0\<rparr>"

definition TLS_ECDHE_RSA_WITH_CHACHA20_POLY1305_SHA256 :: SupportedCipherSuite where
  "TLS_ECDHE_RSA_WITH_CHACHA20_POLY1305_SHA256 = SupportedCipherSuite.Tls12
     \<lparr>s12_common = \<lparr>csc_suite = CipherSuite.Suite 0xcca8, csc_aead_algorithm = CHACHA20_POLY1305\<rparr>,
      s12_hmac_algorithm = SuiteHashAlgorithm.SHA256, s12_kx = KeyExchangeAlgorithm.ECDHE,
      s12_sign = TLS12_RSA_SCHEMES, s12_fixed_iv_len = 12, s12_explicit_nonce_len = 0\<rparr>"

definition TLS_ECDHE_RSA_WITH_AES_128_GCM_SHA256 :: SupportedCipherSuite where
  "TLS_ECDHE_RSA_WITH_AES_128_GCM_SHA256 = SupportedCipherSuite.Tls12
     \<lparr>s12_common = \<lparr>csc_suite = CipherSuite.Suite 0xc02f, csc_aead_algorithm = AES_128_GCM\<rparr>,
      s12_hmac_algorithm = SuiteHashAlgorithm.SHA256, s12_kx = KeyExchangeAlgorithm.ECDHE,
      s12_sign = TLS12_RSA_SCHEMES, s12_fixed_iv_len = 4, s12_explicit_nonce_len = 8\<rparr>"

definition TLS_ECDHE_RSA_WITH_AES_256_GCM_SHA384 :: SupportedCipherSuite where
  "TLS_ECDHE_RSA_WITH_AES_256_GCM_SHA384 = SupportedCipherSuite.Tls12
     \<lparr>s12_common = \<lparr>csc_suite = CipherSuite.Suite 0xc030, csc_aead_algorithm = AES_256_GCM\<rparr>,
      s12_hmac_algorithm = SuiteHashAlgorithm.SHA384, s12_kx = KeyExchangeAlgorithm.ECDHE,
      s12_sign = TLS12_RSA_SCHEMES, s12_fixed_iv_len = 4, s12_explicit_nonce_len = 8\<rparr>"

definition TLS_ECDHE_ECDSA_WITH_AES_128_GCM_SHA256 :: SupportedCipherSuite where
  "TLS_ECDHE_ECDSA_WITH_AES_128_GCM_SHA256 = SupportedCipherSuite.Tls12
     \<lparr>s12_common = \<lparr>csc_suite = CipherSuite.Suite 0xc02b, csc_aead_algorithm = AES_128_GCM\<rparr>,
      s12_hmac_algorithm = SuiteHashAlgorithm.SHA256, s12_kx = KeyExchangeAlgorithm.ECDHE,
      s12_sign = TLS12_ECDSA_SCHEMES, s12_fixed_iv_len = 4, s12_explicit_nonce_len = 8\<rparr>"

definition TLS_ECDHE_ECDSA_WITH_AES_256_GCM_SHA384 :: SupportedCipherSuite where
  "TLS_ECDHE_ECDSA_WITH_AES_256_GCM_SHA384 = SupportedCipherSuite.Tls12
     \<lparr>s12_common = \<lparr>csc_suite = CipherSuite.Suite 0xc02c, csc_aead_algorithm = AES_256_GCM\<rparr>,
      s12_hmac_algorithm = SuiteHashAlgorithm.SHA384, s12_kx = KeyExchangeAlgorithm.ECDHE,
      s12_sign = TLS12_ECDSA_SCHEMES, s12_fixed_iv_len = 4, s12_explicit_nonce_len = 8\<rparr>"

definition TLS13_CHACHA20_POLY1305_SHA256 :: SupportedCipherSuite where
  "TLS13_CHACHA20_POLY1305_SHA256 = SupportedCipherSuite.Tls13
     \<lparr>s13_common = \<lparr>csc_suite = CipherSuite.Suite 0x1303, csc_aead_algorithm = CHACHA20_POLY1305\<rparr>,
      s13_hkdf_algorithm = HKDFAlgorithm.SHA256\<rparr>"

definition TLS13_AES_256_GCM_SHA384 :: SupportedCipherSuite where
  "TLS13_AES_256_GCM_SHA384 = SupportedCipherSuite.Tls13
     \<lparr>s13_common = \<lparr>csc_suite = CipherSuite.Suite 0x1302, csc_aead_algorithm = AES_256_GCM\<rparr>,
      s13_hkdf_algorithm = HKDFAlgorithm.SHA384\<rparr>"

definition TLS13_AES_128_GCM_SHA256 :: SupportedCipherSuite where
  "TLS13_AES_128_GCM_SHA256 = SupportedCipherSuite.Tls13
     \<lparr>s13_common = \<lparr>csc_suite = CipherSuite.Suite 0x1301, csc_aead_algorithm = AES_128_GCM\<rparr>,
      s13_hkdf_algorithm = HKDFAlgorithm.SHA256\<rparr>"

definition DOWNGRADE_SENTINEL :: bytes where
  "DOWNGRADE_SENTINEL = [0x44, 0x4f, 0x57, 0x4e, 0x47, 0x52, 0x44, 0x01]"

text \<open>\<open>PartialEq\<close> of the suites compares their numbers only.\<close>

definition Tls12CipherSuite_eq :: "Tls12CipherSuite \<Rightarrow> Tls12CipherSuite \<Rightarrow> bool" where
  "Tls12CipherSuite_eq a b = (csc_suite (s12_common a) = csc_suite (s12_common b))"

definition Tls13CipherSuite_eq :: "Tls13CipherSuite \<Rightarrow> Tls13CipherSuite \<Rightarrow> bool" where
  "Tls13CipherSuite_eq a b = (csc_suite (s13_common a) = csc_suite (s13_common b))"

definition resolve_sig_schemes :: "Tls12CipherSuite \<Rightarrow> SignatureScheme list \<Rightarrow> SignatureScheme list" where
  "resolve_sig_schemes s offered = filter (\<lambda>pref. pref \<in> set offered) (s12_sign s)"

definition Tls12CipherSuite_hash_algorithm :: "Tls12CipherSuite \<Rightarrow> SuiteHashAlgorithm" where
  "Tls12CipherSuite_hash_algorithm s = s12_hmac_algorithm s"

definition Tls13CipherSuite_hash_algorithm :: "Tls13CipherSuite \<Rightarrow> SuiteHashAlgorithm" where
  "Tls13CipherSuite_hash_algorithm s = HKDFAlgorithm_hash_algorithm (s13_hkdf_algorithm s)"

definition can_resume_from :: "Tls13CipherSuite \<Rightarrow> Tls13CipherSuite \<Rightarrow> Tls13CipherSuite option" where
  "can_resume_from s prev =
     (if Tls13CipherSuite_hash_algorithm prev = Tls13CipherSuite_hash_algorithm s then Some prev else None)"

text \<open>\<open>copy_from_slice\<close> into the two halves of an array of 64 bytes.\<close>

definition join_randoms :: "bytes \<Rightarrow> bytes \<Rightarrow> bytes" where
  "join_randoms first second =
     (let randoms = replicate 64 0; randoms = write_at randoms 0 first in write_at randoms 32 second)"

definition decode_ecdh_params :: "'a reader \<Rightarrow> bytes \<Rightarrow> 'a option" where
  "decode_ecdh_params rd kx_params =
     do {
       (ecdh_params, r) \<leftarrow> rd (Reader_init kx_params);
       if Reader_any_left r then None else Some ecdh_params
     }"

fun SupportedCipherSuite_hash_algorithm :: "SupportedCipherSuite \<Rightarrow> SuiteHashAlgorithm" where
  "SupportedCipherSuite_hash_algorithm (SupportedCipherSuite.Tls12 inner) = Tls12CipherSuite_hash_algorithm inner"
| "SupportedCipherSuite_hash_algorithm (SupportedCipherSuite.Tls13 inner) = Tls13CipherSuite_hash_algorithm inner"

fun SupportedCipherSuite_common :: "SupportedCipherSuite \<Rightarrow> CipherSuiteCommon" where
  "SupportedCipherSuite_common (SupportedCipherSuite.Tls12 inner) = s12_common inner"
| "SupportedCipherSuite_common (SupportedCipherSuite.Tls13 inner) = s13_common inner"

definition SupportedCipherSuite_suite :: "SupportedCipherSuite \<Rightarrow> CipherSuite" where
  "SupportedCipherSuite_suite s = csc_suite (SupportedCipherSuite_common s)"

fun SupportedCipherSuite_tls13 :: "SupportedCipherSuite \<Rightarrow> Tls13CipherSuite option" where
  "SupportedCipherSuite_tls13 (SupportedCipherSuite.Tls12 _) = None"
| "SupportedCipherSuite_tls13 (SupportedCipherSuite.Tls13 inner) = Some inner"

fun SupportedCipherSuite_version :: "SupportedCipherSuite \<Rightarrow> SupportedProtocolVersion" where
  "SupportedCipherSuite_version (SupportedCipherSuite.Tls12 _) = TLS12"
| "SupportedCipherSuite_version (SupportedCipherSuite.Tls13 _) = TLS13"

fun usable_for_signature_algorithm :: "SupportedCipherSuite \<Rightarrow> TlsSignatureAlgorithm \<Rightarrow> bool" where
  "usable_for_signature_algorithm (SupportedCipherSuite.Tls13 _) sig_alg = True"
| "usable_for_signature_algorithm (SupportedCipherSuite.Tls12 inner) sig_alg =
     list_ex (\<lambda>scheme. SignatureScheme_sign scheme = sig_alg) (s12_sign inner)"

definition ALL_CIPHER_SUITES :: "SupportedCipherSuite list" where
  "ALL_CIPHER_SUITES = [TLS_ECDHE_ECDSA_WITH_AES_128_GCM_SHA256, TLS_ECDHE_RSA_WITH_AES_128_GCM_SHA256]"

definition DEFAULT_CIPHER_SUITES :: "SupportedCipherSuite list" where
  "DEFAULT_CIPHER_SUITES = ALL_CIPHER_SUITES"

fun choose_ciphersuite_preferring_client ::
    "CipherSuite list \<Rightarrow> SupportedCipherSuite list \<Rightarrow> SupportedCipherSuite option" where
  "choose_ciphersuite_preferring_client [] server_suites = None"
| "choose_ciphersuite_preferring_client (client_suite # rest) server_suites =
     (case List.find (\<lambda>x. client_suite = SupportedCipherSuite_suite x) server_suites of
        Some selected \<Rightarrow> Some selected
      | None \<Rightarrow> choose_ciphersuite_preferring_client rest server_suites)"

definition choose_ciphersuite_preferring_server ::
    "CipherSuite list \<Rightarrow> SupportedCipherSuite list \<Rightarrow> SupportedCipherSuite option" where
  "choose_ciphersuite_preferring_server client_suites server_suites =
     (case List.find (\<lambda>x. SupportedCipherSuite_suite x \<in> set client_suites) server_suites of
        Some selected \<Rightarrow> Some selected
      | None \<Rightarrow> None)"

definition reduce_given_sigalg ::
    "SupportedCipherSuite list \<Rightarrow> TlsSignatureAlgorithm \<Rightarrow> SupportedCipherSuite list" where
  "reduce_given_sigalg all sigalg = filter (\<lambda>suite. usable_for_signature_algorithm suite sigalg) all"

definition reduce_given_version ::
    "SupportedCipherSuite list \<Rightarrow> ProtocolVersion \<Rightarrow> SupportedCipherSuite list" where
  "reduce_given_version all version =
     filter (\<lambda>suite. spv_version (SupportedCipherSuite_version suite) = version) all"

definition compatible_sigscheme_for_suites :: "SignatureScheme \<Rightarrow> SupportedCipherSuite list \<Rightarrow> bool" where
  "compatible_sigscheme_for_suites sigscheme common_suites =
     (let sigalg = SignatureScheme_sign sigscheme
      in list_ex (\<lambda>suite. usable_for_signature_algorithm suite sigalg) common_suites)"

section \<open>Lemmas\<close>

lemma join_randoms_eq: "length a = 32 \<Longrightarrow> length b = 32 \<Longrightarrow> join_randoms a b = a @ b"
  by (simp add: join_randoms_def write_at_def)

lemma find_None: "List.find P xs = None \<longleftrightarrow> (\<forall>x \<in> set xs. \<not> P x)"
  by (induction xs) auto

text \<open>Both choices succeed on the same inputs, and only choose a suite of both sides.\<close>

lemma choose_client_Some:
  "choose_ciphersuite_preferring_client cs ss = Some s \<Longrightarrow> s \<in> set ss \<and> SupportedCipherSuite_suite s \<in> set cs"
  by (induction cs) (auto split: option.splits simp: find_Some_iff)

lemma choose_server_Some:
  "choose_ciphersuite_preferring_server cs ss = Some s \<Longrightarrow> s \<in> set ss \<and> SupportedCipherSuite_suite s \<in> set cs"
  by (auto simp: choose_ciphersuite_preferring_server_def find_Some_iff split: option.splits)

lemma choose_client_None:
  "choose_ciphersuite_preferring_client cs ss = None \<longleftrightarrow> (\<forall>s \<in> set ss. SupportedCipherSuite_suite s \<notin> set cs)"
  by (induction cs) (auto split: option.splits simp: find_None find_Some_iff)

lemma choose_server_None:
  "choose_ciphersuite_preferring_server cs ss = None \<longleftrightarrow> (\<forall>s \<in> set ss. SupportedCipherSuite_suite s \<notin> set cs)"
  by (auto simp: choose_ciphersuite_preferring_server_def find_None find_Some_iff split: option.splits)

text \<open>The parameters are read exactly from their encoding.\<close>

lemma decode_ecdh_params_iff:
  "rspec rd S \<Longrightarrow> decode_ecdh_params rd b = Some x \<longleftrightarrow> (\<exists>m. S x b m)"
  by (subst rspec_whole [symmetric])
    (auto simp: decode_ecdh_params_def Option.bind_eq_Some_conv split: if_splits)

lemma EnabledVersions_contains_iff:
  "EnabledVersions_contains (EnabledVersions_new vs) v \<longleftrightarrow>
     (v = ProtocolVersion.TLSv1_2 \<or> v = ProtocolVersion.TLSv1_3) \<and> v \<in> spv_version ` set vs"
proof -
  have "EnabledVersions_contains (fold (\<lambda>v ev. case spv_version v of
         ProtocolVersion.TLSv1_2 \<Rightarrow> ev\<lparr>ev_tls12 := Some v\<rparr>
       | ProtocolVersion.TLSv1_3 \<Rightarrow> ev\<lparr>ev_tls13 := Some v\<rparr>
       | _ \<Rightarrow> ev) vs ev) v \<longleftrightarrow> EnabledVersions_contains ev v \<or>
      (v = ProtocolVersion.TLSv1_2 \<or> v = ProtocolVersion.TLSv1_3) \<and> v \<in> spv_version ` set vs" for ev
    by (induction vs arbitrary: ev)
      (auto simp: EnabledVersions_contains_def split: ProtocolVersion.splits)
  then show ?thesis by (simp add: EnabledVersions_new_def) (auto simp: EnabledVersions_contains_def split: ProtocolVersion.splits)
qed

end
