(* ===== verification/Tls_Prf.thy ===== *)
theory Tls_Prf
  imports Messages
begin

text \<open>
  The pseudo-random function of TLS 1.2 and the additional data of its records, after \<open>prf.rs\<close> and \<open>cipher.rs\<close>
  under \<open>crates/tls/core/src\<close>.  HMAC is the parameter \<open>hmac key message\<close>, of 32 bytes, and \<open>key_ok\<close> says which keys
  its constructor takes.
\<close>

section \<open>The pseudo-random function\<close>

datatype InvalidKeyLength = InvalidKeyLength

text \<open>
  A keyed context is the message it was updated with; \<open>current_a\<close> is the one to be finalized next.  The buffer is
  given by its length and filled in chunks of 32 bytes; \<open>None\<close> is the panic of a slice out of range.
\<close>

function prf_loop ::
    "(bytes \<Rightarrow> bytes \<Rightarrow> bytes) \<Rightarrow> bytes \<Rightarrow> bytes \<Rightarrow> bytes \<Rightarrow> bytes \<Rightarrow> nat \<Rightarrow> bytes option" where
  "prf_loop hmac secret label seed current_a left =
     (if left = 0 then Some []
      else
        let a = hmac secret current_a;
            p_term = [] @ a;
            p_term = p_term @ label;
            p_term = p_term @ seed
        in do {
          chunk \<leftarrow> slice (hmac secret p_term) 0 (min 32 left);
          rest \<leftarrow> prf_loop hmac secret label seed ([] @ a) (left - 32);
          Some (chunk @ rest)
        })"
  by pat_completeness auto
termination by (relation "measure (\<lambda>(_, _, _, _, _, left). left)") simp_all

declare prf_loop.simps [simp del]

definition tls_prf ::
    "(bytes \<Rightarrow> bool) \<Rightarrow> (bytes \<Rightarrow> bytes \<Rightarrow> bytes) \<Rightarrow> nat \<Rightarrow> bytes \<Rightarrow> bytes \<Rightarrow> bytes \<Rightarrow> (InvalidKeyLength + bytes) option" where
  "tls_prf key_ok hmac out_len secret label seed =
     (if key_ok secret then
        let current_a = [] @ label;
            current_a = current_a @ seed
        in map_option Inr (prf_loop hmac secret label seed current_a out_len)
      else Some (Inl InvalidKeyLength))"

section \<open>Additional data\<close>

definition make_tls12_aad :: "u64 \<Rightarrow> ContentType \<Rightarrow> ProtocolVersion \<Rightarrow> nat \<Rightarrow> bytes" where
  "make_tls12_aad seq ty vers len =
     (let aad = replicate 13 0;
          aad = write_at aad 0 (be_bytes 8 (unat seq));
          aad = aad[8 := ContentType_get_u8 ty];
          aad = write_at aad 9 (be_bytes 2 (unat (ProtocolVersion_get_u16 vers)))
      in write_at aad 11 (be_bytes 2 (unat (of_nat len :: u16))))"

section \<open>RFC 5246\<close>

text \<open>
  Section 5 of the RFC: \<open>A(0) = seed\<close>, \<open>A(i) = HMAC(secret, A(i-1))\<close>, \<open>P_hash\<close> the concatenation of
  \<open>HMAC(secret, A(i) + seed)\<close> from \<open>i = 1\<close>, and \<open>PRF = P_hash(secret, label + seed)\<close>.
\<close>

fun rfc_A :: "(bytes \<Rightarrow> bytes \<Rightarrow> bytes) \<Rightarrow> bytes \<Rightarrow> bytes \<Rightarrow> nat \<Rightarrow> bytes" where
  "rfc_A hmac secret seed 0 = seed"
| "rfc_A hmac secret seed (Suc i) = hmac secret (rfc_A hmac secret seed i)"

definition rfc_P_hash :: "(bytes \<Rightarrow> bytes \<Rightarrow> bytes) \<Rightarrow> bytes \<Rightarrow> bytes \<Rightarrow> nat \<Rightarrow> bytes" where
  "rfc_P_hash hmac secret seed k =
     concat (map (\<lambda>i. hmac secret (rfc_A hmac secret seed i @ seed)) [1..<Suc k])"

lemma prf_loop_0 [simp]: "prf_loop hmac secret label seed a 0 = Some []"
  by (simp add: prf_loop.simps)

lemma prf_loop_pos:
  assumes "left > 0" and "\<And>m. length (hmac secret m) = 32"
  shows "prf_loop hmac secret label seed a left =
    map_option ((@) (take left (hmac secret (hmac secret a @ label @ seed))))
      (prf_loop hmac secret label seed (hmac secret a) (left - 32))"
proof -
  have "take (min 32 left) (hmac secret m) = take left (hmac secret m)" for m
    using assms(2) [of m] by (simp add: min_def)
  with assms show ?thesis
    by (subst prf_loop.simps) (simp add: slice_def Let_def map_conv_bind_option comp_def)
qed

lemma prf_loop_rfc:
  assumes "\<And>m. length (hmac secret m) = 32"
  shows "left \<le> 32 * (n - i) \<Longrightarrow> i \<le> n \<Longrightarrow>
    prf_loop hmac secret label seed (rfc_A hmac secret (label @ seed) i) left =
      Some (take left (concat (map (\<lambda>i. hmac secret (rfc_A hmac secret (label @ seed) i @ label @ seed)) [Suc i..<Suc n])))"
proof (induction "n - i" arbitrary: i left)
  case 0
  then show ?case by simp
next
  case (Suc d)
  show ?case
  proof (cases "left = 0")
    case True
    then show ?thesis by simp
  next
    case False
    from Suc.hyps(2) have "d = n - Suc i" "Suc i \<le> n" by simp_all
    with Suc.hyps(1) [of "Suc i" "left - 32"] Suc.prems have
      "prf_loop hmac secret label seed (rfc_A hmac secret (label @ seed) (Suc i)) (left - 32) =
        Some (take (left - 32) (concat (map (\<lambda>i. hmac secret (rfc_A hmac secret (label @ seed) i @ label @ seed)) [Suc (Suc i)..<Suc n])))"
      by simp
    moreover have "[Suc i..<Suc n] = Suc i # [Suc (Suc i)..<Suc n]"
      using \<open>Suc i \<le> n\<close> by (simp add: upt_conv_Cons)
    ultimately show ?thesis using False assms by (simp add: prf_loop_pos del: upt_Suc)
  qed
qed

section \<open>Properties\<close>

text \<open>C33: For every output length, \<open>tls_prf\<close> with an HMAC of 32 bytes returns, without a slice out of range, that many bytes
  of \<open>P_hash\<close> of RFC 5246 on the secret and the label followed by the seed.\<close>

theorem prf_eq_rfc5246:
  assumes "key_ok secret" and "\<And>m. length (hmac secret m) = 32" and "out_len \<le> 32 * k"
  shows "tls_prf key_ok hmac out_len secret label seed =
    Some (Inr (take out_len (rfc_P_hash hmac secret (label @ seed) k)))"
  using prf_loop_rfc [of hmac secret out_len k 0 label seed] assms
  by (simp add: tls_prf_def rfc_P_hash_def)

theorem prf_eq_rfc5246_witness:
  "tls_prf (\<lambda>k. True) (\<lambda>k m. replicate 32 (sum_list (k @ m))) 40 [1] [2] [3] =
     Some (Inr (replicate 32 (0xc6) @ replicate 8 (32 * 193 + 6)))"
  using prf_eq_rfc5246 [of "\<lambda>k. True" "[1]" "\<lambda>k m. replicate 32 (sum_list (k @ m))" 40 2 "[2]" "[3]"]
  by (simp add: rfc_P_hash_def numeral_2_eq_2 sum_list_replicate)

lemma make_tls12_aad_eq:
  "make_tls12_aad seq ty vers len =
     be_bytes 8 (unat seq) @ [ContentType_get_u8 ty] @ be_bytes 2 (unat (ProtocolVersion_get_u16 vers)) @
     be_bytes 2 (len mod 2 ^ 16)"
proof -
  have r: "replicate 5 (0 :: u8) = 0 # replicate 4 0" by code_simp
  show ?thesis
    by (simp add: make_tls12_aad_def write_at_def unat_of_nat list_update_append r del: be_bytes.simps)
qed

end
