(* ===== verification/Pki.thy ===== *)
theory Pki
  imports Messages
begin

text \<open>
  Server names, trust anchors and key material, after \<open>dns.rs\<close>, \<open>anchors.rs\<close>, \<open>x509.rs\<close>, \<open>key.rs\<close>, \<open>cert.rs\<close> and
  \<open>ke.rs\<close> under \<open>crates/tls/core/src\<close>.  The types of \<open>rustls_pki_types\<close> that the code looks into are the
  \<open>datatype\<close>s of the shape the code matches on.
\<close>

section \<open>Server names\<close>

text \<open>The text of a DNS name is its bytes, an IP address its octets.\<close>

datatype PkiIpAddr = V4 bytes | V6 bytes

datatype PkiServerName = DnsName bytes | IpAddress PkiIpAddr

datatype TlsServerName = TlsServerName (pki_server_name: PkiServerName)

fun for_sni :: "TlsServerName \<Rightarrow> bytes option" where
  "for_sni (TlsServerName (DnsName dns_name)) = Some dns_name"
| "for_sni (TlsServerName _) = None"

definition TlsServerName_encode :: "TlsServerName \<Rightarrow> bytes" where
  "TlsServerName_encode name =
     (let bs = (case pki_server_name name of
         DnsName dns_name \<Rightarrow> dns_name
       | IpAddress (V4 ip) \<Rightarrow> ip
       | IpAddress (V6 ip) \<Rightarrow> ip);
       r = [] @ [0x01];
       r = r @ [of_nat (length bs)]
      in r @ bs)"

datatype InvalidDnsNameError = InvalidDnsNameError

text \<open>The syntax of DNS names is that of \<open>rustls_pki_types\<close>: the predicate \<open>dns_ok\<close>.\<close>

definition TlsServerName_try_from :: "(bytes \<Rightarrow> bool) \<Rightarrow> bytes \<Rightarrow> InvalidDnsNameError + TlsServerName" where
  "TlsServerName_try_from dns_ok s =
     (if dns_ok s then Inr (TlsServerName (DnsName s)) else Inl InvalidDnsNameError)"

section \<open>DER lengths\<close>

definition insert_at :: "nat \<Rightarrow> 'a \<Rightarrow> 'a list \<Rightarrow> 'a list" where
  "insert_at i x xs = take i xs @ x # drop i xs"

function asn1_len_loop :: "nat \<Rightarrow> bytes \<Rightarrow> bytes" where
  "asn1_len_loop left bs =
     (if left > 0 then
        let byte = of_nat (left mod 256);
            bs = insert_at 1 byte bs;
            bs = bs[0 := bs ! 0 + 1]
        in asn1_len_loop (left div 256) bs
      else bs)"
  by pat_completeness auto
termination by (relation "measure fst") simp_all

declare asn1_len_loop.simps [simp del]

definition wrap_in_asn1_len :: "bytes \<Rightarrow> bytes" where
  "wrap_in_asn1_len bs =
     (let len = length bs
      in if len \<le> 0x7f then insert_at 0 (of_nat len) bs
         else asn1_len_loop len (insert_at 0 0x80 bs))"

definition wrap_in_sequence :: "bytes \<Rightarrow> bytes" where
  "wrap_in_sequence bs = insert_at 0 0x30 (wrap_in_asn1_len bs)"

section \<open>Trust anchors\<close>

text \<open>A trust anchor is a value of the library; the parameter \<open>subject\<close> reads its subject.\<close>

record 'ta RootCertStore =
  rs_roots :: "'ta list"

definition RootCertStore_empty :: "'ta RootCertStore" where
  "RootCertStore_empty = \<lparr>rs_roots = []\<rparr>"

definition RootCertStore_len :: "'ta RootCertStore \<Rightarrow> nat" where
  "RootCertStore_len s = length (rs_roots s)"

definition RootCertStore_is_empty :: "'ta RootCertStore \<Rightarrow> bool" where
  "RootCertStore_is_empty s = (RootCertStore_len s = 0)"

fun subjects_loop :: "('ta \<Rightarrow> bytes) \<Rightarrow> 'ta list \<Rightarrow> PayloadU16 list \<Rightarrow> PayloadU16 list" where
  "subjects_loop subject [] r = r"
| "subjects_loop subject (ota # rest) r =
     (let name = [] @ subject ota;
          name = wrap_in_sequence name
      in subjects_loop subject rest (r @ [PayloadU16 name]))"

definition RootCertStore_subjects :: "('ta \<Rightarrow> bytes) \<Rightarrow> 'ta RootCertStore \<Rightarrow> PayloadU16 list" where
  "RootCertStore_subjects subject s = subjects_loop subject (rs_roots s) []"

section \<open>Keys, certificates and key exchanges\<close>

datatype PrivateKey = PrivateKey bytes

record PublicKey =
  pk_group :: NamedGroup
  pk_key :: bytes

definition PublicKey_new :: "NamedGroup \<Rightarrow> bytes \<Rightarrow> PublicKey" where
  "PublicKey_new grp key = \<lparr>pk_group = grp, pk_key = key\<rparr>"

record ServerCertDetails =
  scd_cert_chain :: "Certificate list"
  scd_ocsp_response :: bytes
  scd_scts :: "PayloadU16 list option"

definition ServerCertDetails_new ::
    "Certificate list \<Rightarrow> bytes \<Rightarrow> PayloadU16 list option \<Rightarrow> ServerCertDetails" where
  "ServerCertDetails_new cert_chain ocsp_response scts =
     \<lparr>scd_cert_chain = cert_chain, scd_ocsp_response = ocsp_response, scd_scts = scts\<rparr>"

record ServerKxDetails =
  kx_params :: bytes
  kx_sig :: DigitallySignedStruct

definition ServerKxDetails_new :: "bytes \<Rightarrow> DigitallySignedStruct \<Rightarrow> ServerKxDetails" where
  "ServerKxDetails_new params sig = \<lparr>kx_params = params, kx_sig = sig\<rparr>"

section \<open>Lemmas\<close>

text \<open>A reference decoder of DER lengths: the length and the rest, non-minimal forms refused.\<close>

definition der_length :: "bytes \<Rightarrow> (nat \<times> bytes) option" where
  "der_length bs =
     (case bs of
        [] \<Rightarrow> None
      | b # rest \<Rightarrow>
          if b \<le> 0x7f then Some (unat b, rest)
          else let n = unat b - 128; len = be_value (take n rest)
               in if n = 0 \<or> length rest < n \<or> take 1 rest = [0] \<or> len \<le> 127 then None
                  else Some (len, drop n rest))"

function num_bytes :: "nat \<Rightarrow> nat" where
  "num_bytes n = (if n > 0 then Suc (num_bytes (n div 256)) else 0)"
  by pat_completeness auto
termination by (relation "measure id") simp_all

declare num_bytes.simps [simp del]

lemma num_bytes_0 [simp]: "num_bytes 0 = 0"
  by (simp add: num_bytes.simps)

lemma num_bytes_pos: "n > 0 \<Longrightarrow> num_bytes n = Suc (num_bytes (n div 256))"
  by (subst num_bytes.simps) simp

lemma num_bytes_bounds: "n > 0 \<Longrightarrow> 256 ^ (num_bytes n - 1) \<le> n \<and> n < 256 ^ num_bytes n"
proof (induction n rule: num_bytes.induct)
  case (1 n)
  show ?case
  proof (cases "n div 256 = 0")
    case True
    with 1 show ?thesis by (simp add: num_bytes_pos div_eq_0_iff)
  next
    case False
    with 1 have ih: "256 ^ (num_bytes (n div 256) - 1) \<le> n div 256" "n div 256 < 256 ^ num_bytes (n div 256)"
      by simp_all
    from False have "num_bytes (n div 256) > 0" by (simp add: num_bytes_pos)
    then obtain m where m: "num_bytes (n div 256) = Suc m" by (cases "num_bytes (n div 256)") simp_all
    have "256 ^ m * 256 \<le> n" using ih(1) m by (simp add: less_eq_div_iff_mult_less_eq)
    moreover have "n < 256 ^ Suc m * 256" using ih(2) m by (simp add: div_less_iff_less_mult)
    ultimately show ?thesis using 1 m by (simp add: num_bytes_pos mult.commute)
  qed
qed

lemma be_bytes_snoc: "be_bytes (Suc n) v = be_bytes n (v div 256) @ [of_nat v]"
  by (induction n) (simp_all add: div_mult2_eq)

lemma asn1_len_loop_eq:
  "asn1_len_loop left (b # rest) = (b + of_nat (num_bytes left)) # be_bytes (num_bytes left) left @ rest"
proof (induction left arbitrary: b rest rule: num_bytes.induct)
  case (1 left)
  show ?case
  proof (cases "left > 0")
    case False
    then show ?thesis by (simp add: asn1_len_loop.simps)
  next
    case True
    have w: "of_nat (left mod 256) = (of_nat left :: u8)"
      by (simp add: word_of_nat_eq_iff take_bit_eq_mod)
    from True have "asn1_len_loop left (b # rest) = asn1_len_loop (left div 256) ((b + 1) # of_nat left # rest)"
      by (subst asn1_len_loop.simps) (simp add: insert_at_def Let_def w)
    with 1 [OF True] True show ?thesis
      by (simp add: num_bytes_pos be_bytes_snoc add.assoc del: be_bytes.simps)
  qed
qed

lemma wrap_in_asn1_len_eq:
  "wrap_in_asn1_len bs =
     (let n = length bs in if n \<le> 127 then of_nat n # bs
      else (0x80 + of_nat (num_bytes n)) # be_bytes (num_bytes n) n @ bs)"
  by (simp add: wrap_in_asn1_len_def insert_at_def Let_def asn1_len_loop_eq)

lemma num_bytes_le: "n < 256 ^ k \<Longrightarrow> num_bytes n \<le> k"
proof (rule ccontr)
  assume n: "n < 256 ^ k" and "\<not> num_bytes n \<le> k"
  then have "n > 0" and le: "k \<le> num_bytes n - 1" by (cases "n = 0"; simp)+
  with num_bytes_bounds [of n] have "256 ^ (num_bytes n - 1) \<le> n" by simp
  moreover have "(256::nat) ^ k \<le> 256 ^ (num_bytes n - 1)" using le by (rule power_increasing) simp
  ultimately have "(256::nat) ^ k \<le> n" by linarith
  with n show False by simp
qed

lemma subjects_loop_eq:
  "subjects_loop subject otas r = r @ map (\<lambda>ota. PayloadU16 (wrap_in_sequence (subject ota))) otas"
  by (induction otas arbitrary: r) simp_all

text \<open>The long form is decoded to the length it encodes.\<close>

lemma der_length_long:
  assumes n: "127 < length bs" "length bs < 2 ^ 64"
  shows "der_length ((0x80 + of_nat (num_bytes (length bs))) # be_bytes (num_bytes (length bs)) (length bs) @ bs) =
    Some (length bs, bs)"
proof -
  let ?n = "length bs" and ?k = "num_bytes (length bs)"
  have k8: "?k \<le> 8" using n by (intro num_bytes_le) simp
  have b: "256 ^ (?k - 1) \<le> ?n" "?n < 256 ^ ?k" using num_bytes_bounds [of ?n] n by (force, force)
  obtain m where m: "?k = Suc m" using n num_bytes_pos [of ?n] by fastforce
  have u: "unat (0x80 + of_nat ?k :: u8) = 128 + ?k"
    using k8 by (simp add: unat_word_ariths unat_of_nat)
  have "?n div 256 ^ m < 256" "0 < ?n div 256 ^ m"
    using b m by (simp_all add: div_less_iff_less_mult mult.commute div_greater_zero_iff)
  then have "(of_nat (?n div 256 ^ m) :: u8) \<noteq> 0"
    by (simp add: word_of_nat_eq_0_iff) (use nat_dvd_not_less in blast)
  then show ?thesis
    using n b u m by (simp add: der_length_def word_le_nat_alt be_value_be_bytes Let_def del: be_bytes.simps) simp
qed

section \<open>Properties\<close>

text \<open>C38: The DER length that \<open>wrap_in_asn1_len\<close> puts before a value of less than \<open>2 ^ 64\<close> bytes is read by a DER
  decoder as the length of the value, in the minimal form, with the value following: short form up to 127 bytes,
  long form with the big-endian length above.\<close>

theorem wrap_in_asn1_len_roundtrip:
  assumes "length bs < 2 ^ 64"
  shows "der_length (wrap_in_asn1_len bs) = Some (length bs, bs)"
proof (cases "length bs \<le> 127")
  case True
  then have "unat (of_nat (length bs) :: u8) = length bs" by (simp add: unat_of_nat)
  with True show ?thesis by (simp add: wrap_in_asn1_len_eq der_length_def word_le_nat_alt)
next
  case False
  with assms show ?thesis by (simp add: wrap_in_asn1_len_eq Let_def der_length_long)
qed

theorem wrap_in_asn1_len_roundtrip_witness:
  "wrap_in_asn1_len (replicate 255 0x12) = 0x81 # 0xff # replicate 255 0x12 \<and>
   der_length (0x81 # 0xff # replicate 255 0x12) = Some (255, replicate 255 0x12)"
proof -
  have "num_bytes 255 = 1" by (simp add: num_bytes_pos)
  then have "wrap_in_asn1_len (replicate 255 0x12) = 0x81 # 0xff # replicate 255 0x12"
    by (simp add: wrap_in_asn1_len_eq Let_def)
  with wrap_in_asn1_len_roundtrip [of "replicate 255 0x12"] show ?thesis by simp
qed

text \<open>C39: The encoding of a server name is documented as unique and prefix-free.  It is so on DNS names of less than 256
  bytes, but an IP address gets the type code of a DNS name: the address \<open>97.46.98.99\<close> and the DNS name
  \<open>a.bc\<close> have the same encoding.\<close>

theorem server_name_encode_unique:
  "(\<forall>a b c d. length a < 256 \<and> length b < 256 \<and>
      TlsServerName_encode (TlsServerName (DnsName a)) @ c = TlsServerName_encode (TlsServerName (DnsName b)) @ d \<longrightarrow>
      a = b) \<and>
   TlsServerName_encode (TlsServerName (IpAddress (V4 [97, 46, 98, 99]))) =
     TlsServerName_encode (TlsServerName (DnsName [97, 46, 98, 99]))"
proof (intro conjI allI impI; (elim conjE)?)
  fix a b c d :: bytes
  assume len: "length a < 256" "length b < 256"
    and "TlsServerName_encode (TlsServerName (DnsName a)) @ c = TlsServerName_encode (TlsServerName (DnsName b)) @ d"
  then have "(of_nat (length a) :: u8) = of_nat (length b)" and eq: "a @ c = b @ d"
    by (simp_all add: TlsServerName_encode_def)
  then have "unat (of_nat (length a) :: u8) = unat (of_nat (length b) :: u8)" by simp
  with len have "length a = length b" by (simp add: unat_of_nat)
  with eq show "a = b" by simp
qed (simp add: TlsServerName_encode_def)

theorem server_name_encode_unique_witness:
  "TlsServerName_encode (TlsServerName (DnsName [97])) \<noteq> TlsServerName_encode (TlsServerName (DnsName [98]))"
  using server_name_encode_unique [THEN conjunct1, rule_format, of "[97]" "[98]" "[]" "[]"] by auto

end
