(* ===== verification/Tls_Verify.thy ===== *)
theory Tls_Verify
  imports Pki
begin

text \<open>
  Certificate and signature verification, after \<open>verify.rs\<close> and \<open>handshake.rs\<close> under \<open>crates/tls/core/src\<close>.
  The crates \<open>webpki\<close> and \<open>sct\<close> are parameters: the record \<open>webpki\<close> has the functions the code calls.
\<close>

section \<open>The libraries\<close>

text \<open>
  The errors of \<open>webpki\<close> that the code names; \<open>OtherPki\<close> is every other one, with its display text.
\<close>

datatype WebpkiError =
    BadDer
  | BadDerTime
  | InvalidSignatureForPublicKey
  | UnsupportedSignatureAlgorithmContext bytes "bytes list"
  | UnsupportedSignatureAlgorithmForPublicKeyContext
  | OtherPki string

text \<open>The verification algorithms \<open>webpki::ring::*\<close> that the code names.\<close>

datatype PkiAlg =
    ECDSA_P256_SHA256 | ECDSA_P256_SHA384 | ECDSA_P384_SHA256 | ECDSA_P384_SHA384 | ED25519
  | RSA_PKCS1_2048_8192_SHA256 | RSA_PKCS1_2048_8192_SHA384 | RSA_PKCS1_2048_8192_SHA512
  | RSA_PSS_2048_8192_SHA256_LEGACY_KEY | RSA_PSS_2048_8192_SHA384_LEGACY_KEY
  | RSA_PSS_2048_8192_SHA512_LEGACY_KEY

text \<open>A time is the number of nanoseconds since the epoch, and a duration a natural number of them.\<close>

type_synonym SystemTime = int

record ('c, 'ta) webpki =
  wp_try_from :: "bytes \<Rightarrow> WebpkiError + 'c"
  wp_verify_for_usage :: "'c \<Rightarrow> 'ta list \<Rightarrow> bytes list \<Rightarrow> nat \<Rightarrow> WebpkiError + unit"
  wp_verify_is_valid_for_subject_name :: "'c \<Rightarrow> PkiServerName \<Rightarrow> WebpkiError + unit"
  wp_verify_signature :: "'c \<Rightarrow> PkiAlg \<Rightarrow> bytes \<Rightarrow> bytes \<Rightarrow> WebpkiError + unit"
  wp_signature_alg_id :: "PkiAlg \<Rightarrow> bytes"

record 'l sct_lib =
  sct_verify_sct :: "bytes \<Rightarrow> bytes \<Rightarrow> u64 \<Rightarrow> 'l list \<Rightarrow> sct_error + nat"
  sct_should_be_fatal :: "sct_error \<Rightarrow> bool"

definition map_err :: "('e \<Rightarrow> 'f) \<Rightarrow> 'e + 'a \<Rightarrow> 'f + 'a" where
  "map_err f r = (case r of Inl e \<Rightarrow> Inl (f e) | Inr x \<Rightarrow> Inr x)"

definition duration_since :: "SystemTime \<Rightarrow> SystemTime \<Rightarrow> nat option" where
  "duration_since t earlier = (if earlier \<le> t then Some (nat (t - earlier)) else None)"

section \<open>Errors\<close>

fun pki_error :: "WebpkiError \<Rightarrow> Error" where
  "pki_error BadDer = InvalidCertificateEncoding"
| "pki_error BadDerTime = InvalidCertificateEncoding"
| "pki_error InvalidSignatureForPublicKey = InvalidCertificateSignature"
| "pki_error (UnsupportedSignatureAlgorithmContext _ _) = InvalidCertificateSignatureType"
| "pki_error UnsupportedSignatureAlgorithmForPublicKeyContext = InvalidCertificateSignatureType"
| "pki_error (OtherPki e) = InvalidCertificateData (''invalid peer certificate: '' @ e)"

text \<open>The text of the formatter \<open>{:?}\<close> on a signature scheme, with \<open>Unknown\<close> in decimal.\<close>

fun string_of_nat :: "nat \<Rightarrow> string" where
  "string_of_nat n =
     (if n < 10 then [char_of (48 + n)] else string_of_nat (n div 10) @ [char_of (48 + n mod 10)])"

declare string_of_nat.simps [simp del]

fun SignatureScheme_debug :: "SignatureScheme \<Rightarrow> string" where
  "SignatureScheme_debug SignatureScheme.RSA_PKCS1_SHA1 = ''RSA_PKCS1_SHA1''"
| "SignatureScheme_debug SignatureScheme.ECDSA_SHA1_Legacy = ''ECDSA_SHA1_Legacy''"
| "SignatureScheme_debug SignatureScheme.RSA_PKCS1_SHA256 = ''RSA_PKCS1_SHA256''"
| "SignatureScheme_debug SignatureScheme.ECDSA_NISTP256_SHA256 = ''ECDSA_NISTP256_SHA256''"
| "SignatureScheme_debug SignatureScheme.RSA_PKCS1_SHA384 = ''RSA_PKCS1_SHA384''"
| "SignatureScheme_debug SignatureScheme.ECDSA_NISTP384_SHA384 = ''ECDSA_NISTP384_SHA384''"
| "SignatureScheme_debug SignatureScheme.RSA_PKCS1_SHA512 = ''RSA_PKCS1_SHA512''"
| "SignatureScheme_debug SignatureScheme.ECDSA_NISTP521_SHA512 = ''ECDSA_NISTP521_SHA512''"
| "SignatureScheme_debug SignatureScheme.RSA_PSS_SHA256 = ''RSA_PSS_SHA256''"
| "SignatureScheme_debug SignatureScheme.RSA_PSS_SHA384 = ''RSA_PSS_SHA384''"
| "SignatureScheme_debug SignatureScheme.RSA_PSS_SHA512 = ''RSA_PSS_SHA512''"
| "SignatureScheme_debug SignatureScheme.ED25519 = ''ED25519''"
| "SignatureScheme_debug SignatureScheme.ED448 = ''ED448''"
| "SignatureScheme_debug (SignatureScheme.Unknown x) = ''Unknown('' @ string_of_nat (unat x) @ '')''"

section \<open>Signature algorithms\<close>

definition ECDSA_SHA256 :: "PkiAlg list" where
  "ECDSA_SHA256 = [ECDSA_P256_SHA256, ECDSA_P384_SHA256]"

definition ECDSA_SHA384 :: "PkiAlg list" where
  "ECDSA_SHA384 = [ECDSA_P256_SHA384, ECDSA_P384_SHA384]"

definition ED25519_ALGS :: "PkiAlg list" where "ED25519_ALGS = [PkiAlg.ED25519]"

definition RSA_SHA256 :: "PkiAlg list" where "RSA_SHA256 = [PkiAlg.RSA_PKCS1_2048_8192_SHA256]"
definition RSA_SHA384 :: "PkiAlg list" where "RSA_SHA384 = [PkiAlg.RSA_PKCS1_2048_8192_SHA384]"
definition RSA_SHA512 :: "PkiAlg list" where "RSA_SHA512 = [PkiAlg.RSA_PKCS1_2048_8192_SHA512]"

definition RSA_PSS_SHA256_ALGS :: "PkiAlg list" where
  "RSA_PSS_SHA256_ALGS = [PkiAlg.RSA_PSS_2048_8192_SHA256_LEGACY_KEY]"

definition RSA_PSS_SHA384_ALGS :: "PkiAlg list" where
  "RSA_PSS_SHA384_ALGS = [PkiAlg.RSA_PSS_2048_8192_SHA384_LEGACY_KEY]"

definition RSA_PSS_SHA512_ALGS :: "PkiAlg list" where
  "RSA_PSS_SHA512_ALGS = [PkiAlg.RSA_PSS_2048_8192_SHA512_LEGACY_KEY]"

definition convert_scheme :: "SignatureScheme \<Rightarrow> Error + PkiAlg list" where
  "convert_scheme scheme =
     (case scheme of
        SignatureScheme.ECDSA_NISTP256_SHA256 \<Rightarrow> Inr ECDSA_SHA256
      | SignatureScheme.ECDSA_NISTP384_SHA384 \<Rightarrow> Inr ECDSA_SHA384
      | SignatureScheme.ED25519 \<Rightarrow> Inr ED25519_ALGS
      | SignatureScheme.RSA_PKCS1_SHA256 \<Rightarrow> Inr RSA_SHA256
      | SignatureScheme.RSA_PKCS1_SHA384 \<Rightarrow> Inr RSA_SHA384
      | SignatureScheme.RSA_PKCS1_SHA512 \<Rightarrow> Inr RSA_SHA512
      | SignatureScheme.RSA_PSS_SHA256 \<Rightarrow> Inr RSA_PSS_SHA256_ALGS
      | SignatureScheme.RSA_PSS_SHA384 \<Rightarrow> Inr RSA_PSS_SHA384_ALGS
      | SignatureScheme.RSA_PSS_SHA512 \<Rightarrow> Inr RSA_PSS_SHA512_ALGS
      | _ \<Rightarrow> Inl (PeerMisbehavedError (''received unadvertised sig scheme '' @ SignatureScheme_debug scheme)))"

definition verification_schemes :: "SignatureScheme list" where
  "verification_schemes =
     [SignatureScheme.ECDSA_NISTP384_SHA384, SignatureScheme.ECDSA_NISTP256_SHA256, SignatureScheme.ED25519,
      SignatureScheme.RSA_PSS_SHA512, SignatureScheme.RSA_PSS_SHA384, SignatureScheme.RSA_PSS_SHA256,
      SignatureScheme.RSA_PKCS1_SHA512, SignatureScheme.RSA_PKCS1_SHA384, SignatureScheme.RSA_PKCS1_SHA256]"

datatype SignatureAlgorithm =
    ECDSA_NISTP256_SHA256 | ECDSA_NISTP256_SHA384 | ECDSA_NISTP384_SHA256 | ECDSA_NISTP384_SHA384 | ED25519
  | RSA_PKCS1_2048_8192_SHA256 | RSA_PKCS1_2048_8192_SHA384 | RSA_PKCS1_2048_8192_SHA512
  | RSA_PSS_2048_8192_SHA256_LEGACY_KEY | RSA_PSS_2048_8192_SHA384_LEGACY_KEY
  | RSA_PSS_2048_8192_SHA512_LEGACY_KEY

text \<open>The last branch is \<open>unreachable!()\<close>: \<open>None\<close>.\<close>

definition from_alg :: "('c, 'ta) webpki \<Rightarrow> PkiAlg \<Rightarrow> SignatureAlgorithm option" where
  "from_alg W alg =
     (let id = wp_signature_alg_id W alg in
      if id = wp_signature_alg_id W PkiAlg.ECDSA_P256_SHA256 then Some SignatureAlgorithm.ECDSA_NISTP256_SHA256
      else if id = wp_signature_alg_id W PkiAlg.ECDSA_P256_SHA384 then Some SignatureAlgorithm.ECDSA_NISTP256_SHA384
      else if id = wp_signature_alg_id W PkiAlg.ECDSA_P384_SHA256 then Some SignatureAlgorithm.ECDSA_NISTP384_SHA256
      else if id = wp_signature_alg_id W PkiAlg.ECDSA_P384_SHA384 then Some SignatureAlgorithm.ECDSA_NISTP384_SHA384
      else if id = wp_signature_alg_id W PkiAlg.ED25519 then Some SignatureAlgorithm.ED25519
      else if id = wp_signature_alg_id W PkiAlg.RSA_PKCS1_2048_8192_SHA256
        then Some SignatureAlgorithm.RSA_PKCS1_2048_8192_SHA256
      else if id = wp_signature_alg_id W PkiAlg.RSA_PKCS1_2048_8192_SHA384
        then Some SignatureAlgorithm.RSA_PKCS1_2048_8192_SHA384
      else if id = wp_signature_alg_id W PkiAlg.RSA_PKCS1_2048_8192_SHA512
        then Some SignatureAlgorithm.RSA_PKCS1_2048_8192_SHA512
      else if id = wp_signature_alg_id W PkiAlg.RSA_PSS_2048_8192_SHA256_LEGACY_KEY
        then Some SignatureAlgorithm.RSA_PSS_2048_8192_SHA256_LEGACY_KEY
      else if id = wp_signature_alg_id W PkiAlg.RSA_PSS_2048_8192_SHA384_LEGACY_KEY
        then Some SignatureAlgorithm.RSA_PSS_2048_8192_SHA384_LEGACY_KEY
      else if id = wp_signature_alg_id W PkiAlg.RSA_PSS_2048_8192_SHA512_LEGACY_KEY
        then Some SignatureAlgorithm.RSA_PSS_2048_8192_SHA512_LEGACY_KEY
      else None)"

section \<open>Signatures\<close>

text \<open>The outer option is the panic of \<open>from_alg\<close>.\<close>

fun verify_sig_loop ::
    "('c, 'ta) webpki \<Rightarrow> 'c \<Rightarrow> PkiAlg list \<Rightarrow> PkiAlg list \<Rightarrow> bytes \<Rightarrow> bytes
      \<Rightarrow> (WebpkiError + SignatureAlgorithm) option" where
  "verify_sig_loop W cert [] algs message sig =
     Some (Inl (UnsupportedSignatureAlgorithmContext [] (map (wp_signature_alg_id W) algs)))"
| "verify_sig_loop W cert (alg # rest) algs message sig =
     (case wp_verify_signature W cert alg message sig of
        Inr _ \<Rightarrow> map_option Inr (from_alg W alg)
      | Inl UnsupportedSignatureAlgorithmForPublicKeyContext \<Rightarrow> verify_sig_loop W cert rest algs message sig
      | Inl e \<Rightarrow> Some (Inl e))"

definition verify_sig_using_any_alg ::
    "('c, 'ta) webpki \<Rightarrow> 'c \<Rightarrow> PkiAlg list \<Rightarrow> bytes \<Rightarrow> bytes \<Rightarrow> (WebpkiError + SignatureAlgorithm) option" where
  "verify_sig_using_any_alg W cert algs message sig = verify_sig_loop W cert algs algs message sig"

definition verify_sig_determine_alg ::
    "('c, 'ta) webpki \<Rightarrow> Certificate \<Rightarrow> bytes \<Rightarrow> DigitallySignedStruct \<Rightarrow> (Error + SignatureAlgorithm) option" where
  "verify_sig_determine_alg W cert message dss =
     (case map_err pki_error (wp_try_from W (certificate_bytes cert)) of
        Inl e \<Rightarrow> Some (Inl e)
      | Inr cert \<Rightarrow>
          (case convert_scheme (dss_scheme dss) of
             Inl e \<Rightarrow> Some (Inl e)
           | Inr algs \<Rightarrow>
               map_option (map_err pki_error)
                 (verify_sig_using_any_alg W cert algs message (payload_u16_bytes (dss_sig dss)))))"

text \<open>The marker \<open>HandshakeSignatureValid\<close> is the unit value.\<close>

definition verify_signed_struct ::
    "('c, 'ta) webpki \<Rightarrow> bytes \<Rightarrow> Certificate \<Rightarrow> DigitallySignedStruct \<Rightarrow> (Error + unit) option" where
  "verify_signed_struct W message cert dss =
     (case convert_scheme (dss_scheme dss) of
        Inl e \<Rightarrow> Some (Inl e)
      | Inr possible_algs \<Rightarrow>
          (case map_err pki_error (wp_try_from W (certificate_bytes cert)) of
             Inl e \<Rightarrow> Some (Inl e)
           | Inr cert \<Rightarrow>
               map_option (\<lambda>r. res_bind (map_err pki_error r) (\<lambda>_. Inr ()))
                 (verify_sig_using_any_alg W cert possible_algs message (payload_u16_bytes (dss_sig dss)))))"

definition convert_alg_tls13 :: "SignatureScheme \<Rightarrow> Error + PkiAlg" where
  "convert_alg_tls13 scheme =
     (case scheme of
        SignatureScheme.ECDSA_NISTP256_SHA256 \<Rightarrow> Inr PkiAlg.ECDSA_P256_SHA256
      | SignatureScheme.ECDSA_NISTP384_SHA384 \<Rightarrow> Inr PkiAlg.ECDSA_P384_SHA384
      | SignatureScheme.ED25519 \<Rightarrow> Inr PkiAlg.ED25519
      | SignatureScheme.RSA_PSS_SHA256 \<Rightarrow> Inr PkiAlg.RSA_PSS_2048_8192_SHA256_LEGACY_KEY
      | SignatureScheme.RSA_PSS_SHA384 \<Rightarrow> Inr PkiAlg.RSA_PSS_2048_8192_SHA384_LEGACY_KEY
      | SignatureScheme.RSA_PSS_SHA512 \<Rightarrow> Inr PkiAlg.RSA_PSS_2048_8192_SHA512_LEGACY_KEY
      | _ \<Rightarrow> Inl (PeerMisbehavedError (''received unsupported sig scheme '' @ SignatureScheme_debug scheme)))"

definition bytes_of_string :: "string \<Rightarrow> bytes" where
  "bytes_of_string s = map (\<lambda>c. of_nat (of_char c)) s"

definition construct_tls13_verify_message :: "bytes \<Rightarrow> bytes \<Rightarrow> bytes" where
  "construct_tls13_verify_message handshake_hash context_string_with_0 =
     (let msg = replicate 64 0x20; msg = msg @ context_string_with_0 in msg @ handshake_hash)"

definition construct_tls13_client_verify_message :: "bytes \<Rightarrow> bytes" where
  "construct_tls13_client_verify_message handshake_hash =
     construct_tls13_verify_message handshake_hash (bytes_of_string ''TLS 1.3, client CertificateVerify'' @ [0])"

definition construct_tls13_server_verify_message :: "bytes \<Rightarrow> bytes" where
  "construct_tls13_server_verify_message handshake_hash =
     construct_tls13_verify_message handshake_hash (bytes_of_string ''TLS 1.3, server CertificateVerify'' @ [0])"

definition verify_tls13 ::
    "('c, 'ta) webpki \<Rightarrow> bytes \<Rightarrow> Certificate \<Rightarrow> DigitallySignedStruct \<Rightarrow> Error + unit" where
  "verify_tls13 W msg cert dss =
     res_bind (convert_alg_tls13 (dss_scheme dss)) (\<lambda>alg.
       res_bind (map_err pki_error (wp_try_from W (certificate_bytes cert))) (\<lambda>cert.
         map_err pki_error (wp_verify_signature W cert alg msg (payload_u16_bytes (dss_sig dss)))))"

section \<open>Certificate transparency\<close>

definition unix_time_millis :: "SystemTime \<Rightarrow> Error + u64" where
  "unix_time_millis now =
     (case duration_since now 0 of
        None \<Rightarrow> Inl FailedToGetCurrentTime
      | Some dur \<Rightarrow>
          (let secs = dur div 10 ^ 9
           in if secs * 1000 < 2 ^ 64 then Inr (of_nat (secs * 1000)) else Inl FailedToGetCurrentTime))"

record 'l CertificateTransparencyPolicy =
  ctp_logs :: "'l list"
  ctp_validation_deadline :: SystemTime

definition CertificateTransparencyPolicy_new :: "'l list \<Rightarrow> SystemTime \<Rightarrow> 'l CertificateTransparencyPolicy" where
  "CertificateTransparencyPolicy_new logs validation_deadline =
     \<lparr>ctp_logs = logs, ctp_validation_deadline = validation_deadline\<rparr>"

fun sct_loop ::
    "'l sct_lib \<Rightarrow> bytes \<Rightarrow> u64 \<Rightarrow> 'l list \<Rightarrow> bytes list \<Rightarrow> sct_error option \<Rightarrow> Error + unit" where
  "sct_loop S cert now logs [] last_sct_error =
     (case last_sct_error of Some e \<Rightarrow> Inl (InvalidSct e) | None \<Rightarrow> Inr ())"
| "sct_loop S cert now logs (sct # scts) last_sct_error =
     (case sct_verify_sct S cert sct now logs of
        Inr _ \<Rightarrow> Inr ()
      | Inl e \<Rightarrow>
          if sct_should_be_fatal S e then Inl (InvalidSct e)
          else sct_loop S cert now logs scts (Some e))"

definition CertificateTransparencyPolicy_verify ::
    "'l sct_lib \<Rightarrow> 'l CertificateTransparencyPolicy \<Rightarrow> Certificate \<Rightarrow> SystemTime \<Rightarrow> bytes list \<Rightarrow> Error + unit" where
  "CertificateTransparencyPolicy_verify S policy cert now scts =
     (if ctp_logs policy = [] \<or> duration_since (ctp_validation_deadline policy) now = None then Inr ()
      else res_bind (unix_time_millis now) (\<lambda>now.
        sct_loop S (certificate_bytes cert) now (ctp_logs policy) scts None))"

section \<open>The verifier\<close>

text \<open>
  The trait \<open>ServerCertVerifier\<close>: the two methods the handshake calls.
\<close>

record ServerCertVerifier =
  scv_verify_server_cert ::
    "Certificate \<Rightarrow> Certificate list \<Rightarrow> TlsServerName \<Rightarrow> bytes list \<Rightarrow> bytes \<Rightarrow> SystemTime \<Rightarrow> Error + unit"
  scv_verify_tls12_signature :: "bytes \<Rightarrow> Certificate \<Rightarrow> DigitallySignedStruct \<Rightarrow> (Error + unit) option"

record ('ta, 'l) WebPkiVerifier =
  wpv_roots :: "'ta RootCertStore"
  wpv_ct_policy :: "'l CertificateTransparencyPolicy option"

definition WebPkiVerifier_new ::
    "'ta RootCertStore \<Rightarrow> 'l CertificateTransparencyPolicy option \<Rightarrow> ('ta, 'l) WebPkiVerifier" where
  "WebPkiVerifier_new roots ct_policy = \<lparr>wpv_roots = roots, wpv_ct_policy = ct_policy\<rparr>"

definition WebPkiVerifier_verify_server_cert ::
    "('c, 'ta) webpki \<Rightarrow> 'l sct_lib \<Rightarrow> ('ta, 'l) WebPkiVerifier \<Rightarrow> Certificate \<Rightarrow> Certificate list \<Rightarrow> TlsServerName
      \<Rightarrow> bytes list \<Rightarrow> bytes \<Rightarrow> SystemTime \<Rightarrow> Error + unit" where
  "WebPkiVerifier_verify_server_cert W S v end_entity intermediates server_name scts ocsp_response now =
     res_bind (map_err pki_error (wp_try_from W (certificate_bytes end_entity))) (\<lambda>cert.
     res_bind (ok_or (duration_since now 0) FailedToGetCurrentTime) (\<lambda>time.
     res_bind (map_err pki_error
         (wp_verify_for_usage W cert (rs_roots (wpv_roots v)) (map certificate_bytes intermediates) time)) (\<lambda>_.
     res_bind (case wpv_ct_policy v of
         Some policy \<Rightarrow> CertificateTransparencyPolicy_verify S policy end_entity now scts
       | None \<Rightarrow> Inr ()) (\<lambda>_.
     map_err pki_error (wp_verify_is_valid_for_subject_name W cert (pki_server_name server_name))))))"

definition WebPkiVerifier_trait ::
    "('c, 'ta) webpki \<Rightarrow> 'l sct_lib \<Rightarrow> ('ta, 'l) WebPkiVerifier \<Rightarrow> ServerCertVerifier" where
  "WebPkiVerifier_trait W S v =
     \<lparr>scv_verify_server_cert = WebPkiVerifier_verify_server_cert W S v,
      scv_verify_tls12_signature = verify_signed_struct W\<rparr>"

section \<open>Handshake data\<close>

record TlsHandshakeData =
  hd_server_cert_details :: ServerCertDetails
  hd_server_kx_details :: ServerKxDetails
  hd_client_random :: Random
  hd_server_random :: Random

definition TlsHandshakeData_new ::
    "ServerCertDetails \<Rightarrow> ServerKxDetails \<Rightarrow> Random \<Rightarrow> Random \<Rightarrow> TlsHandshakeData" where
  "TlsHandshakeData_new server_cert_details server_kx_details client_random server_random =
     \<lparr>hd_server_cert_details = server_cert_details, hd_server_kx_details = server_kx_details,
      hd_client_random = client_random, hd_server_random = server_random\<rparr>"

definition TlsHandshakeData_verify ::
    "ServerCertVerifier \<Rightarrow> TlsHandshakeData \<Rightarrow> SystemTime \<Rightarrow> TlsServerName \<Rightarrow> (Error + unit) option" where
  "TlsHandshakeData_verify verifier data time server_name =
     (case scd_cert_chain (hd_server_cert_details data) of
        [] \<Rightarrow> Some (Inl NoCertificatesPresented)
      | end_entity # intermediates \<Rightarrow>
          (case scv_verify_server_cert verifier end_entity intermediates server_name
             (map payload_u16_bytes (case scd_scts (hd_server_cert_details data) of Some sct \<Rightarrow> sct | None \<Rightarrow> []))
             (scd_ocsp_response (hd_server_cert_details data)) time of
             Inl e \<Rightarrow> Some (Inl e)
           | Inr _ \<Rightarrow>
               (let message = [];
                    message = message @ random_bytes (hd_client_random data);
                    message = message @ random_bytes (hd_server_random data);
                    message = message @ kx_params (hd_server_kx_details data);
                    sig = kx_sig (hd_server_kx_details data)
                in map_option (\<lambda>r. res_bind r (\<lambda>_. Inr ()))
                     (scv_verify_tls12_signature verifier message end_entity sig))))"

section \<open>Lemmas\<close>

lemma map_err_simps [simp]:
  "map_err f (Inl e) = Inl (f e)"
  "map_err f (Inr x) = Inr x"
  by (simp_all add: map_err_def)

lemma map_err_Inr_iff [simp]: "map_err f r = Inr x \<longleftrightarrow> r = Inr x"
  by (cases r) simp_all

lemma unit_result [simp]: "(\<exists>u :: unit. r = Inr u) \<longleftrightarrow> r = Inr ()"
  by auto

text \<open>An element with \<open>Q\<close> that follows only elements with \<open>P\<close>.\<close>

lemma split_at_Cons:
  "(\<exists>pre x post. a # xs = pre @ x # post \<and> Q x \<and> list_all P pre) \<longleftrightarrow>
     Q a \<or> (P a \<and> (\<exists>pre x post. xs = pre @ x # post \<and> Q x \<and> list_all P pre))"
  (is "?lhs \<longleftrightarrow> ?rhs")
proof
  assume ?lhs
  then obtain pre x post where "a # xs = pre @ x # post" "Q x" "list_all P pre" by blast
  then show ?rhs by (cases pre) auto
next
  assume ?rhs
  then show ?lhs
  proof (elim disjE conjE exE)
    assume "Q a"
    then show ?lhs by (intro exI [of _ "[]"] exI [of _ a] exI [of _ xs]) simp
  next
    fix pre x post assume "P a" "xs = pre @ x # post" "Q x" "list_all P pre"
    then show ?lhs by (intro exI [of _ "a # pre"] exI [of _ x] exI [of _ post]) simp
  qed
qed

text \<open>\<open>from_alg\<close> does not reach its panic, on any algorithm the code names.\<close>

lemma from_alg_total: "\<exists>s. from_alg W alg = Some s"
  by (cases alg) (auto simp: from_alg_def Let_def)

text \<open>The first algorithm that the key is not unfit for decides.\<close>

definition sig_decided_by ::
    "('c, 'ta) webpki \<Rightarrow> 'c \<Rightarrow> PkiAlg list \<Rightarrow> bytes \<Rightarrow> bytes \<Rightarrow> PkiAlg \<Rightarrow> bool" where
  "sig_decided_by W cert algs message sig alg \<longleftrightarrow>
     (\<exists>pre post. algs = pre @ alg # post \<and>
       list_all (\<lambda>a. wp_verify_signature W cert a message sig = Inl UnsupportedSignatureAlgorithmForPublicKeyContext) pre \<and>
       wp_verify_signature W cert alg message sig \<noteq> Inl UnsupportedSignatureAlgorithmForPublicKeyContext)"

lemma sig_decided_by_Nil: "\<not> sig_decided_by W cert [] message sig alg"
  by (simp add: sig_decided_by_def)

lemma sig_decided_by_Cons:
  "sig_decided_by W cert (a # algs) message sig alg \<longleftrightarrow>
     (if wp_verify_signature W cert a message sig = Inl UnsupportedSignatureAlgorithmForPublicKeyContext
      then sig_decided_by W cert algs message sig alg else alg = a)"
proof -
  have "(\<exists>pre post. a # algs = pre @ alg # post \<and> P pre) \<longleftrightarrow>
    (alg = a \<and> P []) \<or> (\<exists>pre post. algs = pre @ alg # post \<and> P (a # pre))" for P
    by (auto simp: Cons_eq_append_conv)
  from this [of "\<lambda>pre. list_all (\<lambda>a. wp_verify_signature W cert a message sig =
      Inl UnsupportedSignatureAlgorithmForPublicKeyContext) pre \<and>
      wp_verify_signature W cert alg message sig \<noteq> Inl UnsupportedSignatureAlgorithmForPublicKeyContext"]
  show ?thesis unfolding sig_decided_by_def by auto
qed

lemmas sig_decided_by_simps = sig_decided_by_Nil sig_decided_by_Cons

lemma verify_sig_loop_total: "\<exists>r. verify_sig_loop W cert algs all message sig = Some r"
  by (induction algs) (auto split: sum.split WebpkiError.split simp: from_alg_total)

lemma verify_sig_loop_iff:
  "verify_sig_loop W cert algs all message sig = Some (Inr s) \<longleftrightarrow>
     (\<exists>alg. sig_decided_by W cert algs message sig alg \<and>
       wp_verify_signature W cert alg message sig = Inr () \<and> from_alg W alg = Some s)"
  by (induction algs) (auto simp: sig_decided_by_simps split: sum.split WebpkiError.split)

lemma verify_sig_using_any_alg_total: "\<exists>r. verify_sig_using_any_alg W cert algs message sig = Some r"
  by (simp add: verify_sig_using_any_alg_def verify_sig_loop_total)

text \<open>When a signature is valid for a certificate: the scheme is advertised and its deciding algorithm accepts.\<close>

definition sig_valid :: "('c, 'ta) webpki \<Rightarrow> 'c \<Rightarrow> bytes \<Rightarrow> DigitallySignedStruct \<Rightarrow> PkiAlg \<Rightarrow> bool" where
  "sig_valid W c message dss alg \<longleftrightarrow>
     (\<exists>algs. convert_scheme (dss_scheme dss) = Inr algs \<and>
       sig_decided_by W c algs message (payload_u16_bytes (dss_sig dss)) alg \<and>
       wp_verify_signature W c alg message (payload_u16_bytes (dss_sig dss)) = Inr ())"

lemma verify_signed_struct_iff:
  "verify_signed_struct W message cert dss = Some (Inr ()) \<longleftrightarrow>
     (\<exists>c alg. wp_try_from W (certificate_bytes cert) = Inr c \<and> sig_valid W c message dss alg)"
proof -
  have "(\<exists>z. verify_sig_loop W c algs all m sig = Some z \<and> (\<exists>x. z = Inr x)) \<longleftrightarrow>
    (\<exists>alg. sig_decided_by W c algs m sig alg \<and> wp_verify_signature W c alg m sig = Inr ())"
    for c algs all m sig
    using verify_sig_loop_iff [of W c algs all m sig] from_alg_total [of W] by blast
  then show ?thesis
    by (auto simp: verify_signed_struct_def verify_sig_using_any_alg_def sig_valid_def res_bind_Inr_iff
        split: sum.splits)
qed

lemma sct_loop_iff:
  "sct_loop S cert now logs scts lst = Inr () \<longleftrightarrow>
     (scts = [] \<and> lst = None) \<or>
     (\<exists>pre sct post. scts = pre @ sct # post \<and> (\<exists>x. sct_verify_sct S cert sct now logs = Inr x) \<and>
       list_all (\<lambda>s. \<exists>e. sct_verify_sct S cert s now logs = Inl e \<and> \<not> sct_should_be_fatal S e) pre)"
proof (induction scts arbitrary: lst)
  case Nil
  then show ?case by (auto split: option.split)
next
  case (Cons s scts)
  show ?case unfolding split_at_Cons by (simp add: Cons split: sum.split)
qed

section \<open>Properties\<close>

text \<open>C30: \<open>verify_sig_determine_alg\<close> never reaches the \<open>unreachable!()\<close> of \<open>from_alg\<close>, and returns an algorithm exactly
  when the certificate parses, the scheme is an advertised one, and, of the algorithms that the scheme stands for, the
  first one the key is not unfit for accepts the signature; the algorithm it returns is \<open>from_alg\<close> of that one.\<close>

theorem verify_sig_determine_alg_exact:
  "(\<exists>r. verify_sig_determine_alg W cert message dss = Some r) \<and>
   (verify_sig_determine_alg W cert message dss = Some (Inr s) \<longleftrightarrow>
     (\<exists>c alg. wp_try_from W (certificate_bytes cert) = Inr c \<and> sig_valid W c message dss alg \<and>
       from_alg W alg = Some s))"
  by (auto simp: verify_sig_determine_alg_def verify_sig_using_any_alg_def sig_valid_def verify_sig_loop_iff
      verify_sig_loop_total split: sum.split)

text \<open>C29: With the \<open>webpki\<close> verifier, handshake data is accepted exactly when the server presented a certificate that
  parses, chains to one of the roots at a time not before the epoch, passes the transparency policy, is valid for the
  server name, and signed the client random, the server random and the key exchange parameters in this order.\<close>

theorem tls_handshake_verify_iff:
  "TlsHandshakeData_verify (WebPkiVerifier_trait W S v) data time server_name = Some (Inr ()) \<longleftrightarrow>
     (\<exists>end_entity intermediates c alg.
        scd_cert_chain (hd_server_cert_details data) = end_entity # intermediates \<and>
        wp_try_from W (certificate_bytes end_entity) = Inr c \<and>
        0 \<le> time \<and>
        wp_verify_for_usage W c (rs_roots (wpv_roots v)) (map certificate_bytes intermediates) (nat time) = Inr () \<and>
        (wpv_ct_policy v = None \<or> CertificateTransparencyPolicy_verify S (the (wpv_ct_policy v)) end_entity time
           (map payload_u16_bytes (case scd_scts (hd_server_cert_details data) of Some sct \<Rightarrow> sct | None \<Rightarrow> [])) = Inr ()) \<and>
        wp_verify_is_valid_for_subject_name W c (pki_server_name server_name) = Inr () \<and>
        sig_valid W c (random_bytes (hd_client_random data) @ random_bytes (hd_server_random data) @
          kx_params (hd_server_kx_details data)) (kx_sig (hd_server_kx_details data)) alg)"
proof (cases "scd_cert_chain (hd_server_cert_details data)")
  case Nil
  then show ?thesis by (simp add: TlsHandshakeData_verify_def)
next
  case (Cons ee ints)
  let ?scts = "map payload_u16_bytes (case scd_scts (hd_server_cert_details data) of Some sct \<Rightarrow> sct | None \<Rightarrow> [])"
  let ?msg = "random_bytes (hd_client_random data) @ random_bytes (hd_server_random data) @
          kx_params (hd_server_kx_details data)"
  have "TlsHandshakeData_verify (WebPkiVerifier_trait W S v) data time server_name = Some (Inr ()) \<longleftrightarrow>
    WebPkiVerifier_verify_server_cert W S v ee ints server_name ?scts
      (scd_ocsp_response (hd_server_cert_details data)) time = Inr () \<and>
    verify_signed_struct W ?msg ee (kx_sig (hd_server_kx_details data)) = Some (Inr ())"
    using Cons by (auto simp: TlsHandshakeData_verify_def WebPkiVerifier_trait_def res_bind_Inr_iff split: sum.splits)
  with Cons show ?thesis
    by (auto simp: verify_signed_struct_iff WebPkiVerifier_verify_server_cert_def res_bind_Inr_iff ok_or_Inr_iff
        duration_since_def split: option.splits if_splits)
qed

text \<open>A transparency policy accepts exactly when it has no logs, or its deadline has passed, or the time is a valid
  one and either no timestamp was sent or some timestamp verifies after ones whose errors are not fatal.\<close>

lemma ct_policy_accepts_iff:
  "CertificateTransparencyPolicy_verify S policy cert now scts = Inr () \<longleftrightarrow>
     ctp_logs policy = [] \<or> ctp_validation_deadline policy < now \<or>
     (\<exists>ms. unix_time_millis now = Inr ms \<and>
       (scts = [] \<or>
        (\<exists>pre sct post. scts = pre @ sct # post \<and>
          (\<exists>x. sct_verify_sct S (certificate_bytes cert) sct ms (ctp_logs policy) = Inr x) \<and>
          list_all (\<lambda>s. \<exists>e. sct_verify_sct S (certificate_bytes cert) s ms (ctp_logs policy) = Inl e \<and>
            \<not> sct_should_be_fatal S e) pre)))"
  by (auto simp: CertificateTransparencyPolicy_verify_def duration_since_def res_bind_Inr_iff sct_loop_iff)

end
