(* ===== verification/Connection.thy ===== *)
theory Connection
  imports Transcript Tls_Verify
begin

text \<open>
  The connection data that a session is bound to, after \<open>crates/core/src/connection.rs\<close> and
  \<open>crates/core/src/webpki.rs\<close>: server names, the ephemeral key and the signature of the server, and the verification
  of the handshake against trusted roots.  The crate \<open>webpki\<close> is the parameter of \<open>Tls_Verify\<close>; \<open>dns_ok\<close> is the
  syntax check of DNS names of \<open>rustls_pki_types\<close>.
\<close>

section \<open>Names, keys and signatures\<close>

datatype TlsVersion = V1_2 | V1_3

definition TlsVersion_try_from :: "ProtocolVersion \<Rightarrow> string + TlsVersion" where
  "TlsVersion_try_from value' =
     (case value' of
        ProtocolVersion.TLSv1_2 \<Rightarrow> Inr V1_2
      | ProtocolVersion.TLSv1_3 \<Rightarrow> Inr V1_3
      | _ \<Rightarrow> Inl ''unsupported TLS version'')"

datatype ConnDnsName = ConnDnsName (conn_dns_bytes: bytes)

datatype ConnServerName = Dns ConnDnsName

datatype ConnInvalidDnsNameError = ConnInvalidDnsNameError

definition ConnDnsName_try_from :: "(bytes \<Rightarrow> bool) \<Rightarrow> bytes \<Rightarrow> ConnInvalidDnsNameError + ConnDnsName" where
  "ConnDnsName_try_from dns_ok value' =
     (if dns_ok value' then Inr (ConnDnsName value') else Inl ConnInvalidDnsNameError)"

text \<open>\<open>expect\<close> on a name that is not valid panics.\<close>

fun to_webpki :: "(bytes \<Rightarrow> bool) \<Rightarrow> ConnServerName \<Rightarrow> PkiServerName option" where
  "to_webpki dns_ok (Dns name) =
     (case TlsServerName_try_from dns_ok (conn_dns_bytes name) of
        Inr n \<Rightarrow> Some (pki_server_name n)
      | Inl _ \<Rightarrow> None)"

datatype KeyType = SECP256R1

datatype ConnSignatureAlgorithm =
    ECDSA_NISTP256_SHA256 | ECDSA_NISTP256_SHA384 | ECDSA_NISTP384_SHA256 | ECDSA_NISTP384_SHA384 | ED25519
  | RSA_PKCS1_2048_8192_SHA256 | RSA_PKCS1_2048_8192_SHA384 | RSA_PKCS1_2048_8192_SHA512
  | RSA_PSS_2048_8192_SHA256_LEGACY_KEY | RSA_PSS_2048_8192_SHA384_LEGACY_KEY
  | RSA_PSS_2048_8192_SHA512_LEGACY_KEY

fun ConnSignatureAlgorithm_fmt :: "ConnSignatureAlgorithm \<Rightarrow> string" where
  "ConnSignatureAlgorithm_fmt ConnSignatureAlgorithm.ECDSA_NISTP256_SHA256 = ''ECDSA_NISTP256_SHA256''"
| "ConnSignatureAlgorithm_fmt ConnSignatureAlgorithm.ECDSA_NISTP256_SHA384 = ''ECDSA_NISTP256_SHA384''"
| "ConnSignatureAlgorithm_fmt ConnSignatureAlgorithm.ECDSA_NISTP384_SHA256 = ''ECDSA_NISTP384_SHA256''"
| "ConnSignatureAlgorithm_fmt ConnSignatureAlgorithm.ECDSA_NISTP384_SHA384 = ''ECDSA_NISTP384_SHA384''"
| "ConnSignatureAlgorithm_fmt ConnSignatureAlgorithm.ED25519 = ''ED25519''"
| "ConnSignatureAlgorithm_fmt ConnSignatureAlgorithm.RSA_PKCS1_2048_8192_SHA256 = ''RSA_PKCS1_2048_8192_SHA256''"
| "ConnSignatureAlgorithm_fmt ConnSignatureAlgorithm.RSA_PKCS1_2048_8192_SHA384 = ''RSA_PKCS1_2048_8192_SHA384''"
| "ConnSignatureAlgorithm_fmt ConnSignatureAlgorithm.RSA_PKCS1_2048_8192_SHA512 = ''RSA_PKCS1_2048_8192_SHA512''"
| "ConnSignatureAlgorithm_fmt ConnSignatureAlgorithm.RSA_PSS_2048_8192_SHA256_LEGACY_KEY =
     ''RSA_PSS_2048_8192_SHA256_LEGACY_KEY''"
| "ConnSignatureAlgorithm_fmt ConnSignatureAlgorithm.RSA_PSS_2048_8192_SHA384_LEGACY_KEY =
     ''RSA_PSS_2048_8192_SHA384_LEGACY_KEY''"
| "ConnSignatureAlgorithm_fmt ConnSignatureAlgorithm.RSA_PSS_2048_8192_SHA512_LEGACY_KEY =
     ''RSA_PSS_2048_8192_SHA512_LEGACY_KEY''"

fun ConnSignatureAlgorithm_from :: "SignatureAlgorithm \<Rightarrow> ConnSignatureAlgorithm" where
  "ConnSignatureAlgorithm_from SignatureAlgorithm.ECDSA_NISTP256_SHA256 = ConnSignatureAlgorithm.ECDSA_NISTP256_SHA256"
| "ConnSignatureAlgorithm_from SignatureAlgorithm.ECDSA_NISTP256_SHA384 = ConnSignatureAlgorithm.ECDSA_NISTP256_SHA384"
| "ConnSignatureAlgorithm_from SignatureAlgorithm.ECDSA_NISTP384_SHA256 = ConnSignatureAlgorithm.ECDSA_NISTP384_SHA256"
| "ConnSignatureAlgorithm_from SignatureAlgorithm.ECDSA_NISTP384_SHA384 = ConnSignatureAlgorithm.ECDSA_NISTP384_SHA384"
| "ConnSignatureAlgorithm_from SignatureAlgorithm.ED25519 = ConnSignatureAlgorithm.ED25519"
| "ConnSignatureAlgorithm_from SignatureAlgorithm.RSA_PKCS1_2048_8192_SHA256 =
     ConnSignatureAlgorithm.RSA_PKCS1_2048_8192_SHA256"
| "ConnSignatureAlgorithm_from SignatureAlgorithm.RSA_PKCS1_2048_8192_SHA384 =
     ConnSignatureAlgorithm.RSA_PKCS1_2048_8192_SHA384"
| "ConnSignatureAlgorithm_from SignatureAlgorithm.RSA_PKCS1_2048_8192_SHA512 =
     ConnSignatureAlgorithm.RSA_PKCS1_2048_8192_SHA512"
| "ConnSignatureAlgorithm_from SignatureAlgorithm.RSA_PSS_2048_8192_SHA256_LEGACY_KEY =
     ConnSignatureAlgorithm.RSA_PSS_2048_8192_SHA256_LEGACY_KEY"
| "ConnSignatureAlgorithm_from SignatureAlgorithm.RSA_PSS_2048_8192_SHA384_LEGACY_KEY =
     ConnSignatureAlgorithm.RSA_PSS_2048_8192_SHA384_LEGACY_KEY"
| "ConnSignatureAlgorithm_from SignatureAlgorithm.RSA_PSS_2048_8192_SHA512_LEGACY_KEY =
     ConnSignatureAlgorithm.RSA_PSS_2048_8192_SHA512_LEGACY_KEY"

record ServerSignature =
  ss_alg :: ConnSignatureAlgorithm
  ss_sig :: bytes

record ServerEphemKey =
  sek_typ :: KeyType
  sek_key :: bytes

definition ServerEphemKey_kx_params :: "ServerEphemKey \<Rightarrow> bytes" where
  "ServerEphemKey_kx_params k =
     (let grp = (case sek_typ k of SECP256R1 \<Rightarrow> NamedGroup.secp256r1)
      in ServerECDHParams_encode (ServerECDHParams_new grp (sek_key k)) [])"

definition ServerEphemKey_try_from :: "PublicKey \<Rightarrow> string + ServerEphemKey" where
  "ServerEphemKey_try_from value' =
     (if pk_group value' = NamedGroup.secp256r1 then Inr \<lparr>sek_typ = SECP256R1, sek_key = pk_key value'\<rparr>
      else Inl ''unsupported key type'')"

record ConnectionInfo =
  ci_time :: u64
  ci_version :: TlsVersion
  ci_transcript_length :: TranscriptLength

record CertBindingV1_2 =
  cb_client_random :: bytes
  cb_server_random :: bytes
  cb_server_ephemeral_key :: ServerEphemKey

datatype CertBinding = V1_2 CertBindingV1_2

datatype CertificateDer = CertificateDer (cert_der: bytes)

datatype PrivateKeyDer = PrivateKeyDer bytes

record HandshakeData =
  hsd_certs :: "CertificateDer list"
  hsd_sig :: ServerSignature
  hsd_binding :: CertBinding

section \<open>Verifying server certificates\<close>

datatype PemError = PemError

text \<open>The PEM parsers of \<open>rustls_pki_types\<close> are arguments.\<close>

definition CertificateDer_from_pem_slice ::
    "(bytes \<Rightarrow> 'e + bytes) \<Rightarrow> bytes \<Rightarrow> PemError + CertificateDer" where
  "CertificateDer_from_pem_slice pem_parse pem =
     res_bind (map_err (\<lambda>_. PemError) (pem_parse pem)) (\<lambda>der. Inr (CertificateDer der))"

definition PrivateKeyDer_from_pem_slice ::
    "(bytes \<Rightarrow> 'e + bytes) \<Rightarrow> bytes \<Rightarrow> PemError + PrivateKeyDer" where
  "PrivateKeyDer_from_pem_slice pem_parse pem =
     res_bind (map_err (\<lambda>_. PemError) (pem_parse pem)) (\<lambda>der. Inr (PrivateKeyDer der))"

record ConnRootCertStore =
  crs_roots :: "CertificateDer list"

definition ConnRootCertStore_empty :: ConnRootCertStore where
  "ConnRootCertStore_empty = \<lparr>crs_roots = []\<rparr>"

datatype ServerCertVerifierError =
    InvalidRootCertificate CertificateDer string
  | InvalidEndEntityCertificate CertificateDer string
  | InvalidPath
  | InvalidServerName

record 'ta ConnServerCertVerifier =
  cv_roots :: "'ta list"

text \<open>\<open>collect::<Result<Vec<_>, _>>\<close>: the first error, or all the values.\<close>

fun collect_results :: "('e + 'a) list \<Rightarrow> 'e + 'a list" where
  "collect_results [] = Inr []"
| "collect_results (r # rs) = res_bind r (\<lambda>x. res_bind (collect_results rs) (\<lambda>xs. Inr (x # xs)))"

definition ConnServerCertVerifier_new ::
    "(bytes \<Rightarrow> WebpkiError + 'ta) \<Rightarrow> (WebpkiError \<Rightarrow> string) \<Rightarrow> ConnRootCertStore
      \<Rightarrow> ServerCertVerifierError + 'ta ConnServerCertVerifier" where
  "ConnServerCertVerifier_new anchor_from_trusted_cert to_string roots =
     res_bind (collect_results (map (\<lambda>cert.
         map_err (\<lambda>err. InvalidRootCertificate cert (to_string err)) (anchor_from_trusted_cert (cert_der cert)))
         (crs_roots roots)))
       (\<lambda>roots. Inr \<lparr>cv_roots = roots\<rparr>)"

text \<open>The time of a \<open>Duration::from_secs\<close> is in nanoseconds, as for the verifier of \<open>Tls_Verify\<close>.\<close>

definition ConnServerCertVerifier_verify_server_cert ::
    "('c, 'ta) webpki \<Rightarrow> (bytes \<Rightarrow> bool) \<Rightarrow> (WebpkiError \<Rightarrow> string) \<Rightarrow> 'ta ConnServerCertVerifier
      \<Rightarrow> CertificateDer \<Rightarrow> CertificateDer list \<Rightarrow> ConnServerName \<Rightarrow> u64 \<Rightarrow> (ServerCertVerifierError + unit) option" where
  "ConnServerCertVerifier_verify_server_cert W dns_ok to_string v end_entity intermediates server_name time =
     (case map_err (\<lambda>e. InvalidEndEntityCertificate end_entity (to_string e)) (wp_try_from W (cert_der end_entity)) of
        Inl e \<Rightarrow> Some (Inl e)
      | Inr cert \<Rightarrow>
          do {
            server_name \<leftarrow> to_webpki dns_ok server_name;
            Some (res_bind (map_err (\<lambda>_. InvalidPath)
                (wp_verify_for_usage W cert (cv_roots v) (map cert_der intermediates) (unat time * 10 ^ 9))) (\<lambda>_.
              res_bind (map_err (\<lambda>_. InvalidServerName)
                (wp_verify_is_valid_for_subject_name W cert server_name)) (\<lambda>_. Inr ())))
          })"

section \<open>Verifying the handshake\<close>

datatype HandshakeVerificationError =
    InvalidEndEntityCertificate
  | MissingCerts
  | InvalidServerSignature
  | InvalidServerEphemeralKey
  | ServerCert ServerCertVerifierError

fun webpki_alg :: "ConnSignatureAlgorithm \<Rightarrow> PkiAlg" where
  "webpki_alg ConnSignatureAlgorithm.ECDSA_NISTP256_SHA256 = PkiAlg.ECDSA_P256_SHA256"
| "webpki_alg ConnSignatureAlgorithm.ECDSA_NISTP256_SHA384 = PkiAlg.ECDSA_P256_SHA384"
| "webpki_alg ConnSignatureAlgorithm.ECDSA_NISTP384_SHA256 = PkiAlg.ECDSA_P384_SHA256"
| "webpki_alg ConnSignatureAlgorithm.ECDSA_NISTP384_SHA384 = PkiAlg.ECDSA_P384_SHA384"
| "webpki_alg ConnSignatureAlgorithm.ED25519 = PkiAlg.ED25519"
| "webpki_alg ConnSignatureAlgorithm.RSA_PKCS1_2048_8192_SHA256 = PkiAlg.RSA_PKCS1_2048_8192_SHA256"
| "webpki_alg ConnSignatureAlgorithm.RSA_PKCS1_2048_8192_SHA384 = PkiAlg.RSA_PKCS1_2048_8192_SHA384"
| "webpki_alg ConnSignatureAlgorithm.RSA_PKCS1_2048_8192_SHA512 = PkiAlg.RSA_PKCS1_2048_8192_SHA512"
| "webpki_alg ConnSignatureAlgorithm.RSA_PSS_2048_8192_SHA256_LEGACY_KEY = PkiAlg.RSA_PSS_2048_8192_SHA256_LEGACY_KEY"
| "webpki_alg ConnSignatureAlgorithm.RSA_PSS_2048_8192_SHA384_LEGACY_KEY = PkiAlg.RSA_PSS_2048_8192_SHA384_LEGACY_KEY"
| "webpki_alg ConnSignatureAlgorithm.RSA_PSS_2048_8192_SHA512_LEGACY_KEY = PkiAlg.RSA_PSS_2048_8192_SHA512_LEGACY_KEY"

definition HandshakeData_verify ::
    "('c, 'ta) webpki \<Rightarrow> (bytes \<Rightarrow> bool) \<Rightarrow> (WebpkiError \<Rightarrow> string) \<Rightarrow> HandshakeData \<Rightarrow> 'ta ConnServerCertVerifier
      \<Rightarrow> u64 \<Rightarrow> ServerEphemKey \<Rightarrow> ConnServerName \<Rightarrow> (HandshakeVerificationError + unit) option" where
  "HandshakeData_verify W dns_ok to_string data verifier time server_ephemeral_key server_name =
     (case hsd_binding data of CertBinding.V1_2 binding \<Rightarrow>
        if server_ephemeral_key \<noteq> cb_server_ephemeral_key binding then Some (Inl InvalidServerEphemeralKey)
        else
          (case hsd_certs data of
             [] \<Rightarrow> Some (Inl MissingCerts)
           | end_entity # intermediates \<Rightarrow>
               do {
                 r \<leftarrow> ConnServerCertVerifier_verify_server_cert W dns_ok to_string verifier end_entity intermediates
                   server_name time;
                 Some (res_bind (map_err ServerCert r) (\<lambda>_.
                   let message = [];
                       message = message @ cb_client_random binding;
                       message = message @ cb_server_random binding;
                       message = message @ ServerEphemKey_kx_params server_ephemeral_key;
                       sig_alg = webpki_alg (ss_alg (hsd_sig data))
                   in res_bind (map_err (\<lambda>_. HandshakeVerificationError.InvalidEndEntityCertificate)
                        (wp_try_from W (cert_der end_entity))) (\<lambda>end_entity.
                      res_bind (map_err (\<lambda>_. InvalidServerSignature)
                        (wp_verify_signature W end_entity sig_alg message (ss_sig (hsd_sig data)))) (\<lambda>_. Inr ()))))
               }))"

section \<open>Lemmas\<close>

lemma to_webpki_eq:
  "to_webpki dns_ok (Dns name) =
     (if dns_ok (conn_dns_bytes name) then Some (DnsName (conn_dns_bytes name)) else None)"
  by (simp add: TlsServerName_try_from_def)

declare to_webpki.simps [simp del]

lemma verify_server_cert_iff:
  "ConnServerCertVerifier_verify_server_cert W dns_ok to_string v ee ints (Dns name) time = Some (Inr ()) \<longleftrightarrow>
     (\<exists>c. wp_try_from W (cert_der ee) = Inr c \<and> dns_ok (conn_dns_bytes name) \<and>
       wp_verify_for_usage W c (cv_roots v) (map cert_der ints) (unat time * 10 ^ 9) = Inr () \<and>
       wp_verify_is_valid_for_subject_name W c (DnsName (conn_dns_bytes name)) = Inr ())"
  by (auto simp: ConnServerCertVerifier_verify_server_cert_def to_webpki_eq res_bind_Inr_iff split: sum.split)

lemma verify_server_cert_total:
  "dns_ok (conn_dns_bytes name) \<Longrightarrow>
    ConnServerCertVerifier_verify_server_cert W dns_ok to_string v ee ints (Dns name) time \<noteq> None"
  by (auto simp: ConnServerCertVerifier_verify_server_cert_def to_webpki_eq split: sum.split)

text \<open>Reading a signature algorithm back gives the algorithm that verified, if its identifier is its own.\<close>

lemma webpki_alg_from_alg:
  assumes "from_alg W alg = Some s" and "inj (wp_signature_alg_id W)"
  shows "webpki_alg (ConnSignatureAlgorithm_from s) = alg"
  using assms by (cases alg) (auto simp: from_alg_def Let_def dest: injD split: if_splits)

lemma collect_results_iff: "collect_results rs = Inr xs \<longleftrightarrow> rs = map Inr xs"
proof (induction rs arbitrary: xs)
  case Nil
  then show ?case by auto
next
  case (Cons r rs)
  then show ?case by (cases r) (auto simp: res_bind_Inr_iff)
qed

lemma ConnServerCertVerifier_new_iff:
  "ConnServerCertVerifier_new anchor str roots = Inr v \<longleftrightarrow>
     map (\<lambda>cert. anchor (cert_der cert)) (crs_roots roots) = map Inr (cv_roots v)"
  (is "_ \<longleftrightarrow> ?anchors = _")
proof -
  have "map (\<lambda>cert. map_err (f cert) (anchor (cert_der cert))) cs = map Inr as \<longleftrightarrow>
    map (\<lambda>cert. anchor (cert_der cert)) cs = map Inr as"
    for f :: "CertificateDer \<Rightarrow> WebpkiError \<Rightarrow> ServerCertVerifierError" and cs as
    by (induction cs arbitrary: as) (auto simp: map_eq_Cons_conv Cons_eq_map_conv)
  then show ?thesis
    by (cases v) (auto simp: ConnServerCertVerifier_new_def res_bind_Inr_iff collect_results_iff)
qed

lemma HandshakeData_verify_accepts:
  "HandshakeData_verify W dns_ok to_string data verifier time key (Dns (ConnDnsName name)) = Some (Inr ()) \<longleftrightarrow>
     (\<exists>b ee ints c.
        hsd_binding data = CertBinding.V1_2 b \<and> key = cb_server_ephemeral_key b \<and>
        hsd_certs data = ee # ints \<and> wp_try_from W (cert_der ee) = Inr c \<and> dns_ok name \<and>
        wp_verify_for_usage W c (cv_roots verifier) (map cert_der ints) (unat time * 10 ^ 9) = Inr () \<and>
        wp_verify_is_valid_for_subject_name W c (DnsName name) = Inr () \<and>
        wp_verify_signature W c (webpki_alg (ss_alg (hsd_sig data)))
          (cb_client_random b @ cb_server_random b @ ServerEphemKey_kx_params key) (ss_sig (hsd_sig data)) = Inr ())"
proof (cases "hsd_binding data")
  case (V1_2 b)
  have 1: "(\<exists>z. m = Some z \<and> map_err f z = Inr u \<and> P) \<longleftrightarrow> m = Some (Inr ()) \<and> P"
    for m :: "(ServerCertVerifierError + unit) option" and f :: "ServerCertVerifierError \<Rightarrow> HandshakeVerificationError"
      and u P
    by (auto split: sum.splits)
  show ?thesis
    unfolding HandshakeData_verify_def V1_2
    by (auto simp: bind_eq_Some_conv res_bind_Inr_iff 1 verify_server_cert_iff Let_def split: list.splits)
qed

section \<open>Properties\<close>

text \<open>C8: The handshake data of a session is accepted exactly when the ephemeral key is the one of the certificate binding,
  there is an end-entity certificate that parses, is valid for the (valid) DNS name and chains to a trusted root at the
  time of the connection, and its key signed, under the recorded algorithm, the client random, the server random and
  the encoded key exchange parameters.\<close>

theorem handshake_data_verify_iff:
  "HandshakeData_verify W dns_ok to_string data verifier time key (Dns (ConnDnsName name)) = Some (Inr ()) \<longleftrightarrow>
     (\<exists>b ee ints c.
        hsd_binding data = CertBinding.V1_2 b \<and> key = cb_server_ephemeral_key b \<and>
        hsd_certs data = ee # ints \<and> wp_try_from W (cert_der ee) = Inr c \<and> dns_ok name \<and>
        wp_verify_for_usage W c (cv_roots verifier) (map cert_der ints) (unat time * 10 ^ 9) = Inr () \<and>
        wp_verify_is_valid_for_subject_name W c (DnsName name) = Inr () \<and>
        wp_verify_signature W c (webpki_alg (ss_alg (hsd_sig data)))
          (cb_client_random b @ cb_server_random b @ ServerEphemKey_kx_params key) (ss_sig (hsd_sig data)) = Inr ())"
  by (rule HandshakeData_verify_accepts)

text \<open>C32: A server name that was made by the checked constructor is a valid one: verifying handshake data for it never
  reaches the panic of \<open>to_webpki\<close>.\<close>

theorem checked_name_never_panics:
  assumes "ConnDnsName_try_from dns_ok s = Inr name"
  shows "HandshakeData_verify W dns_ok to_string data verifier time key (Dns name) \<noteq> None"
proof -
  from assms have ok: "dns_ok (conn_dns_bytes name)" by (auto simp: ConnDnsName_try_from_def split: if_splits)
  show ?thesis
    by (cases "hsd_binding data")
      (simp add: HandshakeData_verify_def bind_eq_None_conv ok verify_server_cert_total del: not_None_eq split: list.split)
qed

theorem checked_name_never_panics_witness:
  "\<exists>W :: (unit, unit) webpki.
     HandshakeData_verify W (\<lambda>s. s = [97]) (\<lambda>_. [])
       \<lparr>hsd_certs = [CertificateDer [1]], hsd_sig = \<lparr>ss_alg = ConnSignatureAlgorithm.ED25519, ss_sig = [2]\<rparr>,
        hsd_binding = CertBinding.V1_2 \<lparr>cb_client_random = [3], cb_server_random = [4],
          cb_server_ephemeral_key = \<lparr>sek_typ = SECP256R1, sek_key = [5]\<rparr>\<rparr>\<rparr>
       \<lparr>cv_roots = [()]\<rparr> 6 \<lparr>sek_typ = SECP256R1, sek_key = [5]\<rparr> (Dns (ConnDnsName [97])) \<noteq> None"
  by (intro exI, rule checked_name_never_panics [of _ "[97]"]) (simp add: ConnDnsName_try_from_def)

text \<open>C31: The two identifiers \<open>ecdsa-with-SHA256\<close> of \<open>ECDSA_P256_SHA256\<close> and \<open>ECDSA_P384_SHA256\<close> are the same bytes, since
  an algorithm identifier of a signature does not name the curve.  Then, for a server with a key on P-384, the signature
  over the key exchange verifies, but is recorded as one of P-256, and the handshake data made of it is never accepted.\<close>

theorem p384_signature_recorded_as_p256:
  assumes "wp_signature_alg_id W PkiAlg.ECDSA_P384_SHA256 = wp_signature_alg_id W PkiAlg.ECDSA_P256_SHA256"
    and "wp_try_from W cert = Inr c"
    and "wp_verify_signature W c PkiAlg.ECDSA_P256_SHA256 message sig = Inl UnsupportedSignatureAlgorithmForPublicKeyContext"
    and "wp_verify_signature W c PkiAlg.ECDSA_P384_SHA256 message sig = Inr ()"
    and "message = cr @ sr @ ServerEphemKey_kx_params key"
  shows "verify_sig_determine_alg W (Certificate.Certificate cert) message
      \<lparr>dss_scheme = SignatureScheme.ECDSA_NISTP256_SHA256, dss_sig = PayloadU16 sig\<rparr> =
      Some (Inr SignatureAlgorithm.ECDSA_NISTP256_SHA256) \<and>
    HandshakeData_verify W dns_ok to_string
      \<lparr>hsd_certs = CertificateDer cert # ints,
       hsd_sig = \<lparr>ss_alg = ConnSignatureAlgorithm_from SignatureAlgorithm.ECDSA_NISTP256_SHA256, ss_sig = sig\<rparr>,
       hsd_binding = CertBinding.V1_2
         \<lparr>cb_client_random = cr, cb_server_random = sr, cb_server_ephemeral_key = key\<rparr>\<rparr>
      verifier time key name \<noteq> Some (Inr ())"
proof
  show "verify_sig_determine_alg W (Certificate.Certificate cert) message
      \<lparr>dss_scheme = SignatureScheme.ECDSA_NISTP256_SHA256, dss_sig = PayloadU16 sig\<rparr> =
      Some (Inr SignatureAlgorithm.ECDSA_NISTP256_SHA256)"
    using assms by (simp add: verify_sig_determine_alg_def verify_sig_using_any_alg_def convert_scheme_def
        ECDSA_SHA256_def from_alg_def)
  show "HandshakeData_verify W dns_ok to_string
      \<lparr>hsd_certs = CertificateDer cert # ints,
       hsd_sig = \<lparr>ss_alg = ConnSignatureAlgorithm_from SignatureAlgorithm.ECDSA_NISTP256_SHA256, ss_sig = sig\<rparr>,
       hsd_binding = CertBinding.V1_2
         \<lparr>cb_client_random = cr, cb_server_random = sr, cb_server_ephemeral_key = key\<rparr>\<rparr>
      verifier time key name \<noteq> Some (Inr ())"
    using assms by (auto simp: HandshakeData_verify_def bind_eq_Some_conv res_bind_Inr_iff Let_def)
qed

theorem p384_signature_recorded_as_p256_witness:
  "\<exists>(W :: (unit, unit) webpki) message.
     verify_sig_determine_alg W (Certificate.Certificate [1]) message
       \<lparr>dss_scheme = SignatureScheme.ECDSA_NISTP256_SHA256, dss_sig = PayloadU16 [2]\<rparr> =
       Some (Inr SignatureAlgorithm.ECDSA_NISTP256_SHA256) \<and>
     HandshakeData_verify W (\<lambda>_. True) (\<lambda>_. [])
       \<lparr>hsd_certs = [CertificateDer [1]],
        hsd_sig = \<lparr>ss_alg = ConnSignatureAlgorithm_from SignatureAlgorithm.ECDSA_NISTP256_SHA256, ss_sig = [2]\<rparr>,
        hsd_binding = CertBinding.V1_2 \<lparr>cb_client_random = [3], cb_server_random = [4],
          cb_server_ephemeral_key = \<lparr>sek_typ = SECP256R1, sek_key = [5]\<rparr>\<rparr>\<rparr>
       \<lparr>cv_roots = [()]\<rparr> 6 \<lparr>sek_typ = SECP256R1, sek_key = [5]\<rparr> (Dns (ConnDnsName [97])) \<noteq> Some (Inr ())"
  by (intro exI, rule p384_signature_recorded_as_p256 [of
        "\<lparr>wp_try_from = \<lambda>_. Inr (), wp_verify_for_usage = \<lambda>_ _ _ _. Inr (),
          wp_verify_is_valid_for_subject_name = \<lambda>_ _. Inr (),
          wp_verify_signature = \<lambda>_ a _ _. if a = PkiAlg.ECDSA_P384_SHA256 then Inr ()
            else Inl UnsupportedSignatureAlgorithmForPublicKeyContext,
          wp_signature_alg_id = \<lambda>a. if a = PkiAlg.ECDSA_P384_SHA256 \<or> a = PkiAlg.ECDSA_P256_SHA256 then [1] else [2]\<rparr>"
        _ "()" _ _ "[3]" "[4]" "\<lparr>sek_typ = SECP256R1, sek_key = [5]\<rparr>"]) simp_all

end
