(* ===== verification/Panic.thy ===== *)
theory Panic
  imports Prelude
begin

text \<open>
  Code that returns a \<open>Result\<close> and may panic: the type \<open>('e + 'a) option\<close>, with \<open>None\<close> for the panic.  \<open>try\<close> is
  the operator \<open>?\<close> on such a value, \<open>try_res\<close> on a \<open>Result\<close>, and \<open>unless_panic\<close> continues after a step that can
  only panic.
\<close>

definition try_panic :: "('e + 'a) option \<Rightarrow> ('a \<Rightarrow> ('e + 'b) option) \<Rightarrow> ('e + 'b) option" where
  "try_panic m f = (case m of None \<Rightarrow> None | Some (Inl e) \<Rightarrow> Some (Inl e) | Some (Inr x) \<Rightarrow> f x)"

definition try_res :: "'e + 'a \<Rightarrow> ('a \<Rightarrow> ('e + 'b) option) \<Rightarrow> ('e + 'b) option" where
  "try_res m f = (case m of Inl e \<Rightarrow> Some (Inl e) | Inr x \<Rightarrow> f x)"

definition unless_panic :: "'a option \<Rightarrow> ('a \<Rightarrow> ('e + 'b) option) \<Rightarrow> ('e + 'b) option" where
  "unless_panic m f = (case m of None \<Rightarrow> None | Some x \<Rightarrow> f x)"

named_theorems panic_simps \<open>equations and inversions of the operators\<close>

lemma try_panic_simps [simp]:
  "try_panic None f = None"
  "try_panic (Some (Inl e)) f = Some (Inl e)"
  "try_panic (Some (Inr x)) f = f x"
  by (simp_all add: try_panic_def)

lemma try_res_simps [simp]:
  "try_res (Inl e) f = Some (Inl e)"
  "try_res (Inr x) f = f x"
  by (simp_all add: try_res_def)

lemma unless_panic_simps [simp]:
  "unless_panic None f = None"
  "unless_panic (Some x) f = f x"
  by (simp_all add: unless_panic_def)

lemma try_panic_ok [panic_simps]:
  "try_panic m f = Some (Inr y) \<longleftrightarrow> (\<exists>x. m = Some (Inr x) \<and> f x = Some (Inr y))"
  by (auto simp: try_panic_def split: option.split sum.split)

lemma try_res_ok [panic_simps]: "try_res m f = Some (Inr y) \<longleftrightarrow> (\<exists>x. m = Inr x \<and> f x = Some (Inr y))"
  by (auto simp: try_res_def split: sum.split)

lemma unless_panic_ok [panic_simps]:
  "unless_panic m f = Some (Inr y) \<longleftrightarrow> (\<exists>x. m = Some x \<and> f x = Some (Inr y))"
  by (auto simp: unless_panic_def split: option.split)

lemma try_panic_None [panic_simps]:
  "try_panic m f = None \<longleftrightarrow> m = None \<or> (\<exists>x. m = Some (Inr x) \<and> f x = None)"
  by (auto simp: try_panic_def split: option.split sum.split)

lemma try_res_None [panic_simps]: "try_res m f = None \<longleftrightarrow> (\<exists>x. m = Inr x \<and> f x = None)"
  by (auto simp: try_res_def split: sum.split)

lemma unless_panic_None [panic_simps]: "unless_panic m f = None \<longleftrightarrow> m = None \<or> (\<exists>x. m = Some x \<and> f x = None)"
  by (auto simp: unless_panic_def split: option.split)

end
