(* ===== verification/Tls_Transcript.thy ===== *)
theory Tls_Transcript
  imports Record_Stream Connection Panic
begin

text \<open>
  The transcript of TLS records of a session and its builder, after \<open>crates/core/src/transcript/tls.rs\<close> and
  \<open>crates/core/src/transcript/tls/builder.rs\<close>.  The record \<open>tls_env\<close> has the functions of other crates that the
  builder calls: the syntax check of DNS names, SHA-256, \<open>webpki\<close> and the parser of public keys.
\<close>

section \<open>Errors\<close>

datatype ErrorRepr =
    Parse string
  | Missing string
  | Incomplete Direction u64
  | Validation string

datatype TlsTranscriptError = TlsTranscriptError ErrorRepr

definition TlsTranscriptError_parse :: "string \<Rightarrow> TlsTranscriptError" where
  "TlsTranscriptError_parse msg = TlsTranscriptError (Parse msg)"

definition TlsTranscriptError_missing :: "string \<Rightarrow> TlsTranscriptError" where
  "TlsTranscriptError_missing field = TlsTranscriptError (Missing field)"

definition TlsTranscriptError_validation :: "string \<Rightarrow> TlsTranscriptError" where
  "TlsTranscriptError_validation msg = TlsTranscriptError (Validation msg)"

text \<open>The texts of the formatter \<open>{:?}\<close> on record errors and content types.\<close>

fun MessageError_debug :: "MessageError \<Rightarrow> string" where
  "MessageError_debug TooShortForHeader = ''TooShortForHeader''"
| "MessageError_debug TooShortForLength = ''TooShortForLength''"
| "MessageError_debug IllegalLength = ''IllegalLength''"
| "MessageError_debug IllegalContentType = ''IllegalContentType''"
| "MessageError_debug IllegalProtocolVersion = ''IllegalProtocolVersion''"

section \<open>Records\<close>

datatype RecordType = ChangeCipherSpec | Alert | Handshake | ApplicationData | Heartbeat | Unknown u8

fun RecordType_debug :: "RecordType \<Rightarrow> string" where
  "RecordType_debug RecordType.ChangeCipherSpec = ''ChangeCipherSpec''"
| "RecordType_debug RecordType.Alert = ''Alert''"
| "RecordType_debug RecordType.Handshake = ''Handshake''"
| "RecordType_debug RecordType.ApplicationData = ''ApplicationData''"
| "RecordType_debug RecordType.Heartbeat = ''Heartbeat''"
| "RecordType_debug (RecordType.Unknown x) = ''Unknown('' @ string_of_nat (unat x) @ '')''"

fun ContentType_of_RecordType :: "RecordType \<Rightarrow> ContentType" where
  "ContentType_of_RecordType RecordType.ChangeCipherSpec = ContentType.ChangeCipherSpec"
| "ContentType_of_RecordType RecordType.Alert = ContentType.Alert"
| "ContentType_of_RecordType RecordType.Handshake = ContentType.Handshake"
| "ContentType_of_RecordType RecordType.ApplicationData = ContentType.ApplicationData"
| "ContentType_of_RecordType RecordType.Heartbeat = ContentType.Heartbeat"
| "ContentType_of_RecordType (RecordType.Unknown ty) = ContentType.Unknown ty"

fun RecordType_of_ContentType :: "ContentType \<Rightarrow> RecordType" where
  "RecordType_of_ContentType ContentType.ChangeCipherSpec = RecordType.ChangeCipherSpec"
| "RecordType_of_ContentType ContentType.Alert = RecordType.Alert"
| "RecordType_of_ContentType ContentType.Handshake = RecordType.Handshake"
| "RecordType_of_ContentType ContentType.ApplicationData = RecordType.ApplicationData"
| "RecordType_of_ContentType ContentType.Heartbeat = RecordType.Heartbeat"
| "RecordType_of_ContentType (ContentType.Unknown ty) = RecordType.Unknown ty"

record TlsRecord =
  r_seq :: u64
  r_typ :: RecordType
  r_plaintext :: "bytes option"
  r_explicit_nonce :: bytes
  r_ciphertext :: bytes
  r_tag :: "bytes option"

record SfHashInput =
  sf_sent_hs_bytes :: bytes
  sf_recv_hs_bytes :: bytes
  sf_sent_ch_end :: nat
  sf_recv_shd_end :: nat

record TlsTranscript =
  tt_time :: u64
  tt_version :: TlsVersion
  tt_server_signature :: "ServerSignature option"
  tt_server_cert_chain :: "CertificateDer list option"
  tt_certificate_binding :: CertBinding
  tt_sent :: "TlsRecord list"
  tt_recv :: "TlsRecord list"
  tt_cf_hash :: "bytes option"
  tt_session_hash :: "bytes option"
  tt_sf_hash :: "SfHashInput option"

text \<open>\<open>expect\<close> on the first record: \<open>None\<close> is its panic.\<close>

fun list_first :: "'a list \<Rightarrow> 'a option" where
  "list_first [] = None"
| "list_first (x # xs) = Some x"

definition client_finished :: "TlsTranscript \<Rightarrow> TlsRecord option" where
  "client_finished t = list_first (tt_sent t)"

definition server_finished :: "TlsTranscript \<Rightarrow> TlsRecord option" where
  "server_finished t = list_first (tt_recv t)"

definition get_from :: "nat \<Rightarrow> bytes \<Rightarrow> bytes option" where
  "get_from n v = (if n \<le> length v then Some (drop n v) else None)"

definition TlsTranscript_cf_vd :: "TlsTranscript \<Rightarrow> bytes option option" where
  "TlsTranscript_cf_vd t = map_option (\<lambda>cf. Option.bind (r_plaintext cf) (get_from 4)) (client_finished t)"

definition TlsTranscript_sf_vd :: "TlsTranscript \<Rightarrow> bytes option option" where
  "TlsTranscript_sf_vd t = map_option (\<lambda>sf. Option.bind (r_plaintext sf) (get_from 4)) (server_finished t)"

text \<open>A hasher is the concatenation of its updates; the outer option is a slice out of range.\<close>

definition TlsTranscript_sf_hash :: "(bytes \<Rightarrow> bytes) \<Rightarrow> TlsTranscript \<Rightarrow> bytes \<Rightarrow> bytes option option" where
  "TlsTranscript_sf_hash sha256 t cf_vd =
     (case tt_sf_hash t of
        None \<Rightarrow> Some None
      | Some sf \<Rightarrow>
          do {
            let hasher = [];
            a \<leftarrow> slice (sf_sent_hs_bytes sf) 0 (sf_sent_ch_end sf);
            let hasher = hasher @ a;
            b \<leftarrow> slice (sf_recv_hs_bytes sf) 0 (sf_recv_shd_end sf);
            let hasher = hasher @ b;
            c \<leftarrow> slice (sf_sent_hs_bytes sf) (sf_sent_ch_end sf) (length (sf_sent_hs_bytes sf));
            let hasher = hasher @ c;
            let hasher = hasher @ [0x14, 0x00, 0x00, 0x0c];
            let hasher = hasher @ cf_vd;
            d \<leftarrow> slice (sf_recv_hs_bytes sf) (sf_recv_shd_end sf) (length (sf_recv_hs_bytes sf));
            let hasher = hasher @ d;
            Some (Some (sha256 hasher))
          })"

fun app_data_loop :: "Direction \<Rightarrow> TlsRecord list \<Rightarrow> bytes \<Rightarrow> TlsTranscriptError + bytes" where
  "app_data_loop direction [] out = Inr out"
| "app_data_loop direction (rcd # rest) out =
     res_bind (ok_or (r_plaintext rcd) (TlsTranscriptError (Incomplete direction (r_seq rcd)))) (\<lambda>plaintext.
       app_data_loop direction rest (out @ plaintext))"

definition to_transcript :: "TlsTranscript \<Rightarrow> TlsTranscriptError + Transcript" where
  "to_transcript t =
     res_bind (app_data_loop Sent (filter (\<lambda>r. r_typ r = RecordType.ApplicationData) (tt_sent t)) []) (\<lambda>sent.
     res_bind (app_data_loop Received (filter (\<lambda>r. r_typ r = RecordType.ApplicationData) (tt_recv t)) []) (\<lambda>recv.
       Inr (Transcript_new sent recv)))"

section \<open>Parsing records\<close>

lemma OpaqueMessage_read_at:
  assumes "k \<le> length b"
  shows "OpaqueMessage_read \<lparr>rd_buf = b, rd_offs = k\<rparr> =
    map_sum id (map_prod id (\<lambda>r. \<lparr>rd_buf = b, rd_offs = k + rd_offs r\<rparr>)) (OpaqueMessage_read (Reader_init (drop k b)))"
proof (cases "length b < k + 5")
  case True
  with assms show ?thesis
    by (auto simp: OpaqueMessage_read_def Reader_init_def ContentType_read_def ProtocolVersion_read_def u8_read_at
        u16_read_at)
next
  case False
  have 1: "ContentType_read \<lparr>rd_buf = b, rd_offs = k\<rparr> = Some (header_type (drop k b), \<lparr>rd_buf = b, rd_offs = Suc k\<rparr>)"
    "ProtocolVersion_read \<lparr>rd_buf = b, rd_offs = Suc k\<rparr> =
      Some (header_version (drop k b), \<lparr>rd_buf = b, rd_offs = k + 3\<rparr>)"
    "u16_read \<lparr>rd_buf = b, rd_offs = k + 3\<rparr> = Some (header_len (drop k b), \<lparr>rd_buf = b, rd_offs = k + 5\<rparr>)"
    using False by (simp_all add: ContentType_read_def ProtocolVersion_read_def u8_read_at u16_read_at
        header_type_def header_version_def header_len_def hd_drop_conv_nth add.commute)
  have 2: "Reader_sub \<lparr>rd_buf = b, rd_offs = k + 5\<rparr> n = (if length b < k + 5 + n then None
      else Some (Reader_init (take n (drop 5 (drop k b))), \<lparr>rd_buf = b, rd_offs = k + 5 + n\<rparr>))" for n
    using False by (auto simp: Reader_sub_def Reader_take_def Reader_left_def add.commute)
  have "\<exists>r. Payload_read (Reader_init c) = Some (Payload c, r)" for c
    by (simp add: Payload_read_def Reader_rest_def Reader_init_def)
  then obtain r' where 3: "Payload_read (Reader_init c) = Some (Payload c, r' c)" for c by metis
  have 4: "length (drop k b) < 5 + n \<longleftrightarrow> length b < k + 5 + n" for n
    using False by auto
  have 5: "\<not> length (drop k b) < 5" using False by auto
  show ?thesis
    unfolding OpaqueMessage_read_init if_not_P [OF 5] 4 unfolding OpaqueMessage_read_def 1
    by (simp add: 1 2 3 header_error_def add.assoc del: drop_drop)
qed

lemma OpaqueMessage_read_progress:
  assumes "OpaqueMessage_read r = Inr (m, r')" and "Reader_any_left r"
  shows "Reader_left r' < Reader_left r"
proof -
  obtain b k where r: "r = \<lparr>rd_buf = b, rd_offs = k\<rparr>" by (cases r) auto
  with assms(2) have k: "k < length b" by (simp add: Reader_any_left_def)
  with assms(1) obtain rd where rd: "OpaqueMessage_read (Reader_init (drop k b)) = Inr (m, rd)"
    and r': "r' = \<lparr>rd_buf = b, rd_offs = k + rd_offs rd\<rparr>"
    unfolding r OpaqueMessage_read_at [OF less_imp_le [OF k]]
    by (cases "OpaqueMessage_read (Reader_init (drop k b))") auto
  from OpaqueMessage_read_used [OF rd] k have "0 < rd_offs rd" "k + rd_offs rd \<le> length b"
    by (auto simp: Reader_used_def)
  then show ?thesis by (auto simp: r r' Reader_left_def)
qed

function parse_raw_loop :: "Reader \<Rightarrow> OpaqueMessage list \<Rightarrow> TlsTranscriptError + OpaqueMessage list" where
  "parse_raw_loop reader records =
     (if Reader_any_left reader then
        (case OpaqueMessage_read reader of
           Inl e \<Rightarrow> Inl (TlsTranscriptError_parse (''failed to read TLS record: '' @ MessageError_debug e))
         | Inr (msg, reader') \<Rightarrow> parse_raw_loop reader' (records @ [msg]))
      else Inr records)"
  by pat_completeness auto
termination
  by (relation "measure (\<lambda>(reader, _). Reader_left reader)") (auto simp: OpaqueMessage_read_progress)

declare parse_raw_loop.simps [simp del]

definition parse_raw_records :: "bytes \<Rightarrow> TlsTranscriptError + OpaqueMessage list" where
  "parse_raw_records bs = parse_raw_loop (Reader_init bs) []"

section \<open>The handshake\<close>

record ('c, 'ta, 'oid) tls_env =
  env_valid_dns :: "bytes \<Rightarrow> bool"
  env_sha256 :: "bytes \<Rightarrow> bytes"
  env_webpki :: "('c, 'ta) webpki"
  env_pki_display :: "WebpkiError \<Rightarrow> string"
  env_subject_public_key_info :: "'c \<Rightarrow> bytes"
  env_spki_parameters :: "bytes \<Rightarrow> string + bytes option"
  env_decode_oid :: "bytes \<Rightarrow> string + 'oid"
  env_secp_256_r_1 :: 'oid
  env_secp_384_r_1 :: 'oid
  env_oid_display :: "'oid \<Rightarrow> string"

definition collect_handshake_bytes_pre_ccs :: "OpaqueMessage list \<Rightarrow> bytes" where
  "collect_handshake_bytes_pre_ccs records =
     fold (\<lambda>rcd handshake_bytes.
         if om_typ rcd = ContentType.Handshake then handshake_bytes @ payload_bytes (om_payload rcd)
         else handshake_bytes)
       (takeWhile (\<lambda>rcd. om_typ rcd \<noteq> ContentType.ChangeCipherSpec) records) []"

lemma HandshakeMessage_read_progress:
  assumes "HandshakeMessagePayload_read_version V vers r = Some (x, r')" and "Reader_any_left r"
  shows "Reader_left r' < Reader_left r"
proof -
  from assms(2) have ok: "reader_ok r" by (simp add: reader_ok_def Reader_any_left_def)
  from assms(1) have "reads r (get_encoding HandshakeMessagePayload_encode x) True r'"
    by (simp add: HandshakeMessagePayload_c.read_iff [OF ok])
  then have offs: "rd_offs r' = rd_offs r + length (get_encoding HandshakeMessagePayload_encode x)"
    and buf: "rd_buf r' = rd_buf r"
    by (auto simp: reads_def advance_def)
  have "0 < length (get_encoding HandshakeMessagePayload_encode x)"
    by (simp add: HandshakeMessagePayload_bytes)
  with assms(2) show ?thesis unfolding Reader_left_def Reader_any_left_def offs buf by linarith
qed

function handshake_loop ::
    "(bytes \<Rightarrow> bool) \<Rightarrow> Reader \<Rightarrow> HandshakeMessagePayload list
      \<Rightarrow> TlsTranscriptError + HandshakeMessagePayload list" where
  "handshake_loop V reader messages =
     (if Reader_any_left reader then
        (case HandshakeMessagePayload_read_version V ProtocolVersion.TLSv1_2 reader of
           None \<Rightarrow> Inl (TlsTranscriptError_parse ''failed to parse handshake message'')
         | Some (msg, reader') \<Rightarrow> handshake_loop V reader' (messages @ [msg]))
      else Inr messages)"
  by pat_completeness auto
termination
  by (relation "measure (\<lambda>(_, reader, _). Reader_left reader)") (auto simp: HandshakeMessage_read_progress)

declare handshake_loop.simps [simp del]

definition parse_handshake_stream ::
    "(bytes \<Rightarrow> bool) \<Rightarrow> OpaqueMessage list \<Rightarrow> TlsTranscriptError + bytes \<times> HandshakeMessagePayload list" where
  "parse_handshake_stream V records =
     (let handshake_bytes = collect_handshake_bytes_pre_ccs records
      in res_bind (handshake_loop V (Reader_init handshake_bytes) []) (\<lambda>messages. Inr (handshake_bytes, messages)))"

record HandshakeMsgInfo =
  hmi_typ :: HandshakeType
  hmi_end :: nat

text \<open>\<open>bytes[pos]\<close> is in range by the guard before it.\<close>

function scan_loop :: "bytes \<Rightarrow> nat \<Rightarrow> HandshakeMsgInfo list \<Rightarrow> TlsTranscriptError + HandshakeMsgInfo list" where
  "scan_loop bs pos out =
     (if pos < length bs then
        if length bs - pos < 4 then Inl (TlsTranscriptError_parse ''truncated handshake header'')
        else
          let ty = HandshakeType_from (bs ! pos);
              len = be_value [0, bs ! (pos + 1), bs ! (pos + 2), bs ! (pos + 3)];
              msg_end = pos + 4 + len
          in if msg_end > length bs then
               Inl (TlsTranscriptError_parse ''handshake message length overflows buffer'')
             else scan_loop bs msg_end (out @ [\<lparr>hmi_typ = ty, hmi_end = msg_end\<rparr>])
      else Inr out)"
  by pat_completeness auto
termination by (relation "measure (\<lambda>(bs, pos, _). length bs - pos)") auto

declare scan_loop.simps [simp del]

definition scan_handshake_messages :: "bytes \<Rightarrow> TlsTranscriptError + HandshakeMsgInfo list" where
  "scan_handshake_messages bs = scan_loop bs 0 []"

definition compute_handshake_hashes ::
    "(bytes \<Rightarrow> bytes) \<Rightarrow> bytes \<Rightarrow> bytes \<Rightarrow> HandshakeMsgInfo list \<Rightarrow> HandshakeMsgInfo list
      \<Rightarrow> (TlsTranscriptError + bytes \<times> bytes \<times> SfHashInput) option" where
  "compute_handshake_hashes sha256 sent_hs_bytes recv_hs_bytes sent_msgs recv_msgs =
     try_res (ok_or (list_first sent_msgs)
       (TlsTranscriptError_parse ''missing ClientHello in sent handshake stream'')) (\<lambda>client_hello.
     if hmi_typ client_hello \<noteq> HandshakeType.ClientHello then
       Some (Inl (TlsTranscriptError_parse ''first sent handshake message is not ClientHello''))
     else
     try_res (ok_or (List.find (\<lambda>m. hmi_typ m = HandshakeType.ClientKeyExchange) sent_msgs)
       (TlsTranscriptError_parse ''missing ClientKeyExchange'')) (\<lambda>ckx.
     if \<not> list_ex (\<lambda>m. hmi_typ m = HandshakeType.ServerHello) recv_msgs then
       Some (Inl (TlsTranscriptError_parse ''missing ServerHello''))
     else
     try_res (ok_or (List.find (\<lambda>m. hmi_typ m = HandshakeType.ServerHelloDone) recv_msgs)
       (TlsTranscriptError_parse ''missing ServerHelloDone'')) (\<lambda>shd.
     let sent_ch_end = hmi_end client_hello; recv_shd_end = hmi_end shd; hasher = [] in
     unless_panic (slice sent_hs_bytes 0 sent_ch_end) (\<lambda>a.
     let hasher = hasher @ a; hasher = hasher @ recv_hs_bytes in
     unless_panic (slice sent_hs_bytes sent_ch_end (hmi_end ckx)) (\<lambda>b.
     let hasher = hasher @ b; session_hash = sha256 hasher; hasher = [] in
     unless_panic (slice sent_hs_bytes 0 sent_ch_end) (\<lambda>a.
     let hasher = hasher @ a in
     unless_panic (slice recv_hs_bytes 0 recv_shd_end) (\<lambda>b.
     let hasher = hasher @ b in
     unless_panic (slice sent_hs_bytes sent_ch_end (length sent_hs_bytes)) (\<lambda>c.
     let hasher = hasher @ c; cf_hash = sha256 hasher in
     Some (Inr (cf_hash, session_hash,
       \<lparr>sf_sent_hs_bytes = sent_hs_bytes, sf_recv_hs_bytes = recv_hs_bytes, sf_sent_ch_end = sent_ch_end,
        sf_recv_shd_end = recv_shd_end\<rparr>))))))))))"

text \<open>\<open>find_map\<close>.\<close>

fun find_map :: "('a \<Rightarrow> 'b option) \<Rightarrow> 'a list \<Rightarrow> 'b option" where
  "find_map f [] = None"
| "find_map f (x # xs) = (case f x of Some y \<Rightarrow> Some y | None \<Rightarrow> find_map f xs)"

definition extract_server_hello_data ::
    "HandshakeMessagePayload list \<Rightarrow> TlsTranscriptError + TlsVersion \<times> bytes" where
  "extract_server_hello_data recv_hs =
     res_bind (ok_or (find_map (\<lambda>msg. case hmp_payload msg of HandshakePayload.ServerHello sh \<Rightarrow> Some sh | _ \<Rightarrow> None) recv_hs)
       (TlsTranscriptError_parse ''missing ServerHello'')) (\<lambda>server_hello.
     res_bind (map_err (\<lambda>e. TlsTranscriptError_parse (''unsupported TLS version: '' @ e))
       (TlsVersion_try_from (shp_legacy_version server_hello))) (\<lambda>version.
     Inr (version, random_bytes (shp_random server_hello))))"

definition extract_client_random :: "HandshakeMessagePayload list \<Rightarrow> TlsTranscriptError + bytes" where
  "extract_client_random sent_hs =
     res_bind (ok_or (find_map (\<lambda>msg. case hmp_payload msg of HandshakePayload.ClientHello ch \<Rightarrow> Some ch | _ \<Rightarrow> None) sent_hs)
       (TlsTranscriptError_parse ''missing ClientHello'')) (\<lambda>client_hello.
     Inr (random_bytes (chp_random client_hello)))"

definition extract_certs :: "HandshakeMessagePayload list \<Rightarrow> TlsTranscriptError + CertificateDer list" where
  "extract_certs recv_hs =
     res_bind (ok_or (find_map (\<lambda>msg. case hmp_payload msg of HandshakePayload.Certificate certs \<Rightarrow> Some certs | _ \<Rightarrow> None) recv_hs)
       (TlsTranscriptError_parse ''missing Certificate'')) (\<lambda>cert_payload.
     Inr (map (\<lambda>cert. CertificateDer (certificate_bytes cert)) cert_payload))"

definition extract_ec_curve_oid ::
    "('c, 'ta, 'oid) tls_env \<Rightarrow> CertificateDer list \<Rightarrow> TlsTranscriptError + 'oid" where
  "extract_ec_curve_oid E certs =
     res_bind (ok_or (list_first certs) (TlsTranscriptError_parse ''missing end-entity certificate'')) (\<lambda>ee_cert.
     res_bind (map_err (\<lambda>e. TlsTranscriptError_parse (''invalid end-entity certificate: '' @ env_pki_display E e))
       (wp_try_from (env_webpki E) (cert_der ee_cert))) (\<lambda>ee.
     let spki_der = env_subject_public_key_info E ee in
     res_bind (map_err (\<lambda>e. TlsTranscriptError_parse (''invalid SPKI: '' @ e)) (env_spki_parameters E spki_der)) (\<lambda>spki.
     res_bind (ok_or spki (TlsTranscriptError_parse ''missing EC curve parameters in SPKI'')) (\<lambda>parameters.
     map_err (\<lambda>e. TlsTranscriptError_parse (''failed to decode EC curve OID: '' @ e)) (env_decode_oid E parameters)))))"

definition map_signature_scheme ::
    "('c, 'ta, 'oid) tls_env \<Rightarrow> SignatureScheme \<Rightarrow> CertificateDer list
      \<Rightarrow> TlsTranscriptError + ConnSignatureAlgorithm" where
  "map_signature_scheme E scheme certs =
     (case scheme of
        SignatureScheme.RSA_PKCS1_SHA256 \<Rightarrow> Inr ConnSignatureAlgorithm.RSA_PKCS1_2048_8192_SHA256
      | SignatureScheme.RSA_PKCS1_SHA384 \<Rightarrow> Inr ConnSignatureAlgorithm.RSA_PKCS1_2048_8192_SHA384
      | SignatureScheme.RSA_PKCS1_SHA512 \<Rightarrow> Inr ConnSignatureAlgorithm.RSA_PKCS1_2048_8192_SHA512
      | SignatureScheme.RSA_PSS_SHA256 \<Rightarrow> Inr ConnSignatureAlgorithm.RSA_PSS_2048_8192_SHA256_LEGACY_KEY
      | SignatureScheme.RSA_PSS_SHA384 \<Rightarrow> Inr ConnSignatureAlgorithm.RSA_PSS_2048_8192_SHA384_LEGACY_KEY
      | SignatureScheme.RSA_PSS_SHA512 \<Rightarrow> Inr ConnSignatureAlgorithm.RSA_PSS_2048_8192_SHA512_LEGACY_KEY
      | SignatureScheme.ED25519 \<Rightarrow> Inr ConnSignatureAlgorithm.ED25519
      | SignatureScheme.ECDSA_NISTP256_SHA256 \<Rightarrow>
          res_bind (extract_ec_curve_oid E certs) (\<lambda>curve_oid.
            if curve_oid = env_secp_256_r_1 E then Inr ConnSignatureAlgorithm.ECDSA_NISTP256_SHA256
            else if curve_oid = env_secp_384_r_1 E then Inr ConnSignatureAlgorithm.ECDSA_NISTP384_SHA256
            else Inl (TlsTranscriptError_parse (''unsupported EC curve: '' @ env_oid_display E curve_oid)))
      | SignatureScheme.ECDSA_NISTP384_SHA384 \<Rightarrow>
          res_bind (extract_ec_curve_oid E certs) (\<lambda>curve_oid.
            if curve_oid = env_secp_256_r_1 E then Inr ConnSignatureAlgorithm.ECDSA_NISTP256_SHA384
            else if curve_oid = env_secp_384_r_1 E then Inr ConnSignatureAlgorithm.ECDSA_NISTP384_SHA384
            else Inl (TlsTranscriptError_parse (''unsupported EC curve: '' @ env_oid_display E curve_oid)))
      | _ \<Rightarrow> Inl (TlsTranscriptError_parse (''unsupported signature scheme: '' @ SignatureScheme_debug scheme)))"

definition extract_server_key_exchange ::
    "('c, 'ta, 'oid) tls_env \<Rightarrow> HandshakeMessagePayload list \<Rightarrow> CertificateDer list
      \<Rightarrow> TlsTranscriptError + ServerEphemKey \<times> ServerSignature" where
  "extract_server_key_exchange E recv_hs certs =
     res_bind (ok_or (find_map (\<lambda>msg. case hmp_payload msg of HandshakePayload.ServerKeyExchange ske \<Rightarrow> Some ske | _ \<Rightarrow> None) recv_hs)
       (TlsTranscriptError_parse ''missing ServerKeyExchange'')) (\<lambda>ske.
     res_bind (ok_or (unwrap_given_kxa ske KeyExchangeAlgorithm.ECDHE)
       (TlsTranscriptError_parse ''failed to parse ECDHE ServerKeyExchange'')) (\<lambda>ecdhe.
     if ecp_named_group (sep_curve_params (ske_params ecdhe)) \<noteq> NamedGroup.secp256r1 then
       Inl (TlsTranscriptError_parse ''unsupported key exchange group (only secp256r1 is supported)'')
     else
       let key = \<lparr>sek_typ = SECP256R1, sek_key = payload_u8_bytes (sep_public (ske_params ecdhe))\<rparr> in
       res_bind (map_signature_scheme E (dss_scheme (ske_dss ecdhe)) certs) (\<lambda>alg.
         let sig = \<lparr>ss_alg = alg, ss_sig = payload_u16_bytes (dss_sig (ske_dss ecdhe))\<rparr>
         in Inr (key, sig))))"

definition extract_handshake ::
    "('c, 'ta, 'oid) tls_env \<Rightarrow> HandshakeMessagePayload list \<Rightarrow> HandshakeMessagePayload list
      \<Rightarrow> TlsTranscriptError + TlsVersion \<times> HandshakeData" where
  "extract_handshake E sent_hs recv_hs =
     res_bind (extract_server_hello_data recv_hs) (\<lambda>(version, server_random).
     res_bind (extract_client_random sent_hs) (\<lambda>client_random.
     res_bind (extract_certs recv_hs) (\<lambda>certs.
     res_bind (extract_server_key_exchange E recv_hs certs) (\<lambda>(server_ephemeral_key, sig).
       let binding = CertBinding.V1_2 \<lparr>cb_client_random = client_random, cb_server_random = server_random,
             cb_server_ephemeral_key = server_ephemeral_key\<rparr>;
           handshake = \<lparr>hsd_certs = certs, hsd_sig = sig, hsd_binding = binding\<rparr>
       in Inr (version, handshake)))))"

section \<open>The builder\<close>

record TlsTranscriptBuilder =
  tb_time :: "u64 option"
  tb_version :: "TlsVersion option"
  tb_tls_sent :: "bytes option"
  tb_tls_recv :: "bytes option"
  tb_app_sent :: "bytes option"
  tb_app_recv :: "bytes option"
  tb_records_sent :: "TlsRecord list option"
  tb_records_recv :: "TlsRecord list option"
  tb_server_signature :: "ServerSignature option"
  tb_server_cert_chain :: "CertificateDer list option"
  tb_certificate_binding :: "CertBinding option"

definition TlsTranscript_builder :: TlsTranscriptBuilder where
  "TlsTranscript_builder =
     \<lparr>tb_time = None, tb_version = None, tb_tls_sent = None, tb_tls_recv = None, tb_app_sent = None,
      tb_app_recv = None, tb_records_sent = None, tb_records_recv = None, tb_server_signature = None,
      tb_server_cert_chain = None, tb_certificate_binding = None\<rparr>"

definition builder_time :: "TlsTranscriptBuilder \<Rightarrow> u64 \<Rightarrow> TlsTranscriptBuilder" where
  "builder_time b time = b\<lparr>tb_time := Some time\<rparr>"

definition builder_version :: "TlsTranscriptBuilder \<Rightarrow> TlsVersion \<Rightarrow> TlsTranscriptBuilder" where
  "builder_version b version = b\<lparr>tb_version := Some version\<rparr>"

definition builder_tls_sent :: "TlsTranscriptBuilder \<Rightarrow> bytes \<Rightarrow> TlsTranscriptBuilder" where
  "builder_tls_sent b data = b\<lparr>tb_tls_sent := Some data\<rparr>"

definition builder_tls_recv :: "TlsTranscriptBuilder \<Rightarrow> bytes \<Rightarrow> TlsTranscriptBuilder" where
  "builder_tls_recv b recv = b\<lparr>tb_tls_recv := Some recv\<rparr>"

definition builder_app_sent :: "TlsTranscriptBuilder \<Rightarrow> bytes \<Rightarrow> TlsTranscriptBuilder" where
  "builder_app_sent b sent = b\<lparr>tb_app_sent := Some sent\<rparr>"

definition builder_app_recv :: "TlsTranscriptBuilder \<Rightarrow> bytes \<Rightarrow> TlsTranscriptBuilder" where
  "builder_app_recv b recv = b\<lparr>tb_app_recv := Some recv\<rparr>"

definition builder_records_sent :: "TlsTranscriptBuilder \<Rightarrow> TlsRecord list \<Rightarrow> TlsTranscriptBuilder" where
  "builder_records_sent b sent = b\<lparr>tb_records_sent := Some sent\<rparr>"

definition builder_records_recv :: "TlsTranscriptBuilder \<Rightarrow> TlsRecord list \<Rightarrow> TlsTranscriptBuilder" where
  "builder_records_recv b recv = b\<lparr>tb_records_recv := Some recv\<rparr>"

definition builder_server_signature :: "TlsTranscriptBuilder \<Rightarrow> ServerSignature \<Rightarrow> TlsTranscriptBuilder" where
  "builder_server_signature b sig = b\<lparr>tb_server_signature := Some sig\<rparr>"

definition builder_server_cert_chain :: "TlsTranscriptBuilder \<Rightarrow> CertificateDer list \<Rightarrow> TlsTranscriptBuilder" where
  "builder_server_cert_chain b chain = b\<lparr>tb_server_cert_chain := Some chain\<rparr>"

definition builder_certificate_binding :: "TlsTranscriptBuilder \<Rightarrow> CertBinding \<Rightarrow> TlsTranscriptBuilder" where
  "builder_certificate_binding b binding = b\<lparr>tb_certificate_binding := Some binding\<rparr>"

text \<open>The fields that were not given are taken from the handshake.\<close>

definition fill_missing :: "TlsTranscriptBuilder \<Rightarrow> TlsVersion \<Rightarrow> HandshakeData \<Rightarrow> TlsTranscriptBuilder" where
  "fill_missing b version handshake =
     (let b = (if tb_version b = None then b\<lparr>tb_version := Some version\<rparr> else b);
          b = (if tb_server_signature b = None then b\<lparr>tb_server_signature := Some (hsd_sig handshake)\<rparr> else b);
          b = (if tb_server_cert_chain b = None then b\<lparr>tb_server_cert_chain := Some (hsd_certs handshake)\<rparr> else b)
      in if tb_certificate_binding b = None then b\<lparr>tb_certificate_binding := Some (hsd_binding handshake)\<rparr> else b)"

definition parse_handshake_components ::
    "('c, 'ta, 'oid) tls_env \<Rightarrow> TlsTranscriptBuilder \<Rightarrow> OpaqueMessage list \<Rightarrow> OpaqueMessage list
      \<Rightarrow> (TlsTranscriptError + TlsTranscriptBuilder \<times> bytes \<times> bytes \<times> SfHashInput) option" where
  "parse_handshake_components E b sent_records recv_records =
     try_res (parse_handshake_stream (env_valid_dns E) sent_records) (\<lambda>(sent_hs_bytes, sent_hs).
     try_res (parse_handshake_stream (env_valid_dns E) recv_records) (\<lambda>(recv_hs_bytes, recv_hs).
     try_res (extract_handshake E sent_hs recv_hs) (\<lambda>(version, handshake).
     try_res (scan_handshake_messages sent_hs_bytes) (\<lambda>sent_msgs.
     try_res (scan_handshake_messages recv_hs_bytes) (\<lambda>recv_msgs.
     try_panic (compute_handshake_hashes (env_sha256 E) sent_hs_bytes recv_hs_bytes sent_msgs recv_msgs)
       (\<lambda>(cf_hash, session_hash, sf_hash_input).
     let b = fill_missing b version handshake
     in Some (Inr (b, cf_hash, session_hash, sf_hash_input))))))))"

definition NONCE_LEN :: nat where "NONCE_LEN = 8"

definition TAG_LEN :: nat where "TAG_LEN = 16"

text \<open>The slices of the payload are in range by the guard on its length.\<close>

definition split_into_record :: "u64 \<Rightarrow> bytes \<Rightarrow> ContentType \<Rightarrow> TlsTranscriptError + TlsRecord" where
  "split_into_record seq payload ty =
     (let ty = RecordType_of_ContentType ty in
      if length payload < NONCE_LEN + TAG_LEN then Inl (TlsTranscriptError_parse ''encrypted record too short'')
      else Inr \<lparr>r_seq = seq, r_typ = ty, r_plaintext = None, r_explicit_nonce = take NONCE_LEN payload,
        r_ciphertext = take (length payload - TAG_LEN - NONCE_LEN) (drop NONCE_LEN payload),
        r_tag = Some (drop (length payload - TAG_LEN) payload)\<rparr>)"

definition validate_finished_record :: "(bytes \<Rightarrow> bool) \<Rightarrow> TlsRecord \<Rightarrow> TlsTranscriptError + unit" where
  "validate_finished_record V rcd =
     (if r_typ rcd \<noteq> RecordType.Handshake then
        Inl (TlsTranscriptError_validation
          (''first record expected to be a handshake finished message, but has type '' @ RecordType_debug (r_typ rcd)))
      else if r_seq rcd \<noteq> 0 then
        Inl (TlsTranscriptError_validation
          (''first record should have sequence number 0, but has '' @ string_of_nat (unat (r_seq rcd))))
      else
        (case r_plaintext rcd of
           None \<Rightarrow> Inr ()
         | Some payload \<Rightarrow>
             (case HandshakeMessagePayload_read_version V ProtocolVersion.TLSv1_2 (Reader_init payload) of
                None \<Rightarrow> Inl (TlsTranscriptError_validation ''expected finished record but record is malformed'')
              | Some (payload, reader) \<Rightarrow>
                  if (case hmp_payload payload of HandshakePayload.Finished _ \<Rightarrow> True | _ \<Rightarrow> False) then Inr ()
                  else Inl (TlsTranscriptError_validation ''expected finished record''))))"

fun validate_seq :: "TlsRecord list \<Rightarrow> TlsTranscriptError + unit" where
  "validate_seq (p0 # p1 # rest) =
     (if r_seq p1 \<le> r_seq p0 then
        Inl (TlsTranscriptError_validation
          (''records must have strictly increasing sequence numbers, but got '' @ string_of_nat (unat (r_seq p1)) @
           '' after '' @ string_of_nat (unat (r_seq p0))))
      else validate_seq (p1 # rest))"
| "validate_seq _ = Inr ()"

text \<open>The position of the first element with a property.\<close>

fun position :: "('a \<Rightarrow> bool) \<Rightarrow> 'a list \<Rightarrow> nat option" where
  "position P [] = None"
| "position P (x # xs) = (if P x then Some 0 else map_option Suc (position P xs))"

fun parse_records_loop ::
    "u64 \<Rightarrow> OpaqueMessage list \<Rightarrow> bytes option \<Rightarrow> nat \<Rightarrow> TlsRecord list
      \<Rightarrow> (TlsTranscriptError + TlsRecord list) option" where
  "parse_records_loop seq [] app_data consumed parsed = Some (Inr parsed)"
| "parse_records_loop seq (rcd # rest) app_data consumed parsed =
     try_res (split_into_record seq (payload_bytes (om_payload rcd)) (om_typ rcd)) (\<lambda>rec.
       case app_data of
         Some app_data \<Rightarrow>
           if r_typ rec = RecordType.ApplicationData then
             let cipher_len = length (r_ciphertext rec) in
             unless_panic (slice app_data consumed (length app_data)) (\<lambda>left.
               if length left \<ge> cipher_len then
                 unless_panic (slice app_data consumed (consumed + cipher_len)) (\<lambda>plaintext.
                   parse_records_loop (seq + 1) rest (Some app_data) (consumed + cipher_len)
                     (parsed @ [rec\<lparr>r_plaintext := Some plaintext\<rparr>]))
               else Some (Inl (TlsTranscriptError_parse ''insufficient plaintext application data'')))
           else parse_records_loop (seq + 1) rest (Some app_data) consumed (parsed @ [rec])
       | None \<Rightarrow> parse_records_loop (seq + 1) rest None consumed (parsed @ [rec]))"

definition parse_records ::
    "OpaqueMessage list \<Rightarrow> bytes option \<Rightarrow> (TlsTranscriptError + TlsRecord list) option" where
  "parse_records records app_data =
     try_res (ok_or (position (\<lambda>r. om_typ r = ContentType.ChangeCipherSpec) records)
       (TlsTranscriptError_missing ''ccs record is missing'')) (\<lambda>ccs.
     try_res (ok_or (if ccs + 1 < length records then Some (records ! (ccs + 1)) else None)
       (TlsTranscriptError_parse ''missing Finished record after CCS'')) (\<lambda>raw_finished.
     let payload = payload_bytes (om_payload raw_finished) in
     if length payload < NONCE_LEN + TAG_LEN then Some (Inl (TlsTranscriptError_parse ''encrypted record too short''))
     else
       let ty = RecordType_of_ContentType (om_typ raw_finished) in
       if ty \<noteq> RecordType.Handshake then
         Some (Inl (TlsTranscriptError_validation
           (''expected content type handshake for finished record, but got '' @ RecordType_debug ty)))
       else
         let finished_record = \<lparr>r_seq = 0, r_typ = RecordType.Handshake, r_plaintext = None,
               r_explicit_nonce = take NONCE_LEN payload,
               r_ciphertext = take (length payload - TAG_LEN - NONCE_LEN) (drop NONCE_LEN payload),
               r_tag = Some (drop (length payload - TAG_LEN) payload)\<rparr>
         in parse_records_loop 1 (drop (ccs + 2) records) app_data 0 [finished_record]))"

text \<open>The records of one direction: given ones, or parsed ones.\<close>

definition build_records ::
    "(bytes \<Rightarrow> bool) \<Rightarrow> TlsRecord list option \<Rightarrow> OpaqueMessage list option \<Rightarrow> bytes option \<Rightarrow> string
      \<Rightarrow> (TlsTranscriptError + TlsRecord list) option" where
  "build_records V records raw app what =
     (case records of
        Some records \<Rightarrow>
          unless_panic (list_first records) (\<lambda>finished.
            try_res (validate_finished_record V finished) (\<lambda>_. Some (Inr records)))
      | None \<Rightarrow>
          (case raw of
             Some raw \<Rightarrow> parse_records raw app
           | None \<Rightarrow> Some (Inl (TlsTranscriptError_missing what))))"

definition parse_raw_option :: "bytes option \<Rightarrow> TlsTranscriptError + OpaqueMessage list option" where
  "parse_raw_option bs =
     (case bs of Some bs \<Rightarrow> res_bind (parse_raw_records bs) (\<lambda>r. Inr (Some r)) | None \<Rightarrow> Inr None)"

definition parse_handshake_option ::
    "('c, 'ta, 'oid) tls_env \<Rightarrow> TlsTranscriptBuilder \<Rightarrow> OpaqueMessage list option \<Rightarrow> OpaqueMessage list option
      \<Rightarrow> (TlsTranscriptError + TlsTranscriptBuilder \<times> bytes option \<times> bytes option \<times> SfHashInput option) option" where
  "parse_handshake_option E b sent_raw recv_raw =
     (case (sent_raw, recv_raw) of
        (Some sent_raw, Some recv_raw) \<Rightarrow>
          try_panic (parse_handshake_components E b sent_raw recv_raw) (\<lambda>(b, cf_hash, session_hash, sf_hash).
            Some (Inr (b, Some cf_hash, Some session_hash, Some sf_hash)))
      | _ \<Rightarrow> Some (Inr (b, None, None, None)))"

definition TlsTranscriptBuilder_build ::
    "('c, 'ta, 'oid) tls_env \<Rightarrow> TlsTranscriptBuilder \<Rightarrow> (TlsTranscriptError + TlsTranscript) option" where
  "TlsTranscriptBuilder_build E b =
     try_res (ok_or (tb_time b) (TlsTranscriptError_missing ''time'')) (\<lambda>time.
     try_res (parse_raw_option (tb_tls_sent b)) (\<lambda>sent_raw.
     try_res (parse_raw_option (tb_tls_recv b)) (\<lambda>recv_raw.
     try_panic (parse_handshake_option E b sent_raw recv_raw) (\<lambda>(b, cf_hash, session_hash, sf_hash).
     try_panic (build_records (env_valid_dns E) (tb_records_sent b) sent_raw (tb_app_sent b) ''sent records'') (\<lambda>sent.
     try_res (validate_seq sent) (\<lambda>_.
     try_panic (build_records (env_valid_dns E) (tb_records_recv b) recv_raw (tb_app_recv b) ''recv records'') (\<lambda>recv.
     try_res (validate_seq recv) (\<lambda>_.
     try_res (ok_or (tb_version b) (TlsTranscriptError_missing ''version'')) (\<lambda>version.
     try_res (ok_or (tb_certificate_binding b) (TlsTranscriptError_missing ''certificate binding''))
       (\<lambda>certificate_binding.
     Some (Inr \<lparr>tt_time = time, tt_version = version, tt_server_signature = tb_server_signature b,
       tt_server_cert_chain = tb_server_cert_chain b, tt_certificate_binding = certificate_binding,
       tt_sent = sent, tt_recv = recv, tt_cf_hash = cf_hash, tt_session_hash = session_hash,
       tt_sf_hash = sf_hash\<rparr>)))))))))))"

end
