(* ===== verification/Tls_Transcript_Laws.thy ===== *)
theory Tls_Transcript_Laws
  imports Tls_Transcript
begin

text \<open>
  What the builder of TLS transcripts guarantees: records and handshake messages are parsed exactly, the slices of the
  builder are in range, the transcript has its documented invariants, the handshake hashes cover the messages they
  name, and the signed data are the bytes of the wire.
\<close>


section \<open>Lemmas on records\<close>

text \<open>A sequence of encodings: none at all, or a first one and the rest.\<close>

lemma items_None:
  assumes "b \<noteq> []" and "\<And>n c. ok n \<Longrightarrow> b \<noteq> enc n @ c"
  shows "\<not> (b = concat (map enc ns) \<and> list_all ok ns)"
  using assms by (cases ns) auto

lemma items_Cons:
  assumes "b = enc m @ b'" and "ok m" and "b \<noteq> []" and "\<And>n c. b = enc n @ c \<Longrightarrow> ok n \<Longrightarrow> n = m"
  shows "(b = concat (map enc ns) \<and> list_all ok ns) \<longleftrightarrow>
    (\<exists>ns'. ns = m # ns' \<and> b' = concat (map enc ns') \<and> list_all ok ns')"
proof (cases ns)
  case Nil
  with assms(3) show ?thesis by auto
next
  case (Cons n ns')
  have n: "n = m" if "b = concat (map enc ns)" "list_all ok ns"
    using assms(4) [of n "concat (map enc ns')"] that by (simp add: Cons)
  show ?thesis
  proof
    assume l: "b = concat (map enc ns) \<and> list_all ok ns"
    with n have "n = m" by blast
    with l Cons assms(1) show "\<exists>ns'. ns = m # ns' \<and> b' = concat (map enc ns') \<and> list_all ok ns'" by simp
  next
    assume "\<exists>ns'. ns = m # ns' \<and> b' = concat (map enc ns') \<and> list_all ok ns'"
    then show "b = concat (map enc ns) \<and> list_all ok ns" using assms(1,2) by auto
  qed
qed

lemma drop_after: "drop k b = e @ rest \<Longrightarrow> rest = drop (k + length e) b"
  by (metis append_eq_conv_conj drop_drop add.commute)

lemma parse_raw_loop_iff:
  "k \<le> length b \<Longrightarrow> parse_raw_loop \<lparr>rd_buf = b, rd_offs = k\<rparr> out = Inr ms \<longleftrightarrow>
     (\<exists>ns. ms = out @ ns \<and> drop k b = concat (map OpaqueMessage_encode ns) \<and> list_all OpaqueMessage_ok ns)"
proof (induction "length b - k" arbitrary: k out rule: less_induct)
  case less
  show ?case
  proof (cases "k < length b")
    case False
    then have "drop k b = concat (map OpaqueMessage_encode ns) \<longleftrightarrow> ns = []" for ns
      by (cases ns) (auto simp: OpaqueMessage_bytes)
    with False show ?thesis
      by (subst parse_raw_loop.simps) (auto simp: Reader_any_left_def)
  next
    case True
    show ?thesis
    proof (cases "OpaqueMessage_read (Reader_init (drop k b))")
      case (Inl e)
      have "\<not> (drop k b = concat (map OpaqueMessage_encode ns) \<and> list_all OpaqueMessage_ok ns)" for ns
        using True Inl OpaqueMessage_read_iff [of "drop k b"] by (intro items_None) auto
      with True Inl show ?thesis
        by (subst parse_raw_loop.simps) (auto simp: Reader_any_left_def OpaqueMessage_read_at)
    next
      case (Inr p)
      then obtain m rd where p: "OpaqueMessage_read (Reader_init (drop k b)) = Inr (m, rd)" by (cases p) auto
      let ?n = "length (OpaqueMessage_encode m)"
      from p have m: "OpaqueMessage_ok m" "\<exists>rest. drop k b = OpaqueMessage_encode m @ rest" "rd_offs rd = ?n"
        by (auto simp: OpaqueMessage_read_iff)
      then obtain rest where rest: "drop k b = OpaqueMessage_encode m @ rest" by blast
      with drop_after [OF rest] have b: "drop k b = OpaqueMessage_encode m @ drop (k + ?n) b" by simp
      have le: "k + ?n \<le> length b"
        using arg_cong [OF b, of length] True by auto
      have "length b - (k + ?n) < length b - k" using le by (auto simp: OpaqueMessage_length)
      note ih = less.hyps [OF this le, of "out @ [m]"]
      have step: "parse_raw_loop \<lparr>rd_buf = b, rd_offs = k\<rparr> out =
          parse_raw_loop \<lparr>rd_buf = b, rd_offs = k + ?n\<rparr> (out @ [m])"
        using True p m(3) by (subst parse_raw_loop.simps) (simp add: Reader_any_left_def OpaqueMessage_read_at)
      have "(drop k b = concat (map OpaqueMessage_encode ns) \<and> list_all OpaqueMessage_ok ns) \<longleftrightarrow>
          (\<exists>ns'. ns = m # ns' \<and> drop (k + ?n) b = concat (map OpaqueMessage_encode ns') \<and> list_all OpaqueMessage_ok ns')"
        for ns
      proof (rule items_Cons [where enc = OpaqueMessage_encode and ok = OpaqueMessage_ok, OF b m(1)])
        show "drop k b \<noteq> []" using True by simp
        show "n = m" if "drop k b = OpaqueMessage_encode n @ c" "OpaqueMessage_ok n" for n c
          using OpaqueMessage_prefix_free [OF that(2) m(1) trans [OF that(1) [symmetric] b]] by simp
      qed
      then show ?thesis unfolding step ih by auto
    qed
  qed
qed

lemma parse_raw_records_iff:
  "parse_raw_records b = Inr ms \<longleftrightarrow> b = concat (map OpaqueMessage_encode ms) \<and> list_all OpaqueMessage_ok ms"
  using parse_raw_loop_iff [of 0 b "[]" ms] by (auto simp: parse_raw_records_def Reader_init_def)

lemma handshake_loop_iff:
  "reader_ok r \<Longrightarrow> handshake_loop V r out = Inr ms \<longleftrightarrow>
     (\<exists>ns. ms = out @ ns \<and> remaining r = concat (map hs_bytes ns) \<and>
       list_all (HandshakeMessagePayload_ok V ProtocolVersion.TLSv1_2) ns)"
proof (induction V r out rule: handshake_loop.induct)
  case (1 V r out)
  show ?case
  proof (cases "Reader_any_left r")
    case False
    then have "remaining r = concat (map hs_bytes ns) \<longleftrightarrow> ns = []" for ns
      by (cases ns) (auto simp: any_left_iff HandshakeMessagePayload_bytes)
    with False show ?thesis by (subst handshake_loop.simps) auto
  next
    case True
    let ?read = "HandshakeMessagePayload_read_version V ProtocolVersion.TLSv1_2 r"
    have read: "?read = Some (x, r') \<longleftrightarrow> HandshakeMessagePayload_ok V ProtocolVersion.TLSv1_2 x \<and> reads r (hs_bytes x) True r'"
      for x r'
      using HandshakeMessagePayload_c.read_iff [OF 1(2)] by simp
    have ne: "remaining r \<noteq> []" using True by (simp add: any_left_iff)
    show ?thesis
    proof (cases ?read)
      case None
      have "\<not> (remaining r = concat (map hs_bytes ns) \<and>
          list_all (HandshakeMessagePayload_ok V ProtocolVersion.TLSv1_2) ns)" for ns
        using None read ne by (intro items_None) (auto simp: reads_def fits_def)
      with True None show ?thesis by (subst handshake_loop.simps) auto
    next
      case (Some p)
      then obtain m r' where p: "?read = Some (m, r')" by (cases p) auto
      then have m: "HandshakeMessagePayload_ok V ProtocolVersion.TLSv1_2 m" "reads r (hs_bytes m) True r'"
        by (simp_all add: read)
      then have ok': "reader_ok r'" using reader_ok_advance [OF 1(2)] by (auto simp: reads_def)
      have rem: "remaining r = hs_bytes m @ remaining r'"
      proof -
        from m(2) obtain s where s: "drop (rd_offs r) (rd_buf r) = hs_bytes m @ s" and "r' = advance (length (hs_bytes m)) r"
          by (auto simp: reads_def fits_def remaining_def)
        with drop_after [OF s] show ?thesis by (simp add: remaining_def advance_def)
      qed
      note ih = 1(1) [OF True p, OF refl ok']
      have step: "handshake_loop V r out = handshake_loop V r' (out @ [m])"
        using True p by (subst handshake_loop.simps) simp
      have "(remaining r = concat (map hs_bytes ns) \<and> list_all (HandshakeMessagePayload_ok V ProtocolVersion.TLSv1_2) ns) \<longleftrightarrow>
          (\<exists>ns'. ns = m # ns' \<and> remaining r' = concat (map hs_bytes ns') \<and>
            list_all (HandshakeMessagePayload_ok V ProtocolVersion.TLSv1_2) ns')" for ns
      proof (rule items_Cons [where enc = hs_bytes and ok = "HandshakeMessagePayload_ok V ProtocolVersion.TLSv1_2", OF rem m(1) ne])
        show "n = m" if "remaining r = hs_bytes n @ c" "HandshakeMessagePayload_ok V ProtocolVersion.TLSv1_2 n" for n c
          using read [of n "advance (length (hs_bytes n)) r"] p that by (auto simp: reads_def fits_def)
      qed
      then show ?thesis unfolding step ih by auto
    qed
  qed
qed

lemma collect_handshake_bytes_eq:
  "collect_handshake_bytes_pre_ccs records =
     concat (map (\<lambda>rcd. payload_bytes (om_payload rcd))
       (filter (\<lambda>rcd. om_typ rcd = ContentType.Handshake)
         (takeWhile (\<lambda>rcd. om_typ rcd \<noteq> ContentType.ChangeCipherSpec) records)))"
proof -
  have "fold (\<lambda>rcd acc. if P rcd then acc @ f rcd else acc) rs acc = acc @ concat (map f (filter P rs))"
    for P :: "OpaqueMessage \<Rightarrow> bool" and f rs and acc :: bytes
    by (induction rs arbitrary: acc) simp_all
  then show ?thesis by (simp add: collect_handshake_bytes_pre_ccs_def)
qed

lemma parse_handshake_stream_iff:
  "parse_handshake_stream V records = Inr (b, ms) \<longleftrightarrow>
     b = collect_handshake_bytes_pre_ccs records \<and> b = concat (map hs_bytes ms) \<and>
     list_all (HandshakeMessagePayload_ok V ProtocolVersion.TLSv1_2) ms"
  using handshake_loop_iff [of "Reader_init (collect_handshake_bytes_pre_ccs records)" V "[]" ms]
  by (auto simp: parse_handshake_stream_def res_bind_Inr_iff Let_def remaining_def Reader_init_def reader_ok_def)


section \<open>Lemmas on the handshake hashes\<close>

text \<open>A message whose header can be read back: a type that is encoded as itself, and a length of 24 bits.\<close>

definition framed :: "HandshakeMessagePayload \<Rightarrow> bool" where
  "framed h \<longleftrightarrow> HandshakeType_ok (wire_type (hmp_typ h)) \<and> length (HandshakePayload_encode (hmp_payload h) []) < 256 ^ 3"

lemma framed_ok: "HandshakeMessagePayload_ok V vers h \<Longrightarrow> framed h"
  using wire_type_ok [of V vers "hmp_typ h" "hmp_payload h"]
  by (simp add: framed_def HandshakeMessagePayload_ok_def HandshakePayload_bytes)

lemma hs_bytes_framed:
  assumes "framed h"
  shows "hs_bytes h = HandshakeType_get_u8 (wire_type (hmp_typ h)) #
    be_bytes 3 (length (HandshakePayload_encode (hmp_payload h) [])) @ HandshakePayload_encode (hmp_payload h) []"
    and "length (HandshakePayload_encode (hmp_payload h) []) < 256 ^ 3"
    and "HandshakeType_from (HandshakeType_get_u8 (wire_type (hmp_typ h))) = wire_type (hmp_typ h)"
  using assms
  by (simp_all add: framed_def HandshakeMessagePayload_bytes unsigned_of_nat take_bit_nat_eq_self HandshakeType_ok_def)

text \<open>Where the messages of a stream end.\<close>

fun hs_infos :: "nat \<Rightarrow> HandshakeMessagePayload list \<Rightarrow> HandshakeMsgInfo list" where
  "hs_infos pos [] = []"
| "hs_infos pos (h # hs) =
     \<lparr>hmi_typ = wire_type (hmp_typ h), hmi_end = pos + length (hs_bytes h)\<rparr> # hs_infos (pos + length (hs_bytes h)) hs"

abbreviation hs_concat :: "HandshakeMessagePayload list \<Rightarrow> bytes" where
  "hs_concat hs \<equiv> concat (map hs_bytes hs)"

lemma scan_loop_step:
  assumes "framed h"
  shows "scan_loop (pre @ hs_bytes h @ rest) (length pre) out =
    scan_loop (pre @ hs_bytes h @ rest) (length pre + length (hs_bytes h))
      (out @ [\<lparr>hmi_typ = wire_type (hmp_typ h), hmi_end = length pre + length (hs_bytes h)\<rparr>])"
proof -
  note h = hs_bytes_framed [OF assms]
  let ?n = "length (HandshakePayload_encode (hmp_payload h) [])"
  let ?bs = "pre @ hs_bytes h @ rest"
  obtain b1 b2 b3 where b: "be_bytes 3 ?n = [b1, b2, b3]"
    using length_be_bytes [of 3 ?n] by (auto simp: numeral_3_eq_3 length_Suc_conv simp del: length_be_bytes)
  have v: "be_value [0, b1, b2, b3] = ?n"
    using be_value_be_bytes [of 3 ?n] h(2) unfolding b by simp
  have nth: "?bs ! length pre = HandshakeType_get_u8 (wire_type (hmp_typ h))" "?bs ! (length pre + 1) = b1"
    "?bs ! (length pre + 2) = b2" "?bs ! (length pre + 3) = b3"
    by (simp_all add: h(1) b nth_append)
  have len: "length (hs_bytes h) = 4 + ?n" unfolding h(1) b by simp
  show ?thesis
    by (subst scan_loop.simps, unfold nth v h(3) Let_def) (simp add: len add.assoc)
qed

lemma scan_loop_eq:
  "list_all framed hs \<Longrightarrow>
    scan_loop (pre @ hs_concat hs) (length pre) out = Inr (out @ hs_infos (length pre) hs)"
proof (induction hs arbitrary: pre out)
  case Nil
  then show ?case by (simp add: scan_loop.simps)
next
  case (Cons h hs)
  then have h: "framed h" by simp
  have "scan_loop (pre @ hs_bytes h @ hs_concat hs) (length pre) out =
    scan_loop ((pre @ hs_bytes h) @ hs_concat hs) (length (pre @ hs_bytes h))
      (out @ [\<lparr>hmi_typ = wire_type (hmp_typ h), hmi_end = length pre + length (hs_bytes h)\<rparr>])"
    using scan_loop_step [OF h, of pre "hs_concat hs" out] by simp
  also have "\<dots> = Inr (out @ hs_infos (length pre) (h # hs))"
    using Cons by (subst Cons.IH) simp_all
  finally show ?case by simp
qed

lemma scan_handshake_messages_eq:
  "list_all framed hs \<Longrightarrow> scan_handshake_messages (hs_concat hs) = Inr (hs_infos 0 hs)"
  using scan_loop_eq [of hs "[]" "[]"] by (simp add: scan_handshake_messages_def)

lemma hs_infos_append: "hs_infos pos (hs @ ks) = hs_infos pos hs @ hs_infos (pos + length (hs_concat hs)) ks"
  by (induction hs arbitrary: pos) (simp_all add: add.assoc)

lemma find_hs_info:
  assumes "list_all (\<lambda>h. wire_type (hmp_typ h) \<noteq> ty) pre" and "wire_type (hmp_typ h) = ty"
  shows "List.find (\<lambda>m. hmi_typ m = ty) (hs_infos pos (pre @ h # post)) =
    Some \<lparr>hmi_typ = ty, hmi_end = pos + length (hs_concat (pre @ [h]))\<rparr>"
  using assms by (induction pre arbitrary: pos) (simp_all add: add.assoc)

lemma list_ex_hs_infos: "list_ex (\<lambda>m. hmi_typ m = ty) (hs_infos pos hs) \<longleftrightarrow> list_ex (\<lambda>h. wire_type (hmp_typ h) = ty) hs"
  by (induction hs arbitrary: pos) simp_all

lemma slice_prefix: "slice (a @ b) 0 (length a) = Some a"
  by (simp add: slice_def)

lemma slice_middle: "n = length a \<Longrightarrow> m = n + length b \<Longrightarrow> slice (a @ b @ c) n m = Some b"
  by (simp add: slice_def)

lemma slice_suffix: "n = length a \<Longrightarrow> m = length (a @ b) \<Longrightarrow> slice (a @ b) n m = Some b"
  by (simp add: slice_def)

text \<open>A client flight and a server flight: the hello, then \<open>pre\<close>, the key exchange and \<open>post\<close>; and \<open>r1\<close>, the hello
  done and \<open>r2\<close>.\<close>

definition flights ::
    "HandshakeMessagePayload \<Rightarrow> HandshakeMessagePayload list \<Rightarrow> HandshakeMessagePayload \<Rightarrow> HandshakeMessagePayload list
      \<Rightarrow> HandshakeMessagePayload list \<Rightarrow> HandshakeMessagePayload \<Rightarrow> bool" where
  "flights ch pre ckx r1 r2 shd \<longleftrightarrow>
     hmp_typ ch = HandshakeType.ClientHello \<and> hmp_typ ckx = HandshakeType.ClientKeyExchange \<and>
     hmp_typ shd = HandshakeType.ServerHelloDone \<and>
     list_all (\<lambda>h. hmp_typ h \<noteq> HandshakeType.ClientKeyExchange) pre \<and>
     list_all (\<lambda>h. hmp_typ h \<noteq> HandshakeType.ServerHelloDone) r1 \<and>
     list_ex (\<lambda>h. wire_type (hmp_typ h) = HandshakeType.ServerHello) (r1 @ r2)"

lemma wire_type_eq: "ty \<noteq> HandshakeType.ServerHello \<Longrightarrow> ty \<noteq> HandshakeType.HelloRetryRequest \<Longrightarrow> wire_type t = ty \<longleftrightarrow> t = ty"
  by (auto simp: wire_type_def)

lemma compute_handshake_hashes_eq:
  fixes post :: "HandshakeMessagePayload list"
  assumes "flights ch pre ckx r1 r2 shd"
  defines "sent \<equiv> ch # pre @ ckx # post" and "recv \<equiv> r1 @ shd # r2"
  shows "compute_handshake_hashes sha256 (hs_concat sent) (hs_concat recv) (hs_infos 0 sent) (hs_infos 0 recv) =
    Some (Inr (sha256 (hs_concat (ch # r1 @ shd # pre @ ckx # post)),
      sha256 (hs_concat (ch # r1 @ shd # r2 @ pre @ [ckx])),
      \<lparr>sf_sent_hs_bytes = hs_concat sent, sf_recv_hs_bytes = hs_concat recv,
       sf_sent_ch_end = length (hs_bytes ch), sf_recv_shd_end = length (hs_concat (r1 @ [shd]))\<rparr>))"
proof -
  note f = assms(1) [unfolded flights_def]
  have ckx: "List.find (\<lambda>m. hmi_typ m = HandshakeType.ClientKeyExchange) (hs_infos 0 sent) =
      Some \<lparr>hmi_typ = HandshakeType.ClientKeyExchange, hmi_end = length (hs_concat (ch # pre @ [ckx]))\<rparr>"
    using f find_hs_info [of HandshakeType.ClientKeyExchange "ch # pre" ckx 0 post]
    by (simp add: sent_def wire_type_eq)
  have shd: "List.find (\<lambda>m. hmi_typ m = HandshakeType.ServerHelloDone) (hs_infos 0 recv) =
      Some \<lparr>hmi_typ = HandshakeType.ServerHelloDone, hmi_end = length (hs_concat (r1 @ [shd]))\<rparr>"
    using f find_hs_info [of HandshakeType.ServerHelloDone r1 shd 0 r2] by (simp add: recv_def wire_type_eq)
  have sh: "list_ex (\<lambda>m. hmi_typ m = HandshakeType.ServerHello) (hs_infos 0 recv)"
    using f by (auto simp: recv_def list_ex_hs_infos)
  have ch: "list_first (hs_infos 0 sent) = Some \<lparr>hmi_typ = HandshakeType.ClientHello, hmi_end = length (hs_bytes ch)\<rparr>"
    using f by (simp add: sent_def wire_type_def)
  have sl: "slice (hs_concat sent) 0 (length (hs_bytes ch)) = Some (hs_bytes ch)"
    "slice (hs_concat sent) (length (hs_bytes ch)) (length (hs_concat (ch # pre @ [ckx]))) = Some (hs_concat (pre @ [ckx]))"
    "slice (hs_concat recv) 0 (length (hs_concat (r1 @ [shd]))) = Some (hs_concat (r1 @ [shd]))"
    "slice (hs_concat sent) (length (hs_bytes ch)) (length (hs_concat sent)) = Some (hs_concat (pre @ ckx # post))"
    using slice_prefix [of "hs_concat (r1 @ [shd])" "hs_concat r2"]
      slice_middle [OF refl, of _ "hs_bytes ch" "hs_concat (pre @ [ckx])" "hs_concat post"]
    by (simp_all add: sent_def recv_def slice_prefix slice_suffix)
  show ?thesis
    by (simp add: compute_handshake_hashes_def ckx shd sh ch sl [simplified] Let_def) (simp add: recv_def)
qed


section \<open>Lemmas on the key exchange\<close>

lemma find_map_Some: "find_map f xs = Some y \<Longrightarrow> \<exists>x \<in> set xs. f x = Some y"
  by (induction xs) (auto split: option.splits)

lemma payload_case_iff:
  "(case p of HandshakePayload.ServerHello x \<Rightarrow> Some x | _ \<Rightarrow> None) = Some sh \<longleftrightarrow> p = HandshakePayload.ServerHello sh"
  "(case p of HandshakePayload.ClientHello x \<Rightarrow> Some x | _ \<Rightarrow> None) = Some ch \<longleftrightarrow> p = HandshakePayload.ClientHello ch"
  "(case p of HandshakePayload.Certificate x \<Rightarrow> Some x | _ \<Rightarrow> None) = Some cs \<longleftrightarrow> p = HandshakePayload.Certificate cs"
  "(case p of HandshakePayload.ServerKeyExchange x \<Rightarrow> Some x | _ \<Rightarrow> None) = Some ske \<longleftrightarrow>
     p = HandshakePayload.ServerKeyExchange ske"
  by (cases p; simp)+

text \<open>What a server signs: the parameters of the key exchange as they are on the wire.\<close>

lemma kx_params_eq:
  assumes "ServerECDHParams_ok p" and "ecp_named_group (sep_curve_params p) = NamedGroup.secp256r1"
  shows "ServerEphemKey_kx_params \<lparr>sek_typ = SECP256R1, sek_key = payload_u8_bytes (sep_public p)\<rparr> =
    get_encoding ServerECDHParams_encode p"
  using assms
  by (cases p; cases "sep_curve_params p"; cases "sep_public p")
    (auto simp: ServerEphemKey_kx_params_def ServerECDHParams_new_def get_encoding_def ServerECDHParams_ok_def
      ECParameters_ok_def)

lemma extract_server_key_exchange_wire:
  assumes "extract_server_key_exchange E recv_hs certs = Inr (key, sig)"
  shows "\<exists>msg \<in> set recv_hs. \<exists>dss.
    hmp_payload msg = HandshakePayload.ServerKeyExchange (ServerKeyExchangePayload.Unknown (Payload
      (ServerEphemKey_kx_params key @ get_encoding DigitallySignedStruct_encode dss))) \<and>
    ss_sig sig = payload_u16_bytes (dss_sig dss) \<and>
    map_signature_scheme E (dss_scheme dss) certs = Inr (ss_alg sig)"
proof -
  from assms obtain ske k where
    ske: "find_map (\<lambda>msg. case hmp_payload msg of HandshakePayload.ServerKeyExchange ske \<Rightarrow> Some ske | _ \<Rightarrow> None) recv_hs = Some ske"
    and k: "unwrap_given_kxa ske KeyExchangeAlgorithm.ECDHE = Some k"
    and grp: "ecp_named_group (sep_curve_params (ske_params k)) = NamedGroup.secp256r1"
    and key: "key = \<lparr>sek_typ = SECP256R1, sek_key = payload_u8_bytes (sep_public (ske_params k))\<rparr>"
    and alg: "map_signature_scheme E (dss_scheme (ske_dss k)) certs = Inr (ss_alg sig)"
    and sig: "ss_sig sig = payload_u16_bytes (dss_sig (ske_dss k))"
    by (auto simp: extract_server_key_exchange_def res_bind_Inr_iff ok_or_Inr_iff Let_def split: if_splits)
  from find_map_Some [OF ske] obtain msg where "msg \<in> set recv_hs"
    and msg: "hmp_payload msg = HandshakePayload.ServerKeyExchange ske"
    by (auto simp: payload_case_iff)
  moreover obtain b where p: "ske = ServerKeyExchangePayload.Unknown (Payload b)"
    using k by (cases ske) (simp_all add: unwrap_given_kxa_def, metis Payload.collapse)
  moreover have "b = ServerEphemKey_kx_params key @ get_encoding DigitallySignedStruct_encode (ske_dss k)"
    using k grp unfolding p unwrap_given_kxa_iff key
    by (simp add: kx_params_eq ECDHEServerKeyExchange_ok_def ECDHEServerKeyExchange_bytes)
  ultimately show ?thesis using alg sig by blast
qed

text \<open>What the handshake data are made of.\<close>

lemma extract_handshake_parts:
  assumes "extract_handshake E sent_hs recv_hs = Inr (version, data)"
  obtains m1 ch m2 sh key where
    "m1 \<in> set sent_hs" "hmp_payload m1 = HandshakePayload.ClientHello ch"
    "m2 \<in> set recv_hs" "hmp_payload m2 = HandshakePayload.ServerHello sh"
    "hsd_binding data = CertBinding.V1_2 \<lparr>cb_client_random = random_bytes (chp_random ch),
       cb_server_random = random_bytes (shp_random sh), cb_server_ephemeral_key = key\<rparr>"
    "extract_server_key_exchange E recv_hs (hsd_certs data) = Inr (key, hsd_sig data)"
proof -
  from assms obtain ch sh certs key sig where
    ch: "find_map (\<lambda>msg. case hmp_payload msg of HandshakePayload.ClientHello ch \<Rightarrow> Some ch | _ \<Rightarrow> None) sent_hs = Some ch"
    and sh: "find_map (\<lambda>msg. case hmp_payload msg of HandshakePayload.ServerHello sh \<Rightarrow> Some sh | _ \<Rightarrow> None) recv_hs = Some sh"
    and ske: "extract_server_key_exchange E recv_hs certs = Inr (key, sig)"
    and data: "data = \<lparr>hsd_certs = certs, hsd_sig = sig, hsd_binding = CertBinding.V1_2
      \<lparr>cb_client_random = random_bytes (chp_random ch), cb_server_random = random_bytes (shp_random sh),
       cb_server_ephemeral_key = key\<rparr>\<rparr>"
    by (auto simp: extract_handshake_def extract_server_hello_data_def extract_client_random_def res_bind_Inr_iff
        ok_or_Inr_iff)
  from find_map_Some [OF ch] find_map_Some [OF sh] obtain m1 m2 where
    "m1 \<in> set sent_hs" "hmp_payload m1 = HandshakePayload.ClientHello ch"
    "m2 \<in> set recv_hs" "hmp_payload m2 = HandshakePayload.ServerHello sh"
    by (auto simp: payload_case_iff)
  with ske data show ?thesis by (intro that [of m1 ch m2 sh key]) simp_all
qed


section \<open>Lemmas on the builder\<close>

lemma list_first_Some: "list_first xs = Some x \<longleftrightarrow> (\<exists>ys. xs = x # ys)"
  by (cases xs) auto

text \<open>The ends that a scan finds are in range and in order, so no slice is out of range.\<close>

lemma scan_loop_ends:
  "scan_loop bs pos out = Inr r \<Longrightarrow> pos \<le> length bs \<Longrightarrow>
    \<exists>new. r = out @ new \<and> list_all (\<lambda>m. pos \<le> hmi_end m \<and> hmi_end m \<le> length bs) new \<and> sorted (map hmi_end new)"
proof (induction bs pos out rule: scan_loop.induct)
  case (1 bs pos out)
  show ?case
  proof (cases "pos < length bs")
    case False
    with 1(2) show ?thesis by (simp add: scan_loop.simps)
  next
    case True
    let ?e = "pos + 4 + be_value [0, bs ! (pos + 1), bs ! (pos + 2), bs ! (pos + 3)]"
    let ?m = "\<lparr>hmi_typ = HandshakeType_from (bs ! pos), hmi_end = ?e\<rparr>"
    from 1(2) True have ok: "\<not> length bs - pos < 4" "\<not> ?e > length bs"
      and step: "scan_loop bs ?e (out @ [?m]) = Inr r"
      by (subst (asm) scan_loop.simps; simp add: Let_def split: if_splits)+
    from 1(1) [OF True ok(1) refl refl refl ok(2) step] ok(2) obtain new where
      "r = (out @ [?m]) @ new" "list_all (\<lambda>m. ?e \<le> hmi_end m \<and> hmi_end m \<le> length bs) new" "sorted (map hmi_end new)"
      by auto
    with ok(2) show ?thesis
      by (intro exI [of _ "?m # new"]) (auto simp: list_all_iff)
  qed
qed

lemma scan_ends:
  assumes "scan_handshake_messages bs = Inr ms"
  shows "m \<in> set ms \<Longrightarrow> hmi_end m \<le> length bs"
    and "list_first ms = Some f \<Longrightarrow> m \<in> set ms \<Longrightarrow> hmi_end f \<le> hmi_end m"
  using scan_loop_ends [of bs 0 "[]" ms] assms
  by (auto simp: scan_handshake_messages_def list_all_iff list_first_Some)

lemma compute_handshake_hashes_no_panic:
  assumes "scan_handshake_messages sent = Inr sm" and "scan_handshake_messages recv = Inr rm"
  shows "compute_handshake_hashes sha256 sent recv sm rm \<noteq> None"
proof -
  note s = scan_ends [OF assms(1)] and r = scan_ends(1) [OF assms(2)]
  have find: "x \<in> set xs" if "List.find P xs = Some x" for P x and xs :: "HandshakeMsgInfo list"
    using that by (auto simp: find_Some_iff in_set_conv_nth)
  have 1: "hmi_end f \<le> length sent" if "list_first sm = Some f" for f
    using s(1) that by (auto simp: list_first_Some)
  have 2: "hmi_end f \<le> hmi_end m" if "list_first sm = Some f" "List.find P sm = Some m" for f m P
    using s(2) [OF that(1) find [OF that(2)]] .
  have 3: "hmi_end m \<le> length sent" if "List.find P sm = Some m" for m P
    using s(1) [OF find [OF that]] .
  have 4: "hmi_end m \<le> length recv" if "List.find P rm = Some m" for m P
    using r [OF find [OF that]] .
  show ?thesis
    by (auto simp: compute_handshake_hashes_def panic_simps ok_or_Inr_iff slice_eq_None_iff Let_def not_less
        simp del: not_None_eq dest: 1 2 3 4)
qed

text \<open>One record, with the plaintext of the application data known: the slices are in range.\<close>

lemma parse_records_loop_Some:
  assumes "consumed \<le> length a"
  shows "parse_records_loop seq (rcd # rest) (Some a) consumed parsed =
    try_res (split_into_record seq (payload_bytes (om_payload rcd)) (om_typ rcd)) (\<lambda>rec.
      if r_typ rec = RecordType.ApplicationData then
        if consumed + length (r_ciphertext rec) \<le> length a then
          parse_records_loop (seq + 1) rest (Some a) (consumed + length (r_ciphertext rec))
            (parsed @ [rec\<lparr>r_plaintext := Some (take (length (r_ciphertext rec)) (drop consumed a))\<rparr>])
        else Some (Inl (TlsTranscriptError_parse ''insufficient plaintext application data''))
      else parse_records_loop (seq + 1) rest (Some a) consumed (parsed @ [rec]))"
proof -
  have "slice a consumed (length a) = Some (drop consumed a)" using assms by (simp add: slice_def)
  moreover have "consumed + n \<le> length a \<longleftrightarrow> n \<le> length (drop consumed a)" for n using assms by auto
  moreover have "slice a consumed (consumed + n) = Some (take n (drop consumed a))" if "consumed + n \<le> length a" for n
    using that by (simp add: slice_def)
  ultimately show ?thesis
    by (cases "split_into_record seq (payload_bytes (om_payload rcd)) (om_typ rcd)") (simp_all add: Let_def)
qed

definition app_records :: "TlsRecord list \<Rightarrow> TlsRecord list" where
  "app_records rs = filter (\<lambda>r. r_typ r = RecordType.ApplicationData) rs"

definition app_length :: "TlsRecord list \<Rightarrow> nat" where
  "app_length rs = sum_list (map (\<lambda>r. length (r_ciphertext r)) (app_records rs))"

lemma parse_records_loop_result:
  "consumed \<le> length a \<Longrightarrow> \<exists>r. parse_records_loop seq rs (Some a) consumed parsed = Some r \<and>
    (\<forall>out. r = Inr out \<longrightarrow> (\<exists>new. out = parsed @ new \<and> consumed + app_length new \<le> length a \<and>
      (\<forall>d acc. app_data_loop d (app_records new) acc = Inr (acc @ take (app_length new) (drop consumed a)))))"
proof (induction rs arbitrary: seq consumed parsed)
  case Nil
  then show ?case by (simp add: app_records_def app_length_def)
next
  case (Cons rcd rest)
  show ?case
  proof (cases "split_into_record seq (payload_bytes (om_payload rcd)) (om_typ rcd)")
    case (Inl e)
    then show ?thesis unfolding parse_records_loop_Some [OF Cons.prems] by simp
  next
    case rec: (Inr rec)
    let ?n = "length (r_ciphertext rec)"
    show ?thesis
    proof (cases "r_typ rec = RecordType.ApplicationData")
      case False
      obtain r where r: "parse_records_loop (seq + 1) rest (Some a) consumed (parsed @ [rec]) = Some r" and
        *: "r = Inr out \<Longrightarrow> \<exists>new. out = (parsed @ [rec]) @ new \<and> consumed + app_length new \<le> length a \<and>
          (\<forall>d acc. app_data_loop d (app_records new) acc = Inr (acc @ take (app_length new) (drop consumed a)))" for out
        using Cons.IH [OF Cons.prems] by blast
      have "\<exists>new. out = parsed @ new \<and> consumed + app_length new \<le> length a \<and>
          (\<forall>d acc. app_data_loop d (app_records new) acc = Inr (acc @ take (app_length new) (drop consumed a)))"
        if "r = Inr out" for out
      proof -
        from * [OF that] obtain new where "out = parsed @ rec # new" "consumed + app_length new \<le> length a"
          "\<forall>d acc. app_data_loop d (app_records new) acc = Inr (acc @ take (app_length new) (drop consumed a))" by auto
        with False show ?thesis by (intro exI [of _ "rec # new"]) (simp add: app_records_def app_length_def)
      qed
      with False rec r show ?thesis unfolding parse_records_loop_Some [OF Cons.prems] by simp
    next
      case True
      let ?rec = "rec\<lparr>r_plaintext := Some (take ?n (drop consumed a))\<rparr>"
      show ?thesis
      proof (cases "consumed + ?n \<le> length a")
        case False
        with True rec show ?thesis unfolding parse_records_loop_Some [OF Cons.prems] by simp
      next
        case le: True
        obtain r where r: "parse_records_loop (seq + 1) rest (Some a) (consumed + ?n) (parsed @ [?rec]) = Some r" and
          *: "r = Inr out \<Longrightarrow> \<exists>new. out = (parsed @ [?rec]) @ new \<and> consumed + ?n + app_length new \<le> length a \<and>
            (\<forall>d acc. app_data_loop d (app_records new) acc = Inr (acc @ take (app_length new) (drop (consumed + ?n) a)))" for out
          using Cons.IH [OF le] by blast
        have "\<exists>new. out = parsed @ new \<and> consumed + app_length new \<le> length a \<and>
            (\<forall>d acc. app_data_loop d (app_records new) acc = Inr (acc @ take (app_length new) (drop consumed a)))"
          if "r = Inr out" for out
        proof -
          from * [OF that] obtain new where "out = parsed @ ?rec # new" "consumed + ?n + app_length new \<le> length a"
            "\<forall>d acc. app_data_loop d (app_records new) acc = Inr (acc @ take (app_length new) (drop (consumed + ?n) a))"
            by auto
          with True show ?thesis
            by (intro exI [of _ "?rec # new"]) (simp add: app_records_def app_length_def take_add add.commute)
        qed
        with True le rec r show ?thesis unfolding parse_records_loop_Some [OF Cons.prems] by simp
      qed
    qed
  qed
qed

lemma parse_records_loop_None:
  "\<exists>r. parse_records_loop seq rs None consumed parsed = Some r \<and> (\<forall>out. r = Inr out \<longrightarrow> (\<exists>new. out = parsed @ new))"
proof (induction rs arbitrary: seq parsed)
  case Nil
  then show ?case by simp
next
  case (Cons rcd rest)
  show ?case
  proof (cases "split_into_record seq (payload_bytes (om_payload rcd)) (om_typ rcd)")
    case (Inr rec)
    with Cons [of "seq + 1" "parsed @ [rec]"] show ?thesis by force
  qed simp
qed

lemma parse_records_loop_no_panic: "parse_records_loop seq rs app 0 parsed \<noteq> None"
  using parse_records_loop_result [of 0] parse_records_loop_None by (cases app) (metis le0 option.distinct(1))+

lemma parse_records_loop_parsed: "parse_records_loop seq rs app 0 parsed = Some (Inr out) \<Longrightarrow> \<exists>new. out = parsed @ new"
proof (cases app)
  case None
  assume "parse_records_loop seq rs app 0 parsed = Some (Inr out)"
  with parse_records_loop_None [of seq rs 0 parsed] None show ?thesis by auto
next
  case (Some a)
  assume "parse_records_loop seq rs app 0 parsed = Some (Inr out)"
  with parse_records_loop_result [of 0 a seq rs parsed] Some show ?thesis by auto
qed

lemma parse_records_no_panic: "parse_records rs app \<noteq> None"
  by (simp add: parse_records_def panic_simps Let_def parse_records_loop_no_panic del: not_None_eq)

lemma parse_records_app:
  assumes "parse_records rs (Some a) = Some (Inr out)"
  shows "app_length out \<le> length a \<and> app_data_loop d (app_records out) [] = Inr (take (app_length out) a)"
proof -
  from assms have "\<exists>rs' f. parse_records_loop 1 rs' (Some a) 0 [f] = Some (Inr out) \<and> r_typ f = RecordType.Handshake"
    by (fastforce simp: parse_records_def panic_simps Let_def split: if_splits)
  then obtain f rs' where f: "r_typ f = RecordType.Handshake"
    and l: "parse_records_loop 1 rs' (Some a) 0 [f] = Some (Inr out)" by blast
  from parse_records_loop_result [of 0 a 1 rs' "[f]"] l obtain new where
    "out = [f] @ new" "app_length new \<le> length a" "app_data_loop d (app_records new) [] = Inr (take (app_length new) a)"
    by auto
  with f show ?thesis by (simp add: app_records_def app_length_def)
qed

lemma validate_seq_iff: "validate_seq rs = Inr () \<longleftrightarrow> sorted_wrt (\<lambda>a b. r_seq a < r_seq b) rs"
proof (induction rs rule: validate_seq.induct)
  case (1 p0 p1 rest)
  have "sorted_wrt (\<lambda>a b. r_seq a < r_seq b) (p0 # p1 # rest) \<longleftrightarrow>
    r_seq p0 < r_seq p1 \<and> sorted_wrt (\<lambda>a b. r_seq a < r_seq b) (p1 # rest)"
    by auto
  with 1 show ?case by (simp only: validate_seq.simps) (auto split: if_splits)
qed simp_all

lemma validate_finished_recordD:
  "validate_finished_record V f = Inr u \<Longrightarrow> r_typ f = RecordType.Handshake \<and> r_seq f = 0"
  by (simp add: validate_finished_record_def split: if_splits)

lemma parse_records_first:
  assumes "parse_records rs app = Some (Inr out)"
  shows "\<exists>f rest. out = f # rest \<and> r_typ f = RecordType.Handshake \<and> r_seq f = 0"
proof -
  from assms have "\<exists>rs' f. parse_records_loop 1 rs' app 0 [f] = Some (Inr out) \<and> r_typ f = RecordType.Handshake \<and> r_seq f = 0"
    by (fastforce simp: parse_records_def panic_simps Let_def split: if_splits)
  then show ?thesis using parse_records_loop_parsed by fastforce
qed

lemma build_records_first:
  assumes "build_records V records raw app what = Some (Inr out)"
  shows "\<exists>f rest. out = f # rest \<and> r_typ f = RecordType.Handshake \<and> r_seq f = 0"
  using assms validate_finished_recordD parse_records_first
  by (auto simp: build_records_def panic_simps list_first_Some split: option.splits)

lemma build_records_no_panic:
  "records \<noteq> Some [] \<Longrightarrow> build_records V records raw app what \<noteq> None"
  using parse_records_no_panic
  by (cases records; cases "the records")
    (auto simp: build_records_def panic_simps split: option.splits)

lemma parse_handshake_components_no_panic: "parse_handshake_components E b sent recv \<noteq> None"
  by (auto simp: parse_handshake_components_def panic_simps Let_def compute_handshake_hashes_no_panic
      simp del: not_None_eq)

lemma fill_missing_frame:
  "tb_records_sent (fill_missing b v h) = tb_records_sent b" "tb_records_recv (fill_missing b v h) = tb_records_recv b"
  "tb_app_sent (fill_missing b v h) = tb_app_sent b" "tb_app_recv (fill_missing b v h) = tb_app_recv b"
  by (simp_all add: fill_missing_def Let_def)

lemma parse_handshake_components_frame:
  "parse_handshake_components E b sent recv = Some (Inr (b', h)) \<Longrightarrow>
    tb_records_sent b' = tb_records_sent b \<and> tb_records_recv b' = tb_records_recv b \<and>
    tb_app_sent b' = tb_app_sent b \<and> tb_app_recv b' = tb_app_recv b"
  by (clarsimp simp: parse_handshake_components_def panic_simps fill_missing_frame)

lemma parse_raw_option_iff: "parse_raw_option bs = Inr raw \<longleftrightarrow>
    (bs = None \<and> raw = None \<or> (\<exists>b rs. bs = Some b \<and> raw = Some rs \<and> parse_raw_records b = Inr rs))"
  by (auto simp: parse_raw_option_def res_bind_Inr_iff split: option.split)

lemma parse_handshake_option_no_panic: "parse_handshake_option E b sent_raw recv_raw \<noteq> None"
  by (cases sent_raw; cases recv_raw)
    (auto simp: parse_handshake_option_def panic_simps parse_handshake_components_no_panic simp del: not_None_eq)

lemma parse_handshake_option_frame:
  "parse_handshake_option E b sent_raw recv_raw = Some (Inr (b', h)) \<Longrightarrow>
    tb_records_sent b' = tb_records_sent b \<and> tb_records_recv b' = tb_records_recv b \<and>
    tb_app_sent b' = tb_app_sent b \<and> tb_app_recv b' = tb_app_recv b"
  by (cases sent_raw; cases recv_raw)
    (auto simp: parse_handshake_option_def panic_simps dest: parse_handshake_components_frame)

text \<open>What a successful build went through.\<close>

lemma build_parts:
  assumes "TlsTranscriptBuilder_build E b = Some (Inr t)"
  obtains sent_raw recv_raw where
    "build_records (env_valid_dns E) (tb_records_sent b) sent_raw (tb_app_sent b) ''sent records'' = Some (Inr (tt_sent t))"
    "validate_seq (tt_sent t) = Inr ()"
    "build_records (env_valid_dns E) (tb_records_recv b) recv_raw (tb_app_recv b) ''recv records'' = Some (Inr (tt_recv t))"
    "validate_seq (tt_recv t) = Inr ()"
proof -
  from assms obtain sent_raw recv_raw b' h where b': "parse_handshake_option E b sent_raw recv_raw = Some (Inr (b', h))"
    and r: "build_records (env_valid_dns E) (tb_records_sent b') sent_raw (tb_app_sent b') ''sent records'' = Some (Inr (tt_sent t))"
      "validate_seq (tt_sent t) = Inr ()"
      "build_records (env_valid_dns E) (tb_records_recv b') recv_raw (tb_app_recv b') ''recv records'' = Some (Inr (tt_recv t))"
      "validate_seq (tt_recv t) = Inr ()"
    by (auto simp: TlsTranscriptBuilder_build_def panic_simps)
  with parse_handshake_option_frame [OF b'] show ?thesis by (intro that [of sent_raw recv_raw]) simp_all
qed

section \<open>Properties\<close>

text \<open>C10: A transcript that the builder returns has the invariants that its type documents: in each direction the first
  record is a handshake record with sequence number 0, and the sequence numbers increase strictly.\<close>

theorem transcript_build_invariant:
  assumes "TlsTranscriptBuilder_build E b = Some (Inr t)"
  shows "(\<exists>f rest. tt_sent t = f # rest \<and> r_typ f = RecordType.Handshake \<and> r_seq f = 0) \<and>
    (\<exists>f rest. tt_recv t = f # rest \<and> r_typ f = RecordType.Handshake \<and> r_seq f = 0) \<and>
    sorted_wrt (\<lambda>x y. r_seq x < r_seq y) (tt_sent t) \<and> sorted_wrt (\<lambda>x y. r_seq x < r_seq y) (tt_recv t)"
  using assms by (rule build_parts) (auto simp: validate_seq_iff dest: build_records_first)


text \<open>C12: The hashes of the handshake.  With the client hello, the client messages \<open>pre\<close>, the client key exchange and
  \<open>post\<close>, and on the server side \<open>r1\<close>, the server hello done and \<open>r2\<close>: the hash for the client's finished message
  covers the hello, the server flight up to the hello done and the client flight; the hash for the server's finished
  message covers in addition the client's finished message and \<open>r2\<close>.  The session hash covers \<open>r2\<close> as well: it is the
  hash of RFC 7627, of all messages up to the client key exchange, only if the server sent no handshake message (a new
  session ticket) between its hello done and its change of cipher.\<close>

theorem handshake_hashes_exact:
  assumes "list_all framed (ch # pre @ ckx # post)" and "list_all framed (r1 @ shd # r2)"
    and "flights ch pre ckx r1 r2 shd"
  shows "\<exists>sm rm sf.
    scan_handshake_messages (hs_concat (ch # pre @ ckx # post)) = Inr sm \<and>
    scan_handshake_messages (hs_concat (r1 @ shd # r2)) = Inr rm \<and>
    compute_handshake_hashes sha256 (hs_concat (ch # pre @ ckx # post)) (hs_concat (r1 @ shd # r2)) sm rm =
      Some (Inr (sha256 (hs_concat (ch # r1 @ shd # pre @ ckx # post)),
        sha256 (hs_concat (ch # r1 @ shd # r2 @ pre @ [ckx])), sf)) \<and>
    (tt_sf_hash t = Some sf \<longrightarrow> TlsTranscript_sf_hash sha256 t vd = Some (Some (sha256
      (hs_concat (ch # r1 @ shd # pre @ ckx # post) @ [0x14, 0, 0, 12] @ vd @ hs_concat r2))))"
proof (intro exI conjI impI)
  show "scan_handshake_messages (hs_concat (ch # pre @ ckx # post)) = Inr (hs_infos 0 (ch # pre @ ckx # post))"
    "scan_handshake_messages (hs_concat (r1 @ shd # r2)) = Inr (hs_infos 0 (r1 @ shd # r2))"
    using assms by (simp_all only: scan_handshake_messages_eq)
  let ?sf = "\<lparr>sf_sent_hs_bytes = hs_concat (ch # pre @ ckx # post), sf_recv_hs_bytes = hs_concat (r1 @ shd # r2),
       sf_sent_ch_end = length (hs_bytes ch), sf_recv_shd_end = length (hs_concat (r1 @ [shd]))\<rparr>"
  show "compute_handshake_hashes sha256 (hs_concat (ch # pre @ ckx # post)) (hs_concat (r1 @ shd # r2))
      (hs_infos 0 (ch # pre @ ckx # post)) (hs_infos 0 (r1 @ shd # r2)) =
      Some (Inr (sha256 (hs_concat (ch # r1 @ shd # pre @ ckx # post)),
        sha256 (hs_concat (ch # r1 @ shd # r2 @ pre @ [ckx])), ?sf))"
    using compute_handshake_hashes_eq [OF assms(3)] by simp
  assume t: "tt_sf_hash t = Some ?sf"
  show "TlsTranscript_sf_hash sha256 t vd = Some (Some (sha256
      (hs_concat (ch # r1 @ shd # pre @ ckx # post) @ [0x14, 0, 0, 12] @ vd @ hs_concat r2)))"
    using slice_prefix [of "hs_concat (r1 @ [shd])" "hs_concat r2"]
      slice_suffix [OF refl refl, of "hs_concat (r1 @ [shd])" "hs_concat r2"]
    by (simp add: TlsTranscript_sf_hash_def t slice_prefix slice_suffix)
qed



section \<open>A session\<close>

text \<open>A complete session with one application data record in each direction, on which the properties are evaluated.\<close>

definition ex_env :: "(unit, unit, unit) tls_env" where
  "ex_env =
     \<lparr>env_valid_dns = \<lambda>_. True, env_sha256 = \<lambda>b. [of_nat (length b)],
      env_webpki = \<lparr>wp_try_from = \<lambda>_. Inr (), wp_verify_for_usage = \<lambda>_ _ _ _. Inr (),
        wp_verify_is_valid_for_subject_name = \<lambda>_ _. Inr (), wp_verify_signature = \<lambda>_ _ _ _. Inr (),
        wp_signature_alg_id = \<lambda>_. []\<rparr>,
      env_pki_display = \<lambda>_. [], env_subject_public_key_info = \<lambda>_. [], env_spki_parameters = \<lambda>_. Inr None,
      env_decode_oid = \<lambda>_. Inr (), env_secp_256_r_1 = (), env_secp_384_r_1 = (), env_oid_display = \<lambda>_. []\<rparr>"

definition ex_ch :: HandshakeMessagePayload where
  "ex_ch = \<lparr>hmp_typ = HandshakeType.ClientHello, hmp_payload = HandshakePayload.ClientHello
     \<lparr>chp_client_version = ProtocolVersion.TLSv1_2, chp_random = ZERO_RANDOM, chp_session_id = SessionID_empty,
      chp_cipher_suites = [CipherSuite.Suite 0xc02f], chp_compression_methods = [Compression.Null],
      chp_extensions = [ClientExtension.SessionTicket ClientSessionTicket.Request]\<rparr>\<rparr>"

definition ex_ckx :: HandshakeMessagePayload where
  "ex_ckx = \<lparr>hmp_typ = HandshakeType.ClientKeyExchange, hmp_payload = HandshakePayload.ClientKeyExchange (Payload [8])\<rparr>"

definition ex_sh :: HandshakeMessagePayload where
  "ex_sh = \<lparr>hmp_typ = HandshakeType.ServerHello, hmp_payload = HandshakePayload.ServerHello
     \<lparr>shp_legacy_version = ProtocolVersion.TLSv1_2, shp_random = ZERO_RANDOM, shp_session_id = SessionID_empty,
      shp_cipher_suite = CipherSuite.Suite 0xc02f, shp_compression_method = Compression.Null, shp_extensions = []\<rparr>\<rparr>"

definition ex_cert :: HandshakeMessagePayload where
  "ex_cert = \<lparr>hmp_typ = HandshakeType.Certificate,
     hmp_payload = HandshakePayload.Certificate [Certificate.Certificate [1]]\<rparr>"

definition ex_kx :: ECDHEServerKeyExchange where
  "ex_kx = \<lparr>ske_params = ServerECDHParams_new NamedGroup.secp256r1 [7],
     ske_dss = \<lparr>dss_scheme = SignatureScheme.RSA_PKCS1_SHA256, dss_sig = PayloadU16 [9]\<rparr>\<rparr>"

definition ex_ske :: HandshakeMessagePayload where
  "ex_ske = \<lparr>hmp_typ = HandshakeType.ServerKeyExchange, hmp_payload = HandshakePayload.ServerKeyExchange
     (ServerKeyExchangePayload.Unknown (Payload (get_encoding ECDHEServerKeyExchange_encode ex_kx)))\<rparr>"

definition ex_shd :: HandshakeMessagePayload where
  "ex_shd = \<lparr>hmp_typ = HandshakeType.ServerHelloDone, hmp_payload = HandshakePayload.ServerHelloDone\<rparr>"

definition ex_raw :: "bytes \<Rightarrow> bytes \<Rightarrow> OpaqueMessage list" where
  "ex_raw hs app = map (\<lambda>(ty, p). \<lparr>om_typ = ty, om_version = ProtocolVersion.TLSv1_2, om_payload = Payload p\<rparr>)
     [(ContentType.Handshake, hs), (ContentType.ChangeCipherSpec, [1]), (ContentType.Handshake, replicate 24 0),
      (ContentType.ApplicationData, replicate 8 0 @ app @ replicate 16 0)]"

definition ex_sent :: "HandshakeMessagePayload list" where "ex_sent = [ex_ch, ex_ckx]"

definition ex_recv :: "HandshakeMessagePayload list" where "ex_recv = [ex_sh, ex_cert, ex_ske, ex_shd]"

lemma ex_kx_ok: "ECDHEServerKeyExchange_ok ex_kx"
  by (simp add: ex_kx_def ECDHEServerKeyExchange_ok_def ServerECDHParams_ok_def ServerECDHParams_new_def
      ECParameters_ok_def ECCurveType_ok_def ECCurveType_from_def NamedGroup_ok_def NamedGroup_from_def
      DigitallySignedStruct_ok_def SignatureScheme_ok_def SignatureScheme_from_def PayloadU8_ok_def PayloadU16_ok_def)

lemma ex_ok:
  "HandshakeMessagePayload_ok (\<lambda>_. True) ProtocolVersion.TLSv1_2 ex_ckx"
  "HandshakeMessagePayload_ok (\<lambda>_. True) ProtocolVersion.TLSv1_2 ex_shd"
  "HandshakeMessagePayload_ok (\<lambda>_. True) ProtocolVersion.TLSv1_2 ex_cert"
  by (simp_all add: ex_ckx_def ex_shd_def ex_cert_def HandshakeMessagePayload_ok_def HandshakePayload_bytes codec_enc
      HandshakeType_ok_def HandshakeType_from_def Certificate_ok_def)

lemma ex_ske_ok: "HandshakeMessagePayload_ok (\<lambda>_. True) ProtocolVersion.TLSv1_2 ex_ske"
  by (simp add: ex_ske_def ex_kx_def HandshakeMessagePayload_ok_def HandshakePayload_bytes codec_enc
      HandshakeType_ok_def HandshakeType_from_def ECDHEServerKeyExchange_bytes ServerECDHParams_bytes ServerECDHParams_new_def
      ECParameters_bytes DigitallySignedStruct_bytes)

lemma ex_suite_ok: "CipherSuite_ok (CipherSuite.Suite 0xc02f)"
  by code_simp

lemma ex_ext_bytes: "get_encoding ClientExtension_encode (ClientExtension.SessionTicket ClientSessionTicket.Request) = [0, 35, 0, 0]"
  by code_simp

lemma ex_ch_ok: "HandshakeMessagePayload_ok (\<lambda>_. True) ProtocolVersion.TLSv1_2 ex_ch"
  by (simp add: ex_ch_def HandshakeMessagePayload_ok_def HandshakePayload_bytes codec_enc
      HandshakeType_ok_def HandshakeType_from_def ClientHelloPayload_ok_def ClientHelloPayload_bytes vec_ok_def
      ProtocolVersion_ok_def ProtocolVersion_from_def Random_ok_def ZERO_RANDOM_def SessionID_ok_def SessionID_empty_def
      ex_suite_ok ex_ext_bytes Compression_ok_def Compression_from_def SessionID_bytes Random_bytes
      ext_ok_def ExtensionType_ok_def ExtensionType_from_def ClientExtension_sub_bytes)

lemma ex_random: "ZERO_RANDOM \<noteq> HELLO_RETRY_REQUEST_RANDOM"
  by code_simp

lemma ex_sh_ok: "HandshakeMessagePayload_ok (\<lambda>_. True) ProtocolVersion.TLSv1_2 ex_sh"
  by (simp add: ex_sh_def HandshakeMessagePayload_ok_def HandshakePayload_bytes codec_enc
      HandshakeType_ok_def HandshakeType_from_def ServerHelloPayload_ok_def vec_ok_def
      ProtocolVersion_ok_def ProtocolVersion_from_def Random_ok_def ZERO_RANDOM_def SessionID_ok_def SessionID_empty_def
      ex_suite_ok Compression_ok_def Compression_from_def SessionID_bytes Random_bytes ex_random [unfolded ZERO_RANDOM_def]
      ServerHelloPayload_encode_def)

lemma ex_all_ok:
  "list_all (HandshakeMessagePayload_ok (\<lambda>_. True) ProtocolVersion.TLSv1_2) ex_sent"
  "list_all (HandshakeMessagePayload_ok (\<lambda>_. True) ProtocolVersion.TLSv1_2) ex_recv"
  by (simp_all add: ex_sent_def ex_recv_def ex_ok ex_ske_ok ex_ch_ok ex_sh_ok)

lemma ex_parse_raw:
  assumes "0 < length hs" "length hs < 16384" "length app < 16384"
  shows "parse_raw_records (concat (map OpaqueMessage_encode (ex_raw hs app))) = Inr (ex_raw hs app)"
  using assms by (simp add: parse_raw_records_iff ex_raw_def OpaqueMessage_ok_def illegal_version_def
      ContentType_ok_def ContentType_from_def ProtocolVersion_ok_def ProtocolVersion_from_def)

lemma ex_parse_stream:
  assumes "list_all (HandshakeMessagePayload_ok V ProtocolVersion.TLSv1_2) hs"
  shows "parse_handshake_stream V (ex_raw (hs_concat hs) app) = Inr (hs_concat hs, hs)"
  using assms by (simp add: parse_handshake_stream_iff collect_handshake_bytes_eq ex_raw_def)

definition ex_data :: HandshakeData where
  "ex_data = \<lparr>hsd_certs = [CertificateDer [1]],
     hsd_sig = \<lparr>ss_alg = ConnSignatureAlgorithm.RSA_PKCS1_2048_8192_SHA256, ss_sig = [9]\<rparr>,
     hsd_binding = CertBinding.V1_2 \<lparr>cb_client_random = replicate 32 0, cb_server_random = replicate 32 0,
       cb_server_ephemeral_key = \<lparr>sek_typ = SECP256R1, sek_key = [7]\<rparr>\<rparr>\<rparr>"

lemma ex_extract: "extract_handshake ex_env ex_sent ex_recv = Inr (TlsVersion.V1_2, ex_data)"
proof -
  have "unwrap_given_kxa (ServerKeyExchangePayload.Unknown (Payload (get_encoding ECDHEServerKeyExchange_encode ex_kx)))
      KeyExchangeAlgorithm.ECDHE = Some ex_kx"
    by (simp add: unwrap_given_kxa_iff ex_kx_ok)
  then show ?thesis
    by (simp add: extract_handshake_def extract_server_hello_data_def extract_client_random_def extract_certs_def
        extract_server_key_exchange_def ex_sent_def ex_recv_def ex_ch_def ex_ckx_def ex_sh_def ex_cert_def ex_ske_def
        TlsVersion_try_from_def ex_data_def map_signature_scheme_def ZERO_RANDOM_def)
      (simp add: ex_kx_def ServerECDHParams_new_def)
qed

lemma ex_env_dns: "env_valid_dns ex_env = (\<lambda>_. True)"
  by (simp add: ex_env_def)

lemma ex_flights: "flights ex_ch [] ex_ckx [ex_sh, ex_cert, ex_ske] [] ex_shd"
  by (simp add: flights_def ex_ch_def ex_ckx_def ex_sh_def ex_cert_def ex_ske_def ex_shd_def wire_type_def)

lemma ex_framed: "list_all framed ex_sent" "list_all framed ex_recv"
  using ex_all_ok framed_ok by (auto simp: list_all_iff)

lemma ex_hashes: "\<exists>h. parse_handshake_components ex_env b (ex_raw (hs_concat ex_sent) x) (ex_raw (hs_concat ex_recv) y) =
    Some (Inr (fill_missing b TlsVersion.V1_2 ex_data, h))"
proof -
  have "ex_sent = ex_ch # [] @ ex_ckx # []" "ex_recv = [ex_sh, ex_cert, ex_ske] @ ex_shd # []"
    by (simp_all add: ex_sent_def ex_recv_def)
  then obtain h where "compute_handshake_hashes (env_sha256 ex_env) (hs_concat ex_sent) (hs_concat ex_recv)
      (hs_infos 0 ex_sent) (hs_infos 0 ex_recv) = Some (Inr h)"
    using compute_handshake_hashes_eq [OF ex_flights, of "env_sha256 ex_env" "[]"] by (metis)
  then show ?thesis
    by (cases h) (simp add: parse_handshake_components_def ex_parse_stream ex_all_ok ex_extract ex_framed
        scan_handshake_messages_eq ex_env_dns)
qed

lemma ex_lengths: "0 < length (hs_concat ex_sent)" "length (hs_concat ex_sent) < 16384"
  "0 < length (hs_concat ex_recv)" "length (hs_concat ex_recv) < 16384"
proof -
  have "length (hs_bytes ex_ch) = 51" "length (hs_bytes ex_ckx) = 5"
    by (simp_all add: HandshakeMessagePayload_bytes HandshakePayload_bytes ex_ch_def ex_ckx_def codec_enc
        ClientHelloPayload_bytes SessionID_bytes Random_bytes ZERO_RANDOM_def SessionID_empty_def ex_ext_bytes)
  moreover have "length (hs_bytes ex_sh) = 44" "length (hs_bytes ex_cert) = 11" "length (hs_bytes ex_ske) = 14" "length (hs_bytes ex_shd) = 4"
    by (simp_all add: HandshakeMessagePayload_bytes HandshakePayload_bytes ex_sh_def ex_cert_def ex_ske_def
        ex_shd_def codec_enc
        ServerHelloPayload_encode_def SessionID_bytes Random_bytes ZERO_RANDOM_def SessionID_empty_def
        ECDHEServerKeyExchange_bytes ServerECDHParams_bytes ServerECDHParams_new_def
      ECParameters_bytes DigitallySignedStruct_bytes ex_kx_def)
  ultimately show "0 < length (hs_concat ex_sent)" "length (hs_concat ex_sent) < 16384"
    "0 < length (hs_concat ex_recv)" "length (hs_concat ex_recv) < 16384"
    by (simp_all add: ex_sent_def ex_recv_def)
qed

definition ex_builder :: TlsTranscriptBuilder where
  "ex_builder =
     builder_app_recv (builder_app_sent (builder_tls_recv (builder_tls_sent (builder_time TlsTranscript_builder 1)
       (concat (map OpaqueMessage_encode (ex_raw (hs_concat ex_sent) [5, 6]))))
       (concat (map OpaqueMessage_encode (ex_raw (hs_concat ex_recv) [7, 8, 9]))))
       [1, 2]) [3, 4, 5]"

definition ex_records :: "bytes \<Rightarrow> bytes \<Rightarrow> TlsRecord list" where
  "ex_records app plain =
     [\<lparr>r_seq = 0, r_typ = RecordType.Handshake, r_plaintext = None, r_explicit_nonce = replicate 8 0,
       r_ciphertext = [], r_tag = Some (replicate 16 0)\<rparr>,
      \<lparr>r_seq = 1, r_typ = RecordType.ApplicationData, r_plaintext = Some plain, r_explicit_nonce = replicate 8 0,
       r_ciphertext = app, r_tag = Some (replicate 16 0)\<rparr>]"

lemma ex_parse_records:
  "length plain = length app \<Longrightarrow> parse_records (ex_raw hs app) (Some plain) = Some (Inr (ex_records app plain))"
  by (simp add: parse_records_def ex_raw_def ex_records_def NONCE_LEN_def TAG_LEN_def split_into_record_def slice_def
      Let_def)

lemma ex_build: "\<exists>t. TlsTranscriptBuilder_build ex_env ex_builder = Some (Inr t) \<and>
    tt_sent t = ex_records [5, 6] [1, 2] \<and> tt_recv t = ex_records [7, 8, 9] [3, 4, 5]"
proof -
  obtain h where "parse_handshake_components ex_env ex_builder (ex_raw (hs_concat ex_sent) [5, 6])
      (ex_raw (hs_concat ex_recv) [7, 8, 9]) = Some (Inr (fill_missing ex_builder TlsVersion.V1_2 ex_data, h))"
    using ex_hashes by blast
  moreover have "validate_seq (ex_records a p) = Inr ()" for a p
    by (simp add: ex_records_def)
  moreover have "parse_raw_records (concat (map OpaqueMessage_encode (ex_raw (hs_concat ex_sent) [5, 6]))) =
      Inr (ex_raw (hs_concat ex_sent) [5, 6])"
    "parse_raw_records (concat (map OpaqueMessage_encode (ex_raw (hs_concat ex_recv) [7, 8, 9]))) =
      Inr (ex_raw (hs_concat ex_recv) [7, 8, 9])"
    by (rule ex_parse_raw; use ex_lengths in simp)+
  ultimately show ?thesis
    by (cases h) (simp add: TlsTranscriptBuilder_build_def parse_raw_option_def
        parse_handshake_option_def build_records_def ex_parse_records fill_missing_frame
        ex_builder_def builder_time_def builder_tls_sent_def builder_tls_recv_def builder_app_sent_def
        builder_app_recv_def TlsTranscript_builder_def fill_missing_def)
qed

theorem transcript_build_invariant_witness:
  "\<exists>t. TlsTranscriptBuilder_build ex_env ex_builder = Some (Inr t) \<and>
     sorted_wrt (\<lambda>x y. r_seq x < r_seq y) (tt_sent t)"
  using ex_build transcript_build_invariant by metis


theorem handshake_hashes_exact_witness:
  "\<exists>sm rm sf.
    scan_handshake_messages (hs_concat ex_sent) = Inr sm \<and>
    scan_handshake_messages (hs_concat (ex_recv @ [ex_ckx])) = Inr rm \<and>
    compute_handshake_hashes (\<lambda>b. b) (hs_concat ex_sent) (hs_concat (ex_recv @ [ex_ckx])) sm rm =
      Some (Inr (hs_concat (ex_ch # ex_recv @ [ex_ckx]), hs_concat (ex_ch # ex_recv @ [ex_ckx, ex_ckx]), sf))"
proof -
  have "flights ex_ch [] ex_ckx [ex_sh, ex_cert, ex_ske] [ex_ckx] ex_shd"
    using ex_flights by (auto simp: flights_def)
  from handshake_hashes_exact [of ex_ch "[]" ex_ckx "[]" "[ex_sh, ex_cert, ex_ske]" ex_shd "[ex_ckx]" "\<lambda>b. b", OF _ _ this]
  show ?thesis using ex_framed by (simp add: ex_sent_def ex_recv_def) blast
qed



end
