(* ===== verification/Merkle.thy ===== *)
theory Merkle
  imports Core_Hash "HOL-Library.Multiset"
begin

text \<open>
  Merkle trees and proofs of \<open>crates/core/src/merkle.rs\<close>.  The crate \<open>rs_merkle\<close> is a parameter: a record of the
  functions the code calls.  A hasher enters them as its \<open>hash\<close> method, which is all \<open>RsMerkleHasher\<close> passes on.  What
  the code relies on is stated by \<open>merkle_complete\<close> (a proof made by a tree verifies) and \<open>merkle_sound\<close> (a proof that
  verifies shows that the leaves are in the tree at the indices).
\<close>

record ('t, 'p) rs_merkle =
  rm_default :: 't
  rm_append :: "'t \<Rightarrow> Hash list \<Rightarrow> 't"
  rm_commit :: "(bytes \<Rightarrow> Hash) \<Rightarrow> 't \<Rightarrow> 't"
  rm_root :: "'t \<Rightarrow> Hash option"
  rm_leaves_len :: "'t \<Rightarrow> nat"
  rm_proof :: "'t \<Rightarrow> nat list \<Rightarrow> 'p"
  rm_verify :: "(bytes \<Rightarrow> Hash) \<Rightarrow> 'p \<Rightarrow> Hash \<Rightarrow> nat list \<Rightarrow> Hash list \<Rightarrow> nat \<Rightarrow> bool"

datatype MerkleError = MerkleError string

record 'p MerkleProof =
  mp_alg :: HashAlgId
  mp_leaf_count :: nat
  mp_proof :: 'p

definition RsMerkleHasher_hash :: "HashAlgorithm \<Rightarrow> bytes \<Rightarrow> Hash" where
  "RsMerkleHasher_hash hasher data = ha_hash hasher data"

text \<open>
  \<open>MerkleProof::verify\<close>: the leaves are sorted by index with a stable sort; the set of the indices is smaller than
  their list when one occurs twice.
\<close>

definition MerkleProof_verify ::
    "('t, 'p) rs_merkle \<Rightarrow> 'p MerkleProof \<Rightarrow> HashAlgorithm \<Rightarrow> TypedHash \<Rightarrow> (nat \<times> Hash) list \<Rightarrow> MerkleError + unit" where
  "MerkleProof_verify M self hasher root leaves =
     (let leaves = sort_key fst leaves;
          indices = map fst leaves;
          leaves = map snd leaves
      in if length indices \<noteq> length (remdups indices) then Inl (MerkleError ''duplicate leaf indices provided'')
         else if \<not> rm_verify M (RsMerkleHasher_hash hasher) (mp_proof self) (th_value root) indices leaves (mp_leaf_count self)
         then Inl (MerkleError ''invalid merkle proof'')
         else Inr ())"

record 't MerkleTree =
  mt_alg :: HashAlgId
  mt_tree :: 't

definition MerkleTree_new :: "('t, 'p) rs_merkle \<Rightarrow> HashAlgId \<Rightarrow> 't MerkleTree" where
  "MerkleTree_new M alg = \<lparr>mt_alg = alg, mt_tree = rm_default M\<rparr>"

text \<open>\<open>None\<close> is the panic of \<open>expect\<close>, of an assertion or of \<open>unwrap\<close>.\<close>

definition MerkleTree_root :: "('t, 'p) rs_merkle \<Rightarrow> 't MerkleTree \<Rightarrow> TypedHash option" where
  "MerkleTree_root M self = do {
     value \<leftarrow> rm_root M (mt_tree self);
     Some \<lparr>th_alg = mt_alg self, th_value = value\<rparr>
   }"

definition MerkleTree_insert ::
    "('t, 'p) rs_merkle \<Rightarrow> 't MerkleTree \<Rightarrow> HashAlgorithm \<Rightarrow> Hash list \<Rightarrow> 't MerkleTree option" where
  "MerkleTree_insert M self hasher leaves =
     (if mt_alg self \<noteq> ha_id hasher then None
      else
        let tree = rm_append M (mt_tree self) leaves;
            tree = rm_commit M (RsMerkleHasher_hash hasher) tree
        in Some (self\<lparr>mt_tree := tree\<rparr>))"

fun windows2_increasing :: "nat list \<Rightarrow> bool" where
  "windows2_increasing (w0 # w1 # ws) \<longleftrightarrow> w0 < w1 \<and> windows2_increasing (w1 # ws)"
| "windows2_increasing _ \<longleftrightarrow> True"

definition MerkleTree_proof :: "('t, 'p) rs_merkle \<Rightarrow> 't MerkleTree \<Rightarrow> nat list \<Rightarrow> 'p MerkleProof option" where
  "MerkleTree_proof M self indices =
     (if \<not> windows2_increasing indices then None
      else if indices = [] then None
      else if \<not> last indices < rm_leaves_len M (mt_tree self) then None
      else Some \<lparr>mp_alg = mt_alg self, mp_leaf_count = rm_leaves_len M (mt_tree self),
                 mp_proof = rm_proof M (mt_tree self) indices\<rparr>)"

section \<open>What the crate provides\<close>

definition merkle_of :: "('t, 'p) rs_merkle \<Rightarrow> (bytes \<Rightarrow> Hash) \<Rightarrow> Hash list \<Rightarrow> 't" where
  "merkle_of M h ls = rm_commit M h (rm_append M (rm_default M) ls)"

definition merkle_complete :: "('t, 'p) rs_merkle \<Rightarrow> (bytes \<Rightarrow> Hash) \<Rightarrow> bool" where
  "merkle_complete M h \<longleftrightarrow>
     (\<forall>ls. ls \<noteq> [] \<longrightarrow> rm_leaves_len M (merkle_of M h ls) = length ls \<and>
       (\<exists>root. rm_root M (merkle_of M h ls) = Some root \<and>
         (\<forall>idx. idx \<noteq> [] \<longrightarrow> sorted_wrt (<) idx \<longrightarrow> (\<forall>i \<in> set idx. i < length ls) \<longrightarrow>
           rm_verify M h (rm_proof M (merkle_of M h ls) idx) root idx (map (nth ls) idx) (length ls))))"

definition merkle_sound :: "('t, 'p) rs_merkle \<Rightarrow> (bytes \<Rightarrow> Hash) \<Rightarrow> bool" where
  "merkle_sound M h \<longleftrightarrow>
     (\<forall>ls root p idx leaves. rm_root M (merkle_of M h ls) = Some root \<longrightarrow> sorted_wrt (<) idx \<longrightarrow>
       length leaves = length idx \<longrightarrow> rm_verify M h p root idx leaves (length ls) \<longrightarrow>
       (\<forall>i \<in> set idx. i < length ls) \<and> leaves = map (nth ls) idx)"

section \<open>Lemmas\<close>

lemma windows2_increasing_iff: "windows2_increasing xs \<longleftrightarrow> sorted_wrt (<) xs"
  by (induction xs rule: windows2_increasing.induct) (auto dest: order.strict_trans)

lemma strict_sorted_last_less:
  "sorted_wrt (<) xs \<Longrightarrow> xs \<noteq> [] \<Longrightarrow> last xs < (n :: nat) \<Longrightarrow> x \<in> set xs \<Longrightarrow> x < n"
  by (induction xs) (auto split: if_splits dest: order.strict_trans)

lemma distinct_sort_key_fst: "sorted_wrt (<) (map fst (sort_key fst xs)) \<longleftrightarrow> distinct (map fst xs)"
  for xs :: "(nat \<times> 'a) list"
proof -
  have "mset (map fst (sort_key fst xs)) = mset (map fst xs)" by simp
  then have "distinct (map fst (sort_key fst xs)) \<longleftrightarrow> distinct (map fst xs)" by (rule mset_eq_imp_distinct_iff)
  then show ?thesis by (simp add: strict_sorted_iff)
qed

lemma MerkleProof_verify_iff:
  "MerkleProof_verify M p hasher root leaves = Inr () \<longleftrightarrow>
     distinct (map fst leaves) \<and>
     rm_verify M (ha_hash hasher) (mp_proof p) (th_value root) (map fst (sort_key fst leaves))
       (map snd (sort_key fst leaves)) (mp_leaf_count p)"
proof -
  have "length (map fst (sort_key fst leaves)) = length (remdups (map fst (sort_key fst leaves))) \<longleftrightarrow>
      distinct (map fst leaves)"
    by (metis distinct_sort_key_fst length_remdups_eq remdups_id_iff_distinct strict_sorted_iff sorted_map
        sorted_sort_key length_remdups_eq)
  moreover have "RsMerkleHasher_hash hasher = ha_hash hasher" by (simp add: RsMerkleHasher_hash_def fun_eq_iff)
  ultimately show ?thesis by (auto simp: MerkleProof_verify_def Let_def)
qed

text \<open>A tree of some leaves, filled at once.\<close>

lemma merkle_tree_filled:
  assumes "merkle_complete M (ha_hash hasher)" and "ls \<noteq> []"
  obtains tree root where
    "MerkleTree_insert M (MerkleTree_new M (ha_id hasher)) hasher ls = Some tree"
    "MerkleTree_root M tree = Some \<lparr>th_alg = ha_id hasher, th_value = root\<rparr>"
    "rm_root M (merkle_of M (ha_hash hasher) ls) = Some root"
    "\<And>idx. idx \<noteq> [] \<Longrightarrow> sorted_wrt (<) idx \<Longrightarrow> \<forall>i \<in> set idx. i < length ls \<Longrightarrow>
      \<exists>p. MerkleTree_proof M tree idx = Some p \<and> mp_leaf_count p = length ls \<and>
        rm_verify M (ha_hash hasher) (mp_proof p) root idx (map (nth ls) idx) (length ls)"
proof -
  have hh: "RsMerkleHasher_hash hasher = ha_hash hasher" by (simp add: RsMerkleHasher_hash_def fun_eq_iff)
  obtain root where r: "rm_leaves_len M (merkle_of M (ha_hash hasher) ls) = length ls"
    "rm_root M (merkle_of M (ha_hash hasher) ls) = Some root"
    "\<And>idx. idx \<noteq> [] \<Longrightarrow> sorted_wrt (<) idx \<Longrightarrow> \<forall>i \<in> set idx. i < length ls \<Longrightarrow>
      rm_verify M (ha_hash hasher) (rm_proof M (merkle_of M (ha_hash hasher) ls) idx) root idx (map (nth ls) idx) (length ls)"
    using assms unfolding merkle_complete_def by blast
  show ?thesis
    by (rule that [of "\<lparr>mt_alg = ha_id hasher, mt_tree = merkle_of M (ha_hash hasher) ls\<rparr>" root])
      (use r in \<open>simp_all add: MerkleTree_insert_def MerkleTree_new_def MerkleTree_root_def merkle_of_def hh
          MerkleTree_proof_def windows2_increasing_iff\<close>)
qed

lemma merkle_soundD:
  assumes "merkle_sound M (ha_hash hasher)" and "rm_root M (merkle_of M (ha_hash hasher) ls) = Some (th_value root)"
    and "MerkleProof_verify M p hasher root leaves = Inr ()" and "mp_leaf_count p = length ls"
    and "(i, x) \<in> set leaves"
  shows "i < length ls \<and> ls ! i = x"
proof -
  let ?s = "sort_key fst leaves"
  have d: "sorted_wrt (<) (map fst ?s)" and v: "rm_verify M (ha_hash hasher) (mp_proof p) (th_value root) (map fst ?s)
      (map snd ?s) (length ls)"
    using assms(3,4) by (auto simp: MerkleProof_verify_iff distinct_sort_key_fst)
  then have "(\<forall>i \<in> set (map fst ?s). i < length ls) \<and> map snd ?s = map (nth ls) (map fst ?s)"
    using assms(1,2) unfolding merkle_sound_def by (metis length_map)
  then have "\<forall>q \<in> set ?s. fst q < length ls \<and> snd q = ls ! fst q" by (auto simp: map_eq_conv simp del: set_sort)
  with assms(5) show ?thesis by auto
qed

end
