(* ===== verification/Signing.thy ===== *)
theory Signing
  imports Tls_Verify
begin

text \<open>
  Signatures of attestations: \<open>crates/attestation/src/signing.rs\<close>.  The curves of the crates \<open>k256\<close> and \<open>p256\<close> are
  parameters, a record of the functions that are called, and Keccak-256 is a function on bytes.  A trait object is the
  record of its methods, a hash map from identifiers is a map.  \<open>ecdsa_ok\<close> states what the code relies on: a signature
  verifies under the key of the signer.
\<close>

record ('k, 'v, 's) ecdsa =
  ec_signing_key :: "bytes \<Rightarrow> 'k option"
  ec_sign :: "'k \<Rightarrow> bytes \<Rightarrow> bytes"
  ec_sign_prehash_recoverable :: "'k \<Rightarrow> bytes \<Rightarrow> (bytes \<times> u8) option"
  ec_verifying_key :: "'k \<Rightarrow> bytes"
  ec_from_sec1_bytes :: "bytes \<Rightarrow> 'v option"
  ec_from_slice :: "bytes \<Rightarrow> 's option"
  ec_verify :: "'v \<Rightarrow> bytes \<Rightarrow> 's \<Rightarrow> bool"
  ec_verify_prehash :: "'v \<Rightarrow> bytes \<Rightarrow> 's \<Rightarrow> bool"

section \<open>Identifiers\<close>

definition hex_digit :: "nat \<Rightarrow> char" where
  "hex_digit n = (if n < 10 then char_of (48 + n) else char_of (87 + n))"

text \<open>\<open>{:02x}\<close> of a byte.\<close>

definition hex_u8 :: "u8 \<Rightarrow> string" where
  "hex_u8 x = [hex_digit (unat x div 16), hex_digit (unat x mod 16)]"

datatype KeyAlgId = KeyAlgId (KeyAlgId_as_u8: u8)

definition KeyAlgId_K256 :: KeyAlgId where
  "KeyAlgId_K256 = KeyAlgId 1"

definition KeyAlgId_P256 :: KeyAlgId where
  "KeyAlgId_P256 = KeyAlgId 2"

definition KeyAlgId_new :: "u8 \<Rightarrow> KeyAlgId option" where
  "KeyAlgId_new i = (if i \<ge> 128 then Some (KeyAlgId i) else None)"

definition KeyAlgId_fmt :: "KeyAlgId \<Rightarrow> string" where
  "KeyAlgId_fmt a =
     (if a = KeyAlgId_K256 then ''k256'' else if a = KeyAlgId_P256 then ''p256''
      else ''custom('' @ hex_u8 (KeyAlgId_as_u8 a) @ '')'')"

datatype SignatureAlgId = SignatureAlgId (SignatureAlgId_as_u8: u8)

definition SignatureAlgId_SECP256K1 :: SignatureAlgId where
  "SignatureAlgId_SECP256K1 = SignatureAlgId 1"

definition SignatureAlgId_SECP256R1 :: SignatureAlgId where
  "SignatureAlgId_SECP256R1 = SignatureAlgId 2"

definition SignatureAlgId_SECP256K1ETH :: SignatureAlgId where
  "SignatureAlgId_SECP256K1ETH = SignatureAlgId 3"

definition SignatureAlgId_new :: "u8 \<Rightarrow> SignatureAlgId option" where
  "SignatureAlgId_new i = (if i \<ge> 128 then Some (SignatureAlgId i) else None)"

definition SignatureAlgId_fmt :: "SignatureAlgId \<Rightarrow> string" where
  "SignatureAlgId_fmt a =
     (if a = SignatureAlgId_SECP256K1 then ''secp256k1''
      else if a = SignatureAlgId_SECP256R1 then ''secp256r1''
      else if a = SignatureAlgId_SECP256K1ETH then ''secp256k1eth''
      else ''custom('' @ hex_u8 (SignatureAlgId_as_u8 a) @ '')'')"

section \<open>Signers and verifiers\<close>

datatype UnknownSignatureAlgId = UnknownSignatureAlgId SignatureAlgId
datatype SignerError = SignerError string
datatype SignatureError = SignatureError string

record VerifyingKey =
  vk_alg :: KeyAlgId
  vk_data :: bytes

record Signature =
  sig_alg :: SignatureAlgId
  sig_data :: bytes

record Signer =
  sg_alg_id :: SignatureAlgId
  sg_sign :: "bytes \<Rightarrow> SignatureError + Signature"
  sg_verifying_key :: VerifyingKey

record SignatureVerifier =
  sv_alg_id :: SignatureAlgId
  sv_verify :: "VerifyingKey \<Rightarrow> bytes \<Rightarrow> bytes \<Rightarrow> SignatureError + unit"

section \<open>secp256k1\<close>

text \<open>The methods of \<open>Secp256k1Signer\<close> on its key; \<open>Secp256k1Signer_new\<close> makes the trait object.\<close>

definition Secp256k1Signer :: "('k, 'v, 's) ecdsa \<Rightarrow> 'k \<Rightarrow> Signer" where
  "Secp256k1Signer k256 key = \<lparr>
     sg_alg_id = SignatureAlgId_SECP256K1,
     sg_sign = (\<lambda>msg. Inr \<lparr>sig_alg = SignatureAlgId_SECP256K1, sig_data = ec_sign k256 key msg\<rparr>),
     sg_verifying_key = \<lparr>vk_alg = KeyAlgId_K256, vk_data = ec_verifying_key k256 key\<rparr>\<rparr>"

definition Secp256k1Signer_new :: "('k, 'v, 's) ecdsa \<Rightarrow> bytes \<Rightarrow> SignerError + Signer" where
  "Secp256k1Signer_new k256 key =
     res_bind (ok_or (ec_signing_key k256 key) (SignerError ''invalid key'')) (\<lambda>key. Inr (Secp256k1Signer k256 key))"

definition Secp256k1Verifier_verify ::
    "('k, 'v, 's) ecdsa \<Rightarrow> VerifyingKey \<Rightarrow> bytes \<Rightarrow> bytes \<Rightarrow> SignatureError + unit" where
  "Secp256k1Verifier_verify k256 key msg sig =
     (if vk_alg key \<noteq> KeyAlgId_K256 then Inl (SignatureError ''key algorithm is not k256'')
      else
        res_bind (ok_or (ec_from_sec1_bytes k256 (vk_data key)) (SignatureError ''invalid k256 key'')) (\<lambda>key.
        res_bind (ok_or (ec_from_slice k256 sig) (SignatureError ''invalid secp256k1 signature'')) (\<lambda>sig.
        if \<not> ec_verify k256 key msg sig then Inl (SignatureError ''secp256k1 signature verification failed'')
        else Inr ())))"

definition Secp256k1Verifier :: "('k, 'v, 's) ecdsa \<Rightarrow> SignatureVerifier" where
  "Secp256k1Verifier k256 =
     \<lparr>sv_alg_id = SignatureAlgId_SECP256K1, sv_verify = Secp256k1Verifier_verify k256\<rparr>"

section \<open>secp256r1\<close>

definition Secp256r1Signer :: "('k, 'v, 's) ecdsa \<Rightarrow> 'k \<Rightarrow> Signer" where
  "Secp256r1Signer p256 key = \<lparr>
     sg_alg_id = SignatureAlgId_SECP256R1,
     sg_sign = (\<lambda>msg. Inr \<lparr>sig_alg = SignatureAlgId_SECP256R1, sig_data = ec_sign p256 key msg\<rparr>),
     sg_verifying_key = \<lparr>vk_alg = KeyAlgId_P256, vk_data = ec_verifying_key p256 key\<rparr>\<rparr>"

definition Secp256r1Signer_new :: "('k, 'v, 's) ecdsa \<Rightarrow> bytes \<Rightarrow> SignerError + Signer" where
  "Secp256r1Signer_new p256 key =
     res_bind (ok_or (ec_signing_key p256 key) (SignerError ''invalid key'')) (\<lambda>key. Inr (Secp256r1Signer p256 key))"

definition Secp256r1Verifier_verify ::
    "('k, 'v, 's) ecdsa \<Rightarrow> VerifyingKey \<Rightarrow> bytes \<Rightarrow> bytes \<Rightarrow> SignatureError + unit" where
  "Secp256r1Verifier_verify p256 key msg sig =
     (if vk_alg key \<noteq> KeyAlgId_P256 then Inl (SignatureError ''key algorithm is not p256'')
      else
        res_bind (ok_or (ec_from_sec1_bytes p256 (vk_data key)) (SignatureError ''invalid p256 key'')) (\<lambda>key.
        res_bind (ok_or (ec_from_slice p256 sig) (SignatureError ''invalid secp256r1 signature'')) (\<lambda>sig.
        if \<not> ec_verify p256 key msg sig then Inl (SignatureError ''secp256r1 signature verification failed'')
        else Inr ())))"

definition Secp256r1Verifier :: "('k, 'v, 's) ecdsa \<Rightarrow> SignatureVerifier" where
  "Secp256r1Verifier p256 =
     \<lparr>sv_alg_id = SignatureAlgId_SECP256R1, sv_verify = Secp256r1Verifier_verify p256\<rparr>"

section \<open>secp256k1 with Keccak-256, as in Ethereum\<close>

definition Secp256k1EthSigner_sign ::
    "('k, 'v, 's) ecdsa \<Rightarrow> (bytes \<Rightarrow> bytes) \<Rightarrow> 'k \<Rightarrow> bytes \<Rightarrow> SignatureError + Signature" where
  "Secp256k1EthSigner_sign k256 keccak key msg =
     (let output = keccak msg in
      res_bind (ok_or (ec_sign_prehash_recoverable k256 key output)
        (SignatureError ''error in sign_prehash_recoverable'')) (\<lambda>(sig, recid).
      if recid > 1 then
        Inl (SignatureError (''expected recovery id 0 or 1, got '' @ string_of_nat (unat recid)))
      else
        let sig = sig @ [recid + 27]
        in Inr \<lparr>sig_alg = SignatureAlgId_SECP256K1ETH, sig_data = sig\<rparr>))"

definition Secp256k1EthSigner :: "('k, 'v, 's) ecdsa \<Rightarrow> (bytes \<Rightarrow> bytes) \<Rightarrow> 'k \<Rightarrow> Signer" where
  "Secp256k1EthSigner k256 keccak key = \<lparr>
     sg_alg_id = SignatureAlgId_SECP256K1ETH,
     sg_sign = Secp256k1EthSigner_sign k256 keccak key,
     sg_verifying_key = \<lparr>vk_alg = KeyAlgId_K256, vk_data = ec_verifying_key k256 key\<rparr>\<rparr>"

definition Secp256k1EthSigner_new :: "('k, 'v, 's) ecdsa \<Rightarrow> (bytes \<Rightarrow> bytes) \<Rightarrow> bytes \<Rightarrow> SignerError + Signer" where
  "Secp256k1EthSigner_new k256 keccak key =
     res_bind (ok_or (ec_signing_key k256 key) (SignerError ''invalid key''))
       (\<lambda>key. Inr (Secp256k1EthSigner k256 keccak key))"

definition Secp256k1EthVerifier_verify ::
    "('k, 'v, 's) ecdsa \<Rightarrow> (bytes \<Rightarrow> bytes) \<Rightarrow> VerifyingKey \<Rightarrow> bytes \<Rightarrow> bytes \<Rightarrow> SignatureError + unit" where
  "Secp256k1EthVerifier_verify k256 keccak key msg sig =
     (if vk_alg key \<noteq> KeyAlgId_K256 then Inl (SignatureError ''key algorithm is not k256'')
      else if length sig \<noteq> 65 then Inl (SignatureError ''ethereum signature length must be 65 bytes'')
      else
        res_bind (ok_or (ec_from_sec1_bytes k256 (vk_data key)) (SignatureError ''invalid k256 key'')) (\<lambda>key.
        res_bind (ok_or (ec_from_slice k256 (take 64 sig)) (SignatureError ''invalid secp256k1 signature'')) (\<lambda>sig.
        let output = keccak msg in
        if \<not> ec_verify_prehash k256 key output sig
        then Inl (SignatureError ''secp256k1 signature verification failed'')
        else Inr ())))"

definition Secp256k1EthVerifier :: "('k, 'v, 's) ecdsa \<Rightarrow> (bytes \<Rightarrow> bytes) \<Rightarrow> SignatureVerifier" where
  "Secp256k1EthVerifier k256 keccak =
     \<lparr>sv_alg_id = SignatureAlgId_SECP256K1ETH, sv_verify = Secp256k1EthVerifier_verify k256 keccak\<rparr>"

section \<open>Providers\<close>

type_synonym SignerProvider = "SignatureAlgId \<rightharpoonup> Signer"
type_synonym SignatureVerifierProvider = "SignatureAlgId \<rightharpoonup> SignatureVerifier"

definition SignerProvider_default :: SignerProvider where
  "SignerProvider_default = Map.empty"

definition set_signer :: "SignerProvider \<Rightarrow> Signer \<Rightarrow> SignerProvider" where
  "set_signer self signer = self(sg_alg_id signer \<mapsto> signer)"

definition set_secp256k1 :: "('k, 'v, 's) ecdsa \<Rightarrow> SignerProvider \<Rightarrow> bytes \<Rightarrow> SignerError + SignerProvider" where
  "set_secp256k1 k256 self key = res_bind (Secp256k1Signer_new k256 key) (\<lambda>s. Inr (set_signer self s))"

definition set_secp256r1 :: "('k, 'v, 's) ecdsa \<Rightarrow> SignerProvider \<Rightarrow> bytes \<Rightarrow> SignerError + SignerProvider" where
  "set_secp256r1 p256 self key = res_bind (Secp256r1Signer_new p256 key) (\<lambda>s. Inr (set_signer self s))"

definition set_secp256k1eth ::
    "('k, 'v, 's) ecdsa \<Rightarrow> (bytes \<Rightarrow> bytes) \<Rightarrow> SignerProvider \<Rightarrow> bytes \<Rightarrow> SignerError + SignerProvider" where
  "set_secp256k1eth k256 keccak self key =
     res_bind (Secp256k1EthSigner_new k256 keccak key) (\<lambda>s. Inr (set_signer self s))"

definition SignerProvider_get :: "SignerProvider \<Rightarrow> SignatureAlgId \<Rightarrow> UnknownSignatureAlgId + Signer" where
  "SignerProvider_get self alg = ok_or (self alg) (UnknownSignatureAlgId alg)"

definition SignatureVerifierProvider_default ::
    "('k, 'v, 's) ecdsa \<Rightarrow> ('k', 'v', 's') ecdsa \<Rightarrow> (bytes \<Rightarrow> bytes) \<Rightarrow> SignatureVerifierProvider" where
  "SignatureVerifierProvider_default k256 p256 keccak =
     Map.empty(SignatureAlgId_SECP256K1 \<mapsto> Secp256k1Verifier k256,
       SignatureAlgId_SECP256R1 \<mapsto> Secp256r1Verifier p256,
       SignatureAlgId_SECP256K1ETH \<mapsto> Secp256k1EthVerifier k256 keccak)"

definition set_verifier :: "SignatureVerifierProvider \<Rightarrow> SignatureVerifier \<Rightarrow> SignatureVerifierProvider" where
  "set_verifier self verifier = self(sv_alg_id verifier \<mapsto> verifier)"

definition SignatureVerifierProvider_get ::
    "SignatureVerifierProvider \<Rightarrow> SignatureAlgId \<Rightarrow> UnknownSignatureAlgId + SignatureVerifier" where
  "SignatureVerifierProvider_get self alg = ok_or (self alg) (UnknownSignatureAlgId alg)"

section \<open>Signatures verify\<close>

definition ecdsa_ok :: "('k, 'v, 's) ecdsa \<Rightarrow> bool" where
  "ecdsa_ok E \<longleftrightarrow>
     (\<forall>key. \<exists>v. ec_from_sec1_bytes E (ec_verifying_key E key) = Some v \<and>
       (\<forall>msg. \<exists>s. ec_from_slice E (ec_sign E key msg) = Some s \<and> ec_verify E v msg s) \<and>
       (\<forall>hash sig recid. length hash = 32 \<longrightarrow> ec_sign_prehash_recoverable E key hash = Some (sig, recid) \<longrightarrow>
         length sig = 64 \<and> (\<exists>s. ec_from_slice E sig = Some s \<and> ec_verify_prehash E v hash s)))"

text \<open>A signer's signatures name its algorithm and are accepted by the verifier for it.\<close>

definition signer_ok :: "SignatureVerifierProvider \<Rightarrow> Signer \<Rightarrow> bool" where
  "signer_ok verifiers s \<longleftrightarrow>
     (\<exists>v. SignatureVerifierProvider_get verifiers (sg_alg_id s) = Inr v \<and>
       (\<forall>msg sig. sg_sign s msg = Inr sig \<longrightarrow>
         sig_alg sig = sg_alg_id s \<and> sv_verify v (sg_verifying_key s) msg (sig_data sig) = Inr ()))"

lemmas sig_alg_defs =
  SignatureAlgId_SECP256K1_def SignatureAlgId_SECP256R1_def SignatureAlgId_SECP256K1ETH_def

lemma get_default_verifiers [simp]:
  "SignatureVerifierProvider_get (SignatureVerifierProvider_default k256 p256 keccak) SignatureAlgId_SECP256K1 =
     Inr (Secp256k1Verifier k256)"
  "SignatureVerifierProvider_get (SignatureVerifierProvider_default k256 p256 keccak) SignatureAlgId_SECP256R1 =
     Inr (Secp256r1Verifier p256)"
  "SignatureVerifierProvider_get (SignatureVerifierProvider_default k256 p256 keccak) SignatureAlgId_SECP256K1ETH =
     Inr (Secp256k1EthVerifier k256 keccak)"
  by (simp_all add: SignatureVerifierProvider_get_def SignatureVerifierProvider_default_def sig_alg_defs)

lemma Secp256k1Signer_ok:
  assumes "ecdsa_ok k256"
  shows "signer_ok (SignatureVerifierProvider_default k256 p256 keccak) (Secp256k1Signer k256 key)"
proof -
  obtain v where "ec_from_sec1_bytes k256 (ec_verifying_key k256 key) = Some v"
    "\<And>msg. \<exists>s. ec_from_slice k256 (ec_sign k256 key msg) = Some s \<and> ec_verify k256 v msg s"
    using assms unfolding ecdsa_ok_def by blast
  then have "Secp256k1Verifier_verify k256 \<lparr>vk_alg = KeyAlgId_K256, vk_data = ec_verifying_key k256 key\<rparr> msg
      (ec_sign k256 key msg) = Inr ()" for msg
    by (fastforce simp: Secp256k1Verifier_verify_def res_bind_Inr_iff)
  then show ?thesis by (auto simp: signer_ok_def Secp256k1Signer_def Secp256k1Verifier_def)
qed

lemma Secp256r1Signer_ok:
  assumes "ecdsa_ok p256"
  shows "signer_ok (SignatureVerifierProvider_default k256 p256 keccak) (Secp256r1Signer p256 key)"
proof -
  obtain v where "ec_from_sec1_bytes p256 (ec_verifying_key p256 key) = Some v"
    "\<And>msg. \<exists>s. ec_from_slice p256 (ec_sign p256 key msg) = Some s \<and> ec_verify p256 v msg s"
    using assms unfolding ecdsa_ok_def by blast
  then have "Secp256r1Verifier_verify p256 \<lparr>vk_alg = KeyAlgId_P256, vk_data = ec_verifying_key p256 key\<rparr> msg
      (ec_sign p256 key msg) = Inr ()" for msg
    by (fastforce simp: Secp256r1Verifier_verify_def res_bind_Inr_iff)
  then show ?thesis by (auto simp: signer_ok_def Secp256r1Signer_def Secp256r1Verifier_def)
qed

lemma Secp256k1EthSigner_ok:
  assumes "ecdsa_ok k256" and "\<And>msg. length (keccak msg) = 32"
  shows "signer_ok (SignatureVerifierProvider_default k256 p256 keccak) (Secp256k1EthSigner k256 keccak key)"
proof -
  obtain v where "ec_from_sec1_bytes k256 (ec_verifying_key k256 key) = Some v"
    "\<And>hash sig recid. length hash = 32 \<Longrightarrow> ec_sign_prehash_recoverable k256 key hash = Some (sig, recid) \<Longrightarrow>
       length sig = 64 \<and> (\<exists>s. ec_from_slice k256 sig = Some s \<and> ec_verify_prehash k256 v hash s)"
    using assms(1) unfolding ecdsa_ok_def by blast
  with assms(2) have "Secp256k1EthVerifier_verify k256 keccak
      \<lparr>vk_alg = KeyAlgId_K256, vk_data = ec_verifying_key k256 key\<rparr> msg (sig @ [x]) = Inr ()"
    if "ec_sign_prehash_recoverable k256 key (keccak msg) = Some (sig, recid)" for msg sig recid x
    using that by (fastforce simp: Secp256k1EthVerifier_verify_def res_bind_Inr_iff)
  then show ?thesis
    by (auto simp: signer_ok_def Secp256k1EthSigner_def Secp256k1EthVerifier_def Secp256k1EthSigner_sign_def
        res_bind_Inr_iff ok_or_Inr_iff Let_def split: if_splits)
qed

text \<open>So it is for every signer that the provider's setters put in.\<close>

lemma set_signers_ok:
  assumes "ecdsa_ok k256" and "ecdsa_ok p256" and "\<And>msg. length (keccak msg) = 32"
    and "\<And>a s. signers a = Some s \<Longrightarrow> signer_ok (SignatureVerifierProvider_default k256 p256 keccak) s"
    and "set_secp256k1 k256 signers key = Inr signers' \<or> set_secp256r1 p256 signers key = Inr signers' \<or>
      set_secp256k1eth k256 keccak signers key = Inr signers'"
    and "signers' a = Some s"
  shows "signer_ok (SignatureVerifierProvider_default k256 p256 keccak) s"
  using assms(4-6) Secp256k1Signer_ok [OF assms(1)] Secp256r1Signer_ok [OF assms(2)]
    Secp256k1EthSigner_ok [OF assms(1,3)]
  by (auto simp: set_secp256k1_def set_secp256r1_def set_secp256k1eth_def set_signer_def Secp256k1Signer_new_def
      Secp256r1Signer_new_def Secp256k1EthSigner_new_def res_bind_Inr_iff ok_or_Inr_iff split: if_splits)

end
