(* ===== verification/Attestation.thy ===== *)
theory Attestation
  imports Connection Panic Merkle Signing Transcript_Proof
begin

text \<open>
  The attestation crate, \<open>crates/attestation/src\<close>: fields, body, header and their hashing (\<open>lib.rs\<close>, \<open>hash.rs\<close>,
  \<open>serialize.rs\<close>), requests (\<open>request.rs\<close>, \<open>request/\<close>), the configuration and builder of attestations (\<open>config.rs\<close>,
  \<open>builder.rs\<close>), proofs (\<open>proof.rs\<close>), the server identity (\<open>connection.rs\<close>), secrets and presentations
  (\<open>secrets.rs\<close>, \<open>presentation.rs\<close>).

  The serializer \<open>bcs\<close> is a parameter, one function for each type that is serialized, with \<open>None\<close> for its error, on
  which the code panics.  Blake3, of the domain separators, and \<open>rs_merkle\<close> are parameters as well.  Random values are
  arguments.  An error that another error wraps is kept as a value, in place of its text.
\<close>

section \<open>Extensions, fields and the body\<close>

record AttExtension =
  x_id :: bytes
  x_value :: bytes

datatype InvalidExtension = InvalidExtension string

datatype Uid = Uid bytes
datatype AttVersion = AttVersion u32

definition VERSION :: AttVersion where
  "VERSION = AttVersion 0"

datatype FieldId = FieldId (field_id_u32: u32)

instantiation FieldId :: linorder
begin

definition less_eq_FieldId :: "FieldId \<Rightarrow> FieldId \<Rightarrow> bool" where
  "less_eq_FieldId a b \<longleftrightarrow> field_id_u32 a \<le> field_id_u32 b"

definition less_FieldId :: "FieldId \<Rightarrow> FieldId \<Rightarrow> bool" where
  "less_FieldId a b \<longleftrightarrow> field_id_u32 a < field_id_u32 b"

instance
  by standard (auto simp: less_eq_FieldId_def less_FieldId_def FieldId.expand)

end

record 'a Field =
  f_id :: FieldId
  f_data :: 'a

definition FieldId_default :: FieldId where
  "FieldId_default = FieldId 0"

definition FieldId_next :: "FieldId \<Rightarrow> 'a \<Rightarrow> 'a Field \<times> FieldId" where
  "FieldId_next self data = (\<lparr>f_id = self, f_data = data\<rparr>, FieldId (field_id_u32 self + 1))"

text \<open>\<open>map(|x| field_id.next(x)).collect()\<close>\<close>

fun next_all :: "FieldId \<Rightarrow> 'a list \<Rightarrow> 'a Field list \<times> FieldId" where
  "next_all i [] = ([], i)"
| "next_all i (x # xs) =
     (let (f, i) = FieldId_next i x; (fs, i) = next_all i xs in (f # fs, i))"

datatype ServerCertCommitment = ServerCertCommitment TypedHash

record 'a Blinded =
  bl_data :: 'a
  bl_blinder :: Blinder

definition Blinded_new :: "Blinder \<Rightarrow> 'a \<Rightarrow> 'a Blinded" where
  "Blinded_new random data = \<lparr>bl_data = data, bl_blinder = random\<rparr>"

datatype ServerCertOpening = ServerCertOpening "HandshakeData Blinded"

record Header =
  h_id :: Uid
  h_version :: AttVersion
  h_root :: TypedHash

record 'r Body =
  b_verifying_key :: "VerifyingKey Field"
  b_connection_info :: "ConnectionInfo Field"
  b_server_ephemeral_key :: "ServerEphemKey Field"
  b_cert_commitment :: "ServerCertCommitment Field"
  b_extensions :: "AttExtension Field list"
  b_transcript_commitments :: "'r TranscriptCommitment Field list"

section \<open>Serialization and hashing\<close>

record 'r bcs =
  bcs_verifying_key :: "VerifyingKey \<Rightarrow> bytes option"
  bcs_connection_info :: "ConnectionInfo \<Rightarrow> bytes option"
  bcs_server_ephemeral_key :: "ServerEphemKey \<Rightarrow> bytes option"
  bcs_cert_commitment :: "ServerCertCommitment \<Rightarrow> bytes option"
  bcs_extension :: "AttExtension \<Rightarrow> bytes option"
  bcs_transcript_commitment :: "'r TranscriptCommitment \<Rightarrow> bytes option"
  bcs_cert_opening :: "ServerCertOpening \<Rightarrow> bytes option"
  bcs_header :: "Header \<Rightarrow> bytes option"

text \<open>The third-party code of the crate.\<close>

record ('c, 'ta, 'r, 't, 'p) att_env =
  ae_bcs :: "'r bcs"
  ae_blake3 :: "bytes \<Rightarrow> bytes"
  ae_merkle :: "('t, 'p) rs_merkle"
  ae_webpki :: "('c, 'ta) webpki"
  ae_dns_ok :: "bytes \<Rightarrow> bool"
  ae_to_string :: "WebpkiError \<Rightarrow> string"
  ae_rangeset :: "'r rangeset_ops"

text \<open>\<open>impl_domain_separator!\<close>: the first 16 bytes of the hash of the type's name.\<close>

definition domain_separator :: "(bytes \<Rightarrow> bytes) \<Rightarrow> string \<Rightarrow> bytes" where
  "domain_separator blake3 type_name = take 16 (blake3 (bytes_of_string type_name))"

definition hash_separated :: "HashAlgorithm \<Rightarrow> bytes \<Rightarrow> bytes option \<Rightarrow> Hash option" where
  "hash_separated hasher domain serialized = do {
     data \<leftarrow> serialized;
     Some (ha_hash_prefixed hasher domain data)
   }"

definition verifying_key_hash :: "('c, 'ta, 'r, 't, 'p) att_env \<Rightarrow> HashAlgorithm \<Rightarrow> VerifyingKey \<Rightarrow> Hash option" where
  "verifying_key_hash E hasher x =
     hash_separated hasher (domain_separator (ae_blake3 E) ''VerifyingKey'') (bcs_verifying_key (ae_bcs E) x)"

definition connection_info_hash :: "('c, 'ta, 'r, 't, 'p) att_env \<Rightarrow> HashAlgorithm \<Rightarrow> ConnectionInfo \<Rightarrow> Hash option" where
  "connection_info_hash E hasher x =
     hash_separated hasher (domain_separator (ae_blake3 E) ''tlsn_core::connection::ConnectionInfo'')
       (bcs_connection_info (ae_bcs E) x)"

definition server_ephemeral_key_hash :: "('c, 'ta, 'r, 't, 'p) att_env \<Rightarrow> HashAlgorithm \<Rightarrow> ServerEphemKey \<Rightarrow> Hash option" where
  "server_ephemeral_key_hash E hasher x =
     hash_separated hasher (domain_separator (ae_blake3 E) ''tlsn_core::connection::ServerEphemKey'')
       (bcs_server_ephemeral_key (ae_bcs E) x)"

definition cert_commitment_hash :: "('c, 'ta, 'r, 't, 'p) att_env \<Rightarrow> HashAlgorithm \<Rightarrow> ServerCertCommitment \<Rightarrow> Hash option" where
  "cert_commitment_hash E hasher x =
     hash_separated hasher (domain_separator (ae_blake3 E) ''ServerCertCommitment'') (bcs_cert_commitment (ae_bcs E) x)"

definition extension_hash :: "('c, 'ta, 'r, 't, 'p) att_env \<Rightarrow> HashAlgorithm \<Rightarrow> AttExtension \<Rightarrow> Hash option" where
  "extension_hash E hasher x =
     hash_separated hasher (domain_separator (ae_blake3 E) ''Extension'') (bcs_extension (ae_bcs E) x)"

definition transcript_commitment_hash ::
    "('c, 'ta, 'r, 't, 'p) att_env \<Rightarrow> HashAlgorithm \<Rightarrow> 'r TranscriptCommitment \<Rightarrow> Hash option" where
  "transcript_commitment_hash E hasher x =
     hash_separated hasher (domain_separator (ae_blake3 E) ''tlsn_core::transcript::TranscriptCommitment'')
       (bcs_transcript_commitment (ae_bcs E) x)"

definition cert_opening_hash :: "('c, 'ta, 'r, 't, 'p) att_env \<Rightarrow> HashAlgorithm \<Rightarrow> ServerCertOpening \<Rightarrow> Hash option" where
  "cert_opening_hash E hasher x =
     hash_separated hasher (domain_separator (ae_blake3 E) ''ServerCertOpening'') (bcs_cert_opening (ae_bcs E) x)"

text \<open>A hashed field with its identifier.\<close>

definition hash_field :: "('a \<Rightarrow> Hash option) \<Rightarrow> 'a Field \<Rightarrow> (FieldId \<times> Hash) option" where
  "hash_field hash field = do {
     h \<leftarrow> hash (f_data field);
     Some (f_id field, h)
   }"

definition hash_fields ::
    "('c, 'ta, 'r, 't, 'p) att_env \<Rightarrow> 'r Body \<Rightarrow> HashAlgorithm \<Rightarrow> (FieldId \<times> Hash) list option" where
  "hash_fields E self hasher = do {
     verifying_key \<leftarrow> hash_field (verifying_key_hash E hasher) (b_verifying_key self);
     conn_info \<leftarrow> hash_field (connection_info_hash E hasher) (b_connection_info self);
     server_ephemeral_key \<leftarrow> hash_field (server_ephemeral_key_hash E hasher) (b_server_ephemeral_key self);
     cert_commitment \<leftarrow> hash_field (cert_commitment_hash E hasher) (b_cert_commitment self);
     let fields = [verifying_key, conn_info, server_ephemeral_key, cert_commitment];
     extensions \<leftarrow> those (map (hash_field (extension_hash E hasher)) (b_extensions self));
     let fields = fields @ extensions;
     transcript_commitments \<leftarrow>
       those (map (hash_field (transcript_commitment_hash E hasher)) (b_transcript_commitments self));
     let fields = fields @ transcript_commitments;
     Some (sort_key fst fields)
   }"

definition Body_root :: "('c, 'ta, 'r, 't, 'p) att_env \<Rightarrow> 'r Body \<Rightarrow> HashAlgorithm \<Rightarrow> TypedHash option" where
  "Body_root E self hasher = do {
     let tree = MerkleTree_new (ae_merkle E) (ha_id hasher);
     fields \<leftarrow> hash_fields E self hasher;
     tree \<leftarrow> MerkleTree_insert (ae_merkle E) tree hasher (map snd fields);
     MerkleTree_root (ae_merkle E) tree
   }"

section \<open>The crypto provider\<close>

record 'ta CryptoProvider =
  cp_hash :: HashProvider
  cp_cert :: "'ta ConnServerCertVerifier"
  cp_signer :: SignerProvider
  cp_signature :: SignatureVerifierProvider

record 'r Attestation =
  a_signature :: Signature
  a_header :: Header
  a_body :: "'r Body"

section \<open>Server identity\<close>

definition ServerCertOpening_new :: "Blinder \<Rightarrow> HandshakeData \<Rightarrow> ServerCertOpening" where
  "ServerCertOpening_new random data = ServerCertOpening (Blinded_new random data)"

definition ServerCertOpening_commit ::
    "('c, 'ta, 'r, 't, 'p) att_env \<Rightarrow> ServerCertOpening \<Rightarrow> HashAlgorithm \<Rightarrow> ServerCertCommitment option" where
  "ServerCertOpening_commit E self hasher = do {
     value \<leftarrow> cert_opening_hash E hasher self;
     Some (ServerCertCommitment \<lparr>th_alg = ha_id hasher, th_value = value\<rparr>)
   }"

fun ServerCertOpening_data :: "ServerCertOpening \<Rightarrow> HandshakeData" where
  "ServerCertOpening_data (ServerCertOpening b) = bl_data b"

record ServerIdentityProof =
  sip_name :: ConnServerName
  sip_opening :: ServerCertOpening

text \<open>The kinds of the error, with the error or the text that the message is made of.\<close>

datatype ServerIdentityProofError =
    IdentityProvider HashProviderError
  | IdentityCommitment string
  | IdentityCertificate HandshakeVerificationError

fun ServerIdentityProof_verify_with_provider ::
    "('c, 'ta, 'r, 't, 'p) att_env \<Rightarrow> ServerIdentityProof \<Rightarrow> 'ta CryptoProvider \<Rightarrow> u64 \<Rightarrow> ServerEphemKey
      \<Rightarrow> ServerCertCommitment \<Rightarrow> (ServerIdentityProofError + ConnServerName) option" where
  "ServerIdentityProof_verify_with_provider E self provider time server_ephemeral_key (ServerCertCommitment commitment) =
     try_res (map_err IdentityProvider (HashProvider_get (cp_hash provider) (th_alg commitment))) (\<lambda>hasher.
     unless_panic (cert_opening_hash E hasher (sip_opening self)) (\<lambda>h.
     if th_value commitment \<noteq> h then
       Some (Inl (IdentityCommitment ''certificate opening does not match commitment''))
     else
     try_panic (map_option (map_err IdentityCertificate)
       (HandshakeData_verify (ae_webpki E) (ae_dns_ok E) (ae_to_string E) (ServerCertOpening_data (sip_opening self))
          (cp_cert provider) time server_ephemeral_key (sip_name self))) (\<lambda>_.
     Some (Inr (sip_name self)))))"

section \<open>Requests\<close>

record 'r RequestConfig =
  rc_signature_alg :: SignatureAlgId
  rc_hash_alg :: HashAlgId
  rc_extensions :: "AttExtension list"
  rc_transcript_commit :: "'r TranscriptCommitConfig option"

text \<open>The configuration builder has the fields of the configuration.\<close>

definition RequestConfigBuilder_default :: "'r RequestConfig" where
  "RequestConfigBuilder_default =
     \<lparr>rc_signature_alg = SignatureAlgId_SECP256K1, rc_hash_alg = HashAlgId_BLAKE3, rc_extensions = [],
      rc_transcript_commit = None\<rparr>"

definition rcb_signature_alg :: "'r RequestConfig \<Rightarrow> SignatureAlgId \<Rightarrow> 'r RequestConfig" where
  "rcb_signature_alg self signature_alg = self\<lparr>rc_signature_alg := signature_alg\<rparr>"

definition rcb_hash_alg :: "'r RequestConfig \<Rightarrow> HashAlgId \<Rightarrow> 'r RequestConfig" where
  "rcb_hash_alg self hash_alg = self\<lparr>rc_hash_alg := hash_alg\<rparr>"

definition rcb_extension :: "'r RequestConfig \<Rightarrow> AttExtension \<Rightarrow> 'r RequestConfig" where
  "rcb_extension self ext = self\<lparr>rc_extensions := rc_extensions self @ [ext]\<rparr>"

definition rcb_transcript_commit :: "'r RequestConfig \<Rightarrow> 'r TranscriptCommitConfig \<Rightarrow> 'r RequestConfig" where
  "rcb_transcript_commit self transcript_commit = self\<lparr>rc_transcript_commit := Some transcript_commit\<rparr>"

datatype RequestConfigBuilderError = RequestConfigBuilderError string

definition RequestConfigBuilder_build :: "'r RequestConfig \<Rightarrow> RequestConfigBuilderError + 'r RequestConfig" where
  "RequestConfigBuilder_build self =
     Inr \<lparr>rc_signature_alg = rc_signature_alg self, rc_hash_alg = rc_hash_alg self, rc_extensions = rc_extensions self,
          rc_transcript_commit = rc_transcript_commit self\<rparr>"

record Request =
  rq_signature_alg :: SignatureAlgId
  rq_hash_alg :: HashAlgId
  rq_server_cert_commitment :: ServerCertCommitment
  rq_extensions :: "AttExtension list"

record 'r Secrets =
  sc_server_name :: ConnServerName
  sc_server_cert_opening :: ServerCertOpening
  sc_transcript :: Transcript
  sc_transcript_commitments :: "'r TranscriptCommitment list"
  sc_transcript_commitment_secrets :: "'r TranscriptSecret list"

definition Secrets_identity_proof :: "'r Secrets \<Rightarrow> ServerIdentityProof" where
  "Secrets_identity_proof self = \<lparr>sip_name = sc_server_name self, sip_opening = sc_server_cert_opening self\<rparr>"

definition Secrets_transcript_proof_builder :: "'r rangeset_ops \<Rightarrow> 'r Secrets \<Rightarrow> 'r TranscriptProofBuilder" where
  "Secrets_transcript_proof_builder R self =
     proof_builder_new R (sc_transcript self) (sc_transcript_commitment_secrets self)"

record 'r RequestBuilder =
  rb_config :: "'r RequestConfig"
  rb_server_name :: "ConnServerName option"
  rb_handshake_data :: "HandshakeData option"
  rb_transcript :: "Transcript option"
  rb_transcript_commitments :: "'r TranscriptCommitment list"
  rb_transcript_commitment_secrets :: "'r TranscriptSecret list"

definition RequestBuilder_new :: "'r RequestConfig \<Rightarrow> 'r RequestBuilder" where
  "RequestBuilder_new config =
     \<lparr>rb_config = config, rb_server_name = None, rb_handshake_data = None, rb_transcript = None,
      rb_transcript_commitments = [], rb_transcript_commitment_secrets = []\<rparr>"

definition rqb_server_name :: "'r RequestBuilder \<Rightarrow> ConnServerName \<Rightarrow> 'r RequestBuilder" where
  "rqb_server_name self name = self\<lparr>rb_server_name := Some name\<rparr>"

definition rqb_handshake_data :: "'r RequestBuilder \<Rightarrow> HandshakeData \<Rightarrow> 'r RequestBuilder" where
  "rqb_handshake_data self data = self\<lparr>rb_handshake_data := Some data\<rparr>"

definition rqb_transcript :: "'r RequestBuilder \<Rightarrow> Transcript \<Rightarrow> 'r RequestBuilder" where
  "rqb_transcript self transcript = self\<lparr>rb_transcript := Some transcript\<rparr>"

definition rqb_transcript_commitments ::
    "'r RequestBuilder \<Rightarrow> 'r TranscriptSecret list \<Rightarrow> 'r TranscriptCommitment list \<Rightarrow> 'r RequestBuilder" where
  "rqb_transcript_commitments self secrets commitments =
     self\<lparr>rb_transcript_commitment_secrets := secrets, rb_transcript_commitments := commitments\<rparr>"

datatype RequestBuilderError = RequestBuilderError string

fun HashAlgId_fmt :: "HashAlgId \<Rightarrow> string" where
  "HashAlgId_fmt (HashAlgId i) = hex_u8 i"

definition RequestBuilder_build ::
    "('c, 'ta, 'r, 't, 'p) att_env \<Rightarrow> Blinder \<Rightarrow> 'r RequestBuilder \<Rightarrow> 'ta CryptoProvider
      \<Rightarrow> (RequestBuilderError + Request \<times> 'r Secrets) option" where
  "RequestBuilder_build E random self provider =
     (let signature_alg = rc_signature_alg (rb_config self); hash_alg = rc_hash_alg (rb_config self) in
      try_res (map_err (\<lambda>_. RequestBuilderError (''unsupported hash algorithm: '' @ HashAlgId_fmt hash_alg))
        (HashProvider_get (cp_hash provider) hash_alg)) (\<lambda>hasher.
      try_res (ok_or (rb_server_name self) (RequestBuilderError ''server name is missing'')) (\<lambda>server_name.
      try_res (ok_or (rb_handshake_data self) (RequestBuilderError ''server identity data is missing'')) (\<lambda>data.
      let server_cert_opening = ServerCertOpening_new random data in
      try_res (ok_or (rb_transcript self) (RequestBuilderError ''transcript is missing'')) (\<lambda>transcript.
      unless_panic (ServerCertOpening_commit E server_cert_opening hasher) (\<lambda>server_cert_commitment.
      let extensions = rc_extensions (rb_config self);
          request = \<lparr>rq_signature_alg = signature_alg, rq_hash_alg = hash_alg,
            rq_server_cert_commitment = server_cert_commitment, rq_extensions = extensions\<rparr>;
          secrets = \<lparr>sc_server_name = server_name, sc_server_cert_opening = server_cert_opening,
            sc_transcript = transcript, sc_transcript_commitments = rb_transcript_commitments self,
            sc_transcript_commitment_secrets = rb_transcript_commitment_secrets self\<rparr>
      in Some (Inr (request, secrets))))))))"

datatype AttestationValidationError = Inconsistent string | ValidationProvider string

definition SignatureAlgId_debug :: "SignatureAlgId \<Rightarrow> string" where
  "SignatureAlgId_debug a = ''SignatureAlgId('' @ string_of_nat (unat (SignatureAlgId_as_u8 a)) @ '')''"

definition HashAlgId_debug :: "HashAlgId \<Rightarrow> string" where
  "HashAlgId_debug a = ''HashAlgId('' @ string_of_nat (unat (HashAlgId_as_u8 a)) @ '')''"

definition Request_validate ::
    "('c, 'ta, 'r, 't, 'p) att_env \<Rightarrow> Request \<Rightarrow> 'r Attestation \<Rightarrow> 'ta CryptoProvider
      \<Rightarrow> (AttestationValidationError + unit) option" where
  "Request_validate E self attestation provider =
     (if sig_alg (a_signature attestation) \<noteq> rq_signature_alg self then
        Some (Inl (Inconsistent (''signature algorithm: expected '' @ SignatureAlgId_debug (rq_signature_alg self) @
          '', got '' @ SignatureAlgId_debug (sig_alg (a_signature attestation)))))
      else if th_alg (h_root (a_header attestation)) \<noteq> rq_hash_alg self then
        Some (Inl (Inconsistent (''hash algorithm: expected '' @ HashAlgId_debug (rq_hash_alg self) @
          '', got '' @ HashAlgId_debug (th_alg (h_root (a_header attestation))))))
      else if f_data (b_cert_commitment (a_body attestation)) \<noteq> rq_server_cert_commitment self then
        Some (Inl (Inconsistent ''server certificate commitment does not match''))
      else if list_ex (\<lambda>ext. \<not> list_ex (\<lambda>e. e = ext) (map f_data (b_extensions (a_body attestation))))
          (rq_extensions self) then
        Some (Inl (Inconsistent ''extension is missing from the attestation''))
      else
        try_res (map_err (\<lambda>_. ValidationProvider (''provider not configured for signature algorithm id '' @
            SignatureAlgId_debug (sig_alg (a_signature attestation))))
          (SignatureVerifierProvider_get (cp_signature provider) (sig_alg (a_signature attestation)))) (\<lambda>verifier.
        unless_panic (bcs_header (ae_bcs E) (a_header attestation)) (\<lambda>msg.
        try_res (map_err (\<lambda>_. Inconsistent ''failed to verify the signature'')
          (sv_verify verifier (f_data (b_verifying_key (a_body attestation))) msg (sig_data (a_signature attestation)))) (\<lambda>_.
        Some (Inr ())))))"

section \<open>Configuration of attestations\<close>

definition DEFAULT_SUPPORTED_HASH_ALGS :: "HashAlgId list" where
  "DEFAULT_SUPPORTED_HASH_ALGS = [HashAlgId_SHA256, HashAlgId_BLAKE3, HashAlgId_KECCAK256]"

datatype AttestationConfigError = AttestationConfigError string

text \<open>The configuration builder has the fields of the configuration.\<close>

record AttestationConfig =
  ac_supported_signature_algs :: "SignatureAlgId list"
  ac_supported_hash_algs :: "HashAlgId list"
  ac_extension_validator :: "(AttExtension list \<Rightarrow> InvalidExtension + unit) option"

definition AttestationConfigBuilder_default :: AttestationConfig where
  "AttestationConfigBuilder_default =
     \<lparr>ac_supported_signature_algs = [], ac_supported_hash_algs = DEFAULT_SUPPORTED_HASH_ALGS,
      ac_extension_validator = Some (\<lambda>e.
        if e \<noteq> [] then Inl (InvalidExtension ''all extensions are disallowed by default'') else Inr ())\<rparr>"

definition acb_supported_signature_algs :: "AttestationConfig \<Rightarrow> SignatureAlgId list \<Rightarrow> AttestationConfig" where
  "acb_supported_signature_algs self algs = self\<lparr>ac_supported_signature_algs := algs\<rparr>"

definition acb_supported_hash_algs :: "AttestationConfig \<Rightarrow> HashAlgId list \<Rightarrow> AttestationConfig" where
  "acb_supported_hash_algs self algs = self\<lparr>ac_supported_hash_algs := algs\<rparr>"

definition acb_extension_validator ::
    "AttestationConfig \<Rightarrow> (AttExtension list \<Rightarrow> InvalidExtension + unit) \<Rightarrow> AttestationConfig" where
  "acb_extension_validator self f = self\<lparr>ac_extension_validator := Some f\<rparr>"

definition AttestationConfigBuilder_build :: "AttestationConfig \<Rightarrow> AttestationConfigError + AttestationConfig" where
  "AttestationConfigBuilder_build self =
     Inr \<lparr>ac_supported_signature_algs = ac_supported_signature_algs self,
          ac_supported_hash_algs = ac_supported_hash_algs self,
          ac_extension_validator = ac_extension_validator self\<rparr>"

section \<open>Building attestations\<close>

datatype BuilderErrorKind = RequestKind | ConfigKind | FieldKind | SignatureKind | ExtensionKind

datatype BuilderErrorSource =
    BuilderMessage string
  | BuilderExtension InvalidExtension
  | BuilderSignature SignatureError

record AttestationBuilderError =
  abe_kind :: BuilderErrorKind
  abe_source :: BuilderErrorSource

definition AttestationBuilderError_new :: "BuilderErrorKind \<Rightarrow> BuilderErrorSource \<Rightarrow> AttestationBuilderError" where
  "AttestationBuilderError_new kind error = \<lparr>abe_kind = kind, abe_source = error\<rparr>"

definition is_request :: "AttestationBuilderError \<Rightarrow> bool" where
  "is_request self \<longleftrightarrow> abe_kind self = RequestKind"

datatype Accept = Accept

record 'r Sign =
  s_signature_alg :: SignatureAlgId
  s_hash_alg :: HashAlgId
  s_connection_info :: "ConnectionInfo option"
  s_server_ephemeral_key :: "ServerEphemKey option"
  s_cert_commitment :: ServerCertCommitment
  s_extensions :: "AttExtension list"
  s_transcript_commitments :: "'r TranscriptCommitment list"

record 's AttestationBuilder =
  ab_config :: AttestationConfig
  ab_state :: 's

definition AttestationBuilder_new :: "AttestationConfig \<Rightarrow> Accept AttestationBuilder" where
  "AttestationBuilder_new config = \<lparr>ab_config = config, ab_state = Accept\<rparr>"

definition validate_extensions ::
    "AttestationConfig \<Rightarrow> AttExtension list \<Rightarrow> AttestationBuilderError + unit" where
  "validate_extensions config extensions =
     (case ac_extension_validator config of
        Some validator \<Rightarrow>
          map_err (\<lambda>err. AttestationBuilderError_new ExtensionKind (BuilderExtension err)) (validator extensions)
      | None \<Rightarrow> Inr ())"

definition accept_request ::
    "Accept AttestationBuilder \<Rightarrow> Request \<Rightarrow> AttestationBuilderError + 'r Sign AttestationBuilder" where
  "accept_request self request =
     (let config = ab_config self;
          signature_alg = rq_signature_alg request;
          hash_alg = rq_hash_alg request
      in if signature_alg \<notin> set (ac_supported_signature_algs config) then
           Inl (AttestationBuilderError_new RequestKind
             (BuilderMessage (''unsupported signature algorithm: '' @ SignatureAlgId_fmt signature_alg)))
         else if hash_alg \<notin> set (ac_supported_hash_algs config) then
           Inl (AttestationBuilderError_new RequestKind
             (BuilderMessage (''unsupported hash algorithm: '' @ HashAlgId_fmt hash_alg)))
         else
           res_bind (validate_extensions config (rq_extensions request)) (\<lambda>_.
           Inr \<lparr>ab_config = ab_config self,
                ab_state = \<lparr>s_signature_alg = signature_alg, s_hash_alg = hash_alg, s_connection_info = None,
                  s_server_ephemeral_key = None, s_cert_commitment = rq_server_cert_commitment request,
                  s_extensions = rq_extensions request, s_transcript_commitments = []\<rparr>\<rparr>))"

definition abs_connection_info ::
    "'r Sign AttestationBuilder \<Rightarrow> ConnectionInfo \<Rightarrow> 'r Sign AttestationBuilder" where
  "abs_connection_info self connection_info =
     self\<lparr>ab_state := (ab_state self)\<lparr>s_connection_info := Some connection_info\<rparr>\<rparr>"

definition abs_server_ephemeral_key ::
    "'r Sign AttestationBuilder \<Rightarrow> ServerEphemKey \<Rightarrow> 'r Sign AttestationBuilder" where
  "abs_server_ephemeral_key self key =
     self\<lparr>ab_state := (ab_state self)\<lparr>s_server_ephemeral_key := Some key\<rparr>\<rparr>"

definition abs_extension :: "'r Sign AttestationBuilder \<Rightarrow> AttExtension \<Rightarrow> 'r Sign AttestationBuilder" where
  "abs_extension self ext =
     self\<lparr>ab_state := (ab_state self)\<lparr>s_extensions := s_extensions (ab_state self) @ [ext]\<rparr>\<rparr>"

definition abs_transcript_commitments ::
    "'r Sign AttestationBuilder \<Rightarrow> 'r TranscriptCommitment list \<Rightarrow> 'r Sign AttestationBuilder" where
  "abs_transcript_commitments self transcript_commitments =
     self\<lparr>ab_state := (ab_state self)\<lparr>s_transcript_commitments := transcript_commitments\<rparr>\<rparr>"

text \<open>The body literal of \<open>build\<close>, with the field identifiers in the order of the fields.\<close>

definition build_body ::
    "'r Sign \<Rightarrow> VerifyingKey \<Rightarrow> AttestationBuilderError + 'r Body" where
  "build_body state key =
     (let field_id = FieldId_default; (verifying_key, field_id) = FieldId_next field_id key in
      res_bind (ok_or (s_connection_info state)
        (AttestationBuilderError_new FieldKind (BuilderMessage ''connection info was not set''))) (\<lambda>info.
      let (connection_info, field_id) = FieldId_next field_id info in
      res_bind (ok_or (s_server_ephemeral_key state)
        (AttestationBuilderError_new FieldKind (BuilderMessage ''handshake data was not set''))) (\<lambda>key.
      let (server_ephemeral_key, field_id) = FieldId_next field_id key;
          (cert_commitment, field_id) = FieldId_next field_id (s_cert_commitment state);
          (extensions, field_id) = next_all field_id (s_extensions state);
          (transcript_commitments, field_id) = next_all field_id (s_transcript_commitments state)
      in Inr \<lparr>b_verifying_key = verifying_key, b_connection_info = connection_info,
              b_server_ephemeral_key = server_ephemeral_key, b_cert_commitment = cert_commitment,
              b_extensions = extensions, b_transcript_commitments = transcript_commitments\<rparr>)))"

definition AttestationBuilder_build ::
    "('c, 'ta, 'r, 't, 'p) att_env \<Rightarrow> Uid \<Rightarrow> 'r Sign AttestationBuilder \<Rightarrow> 'ta CryptoProvider
      \<Rightarrow> (AttestationBuilderError + 'r Attestation) option" where
  "AttestationBuilder_build E random self provider =
     (let state = ab_state self in
      try_res (map_err (\<lambda>_. AttestationBuilderError_new ConfigKind (BuilderMessage (''accepted hash algorithm '' @
          HashAlgId_fmt (s_hash_alg state) @ '' but it's missing in the provider'')))
        (HashProvider_get (cp_hash provider) (s_hash_alg state))) (\<lambda>hasher.
      try_res (map_err (\<lambda>_. AttestationBuilderError_new ConfigKind (BuilderMessage (''accepted signature algorithm '' @
          SignatureAlgId_fmt (s_signature_alg state) @ '' but it's missing in the provider'')))
        (SignerProvider_get (cp_signer provider) (s_signature_alg state))) (\<lambda>signer.
      try_res (build_body state (sg_verifying_key signer)) (\<lambda>body.
      unless_panic (Body_root E body hasher) (\<lambda>root.
      let header = \<lparr>h_id = random, h_version = VERSION, h_root = root\<rparr> in
      unless_panic (bcs_header (ae_bcs E) header) (\<lambda>msg.
      try_res (map_err (\<lambda>err. AttestationBuilderError_new SignatureKind (BuilderSignature err)) (sg_sign signer msg)) (\<lambda>signature.
      Some (Inr \<lparr>a_signature = signature, a_header = header, a_body = body\<rparr>))))))))"

section \<open>Proofs of attestations\<close>

datatype AttestationErrorKind = ProviderError | SignatureFailure | BodyError

datatype AttestationErrorSource =
    HashProviderSource HashProviderError
  | UnknownSignatureSource UnknownSignatureAlgId
  | MerkleSource MerkleError
  | SignatureSource SignatureError

record AttestationError =
  atte_kind :: AttestationErrorKind
  atte_source :: AttestationErrorSource

definition AttestationError_new :: "AttestationErrorKind \<Rightarrow> AttestationErrorSource \<Rightarrow> AttestationError" where
  "AttestationError_new kind source = \<lparr>atte_kind = kind, atte_source = source\<rparr>"

record ('r, 'p) BodyProof =
  bp_body :: "'r Body"
  bp_proof :: "'p MerkleProof"

definition BodyProof_new ::
    "('c, 'ta, 'r, 't, 'p) att_env \<Rightarrow> HashAlgorithm \<Rightarrow> 'r Body \<Rightarrow> (AttestationError + ('r, 'p) BodyProof) option" where
  "BodyProof_new E hasher body =
     unless_panic (hash_fields E body hasher) (\<lambda>fields.
     let fields = map (\<lambda>(id, hash). (unat (field_id_u32 id), hash)) fields;
         indices = map fst fields;
         leaves = map snd fields;
         tree = MerkleTree_new (ae_merkle E) (ha_id hasher)
     in unless_panic (MerkleTree_insert (ae_merkle E) tree hasher leaves) (\<lambda>tree.
        unless_panic (MerkleTree_proof (ae_merkle E) tree indices) (\<lambda>proof.
        Some (Inr \<lparr>bp_body = body, bp_proof = proof\<rparr>))))"

definition BodyProof_verify_with_provider ::
    "('c, 'ta, 'r, 't, 'p) att_env \<Rightarrow> ('r, 'p) BodyProof \<Rightarrow> 'ta CryptoProvider \<Rightarrow> Header
      \<Rightarrow> (AttestationError + 'r Body) option" where
  "BodyProof_verify_with_provider E self provider header =
     try_res (map_err (\<lambda>e. AttestationError_new ProviderError (HashProviderSource e))
       (HashProvider_get (cp_hash provider) (th_alg (h_root header)))) (\<lambda>hasher.
     unless_panic (hash_fields E (bp_body self) hasher) (\<lambda>fields.
     let fields = map (\<lambda>(id, hash). (unat (field_id_u32 id), hash)) fields in
     try_res (map_err (\<lambda>e. AttestationError_new BodyError (MerkleSource e))
       (MerkleProof_verify (ae_merkle E) (bp_proof self) hasher (h_root header) fields)) (\<lambda>_.
     Some (Inr (bp_body self)))))"

record ('r, 'p) AttestationProof =
  ap_signature :: Signature
  ap_header :: Header
  ap_body :: "('r, 'p) BodyProof"

definition AttestationProof_new ::
    "('c, 'ta, 'r, 't, 'p) att_env \<Rightarrow> 'ta CryptoProvider \<Rightarrow> 'r Attestation
      \<Rightarrow> (AttestationError + ('r, 'p) AttestationProof) option" where
  "AttestationProof_new E provider attestation =
     try_res (map_err (\<lambda>e. AttestationError_new ProviderError (HashProviderSource e))
       (HashProvider_get (cp_hash provider) (th_alg (h_root (a_header attestation))))) (\<lambda>hasher.
     try_panic (BodyProof_new E hasher (a_body attestation)) (\<lambda>body.
     Some (Inr \<lparr>ap_signature = a_signature attestation, ap_header = a_header attestation, ap_body = body\<rparr>)))"

definition AttestationProof_verifying_key :: "('r, 'p) AttestationProof \<Rightarrow> VerifyingKey" where
  "AttestationProof_verifying_key self = f_data (b_verifying_key (bp_body (ap_body self)))"

definition AttestationProof_verify ::
    "('c, 'ta, 'r, 't, 'p) att_env \<Rightarrow> ('r, 'p) AttestationProof \<Rightarrow> 'ta CryptoProvider
      \<Rightarrow> (AttestationError + 'r Attestation) option" where
  "AttestationProof_verify E self provider =
     try_res (map_err (\<lambda>e. AttestationError_new ProviderError (UnknownSignatureSource e))
       (SignatureVerifierProvider_get (cp_signature provider) (sig_alg (ap_signature self)))) (\<lambda>signature_verifier.
     try_panic (BodyProof_verify_with_provider E (ap_body self) provider (ap_header self)) (\<lambda>body.
     unless_panic (bcs_header (ae_bcs E) (ap_header self)) (\<lambda>msg.
     try_res (map_err (\<lambda>e. AttestationError_new SignatureFailure (SignatureSource e))
       (sv_verify signature_verifier (f_data (b_verifying_key body)) msg (sig_data (ap_signature self)))) (\<lambda>_.
     Some (Inr \<lparr>a_signature = ap_signature self, a_header = ap_header self, a_body = body\<rparr>)))))"

section \<open>Presentations\<close>

record ('r, 'p) Presentation =
  p_attestation :: "('r, 'p) AttestationProof"
  p_identity :: "ServerIdentityProof option"
  p_transcript :: "'r TranscriptProof option"

datatype PresentationError =
    PresentationAttestation AttestationError
  | PresentationIdentity ServerIdentityProofError
  | PresentationTranscript TranscriptProofError

record 'r PresentationOutput =
  po_attestation :: "'r Attestation"
  po_server_name :: "ConnServerName option"
  po_connection_info :: ConnectionInfo
  po_transcript :: "'r PartialTranscript option"
  po_extensions :: "AttExtension list"

text \<open>\<open>opt.map(f).transpose()\<close> for a step that may panic.\<close>

definition map_transpose :: "('a \<Rightarrow> ('e + 'b) option) \<Rightarrow> 'a option \<Rightarrow> ('e + 'b option) option" where
  "map_transpose f opt =
     (case opt of None \<Rightarrow> Some (Inr None) | Some x \<Rightarrow> try_panic (f x) (\<lambda>y. Some (Inr (Some y))))"

definition Presentation_verify ::
    "('c, 'ta, 'r, 't, 'p) att_env \<Rightarrow> ('r, 'p) Presentation \<Rightarrow> 'ta CryptoProvider
      \<Rightarrow> (PresentationError + 'r PresentationOutput) option" where
  "Presentation_verify E self provider =
     try_panic (map_option (map_err PresentationAttestation) (AttestationProof_verify E (p_attestation self) provider)) (\<lambda>attestation.
     let body = a_body attestation; info = f_data (b_connection_info body) in
     try_panic (map_option (map_err PresentationIdentity) (map_transpose (\<lambda>identity.
         ServerIdentityProof_verify_with_provider E identity provider (ci_time info)
           (f_data (b_server_ephemeral_key body)) (f_data (b_cert_commitment body))) (p_identity self))) (\<lambda>server_name.
     try_panic (map_option (map_err PresentationTranscript) (map_transpose (\<lambda>transcript.
         verify_with_provider (ae_rangeset E) transcript (cp_hash provider) (ci_transcript_length info)
           (map f_data (b_transcript_commitments body))) (p_transcript self))) (\<lambda>transcript.
     let connection_info = info; extensions = map f_data (b_extensions body) in
     Some (Inr \<lparr>po_attestation = attestation, po_server_name = server_name, po_connection_info = connection_info,
                po_transcript = transcript, po_extensions = extensions\<rparr>))))"

record ('ta, 'r) PresentationBuilder =
  prb_provider :: "'ta CryptoProvider"
  prb_attestation :: "'r Attestation"
  prb_identity_proof :: "ServerIdentityProof option"
  prb_transcript_proof :: "'r TranscriptProof option"

definition PresentationBuilder_new :: "'ta CryptoProvider \<Rightarrow> 'r Attestation \<Rightarrow> ('ta, 'r) PresentationBuilder" where
  "PresentationBuilder_new provider attestation =
     \<lparr>prb_provider = provider, prb_attestation = attestation, prb_identity_proof = None, prb_transcript_proof = None\<rparr>"

definition prb_set_identity_proof ::
    "('ta, 'r) PresentationBuilder \<Rightarrow> ServerIdentityProof \<Rightarrow> ('ta, 'r) PresentationBuilder" where
  "prb_set_identity_proof self proof = self\<lparr>prb_identity_proof := Some proof\<rparr>"

definition prb_set_transcript_proof ::
    "('ta, 'r) PresentationBuilder \<Rightarrow> 'r TranscriptProof \<Rightarrow> ('ta, 'r) PresentationBuilder" where
  "prb_set_transcript_proof self proof = self\<lparr>prb_transcript_proof := Some proof\<rparr>"

datatype PresentationBuilderError = PresentationBuilderError AttestationError

definition PresentationBuilder_build ::
    "('c, 'ta, 'r, 't, 'p) att_env \<Rightarrow> ('ta, 'r) PresentationBuilder
      \<Rightarrow> (PresentationBuilderError + ('r, 'p) Presentation) option" where
  "PresentationBuilder_build E self =
     try_panic (map_option (map_err PresentationBuilderError)
       (AttestationProof_new E (prb_provider self) (prb_attestation self))) (\<lambda>attestation.
     Some (Inr \<lparr>p_attestation = attestation, p_identity = prb_identity_proof self,
                p_transcript = prb_transcript_proof self\<rparr>))"

end
