(* ===== verification/Attestation_Laws.thy ===== *)
theory Attestation_Laws
  imports Attestation
begin

text \<open>
  Laws of attestations.  The fields of a body are listed as entries, an identifier with the data of one of the six
  kinds; hashing a body is hashing its entries.  The identifiers of a built body count from 0.  On this rest the
  properties: a built attestation yields a proof that verifies, a presentation is accepted exactly under the listed
  checks, and the fields of an accepted presentation are fields of the attested body.
\<close>

section \<open>Entries of a body\<close>

datatype 'r entry =
    EKey VerifyingKey
  | EInfo ConnectionInfo
  | EEphem ServerEphemKey
  | ECert ServerCertCommitment
  | EExt AttExtension
  | ECommit "'r TranscriptCommitment"

definition field_entry :: "('a \<Rightarrow> 'r entry) \<Rightarrow> 'a Field \<Rightarrow> FieldId \<times> 'r entry" where
  "field_entry c f = (f_id f, c (f_data f))"

definition body_entries :: "'r Body \<Rightarrow> (FieldId \<times> 'r entry) list" where
  "body_entries b =
     [field_entry EKey (b_verifying_key b), field_entry EInfo (b_connection_info b),
      field_entry EEphem (b_server_ephemeral_key b), field_entry ECert (b_cert_commitment b)] @
     map (field_entry EExt) (b_extensions b) @ map (field_entry ECommit) (b_transcript_commitments b)"

fun entry_type :: "'r entry \<Rightarrow> string" where
  "entry_type (EKey x) = ''VerifyingKey''"
| "entry_type (EInfo x) = ''tlsn_core::connection::ConnectionInfo''"
| "entry_type (EEphem x) = ''tlsn_core::connection::ServerEphemKey''"
| "entry_type (ECert x) = ''ServerCertCommitment''"
| "entry_type (EExt x) = ''Extension''"
| "entry_type (ECommit x) = ''tlsn_core::transcript::TranscriptCommitment''"

fun entry_bytes :: "'r bcs \<Rightarrow> 'r entry \<Rightarrow> bytes option" where
  "entry_bytes B (EKey x) = bcs_verifying_key B x"
| "entry_bytes B (EInfo x) = bcs_connection_info B x"
| "entry_bytes B (EEphem x) = bcs_server_ephemeral_key B x"
| "entry_bytes B (ECert x) = bcs_cert_commitment B x"
| "entry_bytes B (EExt x) = bcs_extension B x"
| "entry_bytes B (ECommit x) = bcs_transcript_commitment B x"

definition entry_hash ::
    "('c, 'ta, 'r, 't, 'p) att_env \<Rightarrow> HashAlgorithm \<Rightarrow> FieldId \<times> 'r entry \<Rightarrow> (FieldId \<times> Hash) option" where
  "entry_hash E hasher = (\<lambda>(i, e). map_option (Pair i)
     (hash_separated hasher (domain_separator (ae_blake3 E) (entry_type e)) (entry_bytes (ae_bcs E) e)))"

lemma those_append:
  "those (xs @ ys) = do { a \<leftarrow> those xs; b \<leftarrow> those ys; Some (a @ b) }"
  by (induction xs) (auto split: option.split simp: Option.bind_eq_None_conv split: Option.bind_split)

lemma hash_field_entry:
  "hash_field (verifying_key_hash E hasher) f = entry_hash E hasher (field_entry EKey f)"
  "hash_field (connection_info_hash E hasher) f' = entry_hash E hasher (field_entry EInfo f')"
  "hash_field (server_ephemeral_key_hash E hasher) f'' = entry_hash E hasher (field_entry EEphem f'')"
  "hash_field (cert_commitment_hash E hasher) g = entry_hash E hasher (field_entry ECert g)"
  "hash_field (extension_hash E hasher) g' = entry_hash E hasher (field_entry EExt g')"
  "hash_field (transcript_commitment_hash E hasher) g'' = entry_hash E hasher (field_entry ECommit g'')"
  by (simp_all add: hash_field_def entry_hash_def field_entry_def verifying_key_hash_def connection_info_hash_def
      server_ephemeral_key_hash_def cert_commitment_hash_def extension_hash_def transcript_commitment_hash_def
      map_conv_bind_option o_def)

lemma hash_fields_eq:
  "hash_fields E b hasher = map_option (sort_key fst) (those (map (entry_hash E hasher) (body_entries b)))"
proof -
  have m: "map (hash_field (extension_hash E hasher)) xs = map (entry_hash E hasher) (map (field_entry EExt) xs)"
    "map (hash_field (transcript_commitment_hash E hasher)) ys = map (entry_hash E hasher) (map (field_entry ECommit) ys)"
    for xs ys by (simp_all add: hash_field_entry)
  show ?thesis
    unfolding hash_fields_def body_entries_def m hash_field_entry
    by (auto simp: those_append Let_def split: option.split Option.bind_split)
qed

lemma those_eq_Some: "those xs = Some ys \<longleftrightarrow> xs = map Some ys"
  by (induction xs arbitrary: ys) (auto split: option.splits simp: Cons_eq_map_conv)

lemma set_those_map: "those (map f xs) = Some ys \<Longrightarrow> y \<in> set ys \<longleftrightarrow> (\<exists>x \<in> set xs. f x = Some y)"
proof -
  assume "those (map f xs) = Some ys"
  then have "set (map f xs) = set (map Some ys)" by (simp only: those_eq_Some)
  then have "Some y \<in> f ` set xs \<longleftrightarrow> y \<in> set ys" by auto
  then show ?thesis by (force simp: image_iff)
qed

section \<open>Identifiers\<close>

definition nat_id :: "nat \<Rightarrow> FieldId" where
  "nat_id n = FieldId (of_nat n)"

lemma next_all_eq:
  "next_all (nat_id n) xs =
     (map2 (\<lambda>i x. \<lparr>f_id = nat_id i, f_data = x\<rparr>) [n..<n + length xs] xs, nat_id (n + length xs))"
proof (induction xs arbitrary: n)
  case (Cons x xs)
  have "[n..<Suc (n + length xs)] = n # [Suc n..<Suc n + length xs]" by (simp add: upt_conv_Cons del: upt_Suc)
  moreover have "FieldId_next (nat_id n) x = (\<lparr>f_id = nat_id n, f_data = x\<rparr>, nat_id (Suc n))"
    by (simp add: FieldId_next_def nat_id_def add.commute)
  ultimately show ?case using Cons.IH [of "Suc n"] by simp
qed simp

lemma map_numbered:
  "map f_data (map2 (\<lambda>i x. \<lparr>f_id = nat_id i, f_data = x\<rparr>) [n..<n + length xs] xs) = xs"
  "map fst (map (field_entry c) (map2 (\<lambda>i x. \<lparr>f_id = nat_id i, f_data = x\<rparr>) [n..<n + length xs] xs)) =
     map nat_id [n..<n + length xs]"
proof (induction xs arbitrary: n)
  case (Cons x xs)
  case 1
  then show ?case using Cons(1) [of "Suc n"] by (simp add: upt_conv_Cons del: upt_Suc)
next
  case (Cons x xs)
  case 2
  then show ?case using Cons(2) [of "Suc n"] by (simp add: upt_conv_Cons field_entry_def del: upt_Suc)
qed simp_all

definition body_size :: "'r Body \<Rightarrow> nat" where
  "body_size b = 4 + length (b_extensions b) + length (b_transcript_commitments b)"

text \<open>A body whose fields are numbered from 0, in the order of the hashing.\<close>

definition body_numbered :: "'r Body \<Rightarrow> bool" where
  "body_numbered b \<longleftrightarrow> map fst (body_entries b) = map nat_id [0..<body_size b] \<and> body_size b \<le> 2 ^ 32"

lemma length_body_entries: "length (body_entries b) = body_size b"
  by (simp add: body_entries_def body_size_def)

lemma build_body_eq:
  assumes "build_body state key = Inr b"
  obtains info ephem where "s_connection_info state = Some info" "s_server_ephemeral_key state = Some ephem"
    "f_data (b_verifying_key b) = key" "f_data (b_connection_info b) = info" "f_data (b_server_ephemeral_key b) = ephem"
    "f_data (b_cert_commitment b) = s_cert_commitment state" "map f_data (b_extensions b) = s_extensions state"
    "map f_data (b_transcript_commitments b) = s_transcript_commitments state"
    "map fst (body_entries b) = map nat_id [0..<body_size b]"
proof -
  have step: "FieldId_next (nat_id n) x = (\<lparr>f_id = nat_id n, f_data = x\<rparr>, nat_id (Suc n))" for n and x :: 'z
    by (simp add: FieldId_next_def nat_id_def add.commute)
  have zero: "FieldId_default = nat_id 0" by (simp add: FieldId_default_def nat_id_def)
  let ?k = "Suc (Suc (Suc (Suc 0)))"
  let ?n = "length (s_extensions state)" and ?m = "length (s_transcript_commitments state)"
  obtain info ephem where *: "s_connection_info state = Some info" "s_server_ephemeral_key state = Some ephem"
    using assms
    by (cases "s_connection_info state"; cases "s_server_ephemeral_key state")
      (simp_all add: build_body_def FieldId_next_def case_prod_beta Let_def)
  have b: "b = \<lparr>b_verifying_key = \<lparr>f_id = nat_id 0, f_data = key\<rparr>, b_connection_info = \<lparr>f_id = nat_id (Suc 0), f_data = info\<rparr>,
      b_server_ephemeral_key = \<lparr>f_id = nat_id (Suc (Suc 0)), f_data = ephem\<rparr>,
      b_cert_commitment = \<lparr>f_id = nat_id (Suc (Suc (Suc 0))), f_data = s_cert_commitment state\<rparr>,
      b_extensions = map2 (\<lambda>i x. \<lparr>f_id = nat_id i, f_data = x\<rparr>) [?k..<?k + ?n] (s_extensions state),
      b_transcript_commitments = map2 (\<lambda>i x. \<lparr>f_id = nat_id i, f_data = x\<rparr>) [?k + ?n..<?k + ?n + ?m]
        (s_transcript_commitments state)\<rparr>"
    using assms unfolding build_body_def zero
    by (simp only: * step ok_or_def option.case next_all_eq Let_def prod.case res_bind_simps sum.inject)
  have "[0..<?k + ?n + ?m] = [0, Suc 0, Suc (Suc 0), Suc (Suc (Suc 0))] @ [?k..<?k + ?n] @ [?k + ?n..<?k + ?n + ?m]"
    using upt_add_eq_append [of 0 ?k "?n + ?m"] upt_add_eq_append [of ?k "?k + ?n" ?m] by (simp add: add.assoc)
  then have "map fst (body_entries b) = map nat_id [0..<?k + ?n + ?m]"
    using map_numbered(2) [of EExt ?k "s_extensions state"]
      map_numbered(2) [of ECommit "?k + ?n" "s_transcript_commitments state"]
    by (simp add: b body_entries_def field_entry_def [of EKey] field_entry_def [of EInfo] field_entry_def [of EEphem]
        field_entry_def [of ECert] del: map_map upt_Suc)
  moreover have "body_size b = ?k + ?n + ?m" by (simp add: body_size_def b del: upt_Suc)
  ultimately show ?thesis by (intro that [OF *]) (simp_all only: b Body.select_convs Field.select_convs map_numbered)
qed

section \<open>Proofs of bodies\<close>

lemma nat_id_u32: "n < 2 ^ 32 \<Longrightarrow> unat (field_id_u32 (nat_id n)) = n"
  by (simp add: nat_id_def unsigned_of_nat take_bit_nat_eq_self)

lemma sorted_nat_ids: "n \<le> 2 ^ 32 \<Longrightarrow> sorted (map nat_id [0..<n])"
  by (auto simp: sorted_iff_nth_mono less_eq_FieldId_def word_le_nat_alt nat_id_u32)

lemma entry_hash_fst:
  "those (map (entry_hash E hasher) es) = Some xs \<Longrightarrow> map fst xs = map fst es"
  by (induction es arbitrary: xs) (auto simp: entry_hash_def split: option.splits prod.splits)

lemma numbered_hash_fields:
  assumes "body_numbered b" and "hash_fields E b hasher = Some fs"
  shows "those (map (entry_hash E hasher) (body_entries b)) = Some fs"
    and "map fst fs = map nat_id [0..<body_size b]"
proof -
  obtain xs where xs: "those (map (entry_hash E hasher) (body_entries b)) = Some xs" "fs = sort_key fst xs"
    using assms(2) by (auto simp: hash_fields_eq)
  have "map fst xs = map nat_id [0..<body_size b]" using entry_hash_fst [OF xs(1)] assms(1) by (simp add: body_numbered_def)
  moreover from this have "fs = xs"
    using assms(1) sorted_nat_ids [of "body_size b"] by (simp add: xs(2) sort_key_id_if_sorted body_numbered_def)
  ultimately show "those (map (entry_hash E hasher) (body_entries b)) = Some fs"
    "map fst fs = map nat_id [0..<body_size b]" using xs(1) by simp_all
qed

definition indexed :: "(FieldId \<times> Hash) list \<Rightarrow> (nat \<times> Hash) list" where
  "indexed = map (\<lambda>(id, hash). (unat (field_id_u32 id), hash))"

lemma map_snd_indexed: "map snd (indexed fs) = map snd fs"
  by (simp add: indexed_def o_def case_prod_beta)

lemma numbered_indexed:
  assumes "body_numbered b" and "hash_fields E b hasher = Some fs"
  shows "map fst (indexed fs) = [0..<body_size b]"
proof -
  have "map fst (indexed fs) = map (\<lambda>i. unat (field_id_u32 i)) (map fst fs)"
    by (simp add: indexed_def o_def case_prod_beta)
  also have "\<dots> = map (\<lambda>n. unat (field_id_u32 (nat_id n))) [0..<body_size b]"
    by (simp add: numbered_hash_fields(2) [OF assms])
  also have "\<dots> = [0..<body_size b]"
    using assms(1) by (intro map_idI) (auto simp: body_numbered_def nat_id_u32)
  finally show ?thesis .
qed

lemma body_size_pos: "body_size b \<noteq> 0"
  by (simp add: body_size_def)

text \<open>A body that is numbered has a root and a proof, and the proof verifies against the root.\<close>

lemma body_proof_complete:
  assumes "merkle_complete (ae_merkle E) (ha_hash hasher)" and "body_numbered b" and "hash_fields E b hasher = Some fs"
  obtains root p where "Body_root E b hasher = Some \<lparr>th_alg = ha_id hasher, th_value = root\<rparr>"
    "BodyProof_new E hasher b = Some (Inr \<lparr>bp_body = b, bp_proof = p\<rparr>)"
    "\<And>alg. MerkleProof_verify (ae_merkle E) p hasher \<lparr>th_alg = alg, th_value = root\<rparr> (indexed fs) = Inr ()"
    "mp_leaf_count p = body_size b"
proof -
  note idx = numbered_indexed [OF assms(2,3)]
  have len: "length (map snd fs) = body_size b" using arg_cong [OF numbered_hash_fields(2) [OF assms(2,3)], of length] by simp
  then have "map snd fs \<noteq> []" using body_size_pos [of b] by auto
  from merkle_tree_filled [OF assms(1) this] obtain tree root where t:
    "MerkleTree_insert (ae_merkle E) (MerkleTree_new (ae_merkle E) (ha_id hasher)) hasher (map snd fs) = Some tree"
    "MerkleTree_root (ae_merkle E) tree = Some \<lparr>th_alg = ha_id hasher, th_value = root\<rparr>"
    "\<And>idx. idx \<noteq> [] \<Longrightarrow> sorted_wrt (<) idx \<Longrightarrow> \<forall>i \<in> set idx. i < body_size b \<Longrightarrow>
      \<exists>p. MerkleTree_proof (ae_merkle E) tree idx = Some p \<and> mp_leaf_count p = body_size b \<and>
        rm_verify (ae_merkle E) (ha_hash hasher) (mp_proof p) root idx (map (nth (map snd fs)) idx) (body_size b)"
    unfolding len by metis
  obtain p where p: "MerkleTree_proof (ae_merkle E) tree [0..<body_size b] = Some p" "mp_leaf_count p = body_size b"
    "rm_verify (ae_merkle E) (ha_hash hasher) (mp_proof p) root [0..<body_size b] (map (nth (map snd fs)) [0..<body_size b])
      (body_size b)"
    using t(3) [of "[0..<body_size b]"] body_size_pos [of b] by (auto simp: strict_sorted_iff)
  have sorted: "sort_key fst (indexed fs) = indexed fs" by (rule sort_key_id_if_sorted) (simp add: idx)
  have nth: "map (nth (map snd fs)) [0..<body_size b] = map snd fs" using len map_nth by metis
  show ?thesis
  proof (rule that [of root p])
    show "Body_root E b hasher = Some \<lparr>th_alg = ha_id hasher, th_value = root\<rparr>"
      by (simp add: Body_root_def assms(3) t(1,2))
    show "BodyProof_new E hasher b = Some (Inr \<lparr>bp_body = b, bp_proof = p\<rparr>)"
      using t(1) p(1) by (simp add: BodyProof_new_def assms(3) indexed_def [symmetric] idx map_snd_indexed Let_def)
    show "MerkleProof_verify (ae_merkle E) p hasher \<lparr>th_alg = alg, th_value = root\<rparr> (indexed fs) = Inr ()" for alg
      using p(2,3) by (simp add: MerkleProof_verify_iff sorted idx map_snd_indexed nth)
  qed (rule p(2))
qed

lemma AttestationProof_verify_iff:
  "AttestationProof_verify E pr provider = Some (Inr att) \<longleftrightarrow>
     (\<exists>verifier hasher fs msg.
        SignatureVerifierProvider_get (cp_signature provider) (sig_alg (ap_signature pr)) = Inr verifier \<and>
        HashProvider_get (cp_hash provider) (th_alg (h_root (ap_header pr))) = Inr hasher \<and>
        hash_fields E (bp_body (ap_body pr)) hasher = Some fs \<and>
        MerkleProof_verify (ae_merkle E) (bp_proof (ap_body pr)) hasher (h_root (ap_header pr)) (indexed fs) = Inr () \<and>
        bcs_header (ae_bcs E) (ap_header pr) = Some msg \<and>
        sv_verify verifier (AttestationProof_verifying_key pr) msg (sig_data (ap_signature pr)) = Inr () \<and>
        att = \<lparr>a_signature = ap_signature pr, a_header = ap_header pr, a_body = bp_body (ap_body pr)\<rparr>)"
  by (auto simp: AttestationProof_verify_def BodyProof_verify_with_provider_def AttestationProof_verifying_key_def
      panic_simps indexed_def [symmetric] Let_def map_err_Inr_iff)

section \<open>Built attestations\<close>

text \<open>
  The providers of the notary and of a verifier fit for a hash and a signature algorithm: they have the same hasher
  under its own identifier, and the verifier accepts what the notary's signer signs.
\<close>

definition providers_fit :: "'ta CryptoProvider \<Rightarrow> 'tb CryptoProvider \<Rightarrow> HashAlgId \<Rightarrow> SignatureAlgId \<Rightarrow> bool" where
  "providers_fit notary provider hash_alg signature_alg \<longleftrightarrow>
     (\<exists>hasher signer. cp_hash notary hash_alg = Some hasher \<and> cp_hash provider hash_alg = Some hasher \<and>
        ha_id hasher = hash_alg \<and> cp_signer notary signature_alg = Some signer \<and> sg_alg_id signer = signature_alg \<and>
        signer_ok (cp_signature provider) signer)"

lemma built_attestation_verifies:
  assumes "AttestationBuilder_build E uid ab notary = Some (Inr att)" and "body_size (a_body att) \<le> 2 ^ 32"
    and "\<And>h. merkle_complete (ae_merkle E) h"
    and "providers_fit notary provider (s_hash_alg (ab_state ab)) (s_signature_alg (ab_state ab))"
  obtains pr where "sig_alg (a_signature att) = s_signature_alg (ab_state ab)" "th_alg (h_root (a_header att)) = s_hash_alg (ab_state ab)"
    "AttestationProof_new E provider att = Some (Inr pr)" "AttestationProof_verify E pr provider = Some (Inr att)"
    "bp_body (ap_body pr) = a_body att" "ap_header pr = a_header att"
    "mp_leaf_count (bp_proof (ap_body pr)) = body_size (a_body att)"
    "\<exists>verifier msg. SignatureVerifierProvider_get (cp_signature provider) (s_signature_alg (ab_state ab)) = Inr verifier \<and>
      bcs_header (ae_bcs E) (a_header att) = Some msg \<and>
      sv_verify verifier (f_data (b_verifying_key (a_body att))) msg (sig_data (a_signature att)) = Inr ()"
proof -
  let ?st = "ab_state ab"
  obtain hasher signer where fit: "cp_hash notary (s_hash_alg ?st) = Some hasher" "cp_hash provider (s_hash_alg ?st) = Some hasher"
    "ha_id hasher = s_hash_alg ?st" "cp_signer notary (s_signature_alg ?st) = Some signer"
    "sg_alg_id signer = s_signature_alg ?st" "signer_ok (cp_signature provider) signer"
    using assms(4) by (auto simp: providers_fit_def)
  obtain b root msg signature where b: "build_body ?st (sg_verifying_key signer) = Inr b" "Body_root E b hasher = Some root"
    "bcs_header (ae_bcs E) \<lparr>h_id = uid, h_version = VERSION, h_root = root\<rparr> = Some msg" "sg_sign signer msg = Inr signature"
    "att = \<lparr>a_signature = signature, a_header = \<lparr>h_id = uid, h_version = VERSION, h_root = root\<rparr>, a_body = b\<rparr>"
    using assms(1) fit(1,4)
    by (auto simp: AttestationBuilder_build_def panic_simps Let_def HashProvider_get_def SignerProvider_get_def ok_or_def)
  obtain fs where fs: "hash_fields E b hasher = Some fs" using b(2) by (auto simp: Body_root_def split: Option.bind_splits)
  have num: "body_numbered b" using build_body_eq [OF b(1)] assms(2) b(5) by (auto simp: body_numbered_def)
  obtain rt p where p: "Body_root E b hasher = Some \<lparr>th_alg = ha_id hasher, th_value = rt\<rparr>"
    "BodyProof_new E hasher b = Some (Inr \<lparr>bp_body = b, bp_proof = p\<rparr>)"
    "\<And>alg. MerkleProof_verify (ae_merkle E) p hasher \<lparr>th_alg = alg, th_value = rt\<rparr> (indexed fs) = Inr ()"
    "mp_leaf_count p = body_size b"
    using body_proof_complete [OF assms(3) num fs] by metis
  have root: "root = \<lparr>th_alg = s_hash_alg ?st, th_value = rt\<rparr>" using b(2) p(1) fit(3) by simp
  obtain v where v: "SignatureVerifierProvider_get (cp_signature provider) (s_signature_alg ?st) = Inr v"
    "sig_alg signature = s_signature_alg ?st" "sv_verify v (sg_verifying_key signer) msg (sig_data signature) = Inr ()"
    using fit(5,6) b(4) by (auto simp: signer_ok_def)
  have key: "f_data (b_verifying_key b) = sg_verifying_key signer" using build_body_eq [OF b(1)] by metis
  let ?pr = "\<lparr>ap_signature = signature, ap_header = a_header att, ap_body = \<lparr>bp_body = b, bp_proof = p\<rparr>\<rparr>"
  have get: "HashProvider_get (cp_hash provider) (s_hash_alg ?st) = Inr hasher" by (simp add: HashProvider_get_def fit(2) ok_or_def)
  show ?thesis
  proof (rule that [of ?pr])
    show "AttestationProof_new E provider att = Some (Inr ?pr)"
      by (simp add: AttestationProof_new_def b(5) root get p(2))
    show "AttestationProof_verify E ?pr provider = Some (Inr att)"
      using v p(3) key fs get b(3) by (simp add: AttestationProof_verify_iff b(5) root AttestationProof_verifying_key_def)
  qed (use b v key root p(4) in \<open>auto\<close>)
qed

section \<open>Presentations\<close>

lemma ServerIdentityProof_verify_iff:
  "ServerIdentityProof_verify_with_provider E self provider time key (ServerCertCommitment c) = Some (Inr name) \<longleftrightarrow>
     name = sip_name self \<and>
     (\<exists>hasher. HashProvider_get (cp_hash provider) (th_alg c) = Inr hasher \<and>
       cert_opening_hash E hasher (sip_opening self) = Some (th_value c) \<and>
       HandshakeData_verify (ae_webpki E) (ae_dns_ok E) (ae_to_string E) (ServerCertOpening_data (sip_opening self))
         (cp_cert provider) time key (sip_name self) = Some (Inr ()))"
  by (auto simp: panic_simps split: if_splits)

lemma map_transpose_iff:
  "map_transpose f opt = Some (Inr r) \<longleftrightarrow>
     (case opt of None \<Rightarrow> r = None | Some x \<Rightarrow> \<exists>y. f x = Some (Inr y) \<and> r = Some y)"
  by (auto simp: map_transpose_def panic_simps split: option.split)

lemma map_option_map_err_iff: "map_option (map_err f) r = Some (Inr x) \<longleftrightarrow> r = Some (Inr x)"
  by (cases r) auto

lemma Presentation_verify_eq:
  "Presentation_verify E p provider = Some (Inr out) \<longleftrightarrow>
     (\<exists>att. AttestationProof_verify E (p_attestation p) provider = Some (Inr att) \<and>
       (case p_identity p of None \<Rightarrow> po_server_name out = None
        | Some identity \<Rightarrow> \<exists>name. po_server_name out = Some name \<and>
            ServerIdentityProof_verify_with_provider E identity provider (ci_time (f_data (b_connection_info (a_body att))))
              (f_data (b_server_ephemeral_key (a_body att))) (f_data (b_cert_commitment (a_body att))) = Some (Inr name)) \<and>
       (case p_transcript p of None \<Rightarrow> po_transcript out = None
        | Some transcript \<Rightarrow> \<exists>q. po_transcript out = Some q \<and>
            verify_with_provider (ae_rangeset E) transcript (cp_hash provider)
              (ci_transcript_length (f_data (b_connection_info (a_body att))))
              (map f_data (b_transcript_commitments (a_body att))) = Some (Inr q)) \<and>
       po_attestation out = att \<and> po_connection_info out = f_data (b_connection_info (a_body att)) \<and>
       po_extensions out = map f_data (b_extensions (a_body att)))"
  by (cases out) (auto simp: Presentation_verify_def panic_simps map_option_map_err_iff map_transpose_iff Let_def
      split: option.splits)

section \<open>From a request to a presentation\<close>

lemma RequestBuilder_build_eq:
  assumes "RequestBuilder_build E random rb prover = Some (Inr (request, secrets))"
  obtains hasher commitment where "cp_hash prover (rq_hash_alg request) = Some hasher"
    "cert_opening_hash E hasher (sc_server_cert_opening secrets) = Some commitment"
    "rq_server_cert_commitment request = ServerCertCommitment \<lparr>th_alg = ha_id hasher, th_value = commitment\<rparr>"
  using assms
  by (auto simp: RequestBuilder_build_def panic_simps Let_def HashProvider_get_def ok_or_Inr_iff
      ServerCertOpening_commit_def split: Option.bind_splits)

lemma accept_request_eq:
  assumes "accept_request (AttestationBuilder_new config) request = Inr ab"
  shows "s_signature_alg (ab_state ab) = rq_signature_alg request" "s_hash_alg (ab_state ab) = rq_hash_alg request"
    "s_cert_commitment (ab_state ab) = rq_server_cert_commitment request" "s_extensions (ab_state ab) = rq_extensions request"
    "rq_signature_alg request \<in> set (ac_supported_signature_algs config)"
    "rq_hash_alg request \<in> set (ac_supported_hash_algs config)"
  using assms by (auto simp: accept_request_def Let_def AttestationBuilder_new_def res_bind_Inr_iff split: if_splits)

lemma Request_validate_iff:
  "Request_validate E request att provider = Some (Inr ()) \<longleftrightarrow>
     sig_alg (a_signature att) = rq_signature_alg request \<and> th_alg (h_root (a_header att)) = rq_hash_alg request \<and>
     f_data (b_cert_commitment (a_body att)) = rq_server_cert_commitment request \<and>
     set (rq_extensions request) \<subseteq> set (map f_data (b_extensions (a_body att))) \<and>
     (\<exists>verifier msg. SignatureVerifierProvider_get (cp_signature provider) (sig_alg (a_signature att)) = Inr verifier \<and>
        bcs_header (ae_bcs E) (a_header att) = Some msg \<and>
        sv_verify verifier (f_data (b_verifying_key (a_body att))) msg (sig_data (a_signature att)) = Inr ())"
  by (auto simp: Request_validate_def panic_simps list_ex_iff)

text \<open>The notary's builder after its setters.\<close>

definition notarize ::
    "'r Sign AttestationBuilder \<Rightarrow> ConnectionInfo \<Rightarrow> ServerEphemKey \<Rightarrow> 'r TranscriptCommitment list \<Rightarrow> 'r Sign AttestationBuilder" where
  "notarize ab info key cs = abs_transcript_commitments (abs_server_ephemeral_key (abs_connection_info ab info) key) cs"

lemma notarize_state:
  "s_signature_alg (ab_state (notarize ab info key cs)) = s_signature_alg (ab_state ab)"
  "s_hash_alg (ab_state (notarize ab info key cs)) = s_hash_alg (ab_state ab)"
  "s_cert_commitment (ab_state (notarize ab info key cs)) = s_cert_commitment (ab_state ab)"
  "s_extensions (ab_state (notarize ab info key cs)) = s_extensions (ab_state ab)"
  "s_connection_info (ab_state (notarize ab info key cs)) = Some info"
  "s_server_ephemeral_key (ab_state (notarize ab info key cs)) = Some key"
  "s_transcript_commitments (ab_state (notarize ab info key cs)) = cs"
  by (simp_all add: notarize_def abs_transcript_commitments_def abs_server_ephemeral_key_def abs_connection_info_def)

lemma notarized_attestation:
  assumes "AttestationBuilder_build E uid (notarize ab info key cs) notary = Some (Inr att)"
    and "accept_request (AttestationBuilder_new config) request = Inr ab"
    and "4 + length (rq_extensions request) + length cs \<le> 2 ^ 32" and "\<And>h. merkle_complete (ae_merkle E) h"
    and "providers_fit notary provider (rq_hash_alg request) (rq_signature_alg request)"
  shows "Request_validate E request att provider = Some (Inr ())"
    and "\<exists>pr. AttestationProof_new E provider att = Some (Inr pr) \<and> AttestationProof_verify E pr provider = Some (Inr att)"
    and "f_data (b_connection_info (a_body att)) = info" and "f_data (b_server_ephemeral_key (a_body att)) = key"
    and "f_data (b_cert_commitment (a_body att)) = rq_server_cert_commitment request"
    and "map f_data (b_extensions (a_body att)) = rq_extensions request"
    and "map f_data (b_transcript_commitments (a_body att)) = cs"
proof -
  let ?st = "ab_state (notarize ab info key cs)"
  have "\<exists>key. build_body ?st key = Inr (a_body att)"
    using assms(1) by (auto simp: AttestationBuilder_build_def panic_simps Let_def)
  then obtain k where b: "build_body ?st k = Inr (a_body att)" by blast
  note st = notarize_state accept_request_eq [OF assms(2)]
  from build_body_eq [OF b] show info: "f_data (b_connection_info (a_body att)) = info" "f_data (b_server_ephemeral_key (a_body att)) = key"
    and cert: "f_data (b_cert_commitment (a_body att)) = rq_server_cert_commitment request"
    and ext: "map f_data (b_extensions (a_body att)) = rq_extensions request"
    and tc: "map f_data (b_transcript_commitments (a_body att)) = cs"
    by (auto simp: st)
  have size: "body_size (a_body att) \<le> 2 ^ 32"
    using assms(3) arg_cong [OF ext, of length] arg_cong [OF tc, of length] by (simp add: body_size_def)
  have fit: "providers_fit notary provider (s_hash_alg ?st) (s_signature_alg ?st)" using assms(5) by (simp add: st)
  obtain pr where "sig_alg (a_signature att) = s_signature_alg ?st" "th_alg (h_root (a_header att)) = s_hash_alg ?st"
    "AttestationProof_new E provider att = Some (Inr pr)" "AttestationProof_verify E pr provider = Some (Inr att)"
    "bp_body (ap_body pr) = a_body att" "ap_header pr = a_header att"
    "mp_leaf_count (bp_proof (ap_body pr)) = body_size (a_body att)"
    "\<exists>verifier msg. SignatureVerifierProvider_get (cp_signature provider) (s_signature_alg ?st) = Inr verifier \<and>
      bcs_header (ae_bcs E) (a_header att) = Some msg \<and>
      sv_verify verifier (f_data (b_verifying_key (a_body att))) msg (sig_data (a_signature att)) = Inr ()"
    by (rule built_attestation_verifies [OF assms(1) size assms(4) fit])
  then show "Request_validate E request att provider = Some (Inr ())"
    "\<exists>pr. AttestationProof_new E provider att = Some (Inr pr) \<and> AttestationProof_verify E pr provider = Some (Inr att)"
    by (simp_all add: Request_validate_iff st cert ext del: set_map)
qed

text \<open>C3: From a request to an accepted presentation.  The prover builds a request; the notary accepts it, sets the
  connection information, the ephemeral key and the transcript commitments, and builds the attestation.  Then the request
  validates the attestation, and the presentation that the prover builds from it, with the identity proof of the
  secrets and a transcript proof of a reachable proof builder, is accepted: the output has this attestation, the
  server name, the connection information, the extensions of the request and the partial view of the transcript at the
  revealed indices.\<close>

theorem attested_session_presents:
  assumes "\<forall>h. merkle_complete (ae_merkle E) h"
    and "RequestBuilder_build E random rb prover = Some (Inr (request, secrets))"
    and "accept_request (AttestationBuilder_new config) request = Inr ab"
    and "AttestationBuilder_build E uid (notarize ab info key cs) notary = Some (Inr att)"
    and "4 + length (rq_extensions request) + length cs \<le> 2 ^ 32"
    and "providers_fit notary provider (rq_hash_alg request) (rq_signature_alg request)"
    and "cp_hash prover (rq_hash_alg request) = cp_hash provider (rq_hash_alg request)"
    and "HandshakeData_verify (ae_webpki E) (ae_dns_ok E) (ae_to_string E)
      (ServerCertOpening_data (sc_server_cert_opening secrets)) (cp_cert provider) (ci_time info) key
      (sc_server_name secrets) = Some (Inr ())"
    and "proof_cover (ae_rangeset E) cover_by"
    and "proof_builder_reach (ae_rangeset E) (sc_transcript secrets) (sc_transcript_commitment_secrets secrets) b"
    and "build_proof (ae_rangeset E) cover_by b = Some (Inr tp)"
    and "\<forall>s \<in> hash_secret ` set (sc_transcript_commitment_secrets secrets). \<exists>hasher. cp_hash provider (phs_alg s) = Some hasher \<and>
      CommitmentHash (commitment_of (ae_rangeset E) hasher (direction_data (sc_transcript secrets) (phs_direction s)) s) \<in> set cs"
    and "length (t_sent (sc_transcript secrets)) < 2 ^ 32" and "length (t_received (sc_transcript secrets)) < 2 ^ 32"
    and "ci_transcript_length info = Transcript_length (sc_transcript secrets)"
  shows "Request_validate E request att provider = Some (Inr ()) \<and>
    (\<exists>p out. PresentationBuilder_build E (prb_set_transcript_proof (prb_set_identity_proof
         (PresentationBuilder_new provider att) (Secrets_identity_proof secrets)) tp) = Some (Inr p) \<and>
       Presentation_verify E p provider = Some (Inr out) \<and> po_attestation out = att \<and>
       po_server_name out = Some (sc_server_name secrets) \<and> po_connection_info out = info \<and>
       po_extensions out = rq_extensions request \<and>
       (\<exists>q. po_transcript out = Some q \<and> to_partial (ae_rangeset E) (sc_transcript secrets)
          (q_sent (pb_query_idx b)) (q_recv (pb_query_idx b)) = Some q))"
proof -
  note att = notarized_attestation [OF assms(4,3,5) spec [OF assms(1)] assms(6)]
  obtain pr where pr: "AttestationProof_new E provider att = Some (Inr pr)" "AttestationProof_verify E pr provider = Some (Inr att)"
    using att(2) by blast
  obtain hasher c where c: "cp_hash prover (rq_hash_alg request) = Some hasher"
    "cert_opening_hash E hasher (sc_server_cert_opening secrets) = Some c"
    "rq_server_cert_commitment request = ServerCertCommitment \<lparr>th_alg = ha_id hasher, th_value = c\<rparr>"
    by (rule RequestBuilder_build_eq [OF assms(2)])
  have "HashProvider_get (cp_hash provider) (ha_id hasher) = Inr hasher"
    using assms(6,7) c(1) by (auto simp: HashProvider_get_def providers_fit_def ok_or_def)
  then have ident: "ServerIdentityProof_verify_with_provider E (Secrets_identity_proof secrets) provider (ci_time info) key
      (rq_server_cert_commitment request) = Some (Inr (sc_server_name secrets))"
    using c assms(8) unfolding c(3) ServerIdentityProof_verify_iff by (simp add: Secrets_identity_proof_def)
  obtain q where q: "verify_with_provider (ae_rangeset E) tp (cp_hash provider) (Transcript_length (sc_transcript secrets)) cs = Some (Inr q)"
    "to_partial (ae_rangeset E) (sc_transcript secrets) (q_sent (pb_query_idx b)) (q_recv (pb_query_idx b)) = Some q"
    using built_proof_accepted [OF assms(9-14)] by blast
  let ?p = "\<lparr>p_attestation = pr, p_identity = Some (Secrets_identity_proof secrets), p_transcript = Some tp\<rparr>"
  let ?out = "\<lparr>po_attestation = att, po_server_name = Some (sc_server_name secrets), po_connection_info = info,
    po_transcript = Some q, po_extensions = rq_extensions request\<rparr>"
  have "PresentationBuilder_build E (prb_set_transcript_proof (prb_set_identity_proof
         (PresentationBuilder_new provider att) (Secrets_identity_proof secrets)) tp) = Some (Inr ?p)"
    using pr(1) by (simp add: PresentationBuilder_build_def prb_set_transcript_proof_def prb_set_identity_proof_def
        PresentationBuilder_new_def)
  moreover have "Presentation_verify E ?p provider = Some (Inr ?out)"
    using pr(2) ident q(1) by (simp add: Presentation_verify_eq att(3-7) assms(15))
  ultimately show ?thesis using att(1) q(2) by (intro conjI exI [of _ ?p] exI [of _ ?out]) simp_all
qed

section \<open>What an accepted presentation shows\<close>

lemma sorted_indexed:
  assumes "hash_fields E b hasher = Some fs"
  shows "sort_key fst (indexed fs) = indexed fs"
proof (rule sort_key_id_if_sorted)
  have "sorted (map fst fs)" using assms by (auto simp: hash_fields_eq)
  then show "sorted (map fst (indexed fs))"
    by (simp add: indexed_def o_def case_prod_beta sorted_map less_eq_FieldId_def word_le_nat_alt sorted_wrt_map)
qed

lemma distinct_indexed: "distinct (map fst (indexed fs)) \<longleftrightarrow> distinct (map fst fs)"
proof -
  have "inj (\<lambda>i. unat (field_id_u32 i))" by (rule injI) (metis FieldId.expand word_unat_eq_iff)
  moreover have "map fst (indexed fs) = map (\<lambda>i. unat (field_id_u32 i)) (map fst fs)"
    by (simp add: indexed_def o_def case_prod_beta)
  ultimately show ?thesis by (metis distinct_map inj_on_subset subset_UNIV)
qed

lemma hash_fields_verify_iff:
  assumes "hash_fields E b hasher = Some fs"
  shows "MerkleProof_verify M p hasher root (indexed fs) = Inr () \<longleftrightarrow>
    distinct (map fst fs) \<and>
    rm_verify M (ha_hash hasher) (mp_proof p) (th_value root) (map (\<lambda>f. unat (field_id_u32 (fst f))) fs)
      (map snd fs) (mp_leaf_count p)"
proof -
  have "map fst (indexed fs) = map (\<lambda>f. unat (field_id_u32 (fst f))) fs"
    by (simp add: indexed_def o_def case_prod_beta)
  then show ?thesis
    using distinct_indexed [of fs] by (simp add: MerkleProof_verify_iff sorted_indexed [OF assms] map_snd_indexed)
qed

text \<open>C4: A presentation is accepted exactly when the verifier knows the algorithms; the hashes of the body's fields, by
  distinct identifiers, are in the tree with the root of the header; the notary's key of the body signed the header; the
  opening of the identity proof, if there is one, hashes to the certificate commitment and its handshake data verify for
  the server name, at the time and with the ephemeral key of the body; and the transcript proof, if there is one, verifies
  for the length and the commitments of the body.  The output is made of these parts.\<close>

theorem presentation_verify_iff:
  "Presentation_verify E p provider = Some (Inr out) \<longleftrightarrow>
     (\<exists>verifier hasher fs msg. let pr = p_attestation p; b = bp_body (ap_body pr); info = f_data (b_connection_info b) in
        SignatureVerifierProvider_get (cp_signature provider) (sig_alg (ap_signature pr)) = Inr verifier \<and>
        HashProvider_get (cp_hash provider) (th_alg (h_root (ap_header pr))) = Inr hasher \<and>
        hash_fields E b hasher = Some fs \<and> distinct (map fst fs) \<and>
        rm_verify (ae_merkle E) (ha_hash hasher) (mp_proof (bp_proof (ap_body pr))) (th_value (h_root (ap_header pr)))
          (map (\<lambda>f. unat (field_id_u32 (fst f))) fs) (map snd fs) (mp_leaf_count (bp_proof (ap_body pr))) \<and>
        bcs_header (ae_bcs E) (ap_header pr) = Some msg \<and>
        sv_verify verifier (f_data (b_verifying_key b)) msg (sig_data (ap_signature pr)) = Inr () \<and>
        (case p_identity p of None \<Rightarrow> po_server_name out = None
         | Some i \<Rightarrow> po_server_name out = Some (sip_name i) \<and>
             (\<exists>c h. f_data (b_cert_commitment b) = ServerCertCommitment c \<and>
                HashProvider_get (cp_hash provider) (th_alg c) = Inr h \<and>
                cert_opening_hash E h (sip_opening i) = Some (th_value c) \<and>
                HandshakeData_verify (ae_webpki E) (ae_dns_ok E) (ae_to_string E) (ServerCertOpening_data (sip_opening i))
                  (cp_cert provider) (ci_time info) (f_data (b_server_ephemeral_key b)) (sip_name i) = Some (Inr ()))) \<and>
        (case p_transcript p of None \<Rightarrow> po_transcript out = None
         | Some t \<Rightarrow> \<exists>q. po_transcript out = Some q \<and>
             verify_with_provider (ae_rangeset E) t (cp_hash provider) (ci_transcript_length info)
               (map f_data (b_transcript_commitments b)) = Some (Inr q)) \<and>
        po_attestation out = \<lparr>a_signature = ap_signature pr, a_header = ap_header pr, a_body = b\<rparr> \<and>
        po_connection_info out = info \<and> po_extensions out = map f_data (b_extensions b))"
proof -
  have id: "ServerIdentityProof_verify_with_provider E i provider time key c = Some (Inr name) \<longleftrightarrow>
      name = sip_name i \<and> (\<exists>th h. c = ServerCertCommitment th \<and> HashProvider_get (cp_hash provider) (th_alg th) = Inr h \<and>
        cert_opening_hash E h (sip_opening i) = Some (th_value th) \<and>
        HandshakeData_verify (ae_webpki E) (ae_dns_ok E) (ae_to_string E) (ServerCertOpening_data (sip_opening i))
          (cp_cert provider) time key (sip_name i) = Some (Inr ()))" for i time key c name
    by (cases c) (auto simp: ServerIdentityProof_verify_iff simp del: ServerIdentityProof_verify_with_provider.simps)
  show ?thesis
    unfolding Presentation_verify_eq AttestationProof_verify_iff Let_def id AttestationProof_verifying_key_def
    by (auto simp: hash_fields_verify_iff cong: conj_cong split: option.splits)
qed


text \<open>The serialization is injective, and the domain separators of the six field types differ.\<close>

definition bcs_inj :: "'r bcs \<Rightarrow> bool" where
  "bcs_inj B \<longleftrightarrow> (\<forall>e e' x. entry_type e = entry_type e' \<longrightarrow> entry_bytes B e = Some x \<longrightarrow> entry_bytes B e' = Some x \<longrightarrow> e = e')"

definition field_types :: "string list" where
  "field_types = [''VerifyingKey'', ''tlsn_core::connection::ConnectionInfo'', ''tlsn_core::connection::ServerEphemKey'',
     ''ServerCertCommitment'', ''Extension'', ''tlsn_core::transcript::TranscriptCommitment'']"

definition domains_separate :: "(bytes \<Rightarrow> bytes) \<Rightarrow> bool" where
  "domains_separate blake3 \<longleftrightarrow> (\<forall>x. length (blake3 x) = 32) \<and> distinct (map (domain_separator blake3) field_types)"

definition entry_msg :: "('c, 'ta, 'r, 't, 'p) att_env \<Rightarrow> 'r entry \<Rightarrow> bytes \<Rightarrow> bytes" where
  "entry_msg E e x = domain_separator (ae_blake3 E) (entry_type e) @ x"

text \<open>No field of the one body collides with a field of the other: equal hashes are hashes of the same bytes.\<close>

definition no_field_collision :: "('c, 'ta, 'r, 't, 'p) att_env \<Rightarrow> HashAlgorithm \<Rightarrow> 'r Body \<Rightarrow> 'r Body \<Rightarrow> bool" where
  "no_field_collision E hasher b b' \<longleftrightarrow>
     (\<forall>e \<in> snd ` set (body_entries b). \<forall>e' \<in> snd ` set (body_entries b'). \<forall>x x'.
        entry_bytes (ae_bcs E) e = Some x \<longrightarrow> entry_bytes (ae_bcs E) e' = Some x' \<longrightarrow>
        ha_hash_prefixed hasher (domain_separator (ae_blake3 E) (entry_type e)) x =
          ha_hash_prefixed hasher (domain_separator (ae_blake3 E) (entry_type e')) x' \<longrightarrow>
        entry_msg E e x = entry_msg E e' x')"

lemma entry_type_in: "entry_type e \<in> set field_types"
  by (cases e) (simp_all add: field_types_def)

lemma entry_msg_inj:
  assumes "bcs_inj (ae_bcs E)" and "domains_separate (ae_blake3 E)"
    and "entry_bytes (ae_bcs E) e = Some x" and "entry_bytes (ae_bcs E) e' = Some x'" and "entry_msg E e x = entry_msg E e' x'"
  shows "e = e'"
proof -
  have len: "length (domain_separator (ae_blake3 E) t) = 16" for t
    using assms(2) by (simp add: domains_separate_def domain_separator_def)
  with assms(5) have "domain_separator (ae_blake3 E) (entry_type e) = domain_separator (ae_blake3 E) (entry_type e')" "x = x'"
    by (simp_all add: entry_msg_def)
  moreover from this(1) have "entry_type e = entry_type e'"
    using assms(2) entry_type_in [of e] entry_type_in [of e'] unfolding domains_separate_def distinct_map inj_on_def by blast
  ultimately show ?thesis using assms(1,3,4) unfolding bcs_inj_def by blast
qed

lemma entry_hash_Some:
  "entry_hash E hasher (i, e) = Some (j, h) \<longleftrightarrow> j = i \<and>
     (\<exists>x. entry_bytes (ae_bcs E) e = Some x \<and> h = ha_hash_prefixed hasher (domain_separator (ae_blake3 E) (entry_type e)) x)"
  by (auto simp: entry_hash_def hash_separated_def split: Option.bind_splits)

lemma hash_fields_set:
  assumes "hash_fields E b hasher = Some fs"
  shows "(i, h) \<in> set fs \<longleftrightarrow> (\<exists>e. (i, e) \<in> set (body_entries b) \<and> entry_hash E hasher (i, e) = Some (i, h))"
proof -
  obtain xs where "those (map (entry_hash E hasher) (body_entries b)) = Some xs" "set fs = set xs"
    using assms by (auto simp: hash_fields_eq)
  then show ?thesis using set_those_map [of "entry_hash E hasher" "body_entries b" xs "(i, h)"]
    by (auto simp: entry_hash_Some Bex_def)
qed

text \<open>The fields of a body whose hashes are in the tree of a numbered body are fields of that body.\<close>

lemma proven_entries:
  assumes "merkle_sound (ae_merkle E) (ha_hash hasher)" and "bcs_inj (ae_bcs E)" and "domains_separate (ae_blake3 E)"
    and "no_field_collision E hasher b b'" and "body_numbered b'" and "Body_root E b' hasher = Some root"
    and "hash_fields E b hasher = Some fs" and "MerkleProof_verify (ae_merkle E) p hasher root (indexed fs) = Inr ()"
    and "mp_leaf_count p = body_size b'"
  shows "set (body_entries b) \<subseteq> set (body_entries b')"
proof
  fix f assume f: "f \<in> set (body_entries b)"
  obtain i e where ie: "f = (i, e)" by force
  obtain fs' where fs': "hash_fields E b' hasher = Some fs'" using assms(6) by (auto simp: Body_root_def split: Option.bind_splits)
  have root: "rm_root (ae_merkle E) (merkle_of (ae_merkle E) (ha_hash hasher) (map snd fs')) = Some (th_value root)"
    using assms(6) by (auto simp: Body_root_def fs' MerkleTree_insert_def MerkleTree_new_def MerkleTree_root_def merkle_of_def
        RsMerkleHasher_hash_def [abs_def] split: Option.bind_splits)
  obtain h where h: "entry_hash E hasher (i, e) = Some (i, h)"
  proof -
    obtain z where "map (entry_hash E hasher) (body_entries b) = map Some z"
      using assms(7) by (auto simp: hash_fields_eq those_eq_Some)
    then have "entry_hash E hasher ` set (body_entries b) = Some ` set z" by (metis image_set)
    then obtain q where "entry_hash E hasher (i, e) = Some q" using f ie by (metis imageE image_eqI)
    then show ?thesis using that by (cases q) (auto simp: entry_hash_Some)
  qed
  then have "(i, h) \<in> set fs" using hash_fields_set [OF assms(7)] f ie by blast
  then have "(unat (field_id_u32 i), h) \<in> set (indexed fs)" by (force simp: indexed_def)
  moreover have len: "length (map snd fs') = body_size b'"
    using arg_cong [OF numbered_hash_fields(2) [OF assms(5) fs'], of length] by simp
  ultimately have n: "unat (field_id_u32 i) < body_size b'" "map snd fs' ! unat (field_id_u32 i) = h"
    using merkle_soundD [OF assms(1) root assms(8), of "unat (field_id_u32 i)" h] assms(9) len by simp_all
  then have "fs' ! unat (field_id_u32 i) = (i, h)"
    using numbered_hash_fields(2) [OF assms(5) fs'] len
    by (auto simp: list_eq_iff_nth_eq prod_eq_iff nat_id_def)
  then have "(i, h) \<in> set fs'" using n(1) len by (metis length_map nth_mem)
  then obtain e' where e': "(i, e') \<in> set (body_entries b')" "entry_hash E hasher (i, e') = Some (i, h)"
    using hash_fields_set [OF fs'] by blast
  from h e'(2) obtain x x' where "entry_bytes (ae_bcs E) e = Some x" "entry_bytes (ae_bcs E) e' = Some x'"
    "ha_hash_prefixed hasher (domain_separator (ae_blake3 E) (entry_type e)) x =
      ha_hash_prefixed hasher (domain_separator (ae_blake3 E) (entry_type e')) x'" by (auto simp: entry_hash_Some)
  moreover from this have "entry_msg E e x = entry_msg E e' x'"
    using assms(4) f ie e'(1) unfolding no_field_collision_def by force
  ultimately have "e = e'" using entry_msg_inj [OF assms(2,3)] by blast
  then show "f \<in> set (body_entries b')" using e'(1) ie by simp
qed

lemma entry_mem:
  "field_entry EKey f \<in> set (body_entries b) \<longleftrightarrow> f = b_verifying_key b"
  "field_entry EInfo f' \<in> set (body_entries b) \<longleftrightarrow> f' = b_connection_info b"
  "field_entry EEphem f'' \<in> set (body_entries b) \<longleftrightarrow> f'' = b_server_ephemeral_key b"
  "field_entry ECert g \<in> set (body_entries b) \<longleftrightarrow> g = b_cert_commitment b"
  "field_entry EExt g' \<in> set (body_entries b) \<longleftrightarrow> g' \<in> set (b_extensions b)"
  "field_entry ECommit g'' \<in> set (body_entries b) \<longleftrightarrow> g'' \<in> set (b_transcript_commitments b)"
proof -
  have eq: "f_id x = f_id y \<and> f_data x = f_data y \<longleftrightarrow> x = y" for x y :: "'z Field" by auto
  show "field_entry EKey f \<in> set (body_entries b) \<longleftrightarrow> f = b_verifying_key b"
    "field_entry EInfo f' \<in> set (body_entries b) \<longleftrightarrow> f' = b_connection_info b"
    "field_entry EEphem f'' \<in> set (body_entries b) \<longleftrightarrow> f'' = b_server_ephemeral_key b"
    "field_entry ECert g \<in> set (body_entries b) \<longleftrightarrow> g = b_cert_commitment b"
    "field_entry EExt g' \<in> set (body_entries b) \<longleftrightarrow> g' \<in> set (b_extensions b)"
    "field_entry ECommit g'' \<in> set (body_entries b) \<longleftrightarrow> g'' \<in> set (b_transcript_commitments b)"
    by (simp_all add: body_entries_def field_entry_def image_iff eq)
qed

lemma entries_subsetD:
  assumes "set (body_entries b) \<subseteq> set (body_entries b')"
  shows "b_verifying_key b = b_verifying_key b' \<and> b_connection_info b = b_connection_info b' \<and>
     b_server_ephemeral_key b = b_server_ephemeral_key b' \<and> b_cert_commitment b = b_cert_commitment b' \<and>
     set (b_extensions b) \<subseteq> set (b_extensions b') \<and>
     set (b_transcript_commitments b) \<subseteq> set (b_transcript_commitments b')"
  using assms by (metis entry_mem subset_iff)


section \<open>A concrete session\<close>

text \<open>
  A Merkle crate whose root is an injective encoding of the leaves and whose proofs are the leaves.
\<close>

definition exa_enc_hash :: "Hash \<Rightarrow> bytes" where
  "exa_enc_hash h = replicate (hash_len h) 1 @ [0] @ concat (map (\<lambda>x. [1, x]) (hash_value h)) @ [0]"

definition exa_root :: "Hash list \<Rightarrow> Hash" where
  "exa_root ls = \<lparr>hash_value = concat (map exa_enc_hash ls), hash_len = length ls\<rparr>"

definition exa_merkle :: "(Hash list, Hash list) rs_merkle" where
  "exa_merkle = \<lparr>rm_default = [], rm_append = (@), rm_commit = (\<lambda>h t. t),
     rm_root = (\<lambda>t. if t = [] then None else Some (exa_root t)), rm_leaves_len = length, rm_proof = (\<lambda>t idx. t),
     rm_verify = (\<lambda>h p root idx leaves n. root = exa_root p \<and> list_all (\<lambda>i. i < length p) idx \<and> leaves = map (nth p) idx)\<rparr>"

lemma exa_unary: "replicate m 1 @ 0 # r = replicate n 1 @ 0 # s \<Longrightarrow> m = n \<and> r = (s :: u8 list)"
proof (induction m arbitrary: n)
  case 0
  then show ?case by (cases n) auto
next
  case (Suc m)
  then show ?case by (cases n) auto
qed

lemma exa_list: "concat (map (\<lambda>x. [1, x]) xs) @ 0 # r = concat (map (\<lambda>x. [1, x]) ys) @ 0 # s \<Longrightarrow> xs = ys \<and> r = (s :: u8 list)"
proof (induction xs arbitrary: ys)
  case Nil
  then show ?case by (cases ys) auto
next
  case (Cons x xs)
  then show ?case by (cases ys) auto
qed

lemma exa_enc_hash_inj: "exa_enc_hash h @ r = exa_enc_hash h' @ s \<Longrightarrow> h = h' \<and> r = s"
  unfolding exa_enc_hash_def by (auto dest!: exa_unary exa_list intro: Hash.equality)

lemma exa_concat_inj:
  "length xs = length ys \<Longrightarrow> concat (map exa_enc_hash xs) = concat (map exa_enc_hash ys) \<Longrightarrow> xs = ys"
  by (induction xs ys rule: list_induct2) (auto dest: exa_enc_hash_inj)

lemma exa_root_inj: "exa_root xs = exa_root ys \<longleftrightarrow> xs = ys"
  by (auto simp: exa_root_def intro: exa_concat_inj)

lemma exa_merkle_of: "merkle_of exa_merkle h ls = ls"
  by (simp add: merkle_of_def exa_merkle_def)

lemma exa_complete: "merkle_complete exa_merkle h"
  unfolding merkle_complete_def exa_merkle_of by (auto simp: exa_merkle_def list_all_iff)

lemma exa_sound: "merkle_sound exa_merkle h"
  unfolding merkle_sound_def exa_merkle_of by (auto simp: exa_merkle_def list_all_iff exa_root_inj split: if_splits)

text \<open>A curve whose signature is the message, and a certificate library that accepts.\<close>

definition exa_ecdsa :: "(unit, unit, bytes) ecdsa" where
  "exa_ecdsa = \<lparr>ec_signing_key = (\<lambda>_. Some ()), ec_sign = (\<lambda>_ m. m), ec_sign_prehash_recoverable = (\<lambda>_ _. None),
     ec_verifying_key = (\<lambda>_. [3]), ec_from_sec1_bytes = (\<lambda>_. Some ()), ec_from_slice = Some, ec_verify = (\<lambda>_ m s. s = m),
     ec_verify_prehash = (\<lambda>_ _ _. False)\<rparr>"

lemma exa_ecdsa_ok: "ecdsa_ok exa_ecdsa"
  by (simp add: ecdsa_ok_def exa_ecdsa_def)

definition exa_webpki :: "(unit, unit) webpki" where
  "exa_webpki = \<lparr>wp_try_from = (\<lambda>_. Inr ()), wp_verify_for_usage = (\<lambda>_ _ _ _. Inr ()),
     wp_verify_is_valid_for_subject_name = (\<lambda>_ _. Inr ()), wp_verify_signature = (\<lambda>_ _ _ _. Inr ()),
     wp_signature_alg_id = (\<lambda>_. [])\<rparr>"

definition exa_blake3 :: "bytes \<Rightarrow> bytes" where
  "exa_blake3 x = take 32 (rev x @ replicate 32 0)"

lemma exa_domains: "domains_separate exa_blake3"
proof -
  have "distinct (map (domain_separator exa_blake3) field_types)" by code_simp
  then show ?thesis by (auto simp: domains_separate_def exa_blake3_def min_def)
qed

definition exa_key :: VerifyingKey where
  "exa_key = \<lparr>vk_alg = KeyAlgId_K256, vk_data = [3]\<rparr>"

definition exa_ephem :: ServerEphemKey where
  "exa_ephem = \<lparr>sek_typ = SECP256R1, sek_key = [4, 9]\<rparr>"

definition exa_info :: ConnectionInfo where
  "exa_info = \<lparr>ci_time = 1000, ci_version = TlsVersion.V1_2, ci_transcript_length = Transcript_length ex_transcript\<rparr>"

definition exa_data :: HandshakeData where
  "exa_data = \<lparr>hsd_certs = [CertificateDer [1]],
     hsd_sig = \<lparr>ss_alg = ConnSignatureAlgorithm.ECDSA_NISTP256_SHA256, ss_sig = [2]\<rparr>,
     hsd_binding = CertBinding.V1_2 \<lparr>cb_client_random = [], cb_server_random = [], cb_server_ephemeral_key = exa_ephem\<rparr>\<rparr>"

definition exa_ext :: AttExtension where
  "exa_ext = \<lparr>x_id = [1], x_value = [2]\<rparr>"

definition exa_cert :: ServerCertCommitment where
  "exa_cert = ServerCertCommitment \<lparr>th_alg = HashAlgId_SHA256,
     th_value = ha_hash_prefixed (Sha256 ex_digest) (domain_separator exa_blake3 ''ServerCertOpening'') [7]\<rparr>"

text \<open>A serializer for the values of the session.\<close>

definition exa_bcs :: "nat fset bcs" where
  "exa_bcs = \<lparr>
     bcs_verifying_key = (\<lambda>x. if x = exa_key then Some [1] else None),
     bcs_connection_info = (\<lambda>x. if x = exa_info then Some [2] else None),
     bcs_server_ephemeral_key = (\<lambda>x. if x = exa_ephem then Some [3] else None),
     bcs_cert_commitment = (\<lambda>x. if x = exa_cert then Some [4] else None),
     bcs_extension = (\<lambda>x. if x = exa_ext then Some [5] else None),
     bcs_transcript_commitment = (\<lambda>x. if x = ex_commitment then Some [6] else None),
     bcs_cert_opening = (\<lambda>_. Some [7]), bcs_header = (\<lambda>_. Some [8])\<rparr>"

lemma exa_bcs_inj: "bcs_inj exa_bcs"
proof -
  have "e = e'" if "entry_type e = entry_type e'" "entry_bytes exa_bcs e = Some x" "entry_bytes exa_bcs e' = Some x" for e e' x
    using that by (cases e; cases e') (simp_all add: exa_bcs_def split: if_splits)
  then show ?thesis unfolding bcs_inj_def by blast
qed

definition exa_env :: "(unit, unit, nat fset, Hash list, Hash list) att_env" where
  "exa_env = \<lparr>ae_bcs = exa_bcs, ae_blake3 = exa_blake3, ae_merkle = exa_merkle, ae_webpki = exa_webpki,
     ae_dns_ok = (\<lambda>_. True), ae_to_string = (\<lambda>_. []), ae_rangeset = fset_ops\<rparr>"

definition exa_provider :: "unit CryptoProvider" where
  "exa_provider = \<lparr>cp_hash = ex_provider, cp_cert = \<lparr>cv_roots = []\<rparr>,
     cp_signer = set_signer SignerProvider_default (Secp256k1Signer exa_ecdsa ()),
     cp_signature = SignatureVerifierProvider_default exa_ecdsa exa_ecdsa ex_digest\<rparr>"

definition exa_name :: ConnServerName where
  "exa_name = Dns (ConnDnsName [97])"

definition exa_request_builder :: "nat fset RequestBuilder" where
  "exa_request_builder = rqb_transcript_commitments (rqb_transcript (rqb_handshake_data (rqb_server_name
     (RequestBuilder_new (rcb_extension (rcb_hash_alg RequestConfigBuilder_default HashAlgId_SHA256) exa_ext)) exa_name)
     exa_data) ex_transcript) [SecretHash ex_secret] [ex_commitment]"

definition exa_request :: Request where
  "exa_request = \<lparr>rq_signature_alg = SignatureAlgId_SECP256K1, rq_hash_alg = HashAlgId_SHA256,
     rq_server_cert_commitment = exa_cert, rq_extensions = [exa_ext]\<rparr>"

definition exa_secrets :: "nat fset Secrets" where
  "exa_secrets = \<lparr>sc_server_name = exa_name, sc_server_cert_opening = ServerCertOpening_new (Blinder []) exa_data,
     sc_transcript = ex_transcript, sc_transcript_commitments = [ex_commitment],
     sc_transcript_commitment_secrets = [SecretHash ex_secret]\<rparr>"

definition exa_config :: AttestationConfig where
  "exa_config = acb_extension_validator (acb_supported_signature_algs AttestationConfigBuilder_default
     [SignatureAlgId_SECP256K1]) (\<lambda>_. Inr ())"

definition exa_accepted :: "nat fset Sign AttestationBuilder" where
  "exa_accepted = \<lparr>ab_config = exa_config, ab_state = \<lparr>s_signature_alg = SignatureAlgId_SECP256K1,
     s_hash_alg = HashAlgId_SHA256, s_connection_info = None, s_server_ephemeral_key = None, s_cert_commitment = exa_cert,
     s_extensions = [exa_ext], s_transcript_commitments = []\<rparr>\<rparr>"

lemma exa_get: "HashProvider_get (cp_hash exa_provider) HashAlgId_SHA256 = Inr (Sha256 ex_digest)"
  by (simp add: exa_provider_def HashProvider_get_def ex_provider_sha)

lemma exa_request_built:
  "RequestBuilder_build exa_env (Blinder []) exa_request_builder exa_provider = Some (Inr (exa_request, exa_secrets))"
  by (simp add: RequestBuilder_build_def exa_request_builder_def rqb_transcript_commitments_def rqb_transcript_def
      rqb_handshake_data_def rqb_server_name_def RequestBuilder_new_def rcb_extension_def rcb_hash_alg_def
      RequestConfigBuilder_default_def exa_get ok_or_def ServerCertOpening_commit_def cert_opening_hash_def exa_env_def
      exa_bcs_def hash_separated_def exa_request_def exa_secrets_def exa_cert_def Sha256_def digest_algorithm_def)

lemma exa_accepts: "accept_request (AttestationBuilder_new exa_config) exa_request = Inr exa_accepted"
  by (simp add: accept_request_def AttestationBuilder_new_def exa_config_def exa_request_def exa_accepted_def
      acb_extension_validator_def acb_supported_signature_algs_def AttestationConfigBuilder_default_def
      DEFAULT_SUPPORTED_HASH_ALGS_def validate_extensions_def)

lemma exa_fit: "providers_fit exa_provider exa_provider HashAlgId_SHA256 SignatureAlgId_SECP256K1"
  using Secp256k1Signer_ok [OF exa_ecdsa_ok, of exa_ecdsa ex_digest "()"] ex_provider_sha
  by (simp add: providers_fit_def exa_provider_def set_signer_def Secp256k1Signer_def Sha256_def digest_algorithm_def)

definition exa_body :: "nat fset Body" where
  "exa_body = \<lparr>b_verifying_key = \<lparr>f_id = FieldId 0, f_data = exa_key\<rparr>,
     b_connection_info = \<lparr>f_id = FieldId 1, f_data = exa_info\<rparr>,
     b_server_ephemeral_key = \<lparr>f_id = FieldId 2, f_data = exa_ephem\<rparr>,
     b_cert_commitment = \<lparr>f_id = FieldId 3, f_data = exa_cert\<rparr>,
     b_extensions = [\<lparr>f_id = FieldId 4, f_data = exa_ext\<rparr>],
     b_transcript_commitments = [\<lparr>f_id = FieldId 5, f_data = ex_commitment\<rparr>]\<rparr>"

lemma exa_body_built:
  "build_body (ab_state (notarize exa_accepted exa_info exa_ephem [ex_commitment])) exa_key = Inr exa_body"
  by (simp add: build_body_def notarize_state exa_accepted_def FieldId_next_def FieldId_default_def ok_or_def exa_body_def)

lemma exa_body_numbered: "body_numbered exa_body"
  using build_body_eq [OF exa_body_built] by (auto simp: body_numbered_def body_size_def exa_body_def)

lemma exa_hash_fields: "\<exists>fs. hash_fields exa_env exa_body (Sha256 ex_digest) = Some fs"
  by (simp add: hash_fields_eq body_entries_def exa_body_def field_entry_def entry_hash_def exa_env_def exa_bcs_def
      hash_separated_def)

lemma exa_attestation:
  obtains att root where
    "AttestationBuilder_build exa_env (Uid []) (notarize exa_accepted exa_info exa_ephem [ex_commitment]) exa_provider =
       Some (Inr att)"
    "a_body att = exa_body" "Body_root exa_env exa_body (Sha256 ex_digest) = Some (h_root (a_header att))"
    "th_alg (h_root (a_header att)) = HashAlgId_SHA256"
proof -
  obtain fs where fs: "hash_fields exa_env exa_body (Sha256 ex_digest) = Some fs" using exa_hash_fields by blast
  have id: "ha_id (Sha256 ex_digest) = HashAlgId_SHA256" by (simp add: Sha256_def digest_algorithm_def)
  obtain root where root: "Body_root exa_env exa_body (Sha256 ex_digest) = Some \<lparr>th_alg = HashAlgId_SHA256, th_value = root\<rparr>"
    using body_proof_complete [OF _ exa_body_numbered fs] exa_complete unfolding id by (metis exa_env_def att_env.select_convs(3))
  let ?header = "\<lparr>h_id = Uid [], h_version = VERSION, h_root = \<lparr>th_alg = HashAlgId_SHA256, th_value = root\<rparr>\<rparr>"
  have "sg_verifying_key (Secp256k1Signer exa_ecdsa ()) = exa_key"
    by (simp add: Secp256k1Signer_def exa_ecdsa_def exa_key_def)
  moreover have "SignerProvider_get (cp_signer exa_provider) SignatureAlgId_SECP256K1 = Inr (Secp256k1Signer exa_ecdsa ())"
    by (simp add: exa_provider_def SignerProvider_get_def set_signer_def Secp256k1Signer_def)
  moreover have "bcs_header (ae_bcs exa_env) h = Some [8]" for h by (simp add: exa_env_def exa_bcs_def)
  moreover have "sg_sign (Secp256k1Signer exa_ecdsa ()) [8] = Inr \<lparr>sig_alg = SignatureAlgId_SECP256K1, sig_data = [8]\<rparr>"
    by (simp add: Secp256k1Signer_def exa_ecdsa_def)
  moreover have "s_signature_alg (ab_state exa_accepted) = SignatureAlgId_SECP256K1" "s_hash_alg (ab_state exa_accepted) = HashAlgId_SHA256"
    by (simp_all add: exa_accepted_def)
  ultimately have "AttestationBuilder_build exa_env (Uid []) (notarize exa_accepted exa_info exa_ephem [ex_commitment]) exa_provider =
      Some (Inr \<lparr>a_signature = \<lparr>sig_alg = SignatureAlgId_SECP256K1, sig_data = [8]\<rparr>, a_header = ?header, a_body = exa_body\<rparr>)"
    using exa_body_built root by (simp add: AttestationBuilder_build_def notarize_state exa_get)
  then show ?thesis by (rule that) (simp_all add: root)
qed

lemma exa_handshake:
  "HandshakeData_verify exa_webpki (\<lambda>_. True) (\<lambda>_. []) exa_data \<lparr>cv_roots = []\<rparr> 1000 exa_ephem exa_name = Some (Inr ())"
  by (simp add: HandshakeData_verify_def exa_data_def ConnServerCertVerifier_verify_server_cert_def exa_webpki_def exa_name_def
      to_webpki_eq Let_def)

theorem attested_session_presents_witness:
  "\<exists>att p out q. AttestationBuilder_build exa_env (Uid []) (notarize exa_accepted exa_info exa_ephem [ex_commitment])
       exa_provider = Some (Inr att) \<and>
     Request_validate exa_env exa_request att exa_provider = Some (Inr ()) \<and>
     Presentation_verify exa_env p exa_provider = Some (Inr out) \<and> po_attestation out = att \<and>
     po_server_name out = Some exa_name \<and> po_connection_info out = exa_info \<and> po_extensions out = [exa_ext] \<and>
     po_transcript out = Some q \<and> to_partial fset_ops ex_transcript {|0, 1|} {||} = Some q"
proof -
  obtain att where att: "AttestationBuilder_build exa_env (Uid []) (notarize exa_accepted exa_info exa_ephem [ex_commitment])
      exa_provider = Some (Inr att)" by (rule exa_attestation)
  have "\<forall>h. merkle_complete (ae_merkle exa_env) h" by (simp add: exa_env_def exa_complete)
  note main = attested_session_presents [OF this exa_request_built exa_accepts att, of exa_provider fset_cover_by ex_builder ex_proof]
  have "Request_validate exa_env exa_request att exa_provider = Some (Inr ()) \<and>
    (\<exists>p out. PresentationBuilder_build exa_env (prb_set_transcript_proof (prb_set_identity_proof
         (PresentationBuilder_new exa_provider att) (Secrets_identity_proof exa_secrets)) ex_proof) = Some (Inr p) \<and>
       Presentation_verify exa_env p exa_provider = Some (Inr out) \<and> po_attestation out = att \<and>
       po_server_name out = Some (sc_server_name exa_secrets) \<and> po_connection_info out = exa_info \<and>
       po_extensions out = rq_extensions exa_request \<and>
       (\<exists>q. po_transcript out = Some q \<and> to_partial (ae_rangeset exa_env) (sc_transcript exa_secrets)
          (q_sent (pb_query_idx ex_builder)) (q_recv (pb_query_idx ex_builder)) = Some q))"
  proof (rule main)
    show "providers_fit exa_provider exa_provider (rq_hash_alg exa_request) (rq_signature_alg exa_request)"
      by (simp add: exa_request_def exa_fit)
    show "HandshakeData_verify (ae_webpki exa_env) (ae_dns_ok exa_env) (ae_to_string exa_env)
        (ServerCertOpening_data (sc_server_cert_opening exa_secrets)) (cp_cert exa_provider) (ci_time exa_info) exa_ephem
        (sc_server_name exa_secrets) = Some (Inr ())"
      using exa_handshake by (simp add: exa_env_def exa_secrets_def ServerCertOpening_new_def Blinded_new_def exa_provider_def exa_info_def)
  qed (use ex_builder_reach ex_builder_builds fspc.proof_cover_axioms ex_provider_sha in
      \<open>simp_all add: exa_env_def exa_secrets_def exa_request_def exa_provider_def exa_info_def hash_secret_def ex_defs\<close>)
  with att show ?thesis by (simp add: exa_env_def [THEN arg_cong, of ae_rangeset] exa_secrets_def exa_request_def ex_builder_fields) blast
qed

lemma exa_no_collision: "no_field_collision exa_env (Sha256 ex_digest) exa_body exa_body"
proof -
  have len: "length (domain_separator exa_blake3 t) = 16" for t
    using exa_domains by (simp add: domains_separate_def domain_separator_def)
  have sep: "domain_separator exa_blake3 t = domain_separator exa_blake3 t'"
    if "ha_hash_prefixed (Sha256 ex_digest) (domain_separator exa_blake3 t) x =
        ha_hash_prefixed (Sha256 ex_digest) (domain_separator exa_blake3 t') x'" for t t' x x'
  proof -
    have "take 16 (hash_value (ha_hash_prefixed (Sha256 ex_digest) (domain_separator exa_blake3 t) x)) = domain_separator exa_blake3 t" for t x
      by (simp add: Sha256_def digest_algorithm_def Hash_new_eq ex_digest_def MAX_LEN_def len min_def)
    with that show ?thesis by metis
  qed
  have "e = e'" if "e \<in> snd ` set (body_entries exa_body)" "e' \<in> snd ` set (body_entries exa_body)" "entry_type e = entry_type e'" for e e'
    using that by (auto simp: body_entries_def exa_body_def field_entry_def)
  moreover have "entry_type e = entry_type e'"
    if "domain_separator exa_blake3 (entry_type e) = domain_separator exa_blake3 (entry_type e')" for e e' :: "nat fset entry"
    using that exa_domains entry_type_in [of e] entry_type_in [of e'] unfolding domains_separate_def distinct_map inj_on_def by blast
  ultimately show ?thesis
    using sep unfolding no_field_collision_def entry_msg_def by (metis (no_types, lifting) att_env.select_convs(2) exa_env_def option.inject)
qed


end
