(* ===== verification/Spec2Isabelle.thy ===== *)
theory Spec2Isabelle
  imports Transcript_Proof Record_Stream Suites Tls_Prf Tls_Transcript_Laws Attestation_Laws
begin

text \<open>
  Verification of the TLSNotary core.
\<close>

section \<open>Properties across components\<close>

text \<open>C25: a handshake message that is fragmented into records, sent over the byte stream, deframed from reads
  of any size and joined again arrives unchanged, as the only message, with nothing left over.\<close>

theorem handshake_transport:
  assumes "MessageFragmenter_new sz = Inr f" and "joinable V vers h"
    and "ProtocolVersion_ok vers" and "\<not> illegal_version vers"
    and "fragment f (PlainMessage_from (hs_msg vers h)) [] = Some frs"
    and "deframer_feed cs MessageDeframer_new = Some s"
    and "concat cs = concat (map (\<lambda>fr. OpaqueMessage_encode (into_unencrypted_opaque fr)) frs)"
  shows "joiner_feed V (map into_plain_message (df_frames s)) HandshakeJoiner_new =
    Some (1, \<lparr>hj_frames = [hs_msg vers h], hj_buf = []\<rparr>)"
proof -
  have p: "PlainMessage_from (hs_msg vers h) =
      \<lparr>pm_typ = ContentType.Handshake, pm_version = vers, pm_payload = Payload (hs_bytes h)\<rparr>"
    by (simp add: PlainMessage_from_def hs_msg_def Let_def get_encoding_def)
  have b: "0 < max_frag f" "max_frag f \<le> 16384" using MessageFragmenter_new_bounds [OF assms(1)] by auto
  from fragment_spec [OF b(1), of "PlainMessage_from (hs_msg vers h)" "[]"] assms(5) hs_bytes_eq [OF assms(2)]
  have frs: "concat (map (\<lambda>fr. payload_bytes (pm_payload fr)) frs) = hs_bytes h"
    "\<And>fr. fr \<in> set frs \<Longrightarrow> pm_typ fr = ContentType.Handshake \<and> pm_version fr = vers \<and>
      length (payload_bytes (pm_payload fr)) \<le> max_frag f \<and> payload_bytes (pm_payload fr) \<noteq> []"
    by (auto simp: p)
  have "\<forall>m \<in> set (map into_unencrypted_opaque frs). OpaqueMessage_ok m"
    using frs(2) assms(3,4) b(2) by (auto simp: OpaqueMessage_ok_def into_unencrypted_opaque_def dest!: frs(2))
  moreover have "\<nexists>m r. OpaqueMessage_ok m \<and> [] = OpaqueMessage_encode m @ r" by (auto simp: OpaqueMessage_bytes)
  moreover have "concat cs = concat (map OpaqueMessage_encode (map into_unencrypted_opaque frs)) @ []"
    using assms(7) by (simp add: comp_def)
  ultimately have "stream_split (concat cs) (map into_unencrypted_opaque frs) []"
    unfolding stream_split_def not_split_iff by blast
  moreover have "stream_split (concat cs) (df_frames s) (pending s)"
    using deframer_feed_state [OF stream_state_new assms(6)] by (simp add: stream_state_def)
  ultimately have "df_frames s = map into_unencrypted_opaque frs"
    using stream_split_unique by blast
  then have "map into_plain_message (df_frames s) = frs"
    by (simp add: into_plain_message_def into_unencrypted_opaque_def comp_def map_idI)
  moreover have "hs_split [h] [] [] [h] []" using hs_bytes_eq [OF assms(2)] by (simp add: hs_split_def)
  ultimately show ?thesis
    using joiner_feed_split [of "[h]" V vers frs "[]" "[]"] assms(2) frs by (simp add: HandshakeJoiner_new_def)
qed

theorem handshake_transport_witness:
  "\<exists>s. deframer_feed [[22, 3, 3, 0], [5, 24, 0, 0, 1, 0]] MessageDeframer_new = Some s \<and>
    joiner_feed (\<lambda>_. True) (map into_plain_message (df_frames s)) HandshakeJoiner_new =
    Some (1, \<lparr>hj_frames = [hs_msg ProtocolVersion.TLSv1_2 build_key_update_notify], hj_buf = []\<rparr>)"
proof -
  let ?p = "\<lparr>pm_typ = ContentType.Handshake, pm_version = ProtocolVersion.TLSv1_2, pm_payload = Payload [24, 0, 0, 1, 0]\<rparr>"
  have "\<exists>s. deframer_feed [[22, 3, 3, 0], [5, 24, 0, 0, 1, 0]] MessageDeframer_new = Some s"
    by (rule deframer_feed_total [OF stream_state_new]) (simp add: MAX_WIRE_SIZE_eq)
  then obtain s where s: "deframer_feed [[22, 3, 3, 0], [5, 24, 0, 0, 1, 0]] MessageDeframer_new = Some s" ..
  have f: "fragment \<lparr>max_frag = 16384\<rparr> (PlainMessage_from (hs_msg ProtocolVersion.TLSv1_2 build_key_update_notify)) [] =
      Some [?p]"
    using ex_key_update(2)
    by (simp add: fragment_def PlainMessage_from_def hs_msg_def Let_def get_encoding_def)
  have n: "MessageFragmenter_new None = Inr \<lparr>max_frag = 16384\<rparr>" by (simp add: MessageFragmenter_new_cases)
  have v: "ProtocolVersion_ok ProtocolVersion.TLSv1_2" "\<not> illegal_version ProtocolVersion.TLSv1_2"
    by (simp_all add: ProtocolVersion_ok_def ProtocolVersion_from_def illegal_version_def)
  have c: "concat [[22, 3, 3, 0], [5, 24, 0, 0, 1, 0]] =
      concat (map (\<lambda>fr. OpaqueMessage_encode (into_unencrypted_opaque fr)) [?p])"
    by (simp add: into_unencrypted_opaque_def OpaqueMessage_bytes be_bytes_2)
  show ?thesis
    using s handshake_transport [OF n ex_key_update(1) v f s c] by blast
qed

end
